(* ===== verification/Obc_Prelude.thy ===== *)
theory Obc_Prelude
  imports Complex_Main "HOL-Library.Word"
begin

text \<open>
  The vocabulary shared by all components: the fixed-width integers of F Prime, single precision
  floats as far as the flight code compares them, saturating counters, big and little endian
  byte encodings of words, and generic facts on lists.
\<close>

unbundle bit_operations_syntax

section \<open>Fixed-width integers\<close>

type_synonym u8 = "8 word"
type_synonym u16 = "16 word"
type_synonym u32 = "32 word"
type_synonym u64 = "64 word"
type_synonym bytes = "8 word list"

named_theorems obc_out \<open>which calls a handler makes, on every branch\<close>
named_theorems obc_inv \<open>preservation of component invariants\<close>

lemma unat_word_less: "unat (x :: 'a::len word) < 2 ^ LENGTH('a)"
  by (rule unsigned_less)

lemma unat_minus_one_word: "unat (- 1 :: 'a::len word) = 2 ^ LENGTH('a) - 1"
  by (simp add: unsigned_minus_1_eq_mask mask_eq_exp_minus_1)

lemma unat_inc_less: "x < y \<Longrightarrow> unat (x + 1) = unat x + 1" for x y :: "'a::len word"
proof -
  assume "x < y"
  then have "unat x + 1 < 2 ^ LENGTH('a)"
    using unat_word_less [of y] unfolding word_less_nat_alt by linarith
  then show ?thesis
    by (simp add: unat_word_ariths)
qed

lemma unat_ucast_up:
  "LENGTH('a) \<le> LENGTH('b) \<Longrightarrow> unat (ucast x :: 'b::len word) = unat x" for x :: "'a::len word"
proof -
  assume "LENGTH('a) \<le> LENGTH('b)"
  then have "unat x < 2 ^ LENGTH('b)"
    by (intro less_le_trans [OF unat_word_less]) simp
  then show ?thesis
    by (simp add: unsigned_ucast_eq take_bit_nat_eq_self)
qed

text \<open>A counter that stays at the largest value instead of wrapping.\<close>

definition sat_inc :: "'a::len word \<Rightarrow> 'a word" where
  "sat_inc x = (if x < - 1 then x + 1 else x)"

lemma unat_sat_inc: "unat (sat_inc x) = min (unat x + 1) (2 ^ LENGTH('a) - 1)"
  for x :: "'a::len word"
proof (cases "x < - 1")
  case True
  then have "unat x < 2 ^ LENGTH('a) - 1"
    unfolding word_less_nat_alt unat_minus_one_word .
  with True show ?thesis
    by (simp add: sat_inc_def unat_inc_less)
next
  case False
  then have "x = - 1"
    using word_order.not_eq_extremum by blast
  then show ?thesis
    by (simp add: sat_inc_def unat_minus_one_word)
qed

lemma sat_inc_ge: "x \<le> sat_inc x"
  for x :: "'a::len word"
  using unat_word_less [of x] unfolding word_le_nat_alt unat_sat_inc by linarith

section \<open>Single precision floats, as far as they are compared\<close>

text \<open>
  The modelled code only compares floats, so a float is a rational, an infinity or NaN. Every
  binary32 value is one of these, and \<open>f32_less\<close> is the IEEE comparison, false as soon as one
  side is NaN.
\<close>

datatype f32 = F32_NaN | F32_PInf | F32_NInf | F32 rat

fun f32_less :: "f32 \<Rightarrow> f32 \<Rightarrow> bool" where
  "f32_less F32_NaN _ = False"
| "f32_less _ F32_NaN = False"
| "f32_less F32_NInf y = (y \<noteq> F32_NInf)"
| "f32_less _ F32_NInf = False"
| "f32_less F32_PInf _ = False"
| "f32_less (F32 _) F32_PInf = True"
| "f32_less (F32 x) (F32 y) = (x < y)"

lemma f32_less_irrefl [simp]: "\<not> f32_less x x"
  by (cases x) simp_all

lemma f32_less_trans: "f32_less x y \<Longrightarrow> f32_less y z \<Longrightarrow> f32_less x z"
  by (cases x; cases y; cases z) auto

lemma f32_less_asym: "f32_less x y \<Longrightarrow> \<not> f32_less y x"
  by (cases x; cases y) auto

lemma f32_less_consts:
  "f32_less x (F32 a) \<Longrightarrow> a \<le> b \<Longrightarrow> f32_less x (F32 b)"
  "f32_less (F32 b) x \<Longrightarrow> a \<le> b \<Longrightarrow> f32_less (F32 a) x"
  by (cases x; auto)+

lemma f32_not_between:
  "f32_less (F32 b) x \<Longrightarrow> a \<le> b \<Longrightarrow> \<not> f32_less x (F32 a)"
  by (cases x) auto

section \<open>Byte encodings\<close>

definition be16 :: "u16 \<Rightarrow> bytes" where
  "be16 w = [ucast (drop_bit 8 w), ucast w]"

definition be32 :: "u32 \<Rightarrow> bytes" where
  "be32 w = [ucast (drop_bit 24 w), ucast (drop_bit 16 w), ucast (drop_bit 8 w), ucast w]"

definition le16 :: "u16 \<Rightarrow> bytes" where
  "le16 w = [ucast w, ucast (drop_bit 8 w)]"

definition le32 :: "u32 \<Rightarrow> bytes" where
  "le32 w = [ucast w, ucast (drop_bit 8 w), ucast (drop_bit 16 w), ucast (drop_bit 24 w)]"

definition get8 :: "bytes \<Rightarrow> nat \<Rightarrow> u8" where
  "get8 bs i = bs ! i"

definition get_be16 :: "bytes \<Rightarrow> nat \<Rightarrow> u16" where
  "get_be16 bs i = push_bit 8 (ucast (bs ! i)) OR ucast (bs ! (i + 1))"

definition get_be32 :: "bytes \<Rightarrow> nat \<Rightarrow> u32" where
  "get_be32 bs i = push_bit 24 (ucast (bs ! i)) OR push_bit 16 (ucast (bs ! (i + 1))) OR
     push_bit 8 (ucast (bs ! (i + 2))) OR ucast (bs ! (i + 3))"

definition get_le16 :: "bytes \<Rightarrow> nat \<Rightarrow> u16" where
  "get_le16 bs i = ucast (bs ! i) OR push_bit 8 (ucast (bs ! (i + 1)))"

definition get_le32 :: "bytes \<Rightarrow> nat \<Rightarrow> u32" where
  "get_le32 bs i = ucast (bs ! i) OR push_bit 8 (ucast (bs ! (i + 1))) OR
     push_bit 16 (ucast (bs ! (i + 2))) OR push_bit 24 (ucast (bs ! (i + 3)))"

lemma length_encodings [simp]:
  "length (be16 x) = 2" "length (be32 y) = 4" "length (le16 x) = 2" "length (le32 y) = 4"
  by (simp_all add: be16_def be32_def le16_def le32_def)

lemma join16: "push_bit 8 (ucast (ucast (drop_bit 8 w) :: u8)) OR ucast (ucast w :: u8) = (w :: u16)"
  by (rule bit_word_eqI) (auto simp: bit_simps)

lemma join32_bits:
  fixes w :: "32 word"
  assumes "n < 32"
  shows "bit (push_bit 24 (ucast (ucast (drop_bit 24 w) :: u8)) OR push_bit 16 (ucast (ucast (drop_bit 16 w) :: u8)) OR
   push_bit 8 (ucast (ucast (drop_bit 8 w) :: u8)) OR ucast (ucast w :: u8) :: 32 word) n = bit w n"
proof -
  consider "n < 8" | "8 \<le> n" "n < 16" | "16 \<le> n" "n < 24" | "24 \<le> n" "n < 32" using assms by fastforce
  then show ?thesis by cases (auto simp: bit_simps)
qed

lemma join32:
  "push_bit 24 (ucast (ucast (drop_bit 24 w) :: u8)) OR push_bit 16 (ucast (ucast (drop_bit 16 w) :: u8)) OR
   push_bit 8 (ucast (ucast (drop_bit 8 w) :: u8)) OR ucast (ucast w :: u8) = (w :: u32)"
  by (rule bit_word_eqI) (rule join32_bits, simp)

lemma get_be16_encode: "get_be16 (xs @ be16 w @ ys) (length xs) = w"
  by (simp add: get_be16_def be16_def nth_append join16)

lemma get_be32_encode: "get_be32 (xs @ be32 w @ ys) (length xs) = w"
  by (simp add: get_be32_def be32_def nth_append join32)

lemma get_le16_encode: "get_le16 (xs @ le16 w @ ys) (length xs) = w"
  using join16 [of w] by (simp add: get_le16_def le16_def nth_append or.commute)

lemma get_le32_encode: "get_le32 (xs @ le32 w @ ys) (length xs) = w"
  using join32 [of w] by (simp add: get_le32_def le32_def nth_append ac_simps)

section \<open>Outputs\<close>

text \<open>Output lists are built from conditional pieces; membership reads off the condition.\<close>

lemma in_set_if [obc_out]:
  "x \<in> set (if b then xs else []) \<longleftrightarrow> b \<and> x \<in> set xs"
  "x \<in> set (if b then [] else xs) \<longleftrightarrow> \<not> b \<and> x \<in> set xs"
  by auto

section \<open>Reachability\<close>

text \<open>The states a component reaches from its initial states; a step carries a label.\<close>

inductive reachable :: "('s \<Rightarrow> bool) \<Rightarrow> ('s \<Rightarrow> 'l \<Rightarrow> 's \<Rightarrow> bool) \<Rightarrow> 's \<Rightarrow> bool"
  for init :: "'s \<Rightarrow> bool" and stp :: "'s \<Rightarrow> 'l \<Rightarrow> 's \<Rightarrow> bool" where
  reach_init: "init s \<Longrightarrow> reachable init stp s"
| reach_step: "reachable init stp s \<Longrightarrow> stp s l s' \<Longrightarrow> reachable init stp s'"

lemma reachable_invariant:
  assumes "reachable init stp s"
    and "\<And>s. init s \<Longrightarrow> P s" and "\<And>s l s'. P s \<Longrightarrow> stp s l s' \<Longrightarrow> P s'"
  shows "P s"
  using assms by (induction rule: reachable.induct) blast+

end
