(* ===== verification/Core_Types.thy ===== *)
theory Core_Types
  imports Obc_Prelude
begin

text \<open>
  The enumerations of \<open>OBC/Types/CoreTypes.fpp\<close> and the status structure of the EPS protocol.
  The \<open>_code\<close> functions are the numeric values the FPP model gives the enumerators, used where
  the code casts an enumerator to an integer.
\<close>

datatype satMode = SAFE | IDLE | HELL | PAYLOAD | TTC

datatype commBand = SBAND | UHF

datatype watchdogSource = EPS_BRIDGE | EPS_FDIR | MODE_SAFETY | COMM_CONTROLLER | ADCS_FDIR

fun watchdogSource_code :: "watchdogSource \<Rightarrow> u32" where
  "watchdogSource_code EPS_BRIDGE = 0"
| "watchdogSource_code EPS_FDIR = 1"
| "watchdogSource_code MODE_SAFETY = 2"
| "watchdogSource_code COMM_CONTROLLER = 3"
| "watchdogSource_code ADCS_FDIR = 4"

record statusData =
  vbat :: f32
  ibat :: f32
  soc :: f32
  vsolar :: f32
  isolar :: f32
  temp_bat :: f32
  power_out :: f32
  pdu_status :: u8
  sunlight :: u8
  heater_enabled :: u8
  overcurrent_flags :: u8

datatype cmdResponse = CMD_OK | CMD_INVALID_OPCODE | CMD_VALIDATION_ERROR | CMD_FORMAT_ERROR | CMD_EXECUTION_ERROR | CMD_BUSY

end
