(* ===== verification/Mode_Runtime.thy ===== *)
theory Mode_Runtime
  imports Core_Types
begin

text \<open>
  The interfaces of \<open>ModeSafetyRuntime.hpp\<close> through which the mode clients see each other. A pure
  virtual interface is a record of its methods over the state \<open>'e\<close> of the object behind the
  pointer; a nullable pointer is an option of such a record. The locales name what a client may
  assume of the object behind the pointer.
\<close>

datatype modeApplySource = SafetyFallback | SafetyRecovery | TestSetup | SafetyPayloadExit
  | FdirSubsystemFault | WatchdogFault | RecoveryBootFallback | TtcPassPolicy

datatype modeTransitionRejectionReason = DISALLOWED_OPERATOR_TRANSITION | INTERNAL_ONLY_TARGET
  | SOC_GUARD_UNAVAILABLE | SOC_GUARD_NOT_MET | GUARD_UNCONFIGURED

fun rejectionReason_code :: "modeTransitionRejectionReason \<Rightarrow> u32" where
  "rejectionReason_code DISALLOWED_OPERATOR_TRANSITION = 1"
| "rejectionReason_code INTERNAL_ONLY_TARGET = 2"
| "rejectionReason_code SOC_GUARD_UNAVAILABLE = 3"
| "rejectionReason_code SOC_GUARD_NOT_MET = 4"
| "rejectionReason_code GUARD_UNCONFIGURED = 5"

record operatorModeTransitionDecision =
  accepted :: bool
  reason :: modeTransitionRejectionReason

definition defaultTransitionDecision :: operatorModeTransitionDecision where
  "defaultTransitionDecision = \<lparr>accepted = False, reason = DISALLOWED_OPERATOR_TRANSITION\<rparr>"

text \<open>\<open>IModeOperatorTransitionGuard\<close> and \<open>IModeSafetyEpsStatus\<close> have one const method each.\<close>

type_synonym 'p operatorTransitionGuard =
  "'p \<Rightarrow> satMode \<Rightarrow> satMode \<Rightarrow> operatorModeTransitionDecision"

type_synonym 'p epsStatus = "'p \<Rightarrow> statusData option"

record 'e modeControl =
  mc_getModeForRuntime :: "'e \<Rightarrow> satMode"
  mc_applyModeForInternalSource :: "satMode \<Rightarrow> modeApplySource \<Rightarrow> 'e \<Rightarrow> 'e"

text \<open>The promise of \<open>IModeSafetyModeControl\<close>: an applied mode is the current mode.\<close>

locale mode_control =
  fixes mc :: "'e modeControl"
  assumes get_apply:
    "mc_getModeForRuntime mc (mc_applyModeForInternalSource mc m src e) = m"
begin

lemma get_apply_if:
  "mc_getModeForRuntime mc (if b then mc_applyModeForInternalSource mc m src e else e) =
   (if b then m else mc_getModeForRuntime mc e)"
  by (simp add: get_apply)

end

text \<open>
  The promise of \<open>IModeOperatorTransitionGuard\<close>: repeating the current mode is accepted, and the
  internal HELL mode is never reachable by an operator request.
\<close>

locale operator_guard =
  fixes guard :: "'p operatorTransitionGuard"
  assumes same_accepted: "accepted (guard p m m)"
    and hell_rejected: "m \<noteq> HELL \<Longrightarrow> \<not> accepted (guard p m HELL)"
begin

lemma accepted_not_hell: "accepted (guard p m m') \<Longrightarrow> m' = HELL \<Longrightarrow> m = HELL"
  using hell_rejected by blast

end

end
