(* ===== verification/Mode_Manager.thy ===== *)
theory Mode_Manager
  imports Mode_Runtime
begin

text \<open>
  \<open>ModeManager\<close>: the owner of the satellite mode. Operator requests go through the transition
  guard, internal sources apply a mode unconditionally. Events and telemetry writes are the
  returned output list; the steady clock is the argument \<open>now\<close> in nanoseconds.
\<close>

type_synonym fwTime = nat

record 'p modeManager =
  mm_bootAnnounced :: bool
  mm_useManualUptime :: bool
  mm_currentMode :: satMode
  mm_rebootCount :: u16
  mm_manualUptimeSec :: u32
  mm_startTime :: int
  mm_operatorTransitionGuard :: "'p operatorTransitionGuard option"

datatype mmOut = SYS_BOOT
  | SYS_MODE_CHANGE satMode
  | SYS_MODE_TRANSITION_REJECTED satMode satMode u32
  | Tlm_SYS_MODE satMode
  | Tlm_SYS_UPTIME_SEC u32
  | Tlm_SYS_REBOOT_COUNT u16
  | ModeGet_SYS_MODE satMode fwTime
  | ModeGet_SYS_UPTIME_SEC u32 fwTime
  | ModeGet_SYS_REBOOT_COUNT u16 fwTime
  | MmCmdResponse u32 u32 cmdResponse

section \<open>Operations\<close>

definition modeManager_init :: "int \<Rightarrow> 'p modeManager" where
  "modeManager_init now = \<lparr>mm_bootAnnounced = False, mm_useManualUptime = False,
     mm_currentMode = SAFE, mm_rebootCount = 1, mm_manualUptimeSec = 0, mm_startTime = now,
     mm_operatorTransitionGuard = None\<rparr>"

definition uptimeSec :: "int \<Rightarrow> 'p modeManager \<Rightarrow> u32" where
  "uptimeSec now mm =
     (if mm_useManualUptime mm then mm_manualUptimeSec mm
      else word_of_int ((now - mm_startTime mm) div 1000000000))"

definition mm_publishState :: "int \<Rightarrow> 'p modeManager \<Rightarrow> mmOut list" where
  "mm_publishState now mm = [Tlm_SYS_MODE (mm_currentMode mm), Tlm_SYS_UPTIME_SEC (uptimeSec now mm),
     Tlm_SYS_REBOOT_COUNT (mm_rebootCount mm)]"

definition publishStateForModeGet :: "int \<Rightarrow> fwTime \<Rightarrow> 'p modeManager \<Rightarrow> mmOut list" where
  "publishStateForModeGet now timeTag mm = [ModeGet_SYS_MODE (mm_currentMode mm) timeTag,
     ModeGet_SYS_UPTIME_SEC (uptimeSec now mm) timeTag,
     ModeGet_SYS_REBOOT_COUNT (mm_rebootCount mm) timeTag]"

definition announceBoot :: "int \<Rightarrow> 'p modeManager \<Rightarrow> 'p modeManager \<times> mmOut list" where
  "announceBoot now mm =
     (if mm_bootAnnounced mm then (mm, [])
      else let mm' = mm\<lparr>mm_bootAnnounced := True\<rparr> in (mm', SYS_BOOT # mm_publishState now mm'))"

definition configureOperatorTransitionGuard ::
    "'p operatorTransitionGuard option \<Rightarrow> 'p modeManager \<Rightarrow> 'p modeManager" where
  "configureOperatorTransitionGuard guard mm = mm\<lparr>mm_operatorTransitionGuard := guard\<rparr>"

definition applyMode :: "satMode \<Rightarrow> 'p modeManager \<Rightarrow> 'p modeManager \<times> mmOut list" where
  "applyMode mode mm =
     (if mm_currentMode mm \<noteq> mode then (mm\<lparr>mm_currentMode := mode\<rparr>, [SYS_MODE_CHANGE mode])
      else (mm, []))"

definition rejectTransition ::
    "satMode \<Rightarrow> satMode \<Rightarrow> modeTransitionRejectionReason \<Rightarrow> mmOut list" where
  "rejectTransition fromMode toMode rsn =
     [SYS_MODE_TRANSITION_REJECTED fromMode toMode (rejectionReason_code rsn)]"

definition requestModeFromOperator ::
    "int \<Rightarrow> satMode \<Rightarrow> 'p \<Rightarrow> 'p modeManager \<Rightarrow> cmdResponse \<times> 'p modeManager \<times> mmOut list" where
  "requestModeFromOperator now mode p mm0 =
     (let (mm, out0) = announceBoot now mm0;
          fromMode = mm_currentMode mm
      in case mm_operatorTransitionGuard mm of
           None \<Rightarrow> (CMD_EXECUTION_ERROR, mm,
             out0 @ rejectTransition fromMode mode GUARD_UNCONFIGURED @ mm_publishState now mm)
         | Some guard \<Rightarrow>
             let decision = guard p fromMode mode
             in if \<not> accepted decision then
                  (CMD_VALIDATION_ERROR, mm,
                   out0 @ rejectTransition fromMode mode (reason decision) @ mm_publishState now mm)
                else let (mm', out1) = applyMode mode mm
                     in (CMD_OK, mm', out0 @ out1 @ mm_publishState now mm'))"

definition applyModeForInternalSource ::
    "int \<Rightarrow> satMode \<Rightarrow> modeApplySource \<Rightarrow> 'p modeManager \<Rightarrow> 'p modeManager \<times> mmOut list" where
  "applyModeForInternalSource now mode source mm0 =
     (let (mm1, out0) = announceBoot now mm0;
          (mm2, out1) = applyMode mode mm1
      in (mm2, out0 @ out1 @ mm_publishState now mm2))"

definition setUptimeForTest :: "u32 \<Rightarrow> 'p modeManager \<Rightarrow> 'p modeManager" where
  "setUptimeForTest sec mm = mm\<lparr>mm_useManualUptime := True, mm_manualUptimeSec := sec\<rparr>"

definition getModeForRuntime :: "'p modeManager \<Rightarrow> satMode" where
  "getModeForRuntime mm = mm_currentMode mm"

definition getRebootCountForRuntime :: "'p modeManager \<Rightarrow> u16" where
  "getRebootCountForRuntime mm = mm_rebootCount mm"

definition getUptimeForRuntime :: "int \<Rightarrow> 'p modeManager \<Rightarrow> u32" where
  "getUptimeForRuntime now mm = uptimeSec now mm"

definition MODE_SET_cmdHandler ::
    "int \<Rightarrow> u32 \<Rightarrow> u32 \<Rightarrow> satMode \<Rightarrow> 'p \<Rightarrow> 'p modeManager \<Rightarrow> 'p modeManager \<times> mmOut list" where
  "MODE_SET_cmdHandler now opCode cmdSeq mode p mm =
     (let (rsp, mm', out) = requestModeFromOperator now mode p mm
      in (mm', out @ [MmCmdResponse opCode cmdSeq rsp]))"

definition MODE_GET_cmdHandler ::
    "int \<Rightarrow> fwTime \<Rightarrow> u32 \<Rightarrow> u32 \<Rightarrow> 'p modeManager \<Rightarrow> 'p modeManager \<times> mmOut list" where
  "MODE_GET_cmdHandler now timeTag opCode cmdSeq mm0 =
     (let (mm, out) = announceBoot now mm0
      in (mm, out @ publishStateForModeGet now timeTag mm @ [MmCmdResponse opCode cmdSeq CMD_OK]))"

section \<open>The mode manager as a mode control\<close>

text \<open>Its methods act on the manager together with the outputs it has produced so far.\<close>

definition modeManager_control :: "int \<Rightarrow> ('p modeManager \<times> mmOut list) modeControl" where
  "modeManager_control now =
     \<lparr>mc_getModeForRuntime = (\<lambda>(mm, log). getModeForRuntime mm),
      mc_applyModeForInternalSource = (\<lambda>mode src (mm, log).
        let (mm', out) = applyModeForInternalSource now mode src mm in (mm', log @ out))\<rparr>"

lemma announceBoot_mode [simp]:
  "mm_currentMode (fst (announceBoot now mm)) = mm_currentMode mm"
  "mm_operatorTransitionGuard (fst (announceBoot now mm)) = mm_operatorTransitionGuard mm"
  "mm_bootAnnounced (fst (announceBoot now mm))"
  by (simp_all add: announceBoot_def Let_def)

lemma applyMode_fields [simp]:
  "mm_currentMode (fst (applyMode mode mm)) = mode"
  "mm_operatorTransitionGuard (fst (applyMode mode mm)) = mm_operatorTransitionGuard mm"
  "mm_bootAnnounced (fst (applyMode mode mm)) = mm_bootAnnounced mm"
  by (simp_all add: applyMode_def)

lemma applyModeForInternalSource_fields [simp]:
  "mm_currentMode (fst (applyModeForInternalSource now mode src mm)) = mode"
  "mm_operatorTransitionGuard (fst (applyModeForInternalSource now mode src mm)) =
     mm_operatorTransitionGuard mm"
  "mm_bootAnnounced (fst (applyModeForInternalSource now mode src mm))"
  by (simp_all add: applyModeForInternalSource_def split_beta)

interpretation mm: mode_control "modeManager_control now" for now :: int
  by unfold_locales (simp add: modeManager_control_def getModeForRuntime_def split_beta)

lemma request_mode:
  "mm_currentMode (fst (snd (requestModeFromOperator now mode p mm))) =
     (case mm_operatorTransitionGuard mm of
        None \<Rightarrow> mm_currentMode mm
      | Some guard \<Rightarrow> if accepted (guard p (mm_currentMode mm) mode) then mode else mm_currentMode mm)"
  by (simp add: requestModeFromOperator_def split_beta Let_def split: option.split)

lemma request_guard [simp]:
  "mm_operatorTransitionGuard (fst (snd (requestModeFromOperator now mode p mm))) =
     mm_operatorTransitionGuard mm"
  by (simp add: requestModeFromOperator_def split_beta Let_def split: option.split)

lemma request_response:
  "fst (requestModeFromOperator now mode p mm) =
     (case mm_operatorTransitionGuard mm of
        None \<Rightarrow> CMD_EXECUTION_ERROR
      | Some guard \<Rightarrow> if accepted (guard p (mm_currentMode mm) mode) then CMD_OK
                      else CMD_VALIDATION_ERROR)"
  by (simp add: requestModeFromOperator_def split_beta Let_def split: option.split)

text \<open>Mode change events of an output list, oldest first.\<close>

fun mode_changes :: "mmOut list \<Rightarrow> satMode list" where
  "mode_changes [] = []"
| "mode_changes (SYS_MODE_CHANGE m # outs) = m # mode_changes outs"
| "mode_changes (_ # outs) = mode_changes outs"

lemma mode_changes_append [simp]: "mode_changes (xs @ ys) = mode_changes xs @ mode_changes ys"
  by (induction xs rule: mode_changes.induct) simp_all

lemma mode_changes_quiet [simp]:
  "mode_changes (mm_publishState now mm) = []"
  "mode_changes (snd (announceBoot now mm)) = []"
  "mode_changes (rejectTransition a b r) = []"
  by (simp_all add: mm_publishState_def announceBoot_def rejectTransition_def Let_def)

lemma mode_changes_applyMode [simp]:
  "mode_changes (snd (applyMode mode mm)) = (if mm_currentMode mm = mode then [] else [mode])"
  by (simp add: applyMode_def)

lemma mode_changes_internal:
  "mode_changes (snd (applyModeForInternalSource now mode src mm)) =
     (if mm_currentMode mm = mode then [] else [mode])"
  by (simp add: applyModeForInternalSource_def split_beta)

lemma mode_changes_request:
  "mode_changes (snd (snd (requestModeFromOperator now mode p mm))) =
     (if fst (requestModeFromOperator now mode p mm) = CMD_OK \<and> mm_currentMode mm \<noteq> mode
      then [mode] else [])"
  by (simp add: requestModeFromOperator_def split_beta Let_def split: option.split)

end
