(* ===== verification/Mode_Safety.thy ===== *)
theory Mode_Safety
  imports Mode_Manager
begin

text \<open>
  \<open>ModeSafetyPolicy\<close> and \<open>ModeSafetyController\<close>: the battery driven mode fallbacks, and the guard
  of operator mode requests. The controller reaches the mode manager and the EPS bridge through
  the interfaces of \<open>Mode_Runtime\<close>: \<open>'e\<close> is the state behind the mode control pointer, \<open>'p\<close> the
  state behind the EPS status pointer.
\<close>

section \<open>Policy\<close>

datatype modeSafetyAction = MSA_NONE | SAFE_TO_HELL | HELL_TO_SAFE | ACTIVE_TO_SAFE | PAYLOAD_TO_IDLE

record modeSafetyDecision =
  msd_hasValidEpsStatus :: bool
  msd_currentMode :: satMode
  msd_targetMode :: satMode
  msd_soc :: f32
  msd_action :: modeSafetyAction

definition SAFE_TO_HELL_SOC :: f32 where "SAFE_TO_HELL_SOC = F32 10"
definition HELL_TO_SAFE_SOC :: f32 where "HELL_TO_SAFE_SOC = F32 15"
definition ACTIVE_TO_SAFE_SOC :: f32 where "ACTIVE_TO_SAFE_SOC = F32 40"
definition SAFE_TO_IDLE_SOC :: f32 where "SAFE_TO_IDLE_SOC = F32 50"
definition PAYLOAD_TO_IDLE_SOC :: f32 where "PAYLOAD_TO_IDLE_SOC = F32 60"
definition IDLE_TO_PAYLOAD_SOC :: f32 where "IDLE_TO_PAYLOAD_SOC = F32 70"

lemmas soc_thresholds = SAFE_TO_HELL_SOC_def HELL_TO_SAFE_SOC_def ACTIVE_TO_SAFE_SOC_def
  SAFE_TO_IDLE_SOC_def PAYLOAD_TO_IDLE_SOC_def IDLE_TO_PAYLOAD_SOC_def

definition defaultSafetyDecision :: modeSafetyDecision where
  "defaultSafetyDecision = \<lparr>msd_hasValidEpsStatus = False, msd_currentMode = SAFE,
     msd_targetMode = SAFE, msd_soc = F32 0, msd_action = MSA_NONE\<rparr>"

definition shouldTransition :: "modeSafetyDecision \<Rightarrow> bool" where
  "shouldTransition d \<longleftrightarrow> msd_action d \<noteq> MSA_NONE \<and> msd_targetMode d \<noteq> msd_currentMode d"

definition isModeWithSafeFallbackFloor :: "satMode \<Rightarrow> bool" where
  "isModeWithSafeFallbackFloor mode \<longleftrightarrow> mode = IDLE \<or> mode = TTC"

definition ms_evaluate :: "satMode \<Rightarrow> bool \<Rightarrow> f32 \<Rightarrow> modeSafetyDecision" where
  "ms_evaluate currentMode hasValidEpsStatus x =
     (let decision = \<lparr>msd_hasValidEpsStatus = hasValidEpsStatus, msd_currentMode = currentMode,
            msd_targetMode = currentMode, msd_soc = x, msd_action = MSA_NONE\<rparr>
      in if \<not> hasValidEpsStatus then decision
         else if currentMode = SAFE \<and> f32_less x SAFE_TO_HELL_SOC then
           decision\<lparr>msd_targetMode := HELL, msd_action := SAFE_TO_HELL\<rparr>
         else if currentMode = HELL \<and> f32_less HELL_TO_SAFE_SOC x then
           decision\<lparr>msd_targetMode := SAFE, msd_action := HELL_TO_SAFE\<rparr>
         else if currentMode = PAYLOAD \<and> f32_less x ACTIVE_TO_SAFE_SOC then
           decision\<lparr>msd_targetMode := SAFE, msd_action := ACTIVE_TO_SAFE\<rparr>
         else if currentMode = PAYLOAD \<and> f32_less x PAYLOAD_TO_IDLE_SOC then
           decision\<lparr>msd_targetMode := IDLE, msd_action := PAYLOAD_TO_IDLE\<rparr>
         else if isModeWithSafeFallbackFloor currentMode \<and> f32_less x ACTIVE_TO_SAFE_SOC then
           decision\<lparr>msd_targetMode := SAFE, msd_action := ACTIVE_TO_SAFE\<rparr>
         else decision)"

section \<open>Controller\<close>

record ('e, 'p) modeSafetyController =
  ms_modeControl :: "'e modeControl option"
  ms_epsStatus :: "'p epsStatus option"
  ms_transitionCount :: u32
  ms_epsUnavailableLatched :: bool

datatype msOut = MODE_SAFETY_EPS_UNAVAILABLE
  | MODE_SAFETY_TRANSITION satMode satMode f32
  | Tlm_MODE_SAFETY_EPS_VALID bool
  | Tlm_MODE_SAFETY_LAST_SOC f32
  | Tlm_MODE_SAFETY_LAST_CURRENT_MODE satMode
  | Tlm_MODE_SAFETY_LAST_TARGET_MODE satMode
  | Tlm_MODE_SAFETY_TRANSITION_COUNT u32
  | MS_WatchdogBeat u32

definition modeSafetyController_init :: "('e, 'p) modeSafetyController" where
  "modeSafetyController_init = \<lparr>ms_modeControl = None, ms_epsStatus = None,
     ms_transitionCount = 0, ms_epsUnavailableLatched = False\<rparr>"

definition ms_configureRuntime :: "'e modeControl option \<Rightarrow> 'p epsStatus option \<Rightarrow>
    ('e, 'p) modeSafetyController \<Rightarrow> ('e, 'p) modeSafetyController" where
  "ms_configureRuntime modeControl epsStatus c =
     c\<lparr>ms_modeControl := modeControl, ms_epsStatus := epsStatus\<rparr>"

definition ms_cachedStatus :: "('e, 'p) modeSafetyController \<Rightarrow> 'p \<Rightarrow> statusData option" where
  "ms_cachedStatus c p = (case ms_epsStatus c of None \<Rightarrow> None | Some eps \<Rightarrow> eps p)"

text \<open>The lambda \<open>guardSoc\<close> of the guard: the decision it leaves and the value it returns.\<close>

definition guardSoc :: "('e, 'p) modeSafetyController \<Rightarrow> 'p \<Rightarrow> f32 \<Rightarrow>
    operatorModeTransitionDecision \<Rightarrow> operatorModeTransitionDecision" where
  "guardSoc c p threshold decision =
     (case ms_cachedStatus c p of
        None \<Rightarrow> decision\<lparr>accepted := False, reason := SOC_GUARD_UNAVAILABLE\<rparr>
      | Some status \<Rightarrow>
          if f32_less threshold (soc status) then decision\<lparr>accepted := True\<rparr>
          else decision\<lparr>accepted := False, reason := SOC_GUARD_NOT_MET\<rparr>)"

definition evaluateOperatorTransition ::
    "('e, 'p) modeSafetyController \<Rightarrow> 'p operatorTransitionGuard" where
  "evaluateOperatorTransition c p currentMode requestedMode =
     (let decision = defaultTransitionDecision
      in if currentMode = requestedMode then decision\<lparr>accepted := True\<rparr>
         else if requestedMode = HELL then decision\<lparr>reason := INTERNAL_ONLY_TARGET\<rparr>
         else if currentMode = SAFE then
           (if requestedMode = IDLE then guardSoc c p SAFE_TO_IDLE_SOC decision else decision)
         else if currentMode = IDLE then
           (if requestedMode = SAFE \<or> requestedMode = TTC then decision\<lparr>accepted := True\<rparr>
            else if requestedMode = PAYLOAD then guardSoc c p IDLE_TO_PAYLOAD_SOC decision
            else decision)
         else if currentMode = PAYLOAD then
           decision\<lparr>accepted := (requestedMode = SAFE \<or> requestedMode = IDLE)\<rparr>
         else if currentMode = TTC then
           decision\<lparr>accepted := (requestedMode = SAFE \<or> requestedMode = IDLE)\<rparr>
         else if currentMode = HELL \<and> requestedMode = SAFE then
           guardSoc c p HELL_TO_SAFE_SOC decision
         else decision\<lparr>reason := DISALLOWED_OPERATOR_TRANSITION\<rparr>)"

definition publishDecision ::
    "modeSafetyDecision \<Rightarrow> ('e, 'p) modeSafetyController \<Rightarrow> msOut list" where
  "publishDecision d c =
     [Tlm_MODE_SAFETY_EPS_VALID (msd_hasValidEpsStatus d), Tlm_MODE_SAFETY_LAST_SOC (msd_soc d),
      Tlm_MODE_SAFETY_LAST_CURRENT_MODE (msd_currentMode d),
      Tlm_MODE_SAFETY_LAST_TARGET_MODE (msd_targetMode d),
      Tlm_MODE_SAFETY_TRANSITION_COUNT (ms_transitionCount c)]"

definition applySourceOf :: "modeSafetyAction \<Rightarrow> modeApplySource" where
  "applySourceOf action =
     (if action = HELL_TO_SAFE then SafetyRecovery
      else if action = PAYLOAD_TO_IDLE then SafetyPayloadExit
      else SafetyFallback)"

definition ms_runCycle :: "('e, 'p) modeSafetyController \<Rightarrow> 'p \<Rightarrow> 'e \<Rightarrow>
    modeSafetyDecision \<times> ('e, 'p) modeSafetyController \<times> 'e \<times> msOut list" where
  "ms_runCycle c p e =
     (case (ms_modeControl c, ms_epsStatus c) of
        (Some mc, Some eps) \<Rightarrow>
          (let currentMode = mc_getModeForRuntime mc e;
               status = eps p;
               x = (case status of None \<Rightarrow> F32 0 | Some st \<Rightarrow> soc st);
               decision = ms_evaluate currentMode (status \<noteq> None) x
           in if status = None then
                (let c' = c\<lparr>ms_epsUnavailableLatched := True\<rparr>
                 in (decision, c', e,
                     (if ms_epsUnavailableLatched c then [] else [MODE_SAFETY_EPS_UNAVAILABLE]) @
                     publishDecision decision c'))
              else
                (let c1 = c\<lparr>ms_epsUnavailableLatched := False\<rparr>
                 in if shouldTransition decision then
                      (let e' = mc_applyModeForInternalSource mc (msd_targetMode decision)
                                  (applySourceOf (msd_action decision)) e;
                           c2 = c1\<lparr>ms_transitionCount := ms_transitionCount c1 + 1\<rparr>
                       in (decision, c2, e',
                           MODE_SAFETY_TRANSITION (msd_currentMode decision)
                             (msd_targetMode decision) (msd_soc decision) #
                           publishDecision decision c2))
                    else (decision, c1, e, publishDecision decision c1)))
      | _ \<Rightarrow> (defaultSafetyDecision, c, e, []))"

definition ms_schedIn_handler :: "bool \<Rightarrow> ('e, 'p) modeSafetyController \<Rightarrow> 'p \<Rightarrow> 'e \<Rightarrow>
    ('e, 'p) modeSafetyController \<times> 'e \<times> msOut list" where
  "ms_schedIn_handler beatConnected c p e =
     (let (d, c', e', out) = ms_runCycle c p e
      in (c', e', out @ (if beatConnected then [MS_WatchdogBeat (watchdogSource_code MODE_SAFETY)] else [])))"

section \<open>The guard keeps its promise\<close>

interpretation ms_guard: operator_guard "evaluateOperatorTransition c" for c :: "('e, 'p) modeSafetyController"
  by unfold_locales
    (auto simp: evaluateOperatorTransition_def defaultTransitionDecision_def Let_def)

text \<open>The transition table an operator sees: free, above a state of charge, or forbidden.\<close>

datatype transitionRule = Free | SocAbove f32 | Forbidden modeTransitionRejectionReason

fun operatorRule :: "satMode \<Rightarrow> satMode \<Rightarrow> transitionRule" where
  "operatorRule SAFE IDLE = SocAbove (F32 50)"
| "operatorRule IDLE PAYLOAD = SocAbove (F32 70)"
| "operatorRule HELL SAFE = SocAbove (F32 15)"
| "operatorRule IDLE SAFE = Free"
| "operatorRule IDLE TTC = Free"
| "operatorRule PAYLOAD SAFE = Free"
| "operatorRule PAYLOAD IDLE = Free"
| "operatorRule TTC SAFE = Free"
| "operatorRule TTC IDLE = Free"
| "operatorRule a b = (if a = b then Free
     else if b = HELL then Forbidden INTERNAL_ONLY_TARGET
     else Forbidden DISALLOWED_OPERATOR_TRANSITION)"

fun rule_outcome :: "f32 option \<Rightarrow> transitionRule \<Rightarrow> modeTransitionRejectionReason option" where
  "rule_outcome _ Free = None"
| "rule_outcome _ (Forbidden r) = Some r"
| "rule_outcome None (SocAbove t) = Some SOC_GUARD_UNAVAILABLE"
| "rule_outcome (Some x) (SocAbove t) = (if f32_less t x then None else Some SOC_GUARD_NOT_MET)"

definition decision_outcome :: "operatorModeTransitionDecision \<Rightarrow> modeTransitionRejectionReason option" where
  "decision_outcome d = (if accepted d then None else Some (reason d))"

lemma guardSoc_outcome:
  "decision_outcome (guardSoc c p t defaultTransitionDecision) =
   rule_outcome (map_option soc (ms_cachedStatus c p)) (SocAbove t)"
  by (cases "ms_cachedStatus c p")
    (simp_all add: guardSoc_def decision_outcome_def defaultTransitionDecision_def)

lemma decide_by_table:
  "decision_outcome (evaluateOperatorTransition c p m m') =
   rule_outcome (map_option soc (ms_cachedStatus c p)) (operatorRule m m')"
  by (cases m; cases m')
    (simp_all add: evaluateOperatorTransition_def guardSoc_outcome soc_thresholds,
     simp_all add: decision_outcome_def defaultTransitionDecision_def)

definition demoStatus :: "rat \<Rightarrow> statusData" where
  "demoStatus x = \<lparr>vbat = F32 7, ibat = F32 1, soc = F32 x, vsolar = F32 0, isolar = F32 0,
     temp_bat = F32 20, power_out = F32 1, pdu_status = 0, sunlight = 0, heater_enabled = 0,
     overcurrent_flags = 0\<rparr>"

text \<open>C2: The operator guard of \<open>ModeSafetyController::evaluateOperatorTransition\<close> implements the
  transition table: a mode request that reaches the mode manager is answered OK, and applied,
  exactly when the table allows it at the cached state of charge, and is otherwise refused with
  the table's reason code and changes no mode.\<close>

theorem operator_request_refines_table:
  assumes "mm_operatorTransitionGuard mm = Some (evaluateOperatorTransition c)"
  shows "case requestModeFromOperator now m p mm of (rsp, mm', out) \<Rightarrow>
    case rule_outcome (map_option soc (ms_cachedStatus c p)) (operatorRule (mm_currentMode mm) m) of
      None \<Rightarrow> rsp = CMD_OK \<and> mm_currentMode mm' = m
    | Some r \<Rightarrow> rsp = CMD_VALIDATION_ERROR \<and> mm_currentMode mm' = mm_currentMode mm \<and>
        SYS_MODE_TRANSITION_REJECTED (mm_currentMode mm) m (rejectionReason_code r) \<in> set out"
  using assms unfolding decide_by_table [symmetric]
  by (auto simp: decision_outcome_def requestModeFromOperator_def rejectTransition_def split_beta Let_def)

definition demoGuard :: "(unit, rat) modeSafetyController" where
  "demoGuard = ms_configureRuntime None (Some (\<lambda>x. Some (demoStatus x))) modeSafetyController_init"

definition demoManager :: "satMode \<Rightarrow> rat modeManager" where
  "demoManager m = configureOperatorTransitionGuard (Some (evaluateOperatorTransition demoGuard))
     (modeManager_init 0\<lparr>mm_currentMode := m\<rparr>)"

lemma demoManager_fields [simp]:
  "mm_operatorTransitionGuard (demoManager m) = Some (evaluateOperatorTransition demoGuard)"
  "mm_currentMode (demoManager m) = m"
  "map_option soc (ms_cachedStatus demoGuard x) = Some (F32 x)"
  by (simp_all add: demoManager_def demoGuard_def configureOperatorTransitionGuard_def
      modeManager_init_def ms_cachedStatus_def ms_configureRuntime_def demoStatus_def)

theorem operator_request_refines_table_witness:
  "(case requestModeFromOperator 0 IDLE 45 (demoManager SAFE) of (rsp, mm', out) \<Rightarrow>
      rsp = CMD_VALIDATION_ERROR \<and> mm_currentMode mm' = SAFE \<and>
      SYS_MODE_TRANSITION_REJECTED SAFE IDLE 4 \<in> set out) \<and>
   (case requestModeFromOperator 0 IDLE 55 (demoManager SAFE) of (rsp, mm', out) \<Rightarrow>
      rsp = CMD_OK \<and> mm_currentMode mm' = IDLE)"
  using operator_request_refines_table [where mm = "demoManager SAFE" and c = demoGuard and p = 45 and now = 0 and m = IDLE]
    operator_request_refines_table [where mm = "demoManager SAFE" and c = demoGuard and p = 55 and now = 0 and m = IDLE]
  by simp

section \<open>The safety cycle\<close>

text \<open>The mode the policy wants next.\<close>

fun safety_target :: "satMode \<Rightarrow> f32 \<Rightarrow> satMode" where
  "safety_target SAFE x = (if f32_less x (F32 10) then HELL else SAFE)"
| "safety_target HELL x = (if f32_less (F32 15) x then SAFE else HELL)"
| "safety_target PAYLOAD x = (if f32_less x (F32 40) then SAFE
     else if f32_less x (F32 60) then IDLE else PAYLOAD)"
| "safety_target m x = (if f32_less x (F32 40) then SAFE else m)"

lemma evaluate_target:
  "msd_targetMode (ms_evaluate m v x) = (if v then safety_target m x else m)"
  "msd_currentMode (ms_evaluate m v x) = m"
  "shouldTransition (ms_evaluate m v x) \<longleftrightarrow> v \<and> safety_target m x \<noteq> m"
  by (cases m; simp add: ms_evaluate_def shouldTransition_def isModeWithSafeFallbackFloor_def
      soc_thresholds Let_def)+

context mode_control
begin

lemma runCycle_mode:
  assumes "ms_modeControl c = Some mc" "ms_epsStatus c = Some eps"
  shows "mc_getModeForRuntime mc (fst (snd (snd (ms_runCycle c p e)))) =
    (case eps p of None \<Rightarrow> mc_getModeForRuntime mc e
     | Some st \<Rightarrow> safety_target (mc_getModeForRuntime mc e) (soc st))"
  using assms
  by (auto simp: ms_runCycle_def Let_def evaluate_target get_apply split: option.split)

end

lemma runCycle_config [simp]:
  "ms_modeControl (fst (snd (ms_runCycle c p e))) = ms_modeControl c"
  "ms_epsStatus (fst (snd (ms_runCycle c p e))) = ms_epsStatus c"
  by (auto simp: ms_runCycle_def Let_def split: option.split)

text \<open>Consecutive cycles, one per EPS snapshot.\<close>

fun runCycles :: "('e, 'p) modeSafetyController \<Rightarrow> 'p list \<Rightarrow> 'e \<Rightarrow>
    ('e, 'p) modeSafetyController \<times> 'e \<times> msOut list" where
  "runCycles c [] e = (c, e, [])"
| "runCycles c (p # ps) e =
     (let (d, c1, e1, out1) = ms_runCycle c p e; (c2, e2, out2) = runCycles c1 ps e1
      in (c2, e2, out1 @ out2))"

lemma safety_target_settles:
  "safety_target (safety_target (safety_target m x) x) x = safety_target (safety_target m x) x"
  by (cases m; cases x; simp)

text \<open>What a mode that the policy leaves alone says about the battery.\<close>

lemma safety_target_fixed:
  "safety_target m x = m \<longleftrightarrow>
     (m = SAFE \<longrightarrow> \<not> f32_less x (F32 10)) \<and>
     (m = HELL \<longrightarrow> \<not> f32_less (F32 15) x) \<and>
     (m = PAYLOAD \<longrightarrow> \<not> f32_less x (F32 60)) \<and>
     (m \<in> {IDLE, TTC} \<longrightarrow> \<not> f32_less x (F32 40))"
  by (cases m; cases x; simp)

context mode_control
begin

lemma runCycles_mode:
  assumes "ms_modeControl c = Some mc" "ms_epsStatus c = Some eps" "eps p = Some st"
  shows "mc_getModeForRuntime mc (fst (snd (runCycles c (replicate n p) e))) =
    ((\<lambda>m. safety_target m (soc st)) ^^ n) (mc_getModeForRuntime mc e)"
  using assms
proof (induction n arbitrary: c e)
  case (Suc n)
  then show ?case
    by (simp add: split_beta runCycle_mode funpow_Suc_right del: funpow.simps(2))
qed simp

end

lemma settled_funpow:
  "2 \<le> n \<Longrightarrow> ((\<lambda>m. safety_target m x) ^^ n) m = safety_target (safety_target m x) x"
proof (induction n rule: nat_induct_at_least)
  case (Suc n)
  then show ?case by (simp add: safety_target_settles)
qed (simp add: numeral_2_eq_2)

text \<open>C12: Battery fallbacks settle. With a constant valid EPS status, the mode owned by
  \<open>ModeManager\<close> no longer changes after two cycles of \<open>ModeSafetyController::runCycle\<close>, and it is
  then a mode the battery can carry: HELL if the charge is below 10 (not NaN), one of SAFE and HELL
  below 40, not PAYLOAD below 60, and not HELL above 15.\<close>

theorem safety_cycles_settle:
  assumes "ms_modeControl c = Some (modeManager_control now)" "ms_epsStatus c = Some eps"
    and "eps p = Some st" "2 \<le> n"
    and mode: "m = mm_currentMode (fst (fst (snd (runCycles c (replicate n p) (mm, outs)))))"
  shows "m = mm_currentMode (fst (fst (snd (runCycles c (replicate 2 p) (mm, outs))))) \<and>
    (f32_less (soc st) (F32 10) \<longrightarrow> m = HELL) \<and>
    (f32_less (soc st) (F32 40) \<longrightarrow> m \<in> {SAFE, HELL}) \<and>
    (f32_less (soc st) (F32 60) \<longrightarrow> m \<noteq> PAYLOAD) \<and>
    (f32_less (F32 15) (soc st) \<longrightarrow> m \<noteq> HELL)"
proof -
  let ?x = "soc st"
  have get: "mc_getModeForRuntime (modeManager_control now) w = mm_currentMode (fst w)" for w
    by (simp add: modeManager_control_def getModeForRuntime_def split_beta)
  have m: "m = safety_target (safety_target (mm_currentMode mm) ?x) ?x"
    using mm.runCycles_mode [OF assms(1-3), of n "(mm, outs)"] assms(4) mode
    by (simp add: get settled_funpow)
  moreover have "mm_currentMode (fst (fst (snd (runCycles c (replicate 2 p) (mm, outs))))) = m"
    using mm.runCycles_mode [OF assms(1-3), of 2 "(mm, outs)"] m by (simp add: get settled_funpow)
  moreover have fixed: "safety_target m ?x = m"
    unfolding m by (rule safety_target_settles)
  moreover have "f32_less ?x (F32 10) \<Longrightarrow> f32_less ?x (F32 40)" "f32_less ?x (F32 40) \<Longrightarrow> f32_less ?x (F32 60)"
    by (auto elim: f32_less_consts(1))
  ultimately show ?thesis
    using fixed [unfolded safety_target_fixed] by (cases m) auto
qed

definition demoSafety :: "int \<Rightarrow> (rat modeManager \<times> mmOut list, rat) modeSafetyController" where
  "demoSafety now = ms_configureRuntime (Some (modeManager_control now)) (Some (\<lambda>x. Some (demoStatus x)))
     modeSafetyController_init"

lemma demoSafety_fields [simp]:
  "ms_modeControl (demoSafety now) = Some (modeManager_control now)"
  "ms_epsStatus (demoSafety now) = Some (\<lambda>x. Some (demoStatus x))"
  "soc (demoStatus x) = F32 x"
  by (simp_all add: demoSafety_def ms_configureRuntime_def modeSafetyController_init_def demoStatus_def)

theorem safety_cycles_settle_witness:
  "mm_currentMode (fst (fst (snd (runCycles (demoSafety 0) (replicate 3 5)
     (modeManager_init 0\<lparr>mm_currentMode := PAYLOAD\<rparr>, []))))) = HELL"
  using safety_cycles_settle [of "demoSafety 0" 0 "\<lambda>x. Some (demoStatus x)" 5 "demoStatus 5" 3 _
    "modeManager_init 0\<lparr>mm_currentMode := PAYLOAD\<rparr>" "[]", OF _ _ _ _ refl]
  by auto

section \<open>Hysteresis\<close>

text \<open>The charge below which a cycle takes the satellite out of a mode.\<close>

fun keepFloor :: "satMode \<Rightarrow> f32" where
  "keepFloor SAFE = F32 10"
| "keepFloor PAYLOAD = F32 60"
| "keepFloor _ = F32 40"

lemma safety_target_keep: "m \<noteq> HELL \<Longrightarrow> \<not> f32_less x (keepFloor m) \<Longrightarrow> safety_target m x = m"
  by (cases m; cases x; simp)

context mode_control
begin

lemma runCycles_keep:
  assumes "ms_modeControl c = Some mc" "ms_epsStatus c = Some eps"
    and "mc_getModeForRuntime mc e = m" "m \<noteq> HELL"
    and "\<forall>q\<in>set ps. \<forall>st. eps q = Some st \<longrightarrow> \<not> f32_less (soc st) (keepFloor m)"
  shows "mc_getModeForRuntime mc (fst (snd (runCycles c ps e))) = m"
  using assms
proof (induction ps arbitrary: c e)
  case (Cons p ps)
  then have "mc_getModeForRuntime mc (fst (snd (snd (ms_runCycle c p e)))) = m"
    by (auto simp: runCycle_mode safety_target_keep split: option.split)
  with Cons show ?case
    by (simp add: split_beta)
qed simp

end

text \<open>C24: A mode admitted by a state-of-charge guard is not taken away again at once. If the operator
  guard admits a request because the charge is above the threshold of the table, then the threshold
  lies above the charge at which \<open>ModeSafetyController::runCycle\<close> would leave the new mode, and any
  number of cycles keeps the new mode as long as no valid EPS status is below that lower charge.\<close>

theorem guarded_mode_is_kept:
  assumes guard: "mm_operatorTransitionGuard mm = Some (evaluateOperatorTransition g)"
    and rule: "operatorRule (mm_currentMode mm) m = SocAbove t"
    and ok: "fst (requestModeFromOperator now m p mm) = CMD_OK"
    and conf: "ms_modeControl c = Some (modeManager_control now')" "ms_epsStatus c = Some eps"
    and charge: "\<forall>q\<in>set ps. \<forall>st. eps q = Some st \<longrightarrow> \<not> f32_less (soc st) (keepFloor m)"
  shows "(\<exists>st. ms_cachedStatus g p = Some st \<and> f32_less t (soc st)) \<and> f32_less (keepFloor m) t \<and>
    mm_currentMode (fst (fst (snd
      (runCycles c ps (fst (snd (requestModeFromOperator now m p mm)), outs))))) = m"
proof -
  let ?w = "(fst (snd (requestModeFromOperator now m p mm)), outs)"
  have get: "mc_getModeForRuntime (modeManager_control now') w = mm_currentMode (fst w)" for w
    by (simp add: modeManager_control_def getModeForRuntime_def split_beta)
  have acc: "accepted (evaluateOperatorTransition g p (mm_currentMode mm) m)"
    using ok guard by (simp add: request_response split: if_splits)
  then have "rule_outcome (map_option soc (ms_cachedStatus g p)) (SocAbove t) = None"
    using rule decide_by_table [of g p "mm_currentMode mm" m] by (simp add: decision_outcome_def)
  then have "\<exists>st. ms_cachedStatus g p = Some st \<and> f32_less t (soc st)"
    by (cases "ms_cachedStatus g p") (auto split: if_splits)
  moreover have "f32_less (keepFloor m) t" and m: "m \<noteq> HELL"
    using rule by (cases "mm_currentMode mm"; cases m; auto)+
  moreover have "mm_currentMode (fst ?w) = m"
    using acc guard by (simp add: request_mode)
  ultimately show ?thesis
    using mm.runCycles_keep [OF conf _ m charge, of ?w] by (simp add: get)
qed

theorem guarded_mode_is_kept_witness:
  "mm_currentMode (fst (fst (snd (runCycles (demoSafety 0) [65, 61, 60, 99]
     (fst (snd (requestModeFromOperator 0 PAYLOAD 71 (demoManager IDLE))), []))))) = PAYLOAD"
proof -
  have "fst (requestModeFromOperator 0 PAYLOAD 71 (demoManager IDLE)) = CMD_OK"
    by (simp add: request_response evaluateOperatorTransition_def guardSoc_def demoGuard_def
        ms_cachedStatus_def ms_configureRuntime_def demoStatus_def IDLE_TO_PAYLOAD_SOC_def)
  then show ?thesis
    using guarded_mode_is_kept [of "demoManager IDLE" demoGuard PAYLOAD "F32 70" 0 71 "demoSafety 0" 0
        "\<lambda>x. Some (demoStatus x)" "[65, 61, 60, 99]" "[]"]
    by simp
qed

section \<open>Outage reports\<close>

lemma runCycles_append:
  "runCycles c (ps @ qs) e =
     (let (c1, e1, out1) = runCycles c ps e; (c2, e2, out2) = runCycles c1 qs e1
      in (c2, e2, out1 @ out2))"
  by (induction ps arbitrary: c e) (simp_all add: split_beta)

lemma runCycles_config [simp]:
  "ms_modeControl (fst (runCycles c ps e)) = ms_modeControl c"
  "ms_epsStatus (fst (runCycles c ps e)) = ms_epsStatus c"
  by (induction ps arbitrary: c e) (simp_all add: split_beta)

definition configured :: "('e, 'p) modeSafetyController \<Rightarrow> bool" where
  "configured c \<longleftrightarrow> ms_modeControl c \<noteq> None \<and> ms_epsStatus c \<noteq> None"

lemma runCycle_latch:
  assumes "configured c"
  shows "ms_epsUnavailableLatched (fst (snd (ms_runCycle c p e))) \<longleftrightarrow> ms_cachedStatus c p = None"
    and "count_list (snd (snd (snd (ms_runCycle c p e)))) MODE_SAFETY_EPS_UNAVAILABLE =
      (if ms_cachedStatus c p = None \<and> \<not> ms_epsUnavailableLatched c then 1 else 0)"
  using assms
  by (cases "ms_modeControl c"; cases "ms_epsStatus c"; cases "the (ms_epsStatus c) p";
      simp add: ms_runCycle_def ms_cachedStatus_def configured_def publishDecision_def Let_def)+

lemma cachedStatus_config:
  "ms_epsStatus c = ms_epsStatus c' \<Longrightarrow> ms_cachedStatus c p = ms_cachedStatus c' p"
  by (simp add: ms_cachedStatus_def)

text \<open>The positions of \<open>ps\<close> where an outage begins.\<close>

definition outage_starts :: "('e, 'p) modeSafetyController \<Rightarrow> 'p list \<Rightarrow> nat set" where
  "outage_starts c ps = {i. i < length ps \<and> ms_cachedStatus c (ps ! i) = None \<and>
     (if i = 0 then \<not> ms_epsUnavailableLatched c else ms_cachedStatus c (ps ! (i - 1)) \<noteq> None)}"

lemma runCycles_latch:
  assumes "configured c"
  shows "ms_epsUnavailableLatched (fst (runCycles c ps e)) \<longleftrightarrow>
    (if ps = [] then ms_epsUnavailableLatched c else ms_cachedStatus c (last ps) = None)"
proof (cases ps rule: rev_cases)
  case (snoc qs q)
  have "configured (fst (runCycles c qs e))"
    using assms by (simp add: configured_def)
  then show ?thesis
    using cachedStatus_config [of "fst (runCycles c qs e)" c]
    by (simp add: snoc runCycles_append split_beta runCycle_latch)
qed simp

lemma outage_starts_snoc:
  "outage_starts c (ps @ [p]) = outage_starts c ps \<union>
     (if ms_cachedStatus c p = None \<and>
         \<not> (if ps = [] then ms_epsUnavailableLatched c else ms_cachedStatus c (last ps) = None)
      then {length ps} else {})"
  by (rule set_eqI)
    (auto simp: outage_starts_def nth_append last_conv_nth less_Suc_eq split: if_splits)

text \<open>C38: \<open>ModeSafetyController\<close> reports an EPS outage once. Over any sequence of cycles of a configured
  controller, the number of \<open>MODE_SAFETY_EPS_UNAVAILABLE\<close> warnings is the number of cycles at which
  the EPS status becomes unavailable, an outage already reported before the first cycle not
  counted again.\<close>

theorem outage_reported_once:
  assumes "ms_modeControl c \<noteq> None" "ms_epsStatus c \<noteq> None"
  shows "count_list (snd (snd (runCycles c ps e))) MODE_SAFETY_EPS_UNAVAILABLE = card (outage_starts c ps)"
proof (induction ps rule: rev_induct)
  case (snoc p ps)
  have fin: "finite (outage_starts c ps)" and new: "length ps \<notin> outage_starts c ps"
    by (auto simp: outage_starts_def)
  have conf: "configured (fst (runCycles c ps e))" "configured c"
    using assms by (simp_all add: configured_def)
  have "ms_cachedStatus (fst (runCycles c ps e)) p = ms_cachedStatus c p"
    by (rule cachedStatus_config) simp
  then show ?case
    using snoc fin new conf
    by (simp add: runCycles_append split_beta outage_starts_snoc runCycles_latch runCycle_latch)
qed (simp add: outage_starts_def)

definition demoOutage :: "(rat modeManager \<times> mmOut list, statusData option) modeSafetyController" where
  "demoOutage = ms_configureRuntime (Some (modeManager_control 0)) (Some (\<lambda>x. x)) modeSafetyController_init"

lemma demoOutage_starts: "outage_starts demoOutage [None, None, Some (demoStatus 80), None] = {0, 3}"
  by (auto simp: outage_starts_def demoOutage_def ms_cachedStatus_def ms_configureRuntime_def less_Suc_eq
      modeSafetyController_init_def numeral_eq_Suc split: if_splits)

theorem outage_reported_once_witness:
  "count_list (snd (snd (runCycles demoOutage [None, None, Some (demoStatus 80), None]
     (modeManager_init 0, [])))) MODE_SAFETY_EPS_UNAVAILABLE = 2"
  by (subst outage_reported_once)
    (simp_all add: demoOutage_starts, simp_all add: demoOutage_def ms_configureRuntime_def)

end
