(* ===== verification/Ttc_Calendar.thy ===== *)
theory Ttc_Calendar
  imports Obc_Prelude "HOL-Library.Signed_Division"
begin

text \<open>
  The calendar arithmetic of \<open>TtcPassPolicy.cpp\<close>: from the GPS date \<open>yyyymmdd\<close> and second of day to
  Unix seconds. U32 and U64 values are words, so the wrap-around of the source is in the model;
  the I64 day count is an \<open>int\<close>, which the bounds below keep far from the 64 bit limits. The
  reference definition counts days year by year and month by month.
\<close>

section \<open>The code\<close>

definition isLeapYear :: "u32 \<Rightarrow> bool" where
  "isLeapYear year \<longleftrightarrow> (year mod 4 = 0 \<and> year mod 100 \<noteq> 0) \<or> year mod 400 = 0"

definition daysInMonth :: "u32 \<Rightarrow> u32 \<Rightarrow> u32" where
  "daysInMonth year month =
     (if month \<in> {1, 3, 5, 7, 8, 10, 12} then 31
      else if month \<in> {4, 6, 9, 11} then 30
      else if month = 2 then (if isLeapYear year then 29 else 28)
      else 0)"

definition daysFromCivil :: "int \<Rightarrow> u32 \<Rightarrow> u32 \<Rightarrow> int" where
  "daysFromCivil year0 month day =
     (let year = year0 - (if month \<le> 2 then 1 else 0);
          era = (if year \<ge> 0 then year else year - 399) sdiv 400;
          yoe = (word_of_int (year - era * 400) :: u32);
          monthIndex = (if month > 2 then month - 3 else month + 9);
          doy = (153 * monthIndex + 2) div 5 + day - 1;
          doe = yoe * 365 + yoe div 4 - yoe div 100 + doy
      in era * 146097 + uint doe - 719468)"

definition convertGpsUtcToUnixSec :: "u32 \<Rightarrow> u32 \<Rightarrow> u64 option" where
  "convertGpsUtcToUnixSec utcDateYmd utcSecondsOfDay =
     (if utcDateYmd = 0 \<or> utcSecondsOfDay \<ge> 86400 then None
      else let year = utcDateYmd div 10000;
               month = (utcDateYmd div 100) mod 100;
               day = utcDateYmd mod 100
           in if year < 1970 \<or> month < 1 \<or> month > 12 then None
              else let maxDay = daysInMonth year month
                   in if day < 1 \<or> day > maxDay then None
                      else let daysSinceEpoch = daysFromCivil (uint year) month day
                           in if daysSinceEpoch < 0 then None
                              else let daySeconds = (word_of_int daysSinceEpoch :: u64) * 86400;
                                       result = daySeconds + ucast utcSecondsOfDay
                                   in if result < daySeconds then None else Some result)"

section \<open>The reference calendar\<close>

fun leap :: "nat \<Rightarrow> bool" where
  "leap y \<longleftrightarrow> (4 dvd y \<and> \<not> 100 dvd y) \<or> 400 dvd y"

declare leap.simps [simp del]

definition yearDays :: "nat \<Rightarrow> nat" where
  "yearDays y = (if leap y then 366 else 365)"

definition monthDays :: "nat \<Rightarrow> nat \<Rightarrow> nat" where
  "monthDays y m = (if m \<in> {4, 6, 9, 11} then 30
     else if m = 2 then (if leap y then 29 else 28) else 31)"

definition valid_date :: "nat \<Rightarrow> nat \<Rightarrow> nat \<Rightarrow> bool" where
  "valid_date y m d \<longleftrightarrow> 1970 \<le> y \<and> 1 \<le> m \<and> m \<le> 12 \<and> 1 \<le> d \<and> d \<le> monthDays y m"

text \<open>Days from 1 January 1970: whole years, whole months of the year, days of the month.\<close>

definition epochDays :: "nat \<Rightarrow> nat \<Rightarrow> nat \<Rightarrow> nat" where
  "epochDays y m d = (\<Sum>i\<in>{1970..<y}. yearDays i) + sum_list (map (monthDays y) [1..<m]) + (d - 1)"

section \<open>Equivalence\<close>

lemma unat_mod_numeral: "unat (x mod y) = unat x mod unat y" for x y :: "'a::len word"
  by (rule unat_mod)

lemma isLeapYear_leap: "isLeapYear y = leap (unat y)"
  by (simp add: isLeapYear_def leap.simps word_eq_iff_unsigned [where 'a = nat] unat_mod dvd_eq_mod_eq_0)

lemma month_cases:
  assumes "1 \<le> m" "m \<le> (12 :: u32)"
  obtains "m = 1" | "m = 2" | "m = 3" | "m = 4" | "m = 5" | "m = 6" | "m = 7" | "m = 8"
    | "m = 9" | "m = 10" | "m = 11" | "m = 12"
proof -
  have "unat m \<in> {1..12}"
    using assms by (simp add: word_le_nat_alt)
  then have "unat m \<in> {1, 2, 3, 4, 5, 6, 7, 8, 9, 10, 11, 12}"
    unfolding atLeastAtMost_iff insert_iff empty_iff by presburger
  then have "m \<in> {1, 2, 3, 4, 5, 6, 7, 8, 9, 10, 11, 12}"
    by (auto simp: word_eq_iff_unsigned [where 'a = nat])
  with that show thesis
    by blast
qed

lemma daysInMonth_monthDays:
  "1 \<le> m \<Longrightarrow> m \<le> 12 \<Longrightarrow> unat (daysInMonth y m) = monthDays (unat y) (unat m)"
  by (erule (1) month_cases) (simp_all add: daysInMonth_def monthDays_def isLeapYear_leap)

definition civil :: "int \<Rightarrow> int \<Rightarrow> int" where
  "civil y doy = 365 * y + y div 4 - y div 100 + y div 400 + doy - 719468"

lemma unat_doe:
  assumes "unat yoe < 400" "unat doy < 400"
  shows "uint (yoe * 365 + yoe div 4 - yoe div 100 + doy :: u32) =
    365 * uint yoe + uint yoe div 4 - uint yoe div 100 + uint doy"
proof -
  let ?n = "unat yoe"
  have m: "unat (yoe * 365) = ?n * 365"
    using assms by (simp add: unat_word_ariths)
  have a: "unat (yoe * 365 + yoe div 4) = ?n * 365 + ?n div 4"
    using assms m by (simp add: unat_word_ariths unat_div)
  have "yoe div 100 \<le> yoe * 365 + yoe div 4"
    by (simp add: word_le_nat_alt a unat_div)
  then have s: "unat (yoe * 365 + yoe div 4 - yoe div 100) = ?n * 365 + ?n div 4 - ?n div 100"
    by (simp add: unat_sub a unat_div)
  have "unat (yoe * 365 + yoe div 4 - yoe div 100 + doy) = ?n * 365 + ?n div 4 - ?n div 100 + unat doy"
    using assms s by (simp add: unat_word_ariths(1))
  then have "int (unat (yoe * 365 + yoe div 4 - yoe div 100 + doy)) =
      int (?n * 365 + ?n div 4 - ?n div 100 + unat doy)"
    by simp
  then show ?thesis
    by (simp add: of_nat_diff zdiv_int)
qed

text \<open>The linear identities behind the calendar, free of divisions.\<close>

lemma era_sum:
  "y = r + 400 * e \<Longrightarrow> e * 146097 + (365 * r + a - b + doy) - 719468 =
     365 * y + (100 * e + a) - (4 * e + b) + e + doy - 719468" for y :: int
  by simp

lemma year_sum:
  "365 * y + (b4 + d4) - (b100 + d100) + (b400 + d400) + k - c =
     365 * (y - 1) + b4 - b100 + b400 + (k + (365 + d4 - d100 + d400)) - c" for y :: int
  by simp

lemma civil_era:
  assumes "0 \<le> (y::int)"
  shows "(y div 400) * 146097 + (365 * (y mod 400) + (y mod 400) div 4 - (y mod 400) div 100 + doy) - 719468 =
    civil y doy"
proof -
  let ?e = "y div 400" and ?r = "y mod 400"
  have y: "y = ?r + 400 * ?e" by simp
  have "(?r + 4 * (100 * ?e)) div 4 = 100 * ?e + ?r div 4" "(?r + 100 * (4 * ?e)) div 100 = 4 * ?e + ?r div 100"
    by (simp_all only: div_mult_self2)
  then have q: "y div 4 = 100 * ?e + ?r div 4" "y div 100 = 4 * ?e + ?r div 100"
    using y by simp_all
  show ?thesis
    unfolding civil_def q by (rule era_sum [OF y])
qed

text \<open>Days from 1 March to the first of a month, as the code computes them.\<close>

definition marchDays :: "nat \<Rightarrow> int" where
  "marchDays m = (153 * (if m > 2 then int m - 3 else int m + 9) + 2) div 5"

lemma uint_doy:
  assumes "1 \<le> d" "d \<le> (31 :: u32)" "k \<le> 340"
  shows "uint (word_of_int k + d - 1) = k + uint d - 1 \<or> k < 0"
    and "0 \<le> k \<Longrightarrow> unat (word_of_int k + d - 1) < 400"
proof -
  have d: "1 \<le> uint d" "uint d \<le> 31"
    using assms by (simp_all add: word_le_def)
  have *: "uint (word_of_int k + d - 1) = k + uint d - 1" if "0 \<le> k"
  proof -
    have "take_bit LENGTH(32) (k + uint d - 1) = k + uint d - 1"
      by (rule take_bit_int_eq_self) (use d assms(3) that in simp_all)
    then have "uint (word_of_int (k + uint d - 1) :: u32) = k + uint d - 1"
      by (simp only: uint_word_of_int_eq)
    moreover have "word_of_int (k + uint d - 1) = word_of_int k + d - 1"
      by simp
    ultimately show ?thesis by (simp only:)
  qed
  then show "uint (word_of_int k + d - 1) = k + uint d - 1 \<or> k < 0"
    by force
  show "unat (word_of_int k + d - 1) < 400" if "0 \<le> k"
    using * [OF that] d assms by (simp add: unat_eq_nat_uint)
qed

lemma sdiv_nonneg: "0 \<le> y \<Longrightarrow> y sdiv 400 = y div 400" for y :: int
  by (cases "y = 0") (simp_all add: signed_divide_int_def)

lemma daysFromCivil_civil:
  assumes m: "1 \<le> m" "m \<le> 12" and d: "1 \<le> d" "d \<le> 31" and y: "1 \<le> y" "y < 2 ^ 31"
  shows "daysFromCivil y m d =
    civil (y - (if m \<le> 2 then 1 else 0)) (marchDays (unat m) + uint d - 1)"
proof -
  define Y where "Y = y - (if m \<le> 2 then 1 else 0)"
  define doy where "doy = (153 * (if m > 2 then m - 3 else m + 9) + 2) div 5 + d - 1"
  have Y: "0 \<le> Y" using y by (simp add: Y_def)
  have yoe: "Y - Y div 400 * 400 = Y mod 400"
    by (simp add: minus_div_mult_eq_mod)
  have u: "uint (word_of_int (Y mod 400) :: u32) = Y mod 400"
    by (simp add: uint_word_of_int)
  then have n: "unat (word_of_int (Y mod 400) :: u32) < 400"
    by (simp add: unat_eq_nat_uint)
  have k: "(153 * (if m > 2 then m - 3 else m + 9) + 2) div 5 = (word_of_int (marchDays (unat m)) :: u32)"
    "0 \<le> marchDays (unat m)" "marchDays (unat m) \<le> 340"
    using m by (cases rule: month_cases; simp add: marchDays_def)+
  have doy: "uint doy = marchDays (unat m) + uint d - 1" "unat doy < 400"
    using uint_doy [OF d k(3)] k(2) unfolding doy_def k(1) by auto
  have "daysFromCivil y m d =
      Y div 400 * 146097 + (365 * (Y mod 400) + (Y mod 400) div 4 - (Y mod 400) div 100 + uint doy) - 719468"
    unfolding daysFromCivil_def Let_def Y_def [symmetric] doy_def [symmetric] if_P [OF Y]
      sdiv_nonneg [OF Y] yoe unat_doe [OF n doy(2)] u ..
  then show ?thesis
    unfolding civil_era [OF Y] unfolding doy(1) Y_def .
qed

lemma div_pred:
  assumes "0 < k" "0 < y"
  shows "int y div int k = (int y - 1) div int k + (if k dvd y then 1 else 0)"
proof -
  obtain n where n: "y = Suc n"
    using assms(2) gr0_implies_Suc by blast
  have "int y div int k = int (Suc n div k)" "(int y - 1) div int k = int (n div k)"
    by (simp_all add: n zdiv_int)
  then show ?thesis
    using assms(1) by (auto simp: n div_Suc dvd_eq_mod_eq_0)
qed

lemma civil_diff: "civil y k = civil y l + (k - l)"
  by (simp add: civil_def)

lemma civil_next_year:
  assumes "0 < y"
  shows "civil (int y) k = civil (int y - 1) (k + int (yearDays y))"
proof -
  have dvd: "400 dvd y \<Longrightarrow> 100 dvd y" "100 dvd y \<Longrightarrow> 4 dvd y"
    by (auto intro: dvd_trans [of 100 400] dvd_trans [of 4 100])
  have days: "int (yearDays y) = 365 + (if 4 dvd y then 1 else 0) - (if 100 dvd y then 1 else 0) +
      (if 400 dvd y then 1 else 0)"
    using dvd unfolding yearDays_def leap.simps by (cases "4 dvd y"; cases "100 dvd y"; cases "400 dvd y") simp_all
  have q: "int y div 4 = (int y - 1) div 4 + (if 4 dvd y then 1 else 0)"
    "int y div 100 = (int y - 1) div 100 + (if 100 dvd y then 1 else 0)"
    "int y div 400 = (int y - 1) div 400 + (if 400 dvd y then 1 else 0)"
    using div_pred [of 4 y] div_pred [of 100 y] div_pred [of 400 y] assms by simp_all
  show ?thesis
    unfolding civil_def days q by (rule year_sum)
qed

lemma years_civil: "1970 \<le> y \<Longrightarrow> int (\<Sum>i\<in>{1970..<y}. yearDays i) = civil (int y - 1) 306"
proof (induction y rule: nat_induct_at_least)
  case base
  show ?case by (simp add: civil_def)
next
  case (Suc n)
  have "int (\<Sum>i\<in>{1970..<Suc n}. yearDays i) = civil (int n - 1) 306 + int (yearDays n)"
    using Suc by simp
  also have "\<dots> = civil (int n - 1) (306 + int (yearDays n))"
    by (simp add: civil_def)
  finally show ?case
    using civil_next_year [of n 306] Suc(1) by simp
qed

lemma months_march:
  assumes "1 \<le> m" "m \<le> (12::nat)"
  shows "int (sum_list (map (monthDays y) [1..<m])) =
    marchDays m - 306 + (if m \<le> 2 then 0 else int (yearDays y))"
proof -
  have "m \<in> {1, 2, 3, 4, 5, 6, 7, 8, 9, 10, 11, 12}"
    using assms unfolding insert_iff empty_iff by presburger
  then show ?thesis
    by (elim insertE emptyE) (simp_all add: marchDays_def yearDays_def monthDays_def upt_conv_Cons)
qed

lemma daysFromCivil_epochDays:
  assumes "1 \<le> m" "m \<le> 12" "1 \<le> d" "d \<le> 31" "1970 \<le> unat y" "unat y < 2 ^ 31"
  shows "daysFromCivil (uint y) m d = int (epochDays (unat y) (unat m) (unat d))"
proof -
  have m: "1 \<le> unat m" "unat m \<le> 12" and d: "1 \<le> unat d"
    using assms(1-3) by (simp_all add: word_le_nat_alt)
  have le: "m \<le> 2 \<longleftrightarrow> unat m \<le> 2"
    by (simp add: word_le_nat_alt)
  have e: "int (epochDays (unat y) (unat m) (unat d)) =
      civil (uint y - 1) 306 + (marchDays (unat m) - 306 + (if m \<le> 2 then 0 else int (yearDays (unat y)))) +
      (uint d - 1)"
    using years_civil [OF assms(5)] months_march [OF m, of "unat y"] d
    by (simp add: epochDays_def le of_nat_diff)
  have "int 1970 \<le> int (unat y)" "int (unat y) < int (2 ^ 31)"
    using assms(5,6) by (simp_all only: of_nat_le_iff of_nat_less_iff)
  then have y: "1 \<le> uint y" "uint y < 2 ^ 31" "0 < unat y"
    using assms(5) by simp_all
  let ?k = "marchDays (unat m) + uint d - 1"
  have "civil (uint y) ?k = civil (uint y - 1) (?k + int (yearDays (unat y)))"
    using civil_next_year [OF y(3)] by simp
  then have "daysFromCivil (uint y) m d = civil (uint y - 1) (?k + (if m \<le> 2 then 0 else int (yearDays (unat y))))"
    using daysFromCivil_civil [OF assms(1-4) y(1,2)] by (cases "m \<le> 2") simp_all
  also have "\<dots> = civil (uint y - 1) 306 + (?k + (if m \<le> 2 then 0 else int (yearDays (unat y))) - 306)"
    by (rule civil_diff)
  also have "\<dots> = int (epochDays (unat y) (unat m) (unat d))"
    unfolding e by simp
  finally show ?thesis .
qed

lemma monthDays_le: "monthDays y m \<le> 31"
  by (simp add: monthDays_def)

lemma epochDays_bound:
  assumes "valid_date y m d" "y \<le> 429496"
  shows "epochDays y m d < 157000000"
proof -
  have "(\<Sum>i\<in>{1970..<y}. yearDays i) \<le> (\<Sum>i\<in>{1970..<y}. 366)"
    by (rule sum_mono) (simp add: yearDays_def)
  moreover have "sum_list (map (monthDays y) [1..<m]) \<le> sum_list (map (\<lambda>_. 31) [1..<m])"
    by (rule sum_list_mono) (rule monthDays_le)
  moreover have "d \<le> 31"
    using assms(1) monthDays_le [of y m] by (simp add: valid_date_def)
  moreover have "(y - 1970) * 366 \<le> 427526 * 366" "(m - 1) * 31 \<le> 11 * 31"
    using assms by (intro mult_right_mono; auto simp: valid_date_def)+
  ultimately show ?thesis
    unfolding epochDays_def by (simp add: sum_list_triv)
qed

text \<open>The seconds of a valid date fit 64 bits with room to spare, so no operation wraps.\<close>

lemma unix_seconds_no_wrap:
  assumes "n < 157000000" "sod < (86400 :: u32)"
  shows "unat ((word_of_int (int n) :: u64) * 86400) = n * 86400"
    and "unat ((word_of_int (int n) :: u64) * 86400 + ucast sod) = n * 86400 + unat sod"
    and "\<not> (word_of_int (int n) :: u64) * 86400 + ucast sod < word_of_int (int n) * 86400"
proof -
  have s: "unat sod < 86400" "unat (ucast sod :: u64) = unat sod"
    using assms(2) by (simp_all add: word_less_nat_alt unat_ucast_up)
  have n: "unat (word_of_int (int n) :: u64) = n"
    using assms(1) by (simp add: unat_of_nat take_bit_nat_eq_self)
  show m: "unat ((word_of_int (int n) :: u64) * 86400) = n * 86400"
    unfolding unat_word_ariths n using assms(1) by simp
  show a: "unat ((word_of_int (int n) :: u64) * 86400 + ucast sod) = n * 86400 + unat sod"
    unfolding unat_word_ariths(1) m s(2) using assms(1) s(1) by simp
  show "\<not> (word_of_int (int n) :: u64) * 86400 + ucast sod < word_of_int (int n) * 86400"
    unfolding word_less_nat_alt a m by simp
qed

text \<open>C15: \<open>convertGpsUtcToUnixSec\<close> is calendar time. It answers exactly for the dates \<open>yyyymmdd\<close> from 1970
  on that exist in the Gregorian calendar and for seconds of day below 86400, and the answer is the
  number of days counted year by year and month by month from 1 January 1970, times 86400, plus
  the second of day, as a natural number: no step of the 32 and 64 bit arithmetic wraps.\<close>

theorem gps_time_is_calendar_time:
  "map_option unat (convertGpsUtcToUnixSec ymd sod) =
     (let y = unat ymd div 10000; m = unat ymd div 100 mod 100; d = unat ymd mod 100
      in if valid_date y m d \<and> unat sod < 86400 then Some (epochDays y m d * 86400 + unat sod) else None)"
proof -
  define y m d where "y = ymd div 10000" and "m = (ymd div 100) mod 100" and "d = ymd mod 100"
  have u: "unat y = unat ymd div 10000" "unat m = unat ymd div 100 mod 100" "unat d = unat ymd mod 100"
    by (simp_all add: y_def m_def d_def unat_div unat_mod)
  have y: "unat y \<le> 429496"
    using unat_word_less [of ymd] unfolding u by simp
  let ?ok = "1970 \<le> y \<and> 1 \<le> m \<and> m \<le> 12 \<and> 1 \<le> d \<and> d \<le> daysInMonth y m"
  have ok: "?ok \<longleftrightarrow> valid_date (unat y) (unat m) (unat d)"
    unfolding valid_date_def using daysInMonth_monthDays [of m y] by (auto simp: word_le_nat_alt)
  have sod: "sod \<ge> 86400 \<longleftrightarrow> \<not> unat sod < 86400"
    by (simp add: word_le_nat_alt not_less)
  have zero: "ymd = 0 \<Longrightarrow> \<not> ?ok"
    by (auto simp: y_def)
  show ?thesis
  proof (cases "?ok \<and> unat sod < 86400")
    case True
    then have d: "d \<le> 31"
      using daysInMonth_monthDays [of m y] monthDays_le [of "unat y" "unat m"] by (simp add: word_le_nat_alt)
    have days: "daysFromCivil (uint y) m d = int (epochDays (unat y) (unat m) (unat d))" (is "_ = int ?n")
      using True d y by (intro daysFromCivil_epochDays) (auto simp: word_le_nat_alt)
    have n: "?n < 157000000"
      using True ok y by (intro epochDays_bound) auto
    have s: "sod < 86400"
      using True by (simp add: word_less_nat_alt)
    have "convertGpsUtcToUnixSec ymd sod = Some (word_of_int (int ?n) * 86400 + ucast sod)"
      using True sod zero unix_seconds_no_wrap(3) [OF n s] days
      unfolding convertGpsUtcToUnixSec_def Let_def y_def [symmetric] m_def [symmetric] d_def [symmetric]
      by (auto simp: not_less [symmetric])
    then show ?thesis
      using True ok unfolding u [symmetric] Let_def by (simp only: option.map unix_seconds_no_wrap(2) [OF n s]) simp
  next
    case False
    then have "convertGpsUtcToUnixSec ymd sod = None"
      using sod zero
      unfolding convertGpsUtcToUnixSec_def Let_def y_def [symmetric] m_def [symmetric] d_def [symmetric]
      by (auto simp: not_less [symmetric])
    then show ?thesis
      using False ok unfolding u [symmetric] Let_def by auto
  qed
qed

end
