(* ===== verification/Ttc_Pass.thy ===== *)
theory Ttc_Pass
  imports Ttc_Calendar Mode_Manager
begin

text \<open>
  \<open>TtcPassPolicy\<close> and \<open>TtcPassManager\<close>: entering and leaving the TTC mode with the ground station
  pass window. \<open>'e\<close> is the state behind the mode control pointer, \<open>'p\<close> what the GPS and COMM
  providers read, \<open>'a\<close> the state behind the ADCS control pointer. The mutex is not modelled: every
  handler runs as one step. Of the GPS and COMM structures the model keeps the fields that this
  component reads.
\<close>

section \<open>Data\<close>

record ttcPassConfig =
  tc_enabled :: bool
  tc_lossOfLockTimeoutSec :: u32

record ttcPassWindow =
  startUnixSec :: u64
  endUnixSec :: u64

datatype ttcPassPolicyReason = TTC_NONE | WINDOW_ACTIVE | TTC_DISABLED | WINDOW_CLEARED
  | WINDOW_INACTIVE | GPS_INVALID | COMM_LOSS_TIMEOUT

fun ttcReason_code :: "ttcPassPolicyReason \<Rightarrow> u32" where
  "ttcReason_code TTC_NONE = 0"
| "ttcReason_code WINDOW_ACTIVE = 1"
| "ttcReason_code TTC_DISABLED = 2"
| "ttcReason_code WINDOW_CLEARED = 3"
| "ttcReason_code WINDOW_INACTIVE = 4"
| "ttcReason_code GPS_INVALID = 5"
| "ttcReason_code COMM_LOSS_TIMEOUT = 6"

record ttcGpsFreshnessTracker =
  haveAcceptedSentenceTimestamp :: bool
  lastAcceptedSentenceCount :: u32
  lastAcceptedSentenceWallclockSec :: u32

record ttcCommLossTracker =
  cl_active :: bool
  noLinkStartWallclockSec :: u32

record ttcPassRuntimeStatus =
  ts_currentMode :: satMode
  ts_enabled :: bool
  ts_lossOfLockTimeoutSec :: u32
  ts_windowConfigured :: bool
  ts_windowStartUnixSec :: u64
  ts_windowEndUnixSec :: u64
  ts_windowActive :: bool
  ts_gpsTimeValid :: bool
  ts_currentGpsUnixSec :: u64
  ts_ttcActive :: bool
  ts_lossOfLockTimerSec :: u32
  ts_lastEntryReason :: ttcPassPolicyReason
  ts_lastExitReason :: ttcPassPolicyReason
  ts_entryCount :: u32
  ts_exitCount :: u32

record gpsStateData =
  gps_hasSample :: bool
  gps_fixValid :: bool
  gps_utcSecondsOfDay :: u32
  gps_utcDateYmd :: u32
  gps_acceptedSentenceCount :: u32

record commRuntimeState =
  sbandAvailable :: bool
  uhfAvailable :: bool

definition ttcPassAnyLinkAvailable :: "commRuntimeState \<Rightarrow> bool" where
  "ttcPassAnyLinkAvailable state \<longleftrightarrow> sbandAvailable state \<or> uhfAvailable state"

section \<open>Policy\<close>

definition GPS_STALE_THRESHOLD_SEC :: u32 where "GPS_STALE_THRESHOLD_SEC = 15"

definition isValidPassWindow :: "ttcPassWindow \<Rightarrow> bool" where
  "isValidPassWindow w \<longleftrightarrow> startUnixSec w \<noteq> 0 \<and> endUnixSec w \<noteq> 0 \<and> endUnixSec w > startUnixSec w"

definition isWindowActive :: "u64 \<Rightarrow> ttcPassWindow \<Rightarrow> bool" where
  "isWindowActive nowUnixSec w \<longleftrightarrow>
     isValidPassWindow w \<and> nowUnixSec \<ge> startUnixSec w \<and> nowUnixSec < endUnixSec w"

definition updateGpsFreshnessTracker ::
    "ttcGpsFreshnessTracker \<Rightarrow> u32 \<Rightarrow> u32 \<Rightarrow> ttcGpsFreshnessTracker" where
  "updateGpsFreshnessTracker tracker acceptedSentenceCount wallclockSec =
     (if \<not> haveAcceptedSentenceTimestamp tracker \<or> acceptedSentenceCount \<noteq> lastAcceptedSentenceCount tracker
      then \<lparr>haveAcceptedSentenceTimestamp = True, lastAcceptedSentenceCount = acceptedSentenceCount,
            lastAcceptedSentenceWallclockSec = wallclockSec\<rparr>
      else tracker)"

definition isGpsFresh :: "ttcGpsFreshnessTracker \<Rightarrow> u32 \<Rightarrow> u32 \<Rightarrow> bool" where
  "isGpsFresh tracker wallclockSec staleThresholdSec =
     (if \<not> haveAcceptedSentenceTimestamp tracker then False
      else if wallclockSec < lastAcceptedSentenceWallclockSec tracker then False
      else wallclockSec - lastAcceptedSentenceWallclockSec tracker \<le> staleThresholdSec)"

definition clearedCommLoss :: ttcCommLossTracker where
  "clearedCommLoss = \<lparr>cl_active = False, noLinkStartWallclockSec = 0\<rparr>"

definition updateLossOfLockTimer ::
    "ttcCommLossTracker \<Rightarrow> u32 \<Rightarrow> bool \<Rightarrow> bool \<Rightarrow> u32 \<times> ttcCommLossTracker" where
  "updateLossOfLockTimer tracker wallclockSec currentModeIsTtc anyLinkAvailable =
     (if \<not> currentModeIsTtc \<or> anyLinkAvailable then (0, clearedCommLoss)
      else if \<not> cl_active tracker \<or> wallclockSec < noLinkStartWallclockSec tracker then
        (0, \<lparr>cl_active = True, noLinkStartWallclockSec = wallclockSec\<rparr>)
      else let elapsedSec = wallclockSec - noLinkStartWallclockSec tracker
           in (if elapsedSec \<ge> - 1 then - 1 else elapsedSec, tracker))"

section \<open>Manager\<close>

record ('e, 'p, 'a) ttcPassManager =
  tp_modeControl :: "'e modeControl option"
  tp_gpsProvider :: "('p \<Rightarrow> gpsStateData option) option"
  tp_commProvider :: "('p \<Rightarrow> commRuntimeState) option"
  tp_adcsControl :: "('a \<Rightarrow> bool \<times> 'a) option"
  tp_config :: ttcPassConfig
  tp_window :: ttcPassWindow
  tp_suppressedWindow :: ttcPassWindow
  tp_gpsFreshness :: ttcGpsFreshnessTracker
  tp_commLoss :: ttcCommLossTracker
  tp_status :: ttcPassRuntimeStatus

datatype ttcOut = TTC_POLICY_CONFIG_UPDATED u8 u32
  | TTC_PASS_WINDOW_SET u64 u64
  | TTC_PASS_WINDOW_CLEARED
  | TTC_PASS_WINDOW_REJECTED u64 u64
  | TTC_POLICY_ENTRY_REQUEST u32
  | TTC_POLICY_EXIT_REQUEST u32
  | TTC_POLICY_ADCS_POINTING_REQUEST_FAILED
  | Tlm_TTC_ENABLED bool
  | Tlm_TTC_LOSS_TIMEOUT_SEC u32
  | Tlm_TTC_WINDOW_CONFIGURED bool
  | Tlm_TTC_WINDOW_START u64
  | Tlm_TTC_WINDOW_END u64
  | Tlm_TTC_WINDOW_ACTIVE bool
  | Tlm_TTC_GPS_TIME_VALID bool
  | Tlm_TTC_CURRENT_GPS_UNIX_SEC u64
  | Tlm_TTC_ACTIVE bool
  | Tlm_TTC_LOSS_TIMER_SEC u32
  | Tlm_TTC_LAST_ENTRY_REASON u32
  | Tlm_TTC_LAST_EXIT_REASON u32
  | Tlm_TTC_ENTRY_COUNT u32
  | Tlm_TTC_EXIT_COUNT u32
  | TtcCmdResponse u32 u32 cmdResponse

definition clearedWindow :: ttcPassWindow where
  "clearedWindow = \<lparr>startUnixSec = 0, endUnixSec = 0\<rparr>"

definition windowsEqual :: "ttcPassWindow \<Rightarrow> ttcPassWindow \<Rightarrow> bool" where
  "windowsEqual lhs rhs \<longleftrightarrow> startUnixSec lhs = startUnixSec rhs \<and> endUnixSec lhs = endUnixSec rhs"

definition ttcPassManager_init :: "('e, 'p, 'a) ttcPassManager" where
  "ttcPassManager_init = \<lparr>tp_modeControl = None, tp_gpsProvider = None, tp_commProvider = None,
     tp_adcsControl = None, tp_config = \<lparr>tc_enabled = False, tc_lossOfLockTimeoutSec = 0\<rparr>,
     tp_window = clearedWindow, tp_suppressedWindow = clearedWindow,
     tp_gpsFreshness = \<lparr>haveAcceptedSentenceTimestamp = False, lastAcceptedSentenceCount = 0,
       lastAcceptedSentenceWallclockSec = 0\<rparr>,
     tp_commLoss = clearedCommLoss,
     tp_status = \<lparr>ts_currentMode = SAFE, ts_enabled = False, ts_lossOfLockTimeoutSec = 0,
       ts_windowConfigured = False, ts_windowStartUnixSec = 0, ts_windowEndUnixSec = 0,
       ts_windowActive = False, ts_gpsTimeValid = False, ts_currentGpsUnixSec = 0,
       ts_ttcActive = False, ts_lossOfLockTimerSec = 0, ts_lastEntryReason = TTC_NONE,
       ts_lastExitReason = TTC_NONE, ts_entryCount = 0, ts_exitCount = 0\<rparr>\<rparr>"

definition ttc_configureRuntime :: "'e modeControl option \<Rightarrow> ('p \<Rightarrow> gpsStateData option) option \<Rightarrow>
    ('p \<Rightarrow> commRuntimeState) option \<Rightarrow> ('a \<Rightarrow> bool \<times> 'a) option \<Rightarrow>
    ('e, 'p, 'a) ttcPassManager \<Rightarrow> ('e, 'p, 'a) ttcPassManager" where
  "ttc_configureRuntime modeControl gpsProvider commProvider adcsControl t =
     t\<lparr>tp_modeControl := modeControl, tp_gpsProvider := gpsProvider,
       tp_commProvider := commProvider, tp_adcsControl := adcsControl\<rparr>"

definition publishChangeDrivenStatus ::
    "ttcPassRuntimeStatus \<Rightarrow> ttcPassRuntimeStatus \<Rightarrow> ttcOut list" where
  "publishChangeDrivenStatus previous current =
     (if ts_enabled previous \<noteq> ts_enabled current then [Tlm_TTC_ENABLED (ts_enabled current)] else []) @
     (if ts_windowConfigured previous \<noteq> ts_windowConfigured current
      then [Tlm_TTC_WINDOW_CONFIGURED (ts_windowConfigured current)] else []) @
     (if ts_windowActive previous \<noteq> ts_windowActive current
      then [Tlm_TTC_WINDOW_ACTIVE (ts_windowActive current)] else []) @
     (if ts_gpsTimeValid previous \<noteq> ts_gpsTimeValid current
      then [Tlm_TTC_GPS_TIME_VALID (ts_gpsTimeValid current)] else []) @
     (if ts_ttcActive previous \<noteq> ts_ttcActive current then [Tlm_TTC_ACTIVE (ts_ttcActive current)] else []) @
     (if ts_entryCount previous \<noteq> ts_entryCount current
      then [Tlm_TTC_ENTRY_COUNT (ts_entryCount current)] else []) @
     (if ts_exitCount previous \<noteq> ts_exitCount current
      then [Tlm_TTC_EXIT_COUNT (ts_exitCount current)] else [])"

definition publishExplicitRefreshStatus :: "ttcPassRuntimeStatus \<Rightarrow> ttcOut list" where
  "publishExplicitRefreshStatus status =
     [Tlm_TTC_ENABLED (ts_enabled status), Tlm_TTC_LOSS_TIMEOUT_SEC (ts_lossOfLockTimeoutSec status),
      Tlm_TTC_WINDOW_CONFIGURED (ts_windowConfigured status),
      Tlm_TTC_WINDOW_START (ts_windowStartUnixSec status),
      Tlm_TTC_WINDOW_END (ts_windowEndUnixSec status),
      Tlm_TTC_WINDOW_ACTIVE (ts_windowActive status), Tlm_TTC_GPS_TIME_VALID (ts_gpsTimeValid status),
      Tlm_TTC_CURRENT_GPS_UNIX_SEC (ts_currentGpsUnixSec status), Tlm_TTC_ACTIVE (ts_ttcActive status),
      Tlm_TTC_LOSS_TIMER_SEC (ts_lossOfLockTimerSec status),
      Tlm_TTC_LAST_ENTRY_REASON (ttcReason_code (ts_lastEntryReason status)),
      Tlm_TTC_LAST_EXIT_REASON (ttcReason_code (ts_lastExitReason status)),
      Tlm_TTC_ENTRY_COUNT (ts_entryCount status), Tlm_TTC_EXIT_COUNT (ts_exitCount status)]"

definition setPolicyForRuntime :: "bool \<Rightarrow> u32 \<Rightarrow> ('e, 'p, 'a) ttcPassManager \<Rightarrow>
    cmdResponse \<times> ('e, 'p, 'a) ttcPassManager \<times> ttcOut list" where
  "setPolicyForRuntime enabled timeoutSec t =
     (if enabled \<and> timeoutSec = 0 then (CMD_VALIDATION_ERROR, t, [])
      else let t' = t\<lparr>tp_config := \<lparr>tc_enabled = enabled, tc_lossOfLockTimeoutSec = timeoutSec\<rparr>,
                      tp_status := (tp_status t)\<lparr>ts_enabled := enabled, ts_lossOfLockTimeoutSec := timeoutSec\<rparr>\<rparr>
           in (CMD_OK, t', TTC_POLICY_CONFIG_UPDATED (if enabled then 1 else 0) timeoutSec #
                           publishExplicitRefreshStatus (tp_status t')))"

definition setPassWindowForRuntime :: "u64 \<Rightarrow> u64 \<Rightarrow> ('e, 'p, 'a) ttcPassManager \<Rightarrow>
    cmdResponse \<times> ('e, 'p, 'a) ttcPassManager \<times> ttcOut list" where
  "setPassWindowForRuntime s e t =
     (let requested = \<lparr>startUnixSec = s, endUnixSec = e\<rparr>
      in if \<not> isValidPassWindow requested then
           (let t' = t\<lparr>tp_window := clearedWindow,
                       tp_status := (tp_status t)\<lparr>ts_windowConfigured := False, ts_windowStartUnixSec := 0,
                         ts_windowEndUnixSec := 0, ts_windowActive := False\<rparr>\<rparr>
            in (CMD_VALIDATION_ERROR, t',
                TTC_PASS_WINDOW_REJECTED s e # publishExplicitRefreshStatus (tp_status t')))
         else
           (let t' = t\<lparr>tp_suppressedWindow :=
                         (if \<not> windowsEqual requested (tp_suppressedWindow t) then clearedWindow
                          else tp_suppressedWindow t),
                       tp_window := requested,
                       tp_status := (tp_status t)\<lparr>ts_windowConfigured := True, ts_windowStartUnixSec := s,
                         ts_windowEndUnixSec := e\<rparr>\<rparr>
            in (CMD_OK, t', TTC_PASS_WINDOW_SET s e # publishExplicitRefreshStatus (tp_status t'))))"

definition clearPassWindowForRuntime :: "('e, 'p, 'a) ttcPassManager \<Rightarrow>
    ('e, 'p, 'a) ttcPassManager \<times> ttcOut list" where
  "clearPassWindowForRuntime t =
     (let t' = t\<lparr>tp_window := clearedWindow, tp_suppressedWindow := clearedWindow,
                 tp_status := (tp_status t)\<lparr>ts_windowConfigured := False, ts_windowStartUnixSec := 0,
                   ts_windowEndUnixSec := 0, ts_windowActive := False\<rparr>\<rparr>
      in (t', TTC_PASS_WINDOW_CLEARED # publishExplicitRefreshStatus (tp_status t')))"

subsection \<open>The periodic handler\<close>

text \<open>The GPS part of the handler: the freshness tracker and the GPS time, if it is valid.\<close>

definition ttc_gpsTime :: "u32 \<Rightarrow> gpsStateData option \<Rightarrow> ttcGpsFreshnessTracker \<Rightarrow>
    ttcGpsFreshnessTracker \<times> u64 option" where
  "ttc_gpsTime wallclockSec gps tracker =
     (case gps of None \<Rightarrow> (tracker, None)
      | Some g \<Rightarrow>
          let tracker' = updateGpsFreshnessTracker tracker (gps_acceptedSentenceCount g) wallclockSec
          in (tracker',
              if gps_hasSample g \<and> gps_fixValid g \<and> gps_utcDateYmd g \<noteq> 0 \<and>
                 isGpsFresh tracker' wallclockSec GPS_STALE_THRESHOLD_SEC
              then convertGpsUtcToUnixSec (gps_utcDateYmd g) (gps_utcSecondsOfDay g) else None))"

text \<open>The first half of the locked block: status, suppression and loss timer from the inputs.\<close>

definition ttc_observe :: "u32 \<Rightarrow> satMode \<Rightarrow> gpsStateData option \<Rightarrow> bool \<Rightarrow>
    ('e, 'p, 'a) ttcPassManager \<Rightarrow> ('e, 'p, 'a) ttcPassManager" where
  "ttc_observe wallclockSec currentMode gps anyLink t =
     (let configured = isValidPassWindow (tp_window t);
          (tracker, time) = ttc_gpsTime wallclockSec gps (tp_gpsFreshness t);
          active = (case time of None \<Rightarrow> False | Some u \<Rightarrow> configured \<and> isWindowActive u (tp_window t));
          (timer, loss) = updateLossOfLockTimer (tp_commLoss t) wallclockSec (currentMode = TTC) anyLink
      in t\<lparr>tp_gpsFreshness := tracker,
           tp_suppressedWindow :=
             (if \<not> configured \<or> \<not> windowsEqual (tp_window t) (tp_suppressedWindow t) \<or> \<not> active
              then clearedWindow else tp_suppressedWindow t),
           tp_commLoss := loss,
           tp_status := (tp_status t)\<lparr>ts_currentMode := currentMode,
             ts_enabled := tc_enabled (tp_config t),
             ts_lossOfLockTimeoutSec := tc_lossOfLockTimeoutSec (tp_config t),
             ts_windowConfigured := configured,
             ts_windowStartUnixSec := (if configured then startUnixSec (tp_window t) else 0),
             ts_windowEndUnixSec := (if configured then endUnixSec (tp_window t) else 0),
             ts_gpsTimeValid := (time \<noteq> None),
             ts_currentGpsUnixSec := (case time of None \<Rightarrow> 0 | Some u \<Rightarrow> u),
             ts_windowActive := active,
             ts_ttcActive := (currentMode = TTC),
             ts_lossOfLockTimerSec := timer\<rparr>\<rparr>)"

definition ttc_resetLoss :: "('e, 'p, 'a) ttcPassManager \<Rightarrow> ('e, 'p, 'a) ttcPassManager" where
  "ttc_resetLoss t = t\<lparr>tp_commLoss := clearedCommLoss,
     tp_status := (tp_status t)\<lparr>ts_lossOfLockTimerSec := 0\<rparr>\<rparr>"

text \<open>The reason to leave TTC, in the order the code tests them.\<close>

definition ttc_exitReason :: "('e, 'p, 'a) ttcPassManager \<Rightarrow> ttcPassPolicyReason" where
  "ttc_exitReason t =
     (let st = tp_status t; cfg = tp_config t
      in if \<not> tc_enabled cfg then TTC_DISABLED
         else if \<not> ts_windowConfigured st then WINDOW_CLEARED
         else if \<not> ts_gpsTimeValid st then GPS_INVALID
         else if \<not> ts_windowActive st then WINDOW_INACTIVE
         else if tc_lossOfLockTimeoutSec cfg > 0 \<and> ts_lossOfLockTimerSec st > tc_lossOfLockTimeoutSec cfg
           then COMM_LOSS_TIMEOUT
         else TTC_NONE)"

text \<open>The second half of the locked block: the manager, whether entry or exit is requested, and why.\<close>

definition ttc_decide :: "bool \<Rightarrow> satMode \<Rightarrow> ('e, 'p, 'a) ttcPassManager \<Rightarrow>
    ('e, 'p, 'a) ttcPassManager \<times> bool \<times> bool \<times> ttcPassPolicyReason" where
  "ttc_decide previouslyTtcActive currentMode t =
     (let haveControl = (tp_modeControl t \<noteq> None)
      in if currentMode = IDLE then
           (let t1 = (if previouslyTtcActive \<and> ts_windowActive (tp_status t)
                      then t\<lparr>tp_suppressedWindow := tp_window t\<rparr> else t);
                entrySuppressed = (ts_windowActive (tp_status t1) \<and>
                  windowsEqual (tp_window t1) (tp_suppressedWindow t1))
            in if tc_enabled (tp_config t1) \<and> ts_windowActive (tp_status t1) \<and>
                  ts_gpsTimeValid (tp_status t1) \<and> \<not> entrySuppressed
               then (if haveControl
                     then t1\<lparr>tp_status := (tp_status t1)\<lparr>ts_lastEntryReason := WINDOW_ACTIVE,
                            ts_entryCount := ts_entryCount (tp_status t1) + 1\<rparr>\<rparr> else t1,
                     haveControl, False, WINDOW_ACTIVE)
               else (ttc_resetLoss t1, False, False, TTC_NONE))
         else if currentMode = TTC then
           (let why = ttc_exitReason t; requestExit = (why \<noteq> TTC_NONE \<and> haveControl)
            in if requestExit
               then (let t1 = (if why = COMM_LOSS_TIMEOUT \<and> ts_windowActive (tp_status t)
                               then t\<lparr>tp_suppressedWindow := tp_window t\<rparr> else t)
                     in (t1\<lparr>tp_status := (tp_status t1)\<lparr>ts_lastExitReason := why,
                            ts_exitCount := ts_exitCount (tp_status t1) + 1\<rparr>\<rparr>, False, True, why))
               else (t, False, False, why))
         else (ttc_resetLoss t, False, False, TTC_NONE))"

definition ttc_schedIn_handler :: "u32 \<Rightarrow> 'p \<Rightarrow> ('e, 'p, 'a) ttcPassManager \<Rightarrow> 'e \<Rightarrow> 'a \<Rightarrow>
    ('e, 'p, 'a) ttcPassManager \<times> 'e \<times> 'a \<times> ttcOut list" where
  "ttc_schedIn_handler wallclockSec p t0 e a =
     (let previousStatus = tp_status t0;
          currentMode = (case tp_modeControl t0 of None \<Rightarrow> SAFE | Some mc \<Rightarrow> mc_getModeForRuntime mc e);
          gps = (case tp_gpsProvider t0 of None \<Rightarrow> None | Some provider \<Rightarrow> provider p);
          anyLink = (case tp_commProvider t0 of None \<Rightarrow> False
                     | Some provider \<Rightarrow> ttcPassAnyLinkAvailable (provider p));
          t1 = ttc_observe wallclockSec currentMode gps anyLink t0;
          (t2, requestEntry, requestExit, why) =
            ttc_decide (ts_ttcActive previousStatus) currentMode t1
      in if requestEntry then
           (let e' = mc_applyModeForInternalSource (the (tp_modeControl t0)) TTC TtcPassPolicy e;
                t3 = t2\<lparr>tp_status := (tp_status t2)\<lparr>ts_currentMode := TTC, ts_ttcActive := True\<rparr>\<rparr>;
                (ok, a') = (case tp_adcsControl t0 of None \<Rightarrow> (True, a) | Some request \<Rightarrow> request a)
            in (t3, e', a', (if ok then [] else [TTC_POLICY_ADCS_POINTING_REQUEST_FAILED]) @
                  TTC_POLICY_ENTRY_REQUEST (ttcReason_code why) #
                  publishChangeDrivenStatus previousStatus (tp_status t3)))
         else if requestExit then
           (let e' = mc_applyModeForInternalSource (the (tp_modeControl t0)) IDLE TtcPassPolicy e;
                t3 = ttc_resetLoss (t2\<lparr>tp_status := (tp_status t2)\<lparr>ts_currentMode := IDLE, ts_ttcActive := False\<rparr>\<rparr>)
            in (t3, e', a, TTC_POLICY_EXIT_REQUEST (ttcReason_code why) #
                  publishChangeDrivenStatus previousStatus (tp_status t3)))
         else (t2, e, a, publishChangeDrivenStatus previousStatus (tp_status t2)))"

subsection \<open>Commands\<close>

definition TTC_SET_POLICY_cmdHandler :: "u32 \<Rightarrow> u32 \<Rightarrow> bool \<Rightarrow> u32 \<Rightarrow> ('e, 'p, 'a) ttcPassManager \<Rightarrow>
    ('e, 'p, 'a) ttcPassManager \<times> ttcOut list" where
  "TTC_SET_POLICY_cmdHandler opCode cmdSeq enabled timeoutSec t =
     (let (rsp, t', out) = setPolicyForRuntime enabled timeoutSec t
      in (t', out @ [TtcCmdResponse opCode cmdSeq rsp]))"

definition TTC_SET_PASS_WINDOW_cmdHandler :: "u32 \<Rightarrow> u32 \<Rightarrow> u64 \<Rightarrow> u64 \<Rightarrow> ('e, 'p, 'a) ttcPassManager \<Rightarrow>
    ('e, 'p, 'a) ttcPassManager \<times> ttcOut list" where
  "TTC_SET_PASS_WINDOW_cmdHandler opCode cmdSeq s e t =
     (let (rsp, t', out) = setPassWindowForRuntime s e t
      in (t', out @ [TtcCmdResponse opCode cmdSeq rsp]))"

definition TTC_CLEAR_PASS_WINDOW_cmdHandler :: "u32 \<Rightarrow> u32 \<Rightarrow> ('e, 'p, 'a) ttcPassManager \<Rightarrow>
    ('e, 'p, 'a) ttcPassManager \<times> ttcOut list" where
  "TTC_CLEAR_PASS_WINDOW_cmdHandler opCode cmdSeq t =
     (let (t', out) = clearPassWindowForRuntime t in (t', out @ [TtcCmdResponse opCode cmdSeq CMD_OK]))"

definition TTC_GET_STATUS_cmdHandler :: "u32 \<Rightarrow> u32 \<Rightarrow> ('e, 'p, 'a) ttcPassManager \<Rightarrow>
    ('e, 'p, 'a) ttcPassManager \<times> ttcOut list" where
  "TTC_GET_STATUS_cmdHandler opCode cmdSeq t =
     (t, publishExplicitRefreshStatus (tp_status t) @ [TtcCmdResponse opCode cmdSeq CMD_OK])"

section \<open>What a tick does to the mode\<close>

text \<open>The inputs of a tick, as the properties speak about them.\<close>

definition ttc_gps :: "('e, 'p, 'a) ttcPassManager \<Rightarrow> 'p \<Rightarrow> gpsStateData option" where
  "ttc_gps t p = (case tp_gpsProvider t of None \<Rightarrow> None | Some provider \<Rightarrow> provider p)"

definition ttc_anyLink :: "('e, 'p, 'a) ttcPassManager \<Rightarrow> 'p \<Rightarrow> bool" where
  "ttc_anyLink t p = (case tp_commProvider t of None \<Rightarrow> False
     | Some provider \<Rightarrow> ttcPassAnyLinkAvailable (provider p))"

definition ttc_time :: "u32 \<Rightarrow> 'p \<Rightarrow> ('e, 'p, 'a) ttcPassManager \<Rightarrow> u64 option" where
  "ttc_time w p t = snd (ttc_gpsTime w (ttc_gps t p) (tp_gpsFreshness t))"

definition in_window :: "u32 \<Rightarrow> 'p \<Rightarrow> ('e, 'p, 'a) ttcPassManager \<Rightarrow> bool" where
  "in_window w p t = (case ttc_time w p t of None \<Rightarrow> False | Some u \<Rightarrow> isWindowActive u (tp_window t))"

definition suppressed :: "('e, 'p, 'a) ttcPassManager \<Rightarrow> bool" where
  "suppressed t \<longleftrightarrow> windowsEqual (tp_window t) (tp_suppressedWindow t)"

definition loss_timer :: "u32 \<Rightarrow> 'p \<Rightarrow> ('e, 'p, 'a) ttcPassManager \<Rightarrow> u32" where
  "loss_timer w p t = fst (updateLossOfLockTimer (tp_commLoss t) w True (ttc_anyLink t p))"

definition enters_ttc :: "u32 \<Rightarrow> 'p \<Rightarrow> ('e, 'p, 'a) ttcPassManager \<Rightarrow> bool" where
  "enters_ttc w p t \<longleftrightarrow> tc_enabled (tp_config t) \<and> in_window w p t \<and>
     \<not> ts_ttcActive (tp_status t) \<and> \<not> suppressed t"

definition stays_ttc :: "u32 \<Rightarrow> 'p \<Rightarrow> ('e, 'p, 'a) ttcPassManager \<Rightarrow> bool" where
  "stays_ttc w p t \<longleftrightarrow> tc_enabled (tp_config t) \<and> in_window w p t \<and>
     (tc_lossOfLockTimeoutSec (tp_config t) = 0 \<or> loss_timer w p t \<le> tc_lossOfLockTimeoutSec (tp_config t))"

lemma in_window_valid: "in_window w p t \<Longrightarrow> isValidPassWindow (tp_window t) \<and> ttc_time w p t \<noteq> None"
  by (auto simp: in_window_def isWindowActive_def split: option.splits)

lemma observe_fields [simp]:
  "tp_modeControl (ttc_observe w m g l t) = tp_modeControl t"
  "tp_gpsProvider (ttc_observe w m g l t) = tp_gpsProvider t"
  "tp_commProvider (ttc_observe w m g l t) = tp_commProvider t"
  "tp_config (ttc_observe w m g l t) = tp_config t"
  "tp_window (ttc_observe w m g l t) = tp_window t"
  "ts_windowConfigured (tp_status (ttc_observe w m g l t)) = isValidPassWindow (tp_window t)"
  "tp_commLoss (ttc_observe w m g l t) = snd (updateLossOfLockTimer (tp_commLoss t) w (m = TTC) l)"
  "ts_lossOfLockTimerSec (tp_status (ttc_observe w m g l t)) =
     fst (updateLossOfLockTimer (tp_commLoss t) w (m = TTC) l)"
  "ts_ttcActive (tp_status (ttc_observe w m g l t)) = (m = TTC)"
  "tp_gpsFreshness (ttc_observe w m g l t) = fst (ttc_gpsTime w g (tp_gpsFreshness t))"
  by (simp_all add: ttc_observe_def split_beta Let_def)

lemma observe_active [simp]:
  "ts_windowActive (tp_status (ttc_observe w m (ttc_gps t p) l t)) = in_window w p t"
  "ts_gpsTimeValid (tp_status (ttc_observe w m (ttc_gps t p) l t)) = (ttc_time w p t \<noteq> None)"
  by (auto simp: ttc_observe_def split_beta Let_def in_window_def ttc_time_def isWindowActive_def
      split: option.splits)

lemma observe_suppressed:
  "tp_suppressedWindow (ttc_observe w m (ttc_gps t p) l t) =
     (if in_window w p t \<and> suppressed t then tp_suppressedWindow t else clearedWindow)"
  by (auto simp: ttc_observe_def split_beta Let_def in_window_def ttc_time_def isWindowActive_def suppressed_def
      split: option.splits)

lemma cleared_not_valid: "isValidPassWindow w \<Longrightarrow> \<not> windowsEqual w clearedWindow"
  by (simp add: isValidPassWindow_def windowsEqual_def clearedWindow_def)

lemma windowsEqual_refl [simp]: "windowsEqual w w"
  by (simp add: windowsEqual_def)

lemma resetLoss_fields [simp]:
  "tp_modeControl (ttc_resetLoss t) = tp_modeControl t"
  "tp_gpsProvider (ttc_resetLoss t) = tp_gpsProvider t"
  "tp_commProvider (ttc_resetLoss t) = tp_commProvider t"
  "tp_config (ttc_resetLoss t) = tp_config t"
  "tp_window (ttc_resetLoss t) = tp_window t"
  "tp_suppressedWindow (ttc_resetLoss t) = tp_suppressedWindow t"
  "tp_gpsFreshness (ttc_resetLoss t) = tp_gpsFreshness t"
  "tp_commLoss (ttc_resetLoss t) = clearedCommLoss"
  "ts_ttcActive (tp_status (ttc_resetLoss t)) = ts_ttcActive (tp_status t)"
  "ts_lastExitReason (tp_status (ttc_resetLoss t)) = ts_lastExitReason (tp_status t)"
  by (simp_all add: ttc_resetLoss_def)

lemma exitReason_none:
  "ttc_exitReason (ttc_observe w TTC (ttc_gps t p) (ttc_anyLink t p) t) = TTC_NONE \<longleftrightarrow> stays_ttc w p t"
  by (auto simp: ttc_exitReason_def Let_def stays_ttc_def loss_timer_def word_neq_0_conv not_less
      dest: in_window_valid)

lemma decide_idle:
  assumes "tp_modeControl t \<noteq> None"
  shows "(case ttc_decide b IDLE (ttc_observe w IDLE (ttc_gps t p) l t) of
      (t', entry, exit, why) \<Rightarrow> \<not> exit \<and>
        (entry \<longleftrightarrow> tc_enabled (tp_config t) \<and> in_window w p t \<and> \<not> b \<and> \<not> suppressed t) \<and>
        tp_suppressedWindow t' = (if in_window w p t \<and> (b \<or> suppressed t)
          then (if b then tp_window t else tp_suppressedWindow t) else clearedWindow))"
  using assms cleared_not_valid [of "tp_window t"] in_window_valid [of w p t]
  by (auto simp: ttc_decide_def Let_def observe_suppressed suppressed_def)

lemma decide_keeps:
  "case ttc_decide b m t of (t', entry, exit, why) \<Rightarrow>
     tp_modeControl t' = tp_modeControl t \<and> tp_gpsProvider t' = tp_gpsProvider t \<and>
     tp_commProvider t' = tp_commProvider t \<and> tp_config t' = tp_config t \<and> tp_window t' = tp_window t \<and>
     tp_gpsFreshness t' = tp_gpsFreshness t \<and> ts_ttcActive (tp_status t') = ts_ttcActive (tp_status t)"
  by (simp add: ttc_decide_def Let_def)

lemma decide_other:
  "m \<noteq> IDLE \<Longrightarrow> m \<noteq> TTC \<Longrightarrow> ttc_decide b m t = (ttc_resetLoss t, False, False, TTC_NONE)"
  by (simp add: ttc_decide_def)

lemma decide_ttc:
  assumes "tp_modeControl t \<noteq> None"
  shows "(case ttc_decide b TTC (ttc_observe w TTC (ttc_gps t p) (ttc_anyLink t p) t) of
      (t', entry, exit, why) \<Rightarrow> \<not> entry \<and> (exit \<longleftrightarrow> \<not> stays_ttc w p t) \<and>
        why = ttc_exitReason (ttc_observe w TTC (ttc_gps t p) (ttc_anyLink t p) t))"
  using assms by (simp add: ttc_decide_def Let_def exitReason_none)

lemma handler_unfold:
  assumes "tp_modeControl t = Some mc"
  shows "ttc_schedIn_handler w p t e a =
    (let m = mc_getModeForRuntime mc e;
         (t2, entry, exit, why) = ttc_decide (ts_ttcActive (tp_status t)) m
           (ttc_observe w m (ttc_gps t p) (ttc_anyLink t p) t)
     in if entry then
          (let t3 = t2\<lparr>tp_status := (tp_status t2)\<lparr>ts_currentMode := TTC, ts_ttcActive := True\<rparr>\<rparr>;
               (ok, a') = (case tp_adcsControl t of None \<Rightarrow> (True, a) | Some request \<Rightarrow> request a)
           in (t3, mc_applyModeForInternalSource mc TTC TtcPassPolicy e, a',
               (if ok then [] else [TTC_POLICY_ADCS_POINTING_REQUEST_FAILED]) @
               TTC_POLICY_ENTRY_REQUEST (ttcReason_code why) #
               publishChangeDrivenStatus (tp_status t) (tp_status t3)))
        else if exit then
          (let t3 = ttc_resetLoss (t2\<lparr>tp_status := (tp_status t2)\<lparr>ts_currentMode := IDLE, ts_ttcActive := False\<rparr>\<rparr>)
           in (t3, mc_applyModeForInternalSource mc IDLE TtcPassPolicy e, a,
               TTC_POLICY_EXIT_REQUEST (ttcReason_code why) #
               publishChangeDrivenStatus (tp_status t) (tp_status t3)))
        else (t2, e, a, publishChangeDrivenStatus (tp_status t) (tp_status t2)))"
  unfolding ttc_schedIn_handler_def ttc_gps_def ttc_anyLink_def Let_def assms option.case option.sel ..

text \<open>The mode a tick leaves behind, and the manager fields that carry over to the next tick.\<close>

definition tick_mode :: "u32 \<Rightarrow> 'p \<Rightarrow> ('e, 'p, 'a) ttcPassManager \<Rightarrow> satMode \<Rightarrow> satMode" where
  "tick_mode w p t m =
     (if m = IDLE \<and> enters_ttc w p t then TTC
      else if m = TTC \<and> \<not> stays_ttc w p t then IDLE else m)"

context mode_control
begin

lemma tick_mode_correct:
  assumes "tp_modeControl t = Some mc" and "ttc_schedIn_handler w p t e a = (t', e', a', out)"
  shows "mc_getModeForRuntime mc e' = tick_mode w p t (mc_getModeForRuntime mc e)"
proof -
  let ?m = "mc_getModeForRuntime mc e" and ?b = "ts_ttcActive (tp_status t)"
  consider "?m = IDLE" | "?m = TTC" | "?m \<noteq> IDLE" "?m \<noteq> TTC" by blast
  then show ?thesis
  proof cases
    case 1
    then show ?thesis
      using assms decide_idle [of t, where b = ?b and w = w and p = p and l = "ttc_anyLink t p"]
      by (auto simp: handler_unfold Let_def split_beta tick_mode_def enters_ttc_def get_apply split: if_splits)
  next
    case 2
    then show ?thesis
      using assms decide_ttc [of t, where b = ?b and w = w and p = p]
      by (auto simp: handler_unfold Let_def split_beta tick_mode_def get_apply split: if_splits)
  next
    case 3
    then show ?thesis
      using assms by (auto simp: handler_unfold Let_def decide_other tick_mode_def)
  qed
qed

end

lemma modeManager_get:
  "mc_getModeForRuntime (modeManager_control now) w = mm_currentMode (fst w)"
  by (simp add: modeManager_control_def getModeForRuntime_def split_beta)

text \<open>C32: The pass manager changes the mode only between IDLE and TTC. From IDLE a tick of
  \<open>TtcPassManager::schedIn_handler\<close> enters TTC exactly when the policy is enabled, the GPS time is
  valid and inside the configured pass window, the previous tick did not end in TTC, and the
  window is not suppressed. From TTC it returns to IDLE exactly when the policy is disabled, the
  GPS time is invalid or outside the window, or the links have been lost for longer than the
  timeout. In every other mode it changes nothing.\<close>

theorem ttc_tick_mode:
  assumes "tp_modeControl t = Some (modeManager_control now)"
    and "ttc_schedIn_handler w p t (mm, outs) a = (t', (mm', outs'), a', out)"
  shows "(mm_currentMode mm = IDLE \<longrightarrow>
      mm_currentMode mm' = (if tc_enabled (tp_config t) \<and> in_window w p t \<and>
        \<not> ts_ttcActive (tp_status t) \<and> \<not> windowsEqual (tp_window t) (tp_suppressedWindow t) then TTC else IDLE)) \<and>
    (mm_currentMode mm = TTC \<longrightarrow>
      mm_currentMode mm' = (if \<not> tc_enabled (tp_config t) \<or> \<not> in_window w p t \<or>
        0 < tc_lossOfLockTimeoutSec (tp_config t) \<and> tc_lossOfLockTimeoutSec (tp_config t) < loss_timer w p t
        then IDLE else TTC)) \<and>
    (mm_currentMode mm \<notin> {IDLE, TTC} \<longrightarrow> mm_currentMode mm' = mm_currentMode mm)"
  using mm.tick_mode_correct [OF assms]
  by (auto simp: modeManager_get tick_mode_def enters_ttc_def stays_ttc_def suppressed_def word_neq_0_conv
      not_less)

section \<open>Suppression after an early exit\<close>

fun ttc_ticks :: "('e, 'p, 'a) ttcPassManager \<Rightarrow> (u32 \<times> 'p) list \<Rightarrow> 'e \<Rightarrow> 'a \<Rightarrow>
    ('e, 'p, 'a) ttcPassManager \<times> 'e \<times> 'a \<times> ttcOut list" where
  "ttc_ticks t [] e a = (t, e, a, [])"
| "ttc_ticks t ((w, p) # ps) e a =
     (let (t1, e1, a1, out1) = ttc_schedIn_handler w p t e a; (t2, e2, a2, out2) = ttc_ticks t1 ps e1 a1
      in (t2, e2, a2, out1 @ out2))"

text \<open>Every tick of a run finds the GPS time valid and inside the pass window.\<close>

fun always_in_window :: "('e, 'p, 'a) ttcPassManager \<Rightarrow> (u32 \<times> 'p) list \<Rightarrow> 'e \<Rightarrow> 'a \<Rightarrow> bool" where
  "always_in_window t [] e a \<longleftrightarrow> True"
| "always_in_window t ((w, p) # ps) e a \<longleftrightarrow> in_window w p t \<and>
     (case ttc_schedIn_handler w p t e a of (t1, e1, a1, out) \<Rightarrow> always_in_window t1 ps e1 a1)"

context mode_control
begin

lemma suppressed_tick:
  assumes mc: "tp_modeControl t = Some mc" and idle: "mc_getModeForRuntime mc e = IDLE"
    and win: "in_window w p t" and sup: "ts_ttcActive (tp_status t) \<or> suppressed t"
    and step: "ttc_schedIn_handler w p t e a = (t', e', a', out)"
  shows "tp_modeControl t' = Some mc \<and> mc_getModeForRuntime mc e' = IDLE \<and> suppressed t'"
proof -
  let ?b = "ts_ttcActive (tp_status t)"
  let ?o = "ttc_observe w IDLE (ttc_gps t p) (ttc_anyLink t p) t"
  have "mc_getModeForRuntime mc e' = IDLE"
    using tick_mode_correct [OF mc step] idle sup by (auto simp: tick_mode_def enters_ttc_def)
  then show ?thesis
    using step idle win sup decide_keeps [where b = ?b and m = IDLE and t = ?o] mc
      decide_idle [of t, where b = ?b and w = w and p = p and l = "ttc_anyLink t p"]
    by (auto simp: handler_unfold [OF mc] Let_def split_beta suppressed_def split: if_splits)
qed

lemma suppressed_run:
  assumes "tp_modeControl t = Some mc" "mc_getModeForRuntime mc e = IDLE"
    and "always_in_window t ps e a" "ts_ttcActive (tp_status t) \<or> suppressed t"
  shows "mc_getModeForRuntime mc (fst (snd (ttc_ticks t ps e a))) = IDLE"
  using assms
proof (induction ps arbitrary: t e a)
  case (Cons q ps)
  obtain w p where q: "q = (w, p)" by (cases q)
  obtain t1 e1 a1 out1 where step: "ttc_schedIn_handler w p t e a = (t1, e1, a1, out1)"
    by (metis prod_cases4)
  have "tp_modeControl t1 = Some mc \<and> mc_getModeForRuntime mc e1 = IDLE \<and> suppressed t1"
    using Cons.prems by (intro suppressed_tick [OF _ _ _ _ step]) (auto simp: q)
  then show ?case
    using Cons.IH [of t1 e1 a1] Cons.prems step by (simp add: q split_beta)
qed simp

end

text \<open>C33: Leaving TTC early is respected for the rest of the pass. If the previous tick ended in TTC and
  the mode is now IDLE (an operator left TTC), then no later tick enters TTC again as long as every
  tick finds the GPS time valid and inside the same window.\<close>

theorem no_reentry_within_window:
  assumes "tp_modeControl t = Some (modeManager_control now)" "ts_ttcActive (tp_status t)"
    and "mm_currentMode mm = IDLE" "always_in_window t ps (mm, outs) a"
  shows "mm_currentMode (fst (fst (snd (ttc_ticks t ps (mm, outs) a)))) = IDLE"
  using mm.suppressed_run [OF assms(1) _ assms(4)] assms(2,3) by (simp add: modeManager_get)

definition demoGps :: "u32 \<Rightarrow> u32 \<Rightarrow> gpsStateData" where
  "demoGps sod n = \<lparr>gps_hasSample = True, gps_fixValid = True, gps_utcSecondsOfDay = sod,
     gps_utcDateYmd = 20260115, gps_acceptedSentenceCount = n\<rparr>"

text \<open>A manager wired to the mode manager, with a pass on 15 January 2026 from 00:00:10 to 00:10:00.\<close>

definition demoTtc :: "bool \<Rightarrow> (unit modeManager \<times> mmOut list, gpsStateData option \<times> bool, unit) ttcPassManager" where
  "demoTtc wasTtc =
     (let t = ttc_configureRuntime (Some (modeManager_control 0)) (Some fst)
                (Some (\<lambda>p. \<lparr>sbandAvailable = snd p, uhfAvailable = False\<rparr>)) None ttcPassManager_init;
          t1 = fst (snd (setPolicyForRuntime True 30 t));
          t2 = fst (snd (setPassWindowForRuntime 1768435210 1768435800 t1))
      in t2\<lparr>tp_status := (tp_status t2)\<lparr>ts_ttcActive := wasTtc\<rparr>\<rparr>)"

definition demoMm :: "satMode \<Rightarrow> unit modeManager" where
  "demoMm m = modeManager_init 0\<lparr>mm_currentMode := m\<rparr>"

lemma demoTtc_fields [simp]:
  "tp_modeControl (demoTtc b) = Some (modeManager_control 0)"
  "tp_gpsProvider (demoTtc b) = Some fst"
  "ts_ttcActive (tp_status (demoTtc b)) = b"
  "mm_currentMode (demoMm m) = m"
  by (simp_all add: demoTtc_def demoMm_def ttc_configureRuntime_def setPolicyForRuntime_def
      setPassWindowForRuntime_def isValidPassWindow_def Let_def)

theorem ttc_tick_mode_witness:
  "mm_currentMode (fst (fst (snd (ttc_schedIn_handler 100 (Some (demoGps 20 7), True) (demoTtc False)
     (demoMm IDLE, []) ())))) = TTC"
proof -
  obtain t' mm' outs' a' out where r: "ttc_schedIn_handler 100 (Some (demoGps 20 7), True) (demoTtc False)
      (demoMm IDLE, []) () = (t', (mm', outs'), a', out)"
    by (metis prod.exhaust)
  have "in_window 100 (Some (demoGps 20 7), True) (demoTtc False)"
    "tc_enabled (tp_config (demoTtc False))"
    "\<not> windowsEqual (tp_window (demoTtc False)) (tp_suppressedWindow (demoTtc False))"
    by code_simp+
  then show ?thesis
    using ttc_tick_mode [OF _ r, of 0] by (simp add: r)
qed

theorem no_reentry_within_window_witness:
  "mm_currentMode (fst (fst (snd (ttc_ticks (demoTtc True)
     [(100, Some (demoGps 20 7), True), (101, Some (demoGps 21 8), True)] (demoMm IDLE, []) ())))) = IDLE"
proof -
  have "always_in_window (demoTtc True)
     [(100, Some (demoGps 20 7), True), (101, Some (demoGps 21 8), True)] (demoMm IDLE, []) ()"
    by code_simp
  then show ?thesis
    by (intro no_reentry_within_window) simp_all
qed

section \<open>Loss of lock\<close>

lemma running_timer:
  assumes "cl_active l" "noLinkStartWallclockSec l \<le> w"
  shows "updateLossOfLockTimer l w True False = (w - noLinkStartWallclockSec l, l)"
  using assms by (simp add: updateLossOfLockTimer_def Let_def word_order.extremum_unique flip: not_le)

text \<open>The links are lost and the timer has been running since \<open>w0\<close>.\<close>

definition counting :: "u32 \<Rightarrow> ('e, 'p, 'a) ttcPassManager \<Rightarrow> bool" where
  "counting w0 t \<longleftrightarrow> cl_active (tp_commLoss t) \<and> noLinkStartWallclockSec (tp_commLoss t) = w0 \<and>
     tc_enabled (tp_config t) \<and> 0 < tc_lossOfLockTimeoutSec (tp_config t)"

lemma counting_stays:
  assumes "counting w0 t" "in_window w p t" "\<not> ttc_anyLink t p" "w0 \<le> w"
  shows "stays_ttc w p t \<longleftrightarrow> w - w0 \<le> tc_lossOfLockTimeoutSec (tp_config t)"
    and "\<not> stays_ttc w p t \<Longrightarrow>
      ttc_exitReason (ttc_observe w TTC (ttc_gps t p) (ttc_anyLink t p) t) = COMM_LOSS_TIMEOUT"
  using assms running_timer [of "tp_commLoss t" w] in_window_valid [OF assms(2)]
  by (auto simp: counting_def stays_ttc_def loss_timer_def ttc_exitReason_def Let_def not_le)

context mode_control
begin

lemma counting_tick:
  assumes mc: "tp_modeControl t = Some mc" and ttc: "mc_getModeForRuntime mc e = TTC"
    and cnt: "counting w0 t" and win: "in_window w p t" and link: "\<not> ttc_anyLink t p" and w: "w0 \<le> w"
    and step: "ttc_schedIn_handler w p t e a = (t', e', a', out)"
  shows "if w - w0 \<le> tc_lossOfLockTimeoutSec (tp_config t)
    then tp_modeControl t' = Some mc \<and> mc_getModeForRuntime mc e' = TTC \<and> counting w0 t' \<and>
      tp_config t' = tp_config t \<and> tp_commProvider t' = tp_commProvider t
    else mc_getModeForRuntime mc e' = IDLE \<and> suppressed t' \<and>
      ts_lastExitReason (tp_status t') = COMM_LOSS_TIMEOUT \<and> TTC_POLICY_EXIT_REQUEST 6 \<in> set out"
proof -
  let ?o = "ttc_observe w TTC (ttc_gps t p) (ttc_anyLink t p) t"
  note stays = counting_stays [OF cnt win link w]
  have loss: "snd (updateLossOfLockTimer (tp_commLoss t) w True False) = tp_commLoss t"
    using cnt w running_timer [of "tp_commLoss t" w] by (simp add: counting_def)
  have mode: "mc_getModeForRuntime mc e' = (if stays_ttc w p t then TTC else IDLE)"
    using tick_mode_correct [OF mc step] ttc by (simp add: tick_mode_def)
  show ?thesis
  proof (cases "stays_ttc w p t")
    case True
    then have "ttc_exitReason ?o = TTC_NONE"
      by (simp add: exitReason_none)
    then show ?thesis
      using True step mc ttc stays(1) mode cnt link loss
      by (auto simp: handler_unfold [OF mc] Let_def ttc_decide_def counting_def)
  next
    case False
    then show ?thesis
      using step mc ttc stays mode win
      by (auto simp: handler_unfold [OF mc] Let_def ttc_decide_def suppressed_def)
  qed
qed

lemma counting_run:
  assumes "tp_modeControl t = Some mc" "mc_getModeForRuntime mc e = TTC" "counting w0 t"
    and "always_in_window t ps e a"
    and "\<forall>(w, p)\<in>set ps. \<not> ttc_anyLink t p \<and> w0 \<le> w \<and> w - w0 \<le> tc_lossOfLockTimeoutSec (tp_config t)"
  shows "case ttc_ticks t ps e a of (t', e', a', out) \<Rightarrow>
    tp_modeControl t' = Some mc \<and> mc_getModeForRuntime mc e' = TTC \<and> counting w0 t' \<and>
    tp_config t' = tp_config t \<and> tp_commProvider t' = tp_commProvider t"
  using assms
proof (induction ps arbitrary: t e a)
  case (Cons q ps)
  obtain w p where q: "q = (w, p)" by (cases q)
  obtain t1 e1 a1 out1 where step: "ttc_schedIn_handler w p t e a = (t1, e1, a1, out1)"
    by (metis prod_cases4)
  have t1: "tp_modeControl t1 = Some mc \<and> mc_getModeForRuntime mc e1 = TTC \<and> counting w0 t1 \<and>
      tp_config t1 = tp_config t \<and> tp_commProvider t1 = tp_commProvider t"
    using counting_tick [OF Cons.prems(1-3) _ _ _ step] Cons.prems(4,5) by (auto simp: q)
  then have "ttc_anyLink t1 = ttc_anyLink t"
    by (simp add: ttc_anyLink_def fun_eq_iff)
  then show ?case
    using Cons.IH [of t1 e1 a1] Cons.prems(4,5) step t1 by (auto simp: q split_beta)
qed simp

end

lemma always_in_window_append:
  "always_in_window t (ps @ qs) e a \<longleftrightarrow> always_in_window t ps e a \<and>
     (case ttc_ticks t ps e a of (t1, e1, a1, out) \<Rightarrow> always_in_window t1 qs e1 a1)"
proof (induction ps arbitrary: t e a)
  case (Cons q ps)
  then show ?case by (cases q) (simp add: split_beta)
qed simp

text \<open>C14: The loss-of-lock timeout is exact. While the satellite is in TTC inside the pass window with no
  link since wall-clock second \<open>w0\<close>, every tick within the timeout keeps TTC, and the first tick
  more than the timeout after \<open>w0\<close> returns to IDLE, reports reason code 6 and suppresses the
  window.\<close>

theorem comm_loss_ends_pass:
  assumes mc: "tp_modeControl t = Some (modeManager_control now)" and ttc: "mm_currentMode mm = TTC"
    and cnt: "counting w0 t" and win: "always_in_window t (ps @ [(w, p)]) (mm, outs) a"
    and early: "\<forall>(v, q)\<in>set ps. \<not> ttc_anyLink t q \<and> w0 \<le> v \<and> v - w0 \<le> tc_lossOfLockTimeoutSec (tp_config t)"
    and late: "\<not> ttc_anyLink t p" "w0 \<le> w" "tc_lossOfLockTimeoutSec (tp_config t) < w - w0"
    and run: "ttc_ticks t ps (mm, outs) a = (t1, (mm1, outs1), a1, out1)"
    and last: "ttc_schedIn_handler w p t1 (mm1, outs1) a1 = (t2, (mm2, outs2), a2, out2)"
  shows "mm_currentMode mm1 = TTC \<and> mm_currentMode mm2 = IDLE \<and>
    windowsEqual (tp_window t2) (tp_suppressedWindow t2) \<and> TTC_POLICY_EXIT_REQUEST 6 \<in> set out2"
proof -
  have pre: "always_in_window t ps (mm, outs) a" "in_window w p t1"
    using win run by (simp_all add: always_in_window_append)
  have 1: "tp_modeControl t1 = Some (modeManager_control now) \<and> mm_currentMode mm1 = TTC \<and> counting w0 t1 \<and>
      tp_config t1 = tp_config t \<and> tp_commProvider t1 = tp_commProvider t"
    using mm.counting_run [OF mc _ cnt pre(1) early] ttc run by (simp add: modeManager_get)
  then have "\<not> ttc_anyLink t1 p" "\<not> w - w0 \<le> tc_lossOfLockTimeoutSec (tp_config t1)"
    using late by (simp_all add: ttc_anyLink_def)
  with 1 show ?thesis
    using mm.counting_tick [of t1 now "(mm1, outs1)" w0 w p a1 t2 "(mm2, outs2)" a2 out2] pre(2) late last
    by (simp add: modeManager_get suppressed_def)
qed

definition demoLoss :: "(unit modeManager \<times> mmOut list, gpsStateData option \<times> bool, unit) ttcPassManager" where
  "demoLoss = (demoTtc True)\<lparr>tp_commLoss := \<lparr>cl_active = True, noLinkStartWallclockSec = 100\<rparr>\<rparr>"

theorem comm_loss_ends_pass_witness:
  "\<exists>t1 mm1 outs1 a1 out1 t2 mm2 outs2 a2 out2.
     ttc_ticks demoLoss [(110, Some (demoGps 20 7), False), (130, Some (demoGps 40 8), False)]
       (demoMm TTC, []) () = (t1, (mm1, outs1), a1, out1) \<and>
     ttc_schedIn_handler 131 (Some (demoGps 41 9), False) t1 (mm1, outs1) a1 = (t2, (mm2, outs2), a2, out2) \<and>
     mm_currentMode mm1 = TTC \<and> mm_currentMode mm2 = IDLE"
proof -
  let ?ps = "[(110, Some (demoGps 20 7), False), (130, Some (demoGps 40 8), False)]"
  obtain t1 mm1 outs1 a1 out1 where 1: "ttc_ticks demoLoss ?ps (demoMm TTC, []) () = (t1, (mm1, outs1), a1, out1)"
    by (metis prod.exhaust)
  obtain t2 mm2 outs2 a2 out2 where
    2: "ttc_schedIn_handler 131 (Some (demoGps 41 9), False) t1 (mm1, outs1) a1 = (t2, (mm2, outs2), a2, out2)"
    by (metis prod.exhaust)
  have "always_in_window demoLoss (?ps @ [(131, Some (demoGps 41 9), False)]) (demoMm TTC, []) ()"
    "counting 100 demoLoss"
    "\<forall>(v, q)\<in>set ?ps. \<not> ttc_anyLink demoLoss q \<and> 100 \<le> v \<and> v - 100 \<le> tc_lossOfLockTimeoutSec (tp_config demoLoss)"
    "\<not> ttc_anyLink demoLoss (Some (demoGps 41 9), False)"
    "tc_lossOfLockTimeoutSec (tp_config demoLoss) < 131 - 100"
    by code_simp+
  then have "mm_currentMode mm1 = TTC \<and> mm_currentMode mm2 = IDLE \<and>
    windowsEqual (tp_window t2) (tp_suppressedWindow t2) \<and> TTC_POLICY_EXIT_REQUEST 6 \<in> set out2"
    by (intro comm_loss_ends_pass [OF _ _ _ _ _ _ _ _ 1 2, where now = 0 and ?w0.0 = 100])
      (simp_all add: demoLoss_def)
  then show ?thesis
    using 1 2 by blast
qed

text \<open>C36: A gap in GPS time lifts the suppression. When the pass window is suppressed and one tick finds
  no valid GPS time, the next tick that finds the time inside the same window enters TTC again:
  the suppression of an early exit does not last until the window changes or ends.\<close>

theorem gps_gap_lifts_suppression:
  assumes mc: "tp_modeControl t = Some (modeManager_control now)" and idle: "mm_currentMode mm = IDLE"
    and en: "tc_enabled (tp_config t)" and gap: "ttc_time w p t = None"
    and step: "ttc_schedIn_handler w p t (mm, outs) a = (t1, (mm1, outs1), a1, out1)"
    and again: "in_window w' p' t1"
    and step': "ttc_schedIn_handler w' p' t1 (mm1, outs1) a1 = (t2, (mm2, outs2), a2, out2)"
  shows "mm_currentMode mm1 = IDLE \<and> mm_currentMode mm2 = TTC \<and> tp_window t1 = tp_window t"
proof -
  let ?o = "ttc_observe w IDLE (ttc_gps t p) (ttc_anyLink t p) t"
  let ?b = "ts_ttcActive (tp_status t)"
  have out: "\<not> in_window w p t"
    using gap by (simp add: in_window_def)
  have m1: "mm_currentMode mm1 = IDLE"
    using mm.tick_mode_correct [OF mc step] idle out by (simp add: modeManager_get tick_mode_def enters_ttc_def)
  have 1: "tp_modeControl t1 = tp_modeControl t \<and> tp_config t1 = tp_config t \<and> tp_window t1 = tp_window t \<and>
      tp_suppressedWindow t1 = clearedWindow \<and> \<not> ts_ttcActive (tp_status t1)"
    using step idle out mc decide_keeps [where b = ?b and m = IDLE and t = ?o]
      decide_idle [of t, where b = ?b and w = w and p = p and l = "ttc_anyLink t p"]
    by (auto simp: handler_unfold [OF mc] Let_def split_beta modeManager_get split: if_splits)
  have "isValidPassWindow (tp_window t1)"
    using in_window_valid [OF again] by simp
  then have "\<not> suppressed t1"
    using 1 by (simp add: suppressed_def cleared_not_valid)
  moreover have "tp_modeControl t1 = Some (modeManager_control now)"
    using 1 mc by simp
  ultimately have "mm_currentMode mm2 = TTC"
    using mm.tick_mode_correct [OF _ step'] m1 again en 1
    by (simp add: modeManager_get tick_mode_def enters_ttc_def)
  then show ?thesis
    using m1 1 by simp
qed

definition demoSuppressed :: "(unit modeManager \<times> mmOut list, gpsStateData option \<times> bool, unit) ttcPassManager" where
  "demoSuppressed = (demoTtc False)\<lparr>tp_suppressedWindow := tp_window (demoTtc False)\<rparr>"

theorem gps_gap_lifts_suppression_witness:
  "\<exists>t1 mm1 outs1 a1 out1 t2 mm2 outs2 a2 out2.
     suppressed demoSuppressed \<and> in_window 99 (Some (demoGps 20 7), True) demoSuppressed \<and>
     ttc_schedIn_handler 100 (None, True) demoSuppressed (demoMm IDLE, []) () = (t1, (mm1, outs1), a1, out1) \<and>
     ttc_schedIn_handler 101 (Some (demoGps 22 8), True) t1 (mm1, outs1) a1 = (t2, (mm2, outs2), a2, out2) \<and>
     mm_currentMode mm2 = TTC"
proof -
  obtain t1 mm1 outs1 a1 out1 where
    1: "ttc_schedIn_handler 100 (None, True) demoSuppressed (demoMm IDLE, []) () = (t1, (mm1, outs1), a1, out1)"
    by (metis prod.exhaust)
  obtain t2 mm2 outs2 a2 out2 where
    2: "ttc_schedIn_handler 101 (Some (demoGps 22 8), True) t1 (mm1, outs1) a1 = (t2, (mm2, outs2), a2, out2)"
    by (metis prod.exhaust)
  have "in_window 101 (Some (demoGps 22 8), True)
      (fst (ttc_schedIn_handler 100 (None, True) demoSuppressed (demoMm IDLE, []) ()))"
    by code_simp
  then have "in_window 101 (Some (demoGps 22 8), True) t1"
    by (simp add: 1)
  moreover have "ttc_time 100 (None, True) demoSuppressed = None" "tc_enabled (tp_config demoSuppressed)"
    "suppressed demoSuppressed" "in_window 99 (Some (demoGps 20 7), True) demoSuppressed"
    by code_simp+
  moreover have "tp_modeControl demoSuppressed = Some (modeManager_control 0)"
    by (simp add: demoSuppressed_def)
  ultimately show ?thesis
    using gps_gap_lifts_suppression [OF _ _ _ _ 1 _ 2, of 0] 1 2 by auto
qed

end
