(* ===== verification/Recovery_Runtime.thy ===== *)
theory Recovery_Runtime
  imports Core_Types
begin

text \<open>
  The interface \<open>IRecoveryRequestSink\<close> of \<open>RecoveryRuntime.hpp\<close>. Its methods return nothing, so a
  client that calls the sink is modelled by the list of calls it makes, in order; \<open>Recovery\<close> says what
  the executor behind the pointer does with each call.
\<close>

datatype recoveryRequest =
    SubmitWatchdogFault watchdogSource
  | SubmitWatchdogSuppression watchdogSource
  | ClearWatchdogFault watchdogSource
  | SubmitEpsTimeoutFault u32
  | ClearEpsTimeoutFault u32
  | SubmitAdcsPollTransportFault u32
  | ClearAdcsPollTransportFault u32
  | SubmitAdcsPollFreshnessFault u32
  | ClearAdcsPollFreshnessFault u32
  | SubmitCommPrimaryUnavailableFault u32
  | ClearCommPrimaryUnavailableFault u32
  | SubmitCommPrimaryTransportFault u32
  | ClearCommPrimaryTransportFault u32

datatype recoveryIncidentSource = WATCHDOG_EPS_BRIDGE | WATCHDOG_EPS_FDIR | WATCHDOG_MODE_SAFETY
  | WATCHDOG_COMM_CONTROLLER | EPS_TIMEOUT | WATCHDOG_ADCS_FDIR | ADCS_POLL_TRANSPORT
  | ADCS_POLL_FRESHNESS | COMM_PRIMARY_UNAVAILABLE | COMM_PRIMARY_TRANSPORT | RIS_NONE

text \<open>The incident a subsystem fault controller opens or closes with a call.\<close>

fun request_opens :: "recoveryRequest \<Rightarrow> recoveryIncidentSource option" where
  "request_opens (SubmitEpsTimeoutFault _) = Some EPS_TIMEOUT"
| "request_opens (SubmitAdcsPollTransportFault _) = Some ADCS_POLL_TRANSPORT"
| "request_opens (SubmitAdcsPollFreshnessFault _) = Some ADCS_POLL_FRESHNESS"
| "request_opens (SubmitCommPrimaryUnavailableFault _) = Some COMM_PRIMARY_UNAVAILABLE"
| "request_opens (SubmitCommPrimaryTransportFault _) = Some COMM_PRIMARY_TRANSPORT"
| "request_opens _ = None"

fun request_closes :: "recoveryRequest \<Rightarrow> recoveryIncidentSource option" where
  "request_closes (ClearEpsTimeoutFault _) = Some EPS_TIMEOUT"
| "request_closes (ClearAdcsPollTransportFault _) = Some ADCS_POLL_TRANSPORT"
| "request_closes (ClearAdcsPollFreshnessFault _) = Some ADCS_POLL_FRESHNESS"
| "request_closes (ClearCommPrimaryUnavailableFault _) = Some COMM_PRIMARY_UNAVAILABLE"
| "request_closes (ClearCommPrimaryTransportFault _) = Some COMM_PRIMARY_TRANSPORT"
| "request_closes _ = None"

text \<open>A list of calls opens one incident at a time and closes the incident that is open.\<close>

fun bracketed :: "recoveryIncidentSource option \<Rightarrow> recoveryRequest list \<Rightarrow> bool" where
  "bracketed cur [] \<longleftrightarrow> True"
| "bracketed None (r # rs) \<longleftrightarrow> (case request_opens r of None \<Rightarrow> False | Some k \<Rightarrow> bracketed (Some k) rs)"
| "bracketed (Some k) (r # rs) \<longleftrightarrow> request_closes r = Some k \<and> bracketed None rs"

text \<open>The incident that is open after a list of calls.\<close>

fun open_after :: "recoveryIncidentSource option \<Rightarrow> recoveryRequest list \<Rightarrow> recoveryIncidentSource option" where
  "open_after cur [] = cur"
| "open_after cur (r # rs) = open_after (case request_opens r of Some k \<Rightarrow> Some k
     | None \<Rightarrow> if request_closes r \<noteq> None then None else cur) rs"

text \<open>
  The contract of a fault controller: a cycle keeps the latch and calls nothing, or latches a
  source and opens its incident, or releases the latch and closes the incident of the source that
  was latched.
\<close>

locale fault_latch =
  fixes latched :: "'s \<Rightarrow> recoveryIncidentSource option"
    and cycle :: "'i \<Rightarrow> 's \<Rightarrow> 's \<times> recoveryRequest list"
    and ok :: "'s \<Rightarrow> bool"
  assumes ok_cycle: "ok s \<Longrightarrow> ok (fst (cycle i s))"
    and cycle_calls: "ok s \<Longrightarrow> cycle i s = (s', rs) \<Longrightarrow>
      rs = [] \<and> latched s' = latched s \<or>
      (\<exists>r k. rs = [r] \<and> latched s = None \<and> request_opens r = Some k \<and> latched s' = Some k) \<or>
      (\<exists>r k. rs = [r] \<and> latched s = Some k \<and> request_opens r = None \<and> request_closes r = Some k \<and> latched s' = None)"
begin

fun cycles :: "'i list \<Rightarrow> 's \<Rightarrow> 's \<times> recoveryRequest list" where
  "cycles [] s = (s, [])"
| "cycles (i # is) s = (let (s1, rs1) = cycle i s; (s2, rs2) = cycles is s1 in (s2, rs1 @ rs2))"

lemma cycles_bracketed:
  "ok s \<Longrightarrow> bracketed (latched s) (snd (cycles is s)) \<and>
     open_after (latched s) (snd (cycles is s)) = latched (fst (cycles is s))"
proof (induction "is" arbitrary: s)
  case (Cons i js)
  obtain s1 rs1 where step: "cycle i s = (s1, rs1)"
    by (metis prod.exhaust)
  have "ok s1"
    using ok_cycle [OF Cons.prems, of i] step by simp
  with Cons.IH have IH: "bracketed (latched s1) (snd (cycles js s1))"
    "open_after (latched s1) (snd (cycles js s1)) = latched (fst (cycles js s1))"
    by auto
  from cycle_calls [OF Cons.prems step] show ?case
    using IH step by (elim disjE exE conjE) (simp_all add: split_beta)
qed simp

end

end
