(* ===== verification/Watchdog.thy ===== *)
theory Watchdog
  imports Mode_Runtime Recovery_Runtime
begin

text \<open>
  \<open>WatchdogPolicy\<close> and \<open>WatchdogSupervisor\<close>: liveness supervision of five sources by missed beats,
  the decision whether the hardware watchdog is fed, and the resource monitor. The fixed size
  arrays of the code are lists whose length the invariant fixes. Every handler runs as one step
  (the mutex is not modelled); its events, telemetry writes, port calls and calls of the recovery
  sink are the returned output list. A raw enumerator the code tests with \<open>isValid\<close> is an option.
\<close>

section \<open>Policy\<close>

datatype watchdogState = WS_DISABLED | WS_HEALTHY | WS_WARNING | WS_LATCHED_FAULT | WS_FEED_SUPPRESSED

datatype watchdogRecoveryLevel = WL_NONE | WL_WARNING | WL_LATCHED_FAULT | WL_SAFE_REQUESTED
  | WL_FEED_SUPPRESSED

datatype healthItem = CPU_USAGE | MEM_RSS_MB | CSP_FREE_BUFFERS

record watchdogSourceConfig =
  wc_enabled :: bool
  warningTicks :: u32
  safeTicks :: u32
  suppressTicks :: u32

record watchdogSourceSnapshot =
  ws_source :: watchdogSource
  ws_state :: watchdogState
  ws_config :: watchdogSourceConfig
  ageTicks :: u32
  beatPending :: bool
  probeSuppressed :: bool
  lastBeatCode :: u32
  warningCount :: u32
  faultCount :: u32
  suppressionCount :: u32
  recoveryCount :: u32

record watchdogAggregateRollup =
  ru_aggregateState :: watchdogState
  ru_recoveryLevel :: watchdogRecoveryLevel
  ru_feedEligible :: bool
  ru_warningMask :: u32
  ru_faultMask :: u32
  ru_suppressMask :: u32

record watchdogSourceEvaluation =
  nextAgeTicks :: u32
  nextState :: watchdogState
  crossedWarning :: bool
  crossedFault :: bool
  crossedSuppression :: bool
  recovered :: bool
  shouldRequestSafe :: bool

definition watchdogSourceIndex :: "watchdogSource \<Rightarrow> nat" where
  "watchdogSourceIndex source = unat (watchdogSource_code source)"

fun watchdogSourceFromIndex :: "nat \<Rightarrow> watchdogSource" where
  "watchdogSourceFromIndex portNum =
     (if portNum = 0 then EPS_BRIDGE else if portNum = 1 then EPS_FDIR
      else if portNum = 2 then MODE_SAFETY else if portNum = 3 then COMM_CONTROLLER else ADCS_FDIR)"

definition watchdogSourceMask :: "watchdogSource \<Rightarrow> u32" where
  "watchdogSourceMask source = push_bit (watchdogSourceIndex source) 1"

fun stateSeverity :: "watchdogState \<Rightarrow> u32" where
  "stateSeverity WS_DISABLED = 0"
| "stateSeverity WS_HEALTHY = 1"
| "stateSeverity WS_WARNING = 2"
| "stateSeverity WS_LATCHED_FAULT = 3"
| "stateSeverity WS_FEED_SUPPRESSED = 4"

definition defaultWatchdogConfig :: watchdogSourceConfig where
  "defaultWatchdogConfig = \<lparr>wc_enabled = True, warningTicks = 2, safeTicks = 3, suppressTicks = 5\<rparr>"

definition isValidConfig :: "watchdogSourceConfig \<Rightarrow> bool" where
  "isValidConfig config \<longleftrightarrow> warningTicks config > 0 \<and> warningTicks config \<le> safeTicks config \<and>
     safeTicks config \<le> suppressTicks config"

definition shouldRequestSafeForMode :: "satMode \<Rightarrow> bool" where
  "shouldRequestSafeForMode mode \<longleftrightarrow> mode = IDLE \<or> mode = PAYLOAD \<or> mode = TTC"

definition stateForAge :: "watchdogSourceConfig \<Rightarrow> u32 \<Rightarrow> watchdogState" where
  "stateForAge config age =
     (if \<not> wc_enabled config then WS_DISABLED
      else if age \<ge> suppressTicks config then WS_FEED_SUPPRESSED
      else if age \<ge> safeTicks config then WS_LATCHED_FAULT
      else if age \<ge> warningTicks config then WS_WARNING
      else WS_HEALTHY)"

definition evaluateSource ::
    "watchdogSourceConfig \<Rightarrow> watchdogSourceSnapshot \<Rightarrow> bool \<Rightarrow> satMode \<Rightarrow> watchdogSourceEvaluation" where
  "evaluateSource config current beatObserved currentMode =
     (if \<not> wc_enabled config then
        \<lparr>nextAgeTicks = 0, nextState = WS_DISABLED, crossedWarning = False, crossedFault = False,
         crossedSuppression = False,
         recovered = (stateSeverity (ws_state current) > stateSeverity WS_HEALTHY),
         shouldRequestSafe = False\<rparr>
      else
        let age = (if beatObserved then 0 else sat_inc (ageTicks current));
            st = stateForAge config age;
            fault = (\<not> beatObserved \<and> stateSeverity (ws_state current) < stateSeverity WS_LATCHED_FAULT \<and>
                     stateSeverity st \<ge> stateSeverity WS_LATCHED_FAULT)
        in \<lparr>nextAgeTicks = age, nextState = st,
            crossedWarning = (\<not> beatObserved \<and> stateSeverity (ws_state current) < stateSeverity WS_WARNING \<and>
              stateSeverity st \<ge> stateSeverity WS_WARNING),
            crossedFault = fault,
            crossedSuppression = (\<not> beatObserved \<and> ws_state current \<noteq> WS_FEED_SUPPRESSED \<and>
              st = WS_FEED_SUPPRESSED),
            recovered = (beatObserved \<and> stateSeverity (ws_state current) > stateSeverity WS_HEALTHY),
            shouldRequestSafe = (fault \<and> shouldRequestSafeForMode currentMode)\<rparr>)"

text \<open>The loop of \<open>rollup\<close>: a source that is disabled is skipped.\<close>

definition rollupSkips :: "watchdogSourceSnapshot \<Rightarrow> bool" where
  "rollupSkips s \<longleftrightarrow> ws_state s = WS_DISABLED \<or> \<not> wc_enabled (ws_config s)"

fun rollupMask :: "watchdogState set \<Rightarrow> watchdogSourceSnapshot list \<Rightarrow> u32 \<Rightarrow> u32" where
  "rollupMask states [] acc = acc"
| "rollupMask states (s # ss) acc =
     rollupMask states ss
       (if \<not> rollupSkips s \<and> ws_state s \<in> states then acc OR watchdogSourceMask (ws_source s) else acc)"

definition rollup :: "watchdogSourceSnapshot list \<Rightarrow> bool \<Rightarrow> watchdogAggregateRollup" where
  "rollup sources safeRequestIssued =
     (let anyEnabled = list_ex (\<lambda>s. \<not> rollupSkips s) sources;
          warningMask = rollupMask {WS_WARNING} sources 0;
          faultMask = rollupMask {WS_LATCHED_FAULT, WS_FEED_SUPPRESSED} sources 0;
          suppressMask = rollupMask {WS_FEED_SUPPRESSED} sources 0;
          result = (\<lambda>st lvl feed. \<lparr>ru_aggregateState = st, ru_recoveryLevel = lvl, ru_feedEligible = feed,
            ru_warningMask = warningMask, ru_faultMask = faultMask, ru_suppressMask = suppressMask\<rparr>)
      in if \<not> anyEnabled then result WS_DISABLED WL_NONE False
         else if suppressMask \<noteq> 0 then result WS_FEED_SUPPRESSED WL_FEED_SUPPRESSED False
         else if faultMask \<noteq> 0 then
           result WS_LATCHED_FAULT (if safeRequestIssued then WL_SAFE_REQUESTED else WL_LATCHED_FAULT) True
         else if warningMask \<noteq> 0 then result WS_WARNING WL_WARNING True
         else result WS_HEALTHY WL_NONE True)"

section \<open>Supervisor\<close>

record watchdogRuntimeSnapshot =
  aggregateState :: watchdogState
  recoveryLevel :: watchdogRecoveryLevel
  feedEligible :: bool
  warningMask :: u32
  faultMask :: u32
  suppressMask :: u32
  evaluationCount :: u32
  safeRequestCount :: u32
  feedSuppressCount :: u32
  feedStrokeAttemptCount :: u32
  aggregateRecoveryCount :: u32
  wd_sources :: "watchdogSourceSnapshot list"

record 'e watchdogSupervisor =
  wd_modeControl :: "'e modeControl option"
  wd_recoverySink :: bool
  wd_resourceMonitoringEnabled :: bool
  wd_resourceThresholds :: "f32 list"
  wd_resourceThresholdExceeded :: "bool list"
  wd_status :: watchdogRuntimeSnapshot
  wd_safeRequestIssued :: bool

datatype wdChannel = CH_AGGREGATE_STATE | CH_RECOVERY_LEVEL | CH_FEED_ELIGIBLE | CH_WARNING_MASK
  | CH_FAULT_MASK | CH_SUPPRESS_MASK | CH_SAFE_REQUEST_TOTAL | CH_FEED_SUPPRESS_TOTAL
  | CH_FEED_STROKE_ATTEMPT_TOTAL | CH_AGGREGATE_RECOVERY_TOTAL
  | CH_SOURCE_STATE watchdogSource | CH_SOURCE_AGE_TICKS watchdogSource

datatype wdValue = WV_State watchdogState | WV_Level watchdogRecoveryLevel | WV_Bool bool | WV_U32 u32

datatype wdOut = HEALTH_CHECKING_SET bool
  | HEALTH_THRESHOLD_UPDATED healthItem f32
  | Tlm_SYS_CPU_USAGE f32
  | Tlm_SYS_MEM_RSS_MB f32
  | SYS_RESOURCE_DEGRADED healthItem f32 f32
  | SYS_LOW_MEMORY f32 f32
  | WATCHDOG_CONFIG_UPDATED watchdogSource bool u32 u32 u32
  | WATCHDOG_PROBE_SUPPRESSION_UPDATED watchdogSource bool
  | WATCHDOG_SOURCE_WARNING watchdogSource u32 u32
  | WATCHDOG_SOURCE_FAULT_ENTERED watchdogSource u32 satMode bool
  | WATCHDOG_SOURCE_FEED_SUPPRESSED watchdogSource u32 u32
  | WATCHDOG_SOURCE_RECOVERED watchdogSource watchdogState
  | WATCHDOG_FEED_ELIGIBILITY_CHANGED bool u32 u32 watchdogRecoveryLevel
  | WATCHDOG_STATUS watchdogState watchdogRecoveryLevel bool u32 u32 u32
  | WATCHDOG_SOURCE_STATUS watchdogSource bool watchdogState u32 u32 u32 u32
  | WdTlm wdChannel wdValue
  | WdSink recoveryRequest
  | WatchdogFeed u32
  | WdCmdResponse u32 u32 cmdResponse

definition WATCHDOG_FEED_CODE :: u32 where "WATCHDOG_FEED_CODE = 0x57444731"

definition hasActiveAggregateFault :: "watchdogState \<Rightarrow> bool" where
  "hasActiveAggregateFault state \<longleftrightarrow> state = WS_LATCHED_FAULT \<or> state = WS_FEED_SUPPRESSED"

definition applyAggregateRollup ::
    "watchdogAggregateRollup \<Rightarrow> watchdogRuntimeSnapshot \<Rightarrow> watchdogRuntimeSnapshot" where
  "applyAggregateRollup r st = st\<lparr>aggregateState := ru_aggregateState r,
     recoveryLevel := ru_recoveryLevel r, feedEligible := ru_feedEligible r,
     warningMask := ru_warningMask r, faultMask := ru_faultMask r, suppressMask := ru_suppressMask r\<rparr>"

definition initialSource :: "nat \<Rightarrow> watchdogSourceSnapshot" where
  "initialSource index = \<lparr>ws_source = watchdogSourceFromIndex index,
     ws_state = stateForAge defaultWatchdogConfig 0, ws_config = defaultWatchdogConfig,
     ageTicks = 0, beatPending = False, probeSuppressed = False, lastBeatCode = 0, warningCount = 0,
     faultCount = 0, suppressionCount = 0, recoveryCount = 0\<rparr>"

definition watchdogSupervisor_init :: "'e watchdogSupervisor" where
  "watchdogSupervisor_init =
     (let sources = map initialSource [0..<5];
          status = \<lparr>aggregateState = WS_HEALTHY, recoveryLevel = WL_NONE, feedEligible = True,
            warningMask = 0, faultMask = 0, suppressMask = 0, evaluationCount = 0, safeRequestCount = 0,
            feedSuppressCount = 0, feedStrokeAttemptCount = 0, aggregateRecoveryCount = 0,
            wd_sources = sources\<rparr>
      in \<lparr>wd_modeControl = None, wd_recoverySink = False, wd_resourceMonitoringEnabled = False,
          wd_resourceThresholds = [F32 80, F32 256, F32 4],
          wd_resourceThresholdExceeded = [False, False, False],
          wd_status = applyAggregateRollup (rollup sources False) status,
          wd_safeRequestIssued = False\<rparr>)"

definition wd_configureRuntime ::
    "'e modeControl option \<Rightarrow> bool \<Rightarrow> 'e watchdogSupervisor \<Rightarrow> 'e watchdogSupervisor" where
  "wd_configureRuntime modeControl recoverySink w =
     w\<lparr>wd_modeControl := modeControl, wd_recoverySink := recoverySink\<rparr>"

subsection \<open>Resource monitor\<close>

definition wd_setEnabledForRuntime :: "bool \<Rightarrow> 'e watchdogSupervisor \<Rightarrow> 'e watchdogSupervisor \<times> wdOut list" where
  "wd_setEnabledForRuntime enable w =
     (w\<lparr>wd_resourceMonitoringEnabled := enable,
        wd_resourceThresholdExceeded :=
          (if enable then wd_resourceThresholdExceeded w
           else map (\<lambda>_. False) (wd_resourceThresholdExceeded w))\<rparr>,
      [HEALTH_CHECKING_SET enable])"

fun thresholdIndex :: "healthItem \<Rightarrow> nat" where
  "thresholdIndex CPU_USAGE = 0"
| "thresholdIndex MEM_RSS_MB = 1"
| "thresholdIndex CSP_FREE_BUFFERS = 2"

definition setThresholdForRuntime :: "healthItem option \<Rightarrow> f32 \<Rightarrow> 'e watchdogSupervisor \<Rightarrow>
    cmdResponse \<times> 'e watchdogSupervisor \<times> wdOut list" where
  "setThresholdForRuntime item value w =
     (case item of None \<Rightarrow> (CMD_VALIDATION_ERROR, w, [])
      | Some it \<Rightarrow>
          (CMD_OK,
           w\<lparr>wd_resourceThresholds := (wd_resourceThresholds w)[thresholdIndex it := value],
             wd_resourceThresholdExceeded := (wd_resourceThresholdExceeded w)[thresholdIndex it := False]\<rparr>,
           [HEALTH_THRESHOLD_UPDATED it value]))"

definition updateResourceSample ::
    "f32 \<Rightarrow> f32 \<Rightarrow> 'e watchdogSupervisor \<Rightarrow> 'e watchdogSupervisor \<times> wdOut list" where
  "updateResourceSample cpuUsage memRssMb w =
     (let enabled = wd_resourceMonitoringEnabled w;
          exceeded = wd_resourceThresholdExceeded w;
          cpuIndex = thresholdIndex CPU_USAGE;
          memIndex = thresholdIndex MEM_RSS_MB;
          cpuThreshold = wd_resourceThresholds w ! cpuIndex;
          memThreshold = wd_resourceThresholds w ! memIndex;
          cpuExceeded = f32_less cpuThreshold cpuUsage;
          memExceeded = f32_less memThreshold memRssMb;
          w' = (if enabled then
                  w\<lparr>wd_resourceThresholdExceeded := exceeded[cpuIndex := cpuExceeded, memIndex := memExceeded]\<rparr>
                else w)
      in (w', [Tlm_SYS_CPU_USAGE cpuUsage, Tlm_SYS_MEM_RSS_MB memRssMb] @
            (if enabled \<and> cpuExceeded \<and> \<not> exceeded ! cpuIndex
             then [SYS_RESOURCE_DEGRADED CPU_USAGE cpuUsage cpuThreshold] else []) @
            (if enabled \<and> memExceeded \<and> \<not> exceeded ! memIndex
             then [SYS_LOW_MEMORY memRssMb memThreshold] else [])))"

subsection \<open>Source supervision\<close>

definition wd_publishTelemetry :: "watchdogRuntimeSnapshot \<Rightarrow> wdOut list" where
  "wd_publishTelemetry st =
     [WdTlm CH_AGGREGATE_STATE (WV_State (aggregateState st)),
      WdTlm CH_RECOVERY_LEVEL (WV_Level (recoveryLevel st)),
      WdTlm CH_FEED_ELIGIBLE (WV_Bool (feedEligible st)),
      WdTlm CH_WARNING_MASK (WV_U32 (warningMask st)),
      WdTlm CH_FAULT_MASK (WV_U32 (faultMask st)),
      WdTlm CH_SUPPRESS_MASK (WV_U32 (suppressMask st)),
      WdTlm CH_SAFE_REQUEST_TOTAL (WV_U32 (safeRequestCount st)),
      WdTlm CH_FEED_SUPPRESS_TOTAL (WV_U32 (feedSuppressCount st)),
      WdTlm CH_FEED_STROKE_ATTEMPT_TOTAL (WV_U32 (feedStrokeAttemptCount st)),
      WdTlm CH_AGGREGATE_RECOVERY_TOTAL (WV_U32 (aggregateRecoveryCount st))] @
     concat (map (\<lambda>src. let s = wd_sources st ! watchdogSourceIndex src
         in [WdTlm (CH_SOURCE_STATE src) (WV_State (ws_state s)),
             WdTlm (CH_SOURCE_AGE_TICKS src) (WV_U32 (ageTicks s))])
       [EPS_BRIDGE, EPS_FDIR, MODE_SAFETY, COMM_CONTROLLER, ADCS_FDIR])"

definition emitFeedEligibilityEvent :: "watchdogAggregateRollup \<Rightarrow> wdOut list" where
  "emitFeedEligibilityEvent r = [WATCHDOG_FEED_ELIGIBILITY_CHANGED (ru_feedEligible r) (ru_faultMask r)
     (ru_suppressMask r) (ru_recoveryLevel r)]"

definition rollupChanged :: "watchdogAggregateRollup \<Rightarrow> watchdogRuntimeSnapshot \<Rightarrow> bool" where
  "rollupChanged r st \<longleftrightarrow> ru_feedEligible r \<noteq> feedEligible st \<or> ru_recoveryLevel r \<noteq> recoveryLevel st \<or>
     ru_faultMask r \<noteq> faultMask st \<or> ru_suppressMask r \<noteq> suppressMask st"

definition setConfigForRuntime :: "watchdogSource option \<Rightarrow> bool \<Rightarrow> u32 \<Rightarrow> u32 \<Rightarrow> u32 \<Rightarrow>
    'e watchdogSupervisor \<Rightarrow> cmdResponse \<times> 'e watchdogSupervisor \<times> wdOut list" where
  "setConfigForRuntime source enabled warning safe suppress w =
     (case source of None \<Rightarrow> (CMD_VALIDATION_ERROR, w, [])
      | Some src \<Rightarrow>
          let config = \<lparr>wc_enabled = enabled, warningTicks = warning, safeTicks = safe, suppressTicks = suppress\<rparr>
          in if \<not> isValidConfig config then (CMD_VALIDATION_ERROR, w, [])
             else
               let status = wd_status w;
                   i = watchdogSourceIndex src;
                   s0 = wd_sources status ! i;
                   s1 = s0\<lparr>ws_config := config, ws_state := stateForAge config (ageTicks s0)\<rparr>;
                   s2 = (if \<not> enabled then s1\<lparr>ws_state := WS_DISABLED, ageTicks := 0, beatPending := False\<rparr>
                         else s1);
                   sources = (wd_sources status)[i := s2];
                   r = rollup sources (wd_safeRequestIssued w);
                   w' = w\<lparr>wd_safeRequestIssued :=
                            (hasActiveAggregateFault (ru_aggregateState r) \<and> wd_safeRequestIssued w),
                          wd_status := applyAggregateRollup r (status\<lparr>wd_sources := sources\<rparr>)\<rparr>
               in (CMD_OK, w', wd_publishTelemetry (wd_status w') @
                     [WATCHDOG_CONFIG_UPDATED src enabled warning safe suppress]))"

definition resetSourceAfterProbeSuppressionClear :: "watchdogSourceSnapshot \<Rightarrow> watchdogSourceSnapshot" where
  "resetSourceAfterProbeSuppressionClear s =
     s\<lparr>ageTicks := 0, ws_state := (if wc_enabled (ws_config s) then WS_HEALTHY else WS_DISABLED)\<rparr>"

definition setProbeBeatSuppressionForRuntime :: "watchdogSource option \<Rightarrow> bool \<Rightarrow>
    'e watchdogSupervisor \<Rightarrow> bool \<times> 'e watchdogSupervisor \<times> wdOut list" where
  "setProbeBeatSuppressionForRuntime source suppressed w =
     (case source of None \<Rightarrow> (False, w, [])
      | Some src \<Rightarrow>
          let status = wd_status w;
              i = watchdogSourceIndex src;
              s0 = wd_sources status ! i;
              wasSuppressed = (ws_state s0 = WS_FEED_SUPPRESSED);
              s1 = s0\<lparr>probeSuppressed := suppressed, beatPending := False\<rparr>;
              notifySuppression = (suppressed \<and> \<not> wasSuppressed \<and> wc_enabled (ws_config s1));
              notifyClear = (\<not> suppressed \<and> wasSuppressed);
              s2 = (if notifySuppression then
                      s1\<lparr>ageTicks := suppressTicks (ws_config s1), ws_state := WS_FEED_SUPPRESSED,
                         suppressionCount := sat_inc (suppressionCount s1)\<rparr>
                    else if notifyClear then resetSourceAfterProbeSuppressionClear s1
                    else s1);
              sources = (wd_sources status)[i := s2];
              r = rollup sources (wd_safeRequestIssued w);
              status1 = (status\<lparr>wd_sources := sources,
                feedSuppressCount :=
                  (if ru_aggregateState r = WS_FEED_SUPPRESSED \<and> aggregateState status \<noteq> WS_FEED_SUPPRESSED
                   then sat_inc (feedSuppressCount status) else feedSuppressCount status)\<rparr>);
              w' = w\<lparr>wd_safeRequestIssued :=
                       (hasActiveAggregateFault (ru_aggregateState r) \<and> wd_safeRequestIssued w),
                     wd_status := applyAggregateRollup r status1\<rparr>
          in (True, w',
              wd_publishTelemetry (wd_status w') @ [WATCHDOG_PROBE_SUPPRESSION_UPDATED src suppressed] @
              (if notifySuppression
               then [WATCHDOG_SOURCE_FEED_SUPPRESSED src (ageTicks s2) (suppressTicks (ws_config s2))] else []) @
              (if rollupChanged r status then emitFeedEligibilityEvent r else []) @
              (if \<not> wd_recoverySink w then []
               else if notifySuppression then [WdSink (SubmitWatchdogSuppression src)]
               else if notifyClear then [WdSink (ClearWatchdogFault src)]
               else [])))"

text \<open>The variables the source loop of the tick writes besides the sources.\<close>

record wdLoop =
  lp_requestSafe :: bool
  lp_safeIssued :: bool
  lp_safeRequestCount :: u32

definition wd_stepSource :: "bool \<Rightarrow> satMode \<Rightarrow> wdLoop \<Rightarrow> watchdogSourceSnapshot \<Rightarrow>
    wdLoop \<times> watchdogSourceSnapshot \<times> wdOut list" where
  "wd_stepSource sink currentMode lp s0 =
     (let beatObserved = beatPending s0;
          s = s0\<lparr>beatPending := False\<rparr>;
          ev = evaluateSource (ws_config s) s beatObserved currentMode;
          safe = (crossedFault ev \<and> \<not> lp_requestSafe lp \<and> \<not> lp_safeIssued lp \<and> shouldRequestSafe ev);
          lp' = (if safe then \<lparr>lp_requestSafe = True, lp_safeIssued = True,
                               lp_safeRequestCount = sat_inc (lp_safeRequestCount lp)\<rparr> else lp);
          s' = s\<lparr>warningCount := (if crossedWarning ev then sat_inc (warningCount s) else warningCount s),
                 faultCount := (if crossedFault ev then sat_inc (faultCount s) else faultCount s),
                 suppressionCount := (if crossedSuppression ev then sat_inc (suppressionCount s)
                                      else suppressionCount s),
                 recoveryCount := (if recovered ev then sat_inc (recoveryCount s) else recoveryCount s),
                 ageTicks := nextAgeTicks ev, ws_state := nextState ev\<rparr>
      in (lp', s',
          (if crossedWarning ev
           then [WATCHDOG_SOURCE_WARNING (ws_source s) (nextAgeTicks ev) (warningTicks (ws_config s))] else []) @
          (if crossedFault ev
           then WATCHDOG_SOURCE_FAULT_ENTERED (ws_source s) (nextAgeTicks ev) currentMode safe #
                (if sink then [WdSink (SubmitWatchdogFault (ws_source s))] else []) else []) @
          (if crossedSuppression ev
           then WATCHDOG_SOURCE_FEED_SUPPRESSED (ws_source s) (nextAgeTicks ev) (suppressTicks (ws_config s)) #
                (if sink then [WdSink (SubmitWatchdogSuppression (ws_source s))] else []) else []) @
          (if recovered ev
           then WATCHDOG_SOURCE_RECOVERED (ws_source s) (ws_state s) #
                (if sink then [WdSink (ClearWatchdogFault (ws_source s))] else []) else [])))"

fun wd_sourceLoop :: "bool \<Rightarrow> satMode \<Rightarrow> wdLoop \<Rightarrow> watchdogSourceSnapshot list \<Rightarrow>
    wdLoop \<times> watchdogSourceSnapshot list \<times> wdOut list" where
  "wd_sourceLoop sink m lp [] = (lp, [], [])"
| "wd_sourceLoop sink m lp (s # ss) =
     (let (lp1, s1, out1) = wd_stepSource sink m lp s;
          (lp2, ss2, out2) = wd_sourceLoop sink m lp1 ss
      in (lp2, s1 # ss2, out1 @ out2))"

definition wd_mode :: "'e watchdogSupervisor \<Rightarrow> 'e \<Rightarrow> satMode" where
  "wd_mode w e = (case wd_modeControl w of None \<Rightarrow> SAFE | Some mc \<Rightarrow> mc_getModeForRuntime mc e)"

definition wd_schedIn_handler :: "bool \<Rightarrow> 'e watchdogSupervisor \<Rightarrow> 'e \<Rightarrow> 'e watchdogSupervisor \<times> wdOut list" where
  "wd_schedIn_handler feedConnected w e =
     (let currentMode = wd_mode w e;
          status = wd_status w;
          lp0 = \<lparr>lp_requestSafe = False, lp_safeIssued = wd_safeRequestIssued w,
                 lp_safeRequestCount = safeRequestCount status\<rparr>;
          (lp, sources, out1) = wd_sourceLoop (wd_recoverySink w) currentMode lp0 (wd_sources status);
          r0 = rollup sources (lp_safeIssued lp);
          lateRequest = (hasActiveAggregateFault (ru_aggregateState r0) \<and> \<not> lp_safeIssued lp \<and>
            shouldRequestSafeForMode currentMode);
          issued = (lp_safeIssued lp \<or> lateRequest);
          requests = (if lateRequest then sat_inc (lp_safeRequestCount lp) else lp_safeRequestCount lp);
          out2 = (if lateRequest \<and> wd_recoverySink w then
                    map (\<lambda>s. WdSink (SubmitWatchdogFault (ws_source s)))
                      (filter (\<lambda>s. ws_state s = WS_LATCHED_FAULT \<or> ws_state s = WS_FEED_SUPPRESSED) sources)
                  else []);
          r = (if lateRequest then rollup sources issued else r0);
          out3 = (if rollupChanged r status then emitFeedEligibilityEvent r else []);
          stroke = (ru_feedEligible r \<and> feedConnected);
          status1 = status\<lparr>wd_sources := sources, safeRequestCount := requests,
            aggregateRecoveryCount :=
              (if hasActiveAggregateFault (aggregateState status) \<and>
                  (ru_aggregateState r = WS_HEALTHY \<or> ru_aggregateState r = WS_WARNING)
               then sat_inc (aggregateRecoveryCount status) else aggregateRecoveryCount status),
            feedSuppressCount :=
              (if ru_aggregateState r = WS_FEED_SUPPRESSED \<and> aggregateState status \<noteq> WS_FEED_SUPPRESSED
               then sat_inc (feedSuppressCount status) else feedSuppressCount status),
            evaluationCount := sat_inc (evaluationCount status),
            feedStrokeAttemptCount :=
              (if stroke then sat_inc (feedStrokeAttemptCount status) else feedStrokeAttemptCount status)\<rparr>;
          w' = w\<lparr>wd_safeRequestIssued := (hasActiveAggregateFault (ru_aggregateState r) \<and> issued),
                 wd_status := applyAggregateRollup r status1\<rparr>
      in (w', out1 @ out2 @ out3 @ wd_publishTelemetry (wd_status w') @
            (if stroke then [WatchdogFeed WATCHDOG_FEED_CODE] else [])))"

text \<open>A port number outside the array makes \<open>at\<close> throw: the model returns None.\<close>

definition beatIn_handler :: "nat \<Rightarrow> u32 \<Rightarrow> 'e watchdogSupervisor \<Rightarrow> 'e watchdogSupervisor option" where
  "beatIn_handler portNum code w =
     (let status = wd_status w
      in if portNum < length (wd_sources status) then
           (let s = (wd_sources status ! portNum)\<lparr>lastBeatCode := code\<rparr>;
                s' = (if \<not> probeSuppressed s then s\<lparr>beatPending := True\<rparr> else s)
            in Some (w\<lparr>wd_status := status\<lparr>wd_sources := (wd_sources status)[portNum := s']\<rparr>\<rparr>))
         else None)"

definition emitStatusEvents :: "watchdogRuntimeSnapshot \<Rightarrow> wdOut list" where
  "emitStatusEvents st =
     WATCHDOG_STATUS (aggregateState st) (recoveryLevel st) (feedEligible st) (warningMask st)
       (faultMask st) (suppressMask st) #
     map (\<lambda>s. WATCHDOG_SOURCE_STATUS (ws_source s) (wc_enabled (ws_config s)) (ws_state s) (ageTicks s)
            (warningTicks (ws_config s)) (safeTicks (ws_config s)) (suppressTicks (ws_config s)))
       (wd_sources st)"

subsection \<open>Commands\<close>

definition HEALTH_ENABLE_cmdHandler ::
    "u32 \<Rightarrow> u32 \<Rightarrow> bool \<Rightarrow> 'e watchdogSupervisor \<Rightarrow> 'e watchdogSupervisor \<times> wdOut list" where
  "HEALTH_ENABLE_cmdHandler opCode cmdSeq enable w =
     (let (w', out) = wd_setEnabledForRuntime enable w in (w', out @ [WdCmdResponse opCode cmdSeq CMD_OK]))"

definition HEALTH_SET_THRESHOLD_cmdHandler :: "u32 \<Rightarrow> u32 \<Rightarrow> healthItem option \<Rightarrow> f32 \<Rightarrow>
    'e watchdogSupervisor \<Rightarrow> 'e watchdogSupervisor \<times> wdOut list" where
  "HEALTH_SET_THRESHOLD_cmdHandler opCode cmdSeq item value w =
     (let (rsp, w', out) = setThresholdForRuntime item value w in (w', out @ [WdCmdResponse opCode cmdSeq rsp]))"

definition GET_WATCHDOG_STATUS_cmdHandler ::
    "u32 \<Rightarrow> u32 \<Rightarrow> 'e watchdogSupervisor \<Rightarrow> 'e watchdogSupervisor \<times> wdOut list" where
  "GET_WATCHDOG_STATUS_cmdHandler opCode cmdSeq w =
     (w, emitStatusEvents (wd_status w) @ [WdCmdResponse opCode cmdSeq CMD_OK])"

definition SET_WATCHDOG_CONFIG_cmdHandler :: "u32 \<Rightarrow> u32 \<Rightarrow> watchdogSource option \<Rightarrow> bool \<Rightarrow> u32 \<Rightarrow> u32 \<Rightarrow> u32 \<Rightarrow>
    'e watchdogSupervisor \<Rightarrow> 'e watchdogSupervisor \<times> wdOut list" where
  "SET_WATCHDOG_CONFIG_cmdHandler opCode cmdSeq source enabled warning safe suppress w =
     (let (rsp, w', out) = setConfigForRuntime source enabled warning safe suppress w
      in (w', out @ [WdCmdResponse opCode cmdSeq rsp]))"

definition SET_WATCHDOG_PROBE_SUPPRESSION_cmdHandler :: "u32 \<Rightarrow> u32 \<Rightarrow> watchdogSource option \<Rightarrow> bool \<Rightarrow>
    'e watchdogSupervisor \<Rightarrow> 'e watchdogSupervisor \<times> wdOut list" where
  "SET_WATCHDOG_PROBE_SUPPRESSION_cmdHandler opCode cmdSeq source suppressed w =
     (let (ok, w', out) = setProbeBeatSuppressionForRuntime source suppressed w
      in (w', out @ [WdCmdResponse opCode cmdSeq (if ok then CMD_OK else CMD_VALIDATION_ERROR)]))"

section \<open>Rollup\<close>

lemma sourceIndex_less [simp]: "watchdogSourceIndex src < 5"
  by (cases src) (simp_all add: watchdogSourceIndex_def)

lemma sourceFromIndex [simp]:
  "watchdogSourceFromIndex (watchdogSourceIndex src) = src"
  by (cases src) (simp_all add: watchdogSourceIndex_def)

lemma sourceIndex_from [simp]: "i < 5 \<Longrightarrow> watchdogSourceIndex (watchdogSourceFromIndex i) = i"
  by (auto simp: watchdogSourceIndex_def)

declare watchdogSourceFromIndex.simps [simp del]

lemma sourceIndex_inj: "watchdogSourceIndex a = watchdogSourceIndex b \<Longrightarrow> a = b"
  by (metis sourceFromIndex)

lemma bit_sourceMask: "bit (watchdogSourceMask src) n \<longleftrightarrow> n = watchdogSourceIndex src"
  using less_trans [OF sourceIndex_less [of src], of 32] by (auto simp: watchdogSourceMask_def push_bit_of_1 bit_exp_iff)

lemma bit_rollupMask:
  "bit (rollupMask states ss acc) n \<longleftrightarrow> bit acc n \<or>
     (\<exists>s\<in>set ss. \<not> rollupSkips s \<and> ws_state s \<in> states \<and> watchdogSourceIndex (ws_source s) = n)"
  by (induction ss arbitrary: acc) (auto simp: bit_or_iff bit_sourceMask)

lemma rollupMask_zero:
  "rollupMask states ss 0 = 0 \<longleftrightarrow> (\<forall>s\<in>set ss. rollupSkips s \<or> ws_state s \<notin> states)"
proof -
  have "rollupMask states ss 0 = 0 \<longleftrightarrow> (\<forall>n. \<not> bit (rollupMask states ss 0) n)"
    by (metis bit_0_eq bot_apply bot_bool_def bit_eqI)
  also have "\<dots> \<longleftrightarrow> (\<forall>s\<in>set ss. rollupSkips s \<or> ws_state s \<notin> states)"
    by (auto simp: bit_rollupMask)
  finally show ?thesis .
qed

lemma rollup_masks [simp]:
  "ru_warningMask (rollup ss b) = rollupMask {WS_WARNING} ss 0"
  "ru_faultMask (rollup ss b) = rollupMask {WS_LATCHED_FAULT, WS_FEED_SUPPRESSED} ss 0"
  "ru_suppressMask (rollup ss b) = rollupMask {WS_FEED_SUPPRESSED} ss 0"
  by (simp_all add: rollup_def Let_def)

lemma rollup_feedEligible:
  "ru_feedEligible (rollup ss b) \<longleftrightarrow> (\<exists>s\<in>set ss. \<not> rollupSkips s) \<and>
     (\<forall>s\<in>set ss. rollupSkips s \<or> ws_state s \<noteq> WS_FEED_SUPPRESSED)"
  using rollupMask_zero [of "{WS_FEED_SUPPRESSED}" ss]
  by (auto simp: rollup_def Let_def list_ex_iff)

lemma rollup_flag:
  "\<not> hasActiveAggregateFault (ru_aggregateState (rollup ss b)) \<Longrightarrow> rollup ss b' = rollup ss b"
  by (auto simp: rollup_def Let_def hasActiveAggregateFault_def split: if_splits)

lemma rollup_aggregate_flag: "ru_aggregateState (rollup ss b) = ru_aggregateState (rollup ss b')"
  by (simp add: rollup_def Let_def)

section \<open>Invariant\<close>

definition source_ok :: "nat \<Rightarrow> watchdogSourceSnapshot \<Rightarrow> bool" where
  "source_ok i s \<longleftrightarrow> ws_source s = watchdogSourceFromIndex i \<and> isValidConfig (ws_config s) \<and>
     ws_state s = stateForAge (ws_config s) (ageTicks s) \<and> (\<not> wc_enabled (ws_config s) \<longrightarrow> ageTicks s = 0)"

definition wd_ok :: "'e watchdogSupervisor \<Rightarrow> bool" where
  "wd_ok w \<longleftrightarrow> length (wd_sources (wd_status w)) = 5 \<and>
     (\<forall>i<5. source_ok i (wd_sources (wd_status w) ! i)) \<and>
     applyAggregateRollup (rollup (wd_sources (wd_status w)) (wd_safeRequestIssued w)) (wd_status w) = wd_status w \<and>
     (wd_safeRequestIssued w \<longrightarrow> hasActiveAggregateFault (aggregateState (wd_status w)))"

text \<open>What a tick does to one source, whatever the loop variables are.\<close>

definition wd_nextSource :: "satMode \<Rightarrow> watchdogSourceSnapshot \<Rightarrow> watchdogSourceSnapshot" where
  "wd_nextSource m s = fst (snd (wd_stepSource False m \<lparr>lp_requestSafe = False, lp_safeIssued = False,
     lp_safeRequestCount = 0\<rparr> s))"

lemma stepSource_next: "fst (snd (wd_stepSource sink m lp s)) = wd_nextSource m s"
  by (simp add: wd_nextSource_def wd_stepSource_def Let_def)

lemma sourceLoop_sources: "fst (snd (wd_sourceLoop sink m lp ss)) = map (wd_nextSource m) ss"
  by (induction ss arbitrary: lp) (simp_all add: split_beta stepSource_next)

lemma nextSource_fields [simp]:
  "ws_source (wd_nextSource m s) = ws_source s"
  "ws_config (wd_nextSource m s) = ws_config s"
  "beatPending (wd_nextSource m s) = False"
  "ageTicks (wd_nextSource m s) = (if \<not> wc_enabled (ws_config s) \<or> beatPending s then 0 else sat_inc (ageTicks s))"
  "ws_state (wd_nextSource m s) = stateForAge (ws_config s) (ageTicks (wd_nextSource m s))"
  by (simp_all add: wd_nextSource_def wd_stepSource_def evaluateSource_def Let_def stateForAge_def)

lemma nextSource_ok: "source_ok i s \<Longrightarrow> source_ok i (wd_nextSource m s)"
  by (simp add: source_ok_def)

lemma apply_apply [simp]:
  "applyAggregateRollup r (applyAggregateRollup r' st) = applyAggregateRollup r st"
  "wd_sources (applyAggregateRollup r st) = wd_sources st"
  "aggregateState (applyAggregateRollup r st) = ru_aggregateState r"
  "feedEligible (applyAggregateRollup r st) = ru_feedEligible r"
  "suppressMask (applyAggregateRollup r st) = ru_suppressMask r"
  "faultMask (applyAggregateRollup r st) = ru_faultMask r"
  "warningMask (applyAggregateRollup r st) = ru_warningMask r"
  by (simp_all add: applyAggregateRollup_def)

text \<open>The bookkeeping all updates share: new sources, the rollup with the flag, the flag cleared when
  no fault is active.\<close>

lemma wd_ok_update:
  assumes len: "length (wd_sources (wd_status w')) = 5"
    and ok: "\<And>i. i < 5 \<Longrightarrow> source_ok i (wd_sources (wd_status w') ! i)"
    and st: "applyAggregateRollup (rollup (wd_sources (wd_status w')) b) (wd_status w') = wd_status w'"
    and flag: "wd_safeRequestIssued w' =
      (hasActiveAggregateFault (ru_aggregateState (rollup (wd_sources (wd_status w')) b)) \<and> b)"
  shows "wd_ok w'"
proof -
  let ?ss = "wd_sources (wd_status w')"
  have agg: "aggregateState (wd_status w') = ru_aggregateState (rollup ?ss b)"
    using st by (metis apply_apply(3))
  have "rollup ?ss (wd_safeRequestIssued w') = rollup ?ss b"
  proof (cases "hasActiveAggregateFault (ru_aggregateState (rollup ?ss b))")
    case False
    then show ?thesis using rollup_flag [of ?ss b] by blast
  qed (simp add: flag)
  then show ?thesis
    using assms agg by (auto simp: wd_ok_def)
qed

lemma wd_ok_init: "wd_ok watchdogSupervisor_init"
  by (rule wd_ok_update [where b = False])
    (auto simp: watchdogSupervisor_init_def Let_def source_ok_def initialSource_def defaultWatchdogConfig_def
      isValidConfig_def)

lemma tick_state:
  obtains b where
    "wd_sources (wd_status (fst (wd_schedIn_handler conn w e))) =
       map (wd_nextSource (wd_mode w e)) (wd_sources (wd_status w))"
    "applyAggregateRollup (rollup (map (wd_nextSource (wd_mode w e)) (wd_sources (wd_status w))) b)
       (wd_status (fst (wd_schedIn_handler conn w e))) = wd_status (fst (wd_schedIn_handler conn w e))"
    "wd_safeRequestIssued (fst (wd_schedIn_handler conn w e)) = (hasActiveAggregateFault (ru_aggregateState
       (rollup (map (wd_nextSource (wd_mode w e)) (wd_sources (wd_status w))) b)) \<and> b)"
    "wd_modeControl (fst (wd_schedIn_handler conn w e)) = wd_modeControl w"
    "wd_recoverySink (fst (wd_schedIn_handler conn w e)) = wd_recoverySink w"
proof -
  obtain lp ss out where loop: "wd_sourceLoop (wd_recoverySink w) (wd_mode w e)
      \<lparr>lp_requestSafe = False, lp_safeIssued = wd_safeRequestIssued w,
       lp_safeRequestCount = safeRequestCount (wd_status w)\<rparr> (wd_sources (wd_status w)) = (lp, ss, out)"
    by (metis prod_cases3)
  then have ss: "ss = map (wd_nextSource (wd_mode w e)) (wd_sources (wd_status w))"
    using sourceLoop_sources by (metis fst_conv snd_conv)
  define late where "late = (hasActiveAggregateFault (ru_aggregateState (rollup ss (lp_safeIssued lp))) \<and>
    \<not> lp_safeIssued lp \<and> shouldRequestSafeForMode (wd_mode w e))"
  have r: "(if late then rollup ss (lp_safeIssued lp \<or> late) else rollup ss (lp_safeIssued lp)) =
      rollup ss (lp_safeIssued lp \<or> late)"
    by simp
  show thesis
    by (rule that [where b = "lp_safeIssued lp \<or> late"])
      (simp_all only: wd_schedIn_handler_def Let_def loop ss [symmetric] late_def [symmetric] r prod.case
        fst_conv, simp_all)
qed

lemma wd_ok_tick: "wd_ok w \<Longrightarrow> wd_ok (fst (wd_schedIn_handler conn w e))"
  by (rule tick_state [of conn w e]) (rule wd_ok_update; simp add: wd_ok_def nextSource_ok)

text \<open>The rollup reads only the name, the state and the enable flag of a source.\<close>

definition rollup_key :: "watchdogSourceSnapshot \<Rightarrow> watchdogSource \<times> watchdogState \<times> bool" where
  "rollup_key s = (ws_source s, ws_state s, wc_enabled (ws_config s))"

lemma rollupMask_cong:
  "map rollup_key ss = map rollup_key ss' \<Longrightarrow> rollupMask states ss acc = rollupMask states ss' acc"
proof (induction ss arbitrary: ss' acc)
  case (Cons s ss)
  then obtain t ts where ss': "ss' = t # ts" and key: "rollup_key s = rollup_key t"
    and tl: "map rollup_key ss = map rollup_key ts"
    by (cases ss') simp_all
  have "(\<not> rollupSkips s \<and> ws_state s \<in> states) = (\<not> rollupSkips t \<and> ws_state t \<in> states)" "ws_source s = ws_source t"
    using key by (simp_all add: rollup_key_def rollupSkips_def)
  then show ?case
    by (simp only: ss' rollupMask.simps Cons.IH [OF tl])
qed simp

lemma rollup_cong: "map rollup_key ss = map rollup_key ss' \<Longrightarrow> rollup ss b = rollup ss' b"
proof -
  assume eq: "map rollup_key ss = map rollup_key ss'"
  have "list_ex (\<lambda>s. \<not> rollupSkips s) xs =
      list_ex (\<lambda>(src, st, en). \<not> (st = WS_DISABLED \<or> \<not> en)) (map rollup_key xs)" for xs
    by (induction xs) (simp_all add: rollup_key_def rollupSkips_def)
  then show ?thesis
    using rollupMask_cong [OF eq] eq by (simp add: rollup_def)
qed

lemma wd_ok_beat:
  assumes ok: "wd_ok w" and step: "beatIn_handler port code w = Some w'"
  shows "wd_ok w'"
proof -
  let ?ss = "wd_sources (wd_status w)"
  obtain s' where w': "w' = w\<lparr>wd_status := (wd_status w)\<lparr>wd_sources := ?ss[port := s']\<rparr>\<rparr>" and port: "port < 5"
    and s': "ws_source s' = ws_source (?ss ! port)" "ws_state s' = ws_state (?ss ! port)"
      "ws_config s' = ws_config (?ss ! port)" "ageTicks s' = ageTicks (?ss ! port)"
    using ok step by (auto simp: beatIn_handler_def Let_def wd_ok_def split: if_splits)
  have "map rollup_key (?ss[port := s']) = map rollup_key ?ss"
    using s' ok port by (simp add: map_update wd_ok_def rollup_key_def list_update_same_conv)
  then have "rollup (?ss[port := s']) b = rollup ?ss b" for b
    by (rule rollup_cong)
  moreover have "applyAggregateRollup r (st\<lparr>wd_sources := ss\<rparr>) = (applyAggregateRollup r st)\<lparr>wd_sources := ss\<rparr>"
    for r st ss
    by (simp add: applyAggregateRollup_def)
  ultimately show ?thesis
    using ok port s' by (auto simp: w' wd_ok_def nth_list_update source_ok_def)
qed

lemma stateForAge_zero: "isValidConfig c \<Longrightarrow> stateForAge c 0 = (if wc_enabled c then WS_HEALTHY else WS_DISABLED)"
  by (auto simp: isValidConfig_def stateForAge_def)

lemma wd_ok_replace:
  assumes "wd_ok w" "source_ok (watchdogSourceIndex src) s'"
    and "wd_sources (wd_status w') = (wd_sources (wd_status w))[watchdogSourceIndex src := s']"
    and "applyAggregateRollup (rollup (wd_sources (wd_status w')) b) (wd_status w') = wd_status w'"
    and "wd_safeRequestIssued w' =
      (hasActiveAggregateFault (ru_aggregateState (rollup (wd_sources (wd_status w')) b)) \<and> b)"
  shows "wd_ok w'"
  using assms(1,2,3)
  by (intro wd_ok_update [OF _ _ assms(4,5)]) (auto simp: wd_ok_def nth_list_update)

lemma wd_ok_config:
  assumes ok: "wd_ok w"
  shows "wd_ok (fst (snd (setConfigForRuntime source enabled warning safe suppress w)))"
proof (cases source)
  case (Some src)
  let ?i = "watchdogSourceIndex src" and ?ss = "wd_sources (wd_status w)"
  define c where "c = \<lparr>wc_enabled = enabled, warningTicks = warning, safeTicks = safe, suppressTicks = suppress\<rparr>"
  define s2 where "s2 = (let s1 = (?ss ! ?i)\<lparr>ws_config := c, ws_state := stateForAge c (ageTicks (?ss ! ?i))\<rparr>
    in if \<not> enabled then s1\<lparr>ws_state := WS_DISABLED, ageTicks := 0, beatPending := False\<rparr> else s1)"
  have "source_ok ?i s2" if "isValidConfig c"
    using ok that by (auto simp: s2_def wd_ok_def source_ok_def c_def stateForAge_def)
  then show ?thesis
    using ok
    unfolding setConfigForRuntime_def Let_def Some option.case c_def [symmetric] s2_def [unfolded Let_def, symmetric]
    by (cases "isValidConfig c")
      (simp_all add: wd_ok_replace [where src = src and s' = s2 and b = "wd_safeRequestIssued w"])
qed (use ok in \<open>simp add: setConfigForRuntime_def\<close>)

lemma wd_ok_probe:
  assumes ok: "wd_ok w"
  shows "wd_ok (fst (snd (setProbeBeatSuppressionForRuntime source suppressed w)))"
proof (cases source)
  case (Some src)
  let ?i = "watchdogSourceIndex src" and ?ss = "wd_sources (wd_status w)"
  define s2 where "s2 = (let s0 = ?ss ! ?i; s1 = s0\<lparr>probeSuppressed := suppressed, beatPending := False\<rparr>
    in if suppressed \<and> ws_state s0 \<noteq> WS_FEED_SUPPRESSED \<and> wc_enabled (ws_config s1) then
         s1\<lparr>ageTicks := suppressTicks (ws_config s1), ws_state := WS_FEED_SUPPRESSED,
            suppressionCount := sat_inc (suppressionCount s1)\<rparr>
       else if \<not> suppressed \<and> ws_state s0 = WS_FEED_SUPPRESSED then resetSourceAfterProbeSuppressionClear s1
       else s1)"
  have "source_ok ?i (?ss ! ?i)"
    using ok by (simp add: wd_ok_def)
  then have "source_ok ?i s2"
    using stateForAge_zero [of "ws_config (?ss ! ?i)"]
    by (auto simp: s2_def source_ok_def resetSourceAfterProbeSuppressionClear_def Let_def stateForAge_def split: if_splits)
  then show ?thesis
    using ok
    unfolding setProbeBeatSuppressionForRuntime_def Let_def Some option.case s2_def [unfolded Let_def, symmetric]
    by (simp add: wd_ok_replace [where src = src and s' = s2 and b = "wd_safeRequestIssued w"])
qed (use ok in \<open>simp add: setProbeBeatSuppressionForRuntime_def\<close>)

text \<open>The steps of a supervisor: one constructor per entry point that changes its state.\<close>

inductive wd_step :: "'e watchdogSupervisor \<Rightarrow> wdOut list \<Rightarrow> 'e watchdogSupervisor \<Rightarrow> bool" where
  wd_tick: "wd_schedIn_handler conn w e = (w', out) \<Longrightarrow> wd_step w out w'"
| wd_beat: "beatIn_handler port code w = Some w' \<Longrightarrow> wd_step w [] w'"
| wd_config: "SET_WATCHDOG_CONFIG_cmdHandler op sq source enabled warning safe suppress w = (w', out) \<Longrightarrow> wd_step w out w'"
| wd_probe: "SET_WATCHDOG_PROBE_SUPPRESSION_cmdHandler op sq source suppressed w = (w', out) \<Longrightarrow> wd_step w out w'"
| wd_enable: "HEALTH_ENABLE_cmdHandler op sq enable w = (w', out) \<Longrightarrow> wd_step w out w'"
| wd_threshold: "HEALTH_SET_THRESHOLD_cmdHandler op sq item value w = (w', out) \<Longrightarrow> wd_step w out w'"
| wd_sample: "updateResourceSample cpu mem w = (w', out) \<Longrightarrow> wd_step w out w'"

lemma wd_ok_resources:
  "wd_ok w \<Longrightarrow> wd_ok (fst (wd_setEnabledForRuntime enable w))"
  "wd_ok w \<Longrightarrow> wd_ok (fst (snd (setThresholdForRuntime item value w)))"
  "wd_ok w \<Longrightarrow> wd_ok (fst (updateResourceSample cpu mem w))"
  by (simp_all add: wd_ok_def wd_setEnabledForRuntime_def setThresholdForRuntime_def updateResourceSample_def
      Let_def split: option.split)

lemma wd_ok_step: "wd_step w out w' \<Longrightarrow> wd_ok w \<Longrightarrow> wd_ok w'"
proof (induction rule: wd_step.induct)
  case (wd_tick conn w e w' out)
  then show ?case using wd_ok_tick [of w conn e] by simp
next
  case (wd_beat port code w w')
  then show ?case using wd_ok_beat by blast
next
  case (wd_config op sq source enabled warning safe suppress w w' out)
  then show ?case
    using wd_ok_config [of w source enabled warning safe suppress]
    by (auto simp: SET_WATCHDOG_CONFIG_cmdHandler_def split: prod.splits)
next
  case (wd_probe op sq source suppressed w w' out)
  then show ?case
    using wd_ok_probe [of w source suppressed]
    by (auto simp: SET_WATCHDOG_PROBE_SUPPRESSION_cmdHandler_def split: prod.splits)
next
  case (wd_enable op sq enable w w' out)
  then show ?case
    using wd_ok_resources(1) [of w enable] by (auto simp: HEALTH_ENABLE_cmdHandler_def split: prod.splits)
next
  case (wd_threshold op sq item v w w' out)
  then show ?case
    using wd_ok_resources(2) [of w item v] by (auto simp: HEALTH_SET_THRESHOLD_cmdHandler_def split: prod.splits)
next
  case (wd_sample cpu mem w w' out)
  then show ?case
    using wd_ok_resources(3) [of w cpu mem] by simp
qed

definition wd_initial :: "'e watchdogSupervisor \<Rightarrow> bool" where
  "wd_initial w \<longleftrightarrow> (\<exists>mc sink. w = wd_configureRuntime mc sink watchdogSupervisor_init)"

lemma wd_ok_initial: "wd_initial w \<Longrightarrow> wd_ok w"
  using wd_ok_init by (auto simp: wd_initial_def wd_configureRuntime_def wd_ok_def)

lemma wd_reachable_ok: "reachable wd_initial wd_step w \<Longrightarrow> wd_ok w"
  by (erule reachable_invariant) (auto intro: wd_ok_initial wd_ok_step)

text \<open>C25: Consistency of the watchdog. In every state \<open>WatchdogSupervisor\<close> reaches through ticks, beats and
  commands, each of the five sources has a valid configuration (0 < warning <= safe <= suppress
  ticks), its state is the state the policy assigns to its age, a disabled source has age 0, and
  bit \<open>i\<close> of the published fault and suppress masks is set exactly if source \<open>i\<close> is enabled and
  has missed at least its safe, respectively suppress, ticks.\<close>

theorem watchdog_consistent:
  assumes "reachable wd_initial wd_step w" "i < 5" "s = wd_sources (wd_status w) ! i"
  shows "isValidConfig (ws_config s) \<and> ws_state s = stateForAge (ws_config s) (ageTicks s) \<and>
    (\<not> wc_enabled (ws_config s) \<longrightarrow> ageTicks s = 0) \<and>
    (bit (faultMask (wd_status w)) i \<longleftrightarrow> wc_enabled (ws_config s) \<and> safeTicks (ws_config s) \<le> ageTicks s) \<and>
    (bit (suppressMask (wd_status w)) i \<longleftrightarrow> wc_enabled (ws_config s) \<and> suppressTicks (ws_config s) \<le> ageTicks s)"
proof -
  let ?ss = "wd_sources (wd_status w)"
  have ok: "wd_ok w"
    by (rule wd_reachable_ok [OF assms(1)])
  then have agg: "applyAggregateRollup (rollup ?ss (wd_safeRequestIssued w)) (wd_status w) = wd_status w"
    by (simp add: wd_ok_def)
  have masks: "faultMask (wd_status w) = rollupMask {WS_LATCHED_FAULT, WS_FEED_SUPPRESSED} ?ss 0"
    "suppressMask (wd_status w) = rollupMask {WS_FEED_SUPPRESSED} ?ss 0"
    by (subst agg [symmetric], simp)+
  have uniq: "t = s" if "t \<in> set ?ss" "watchdogSourceIndex (ws_source t) = i" for t
    using that ok assms(3) by (auto simp: in_set_conv_nth wd_ok_def source_ok_def)
  have s: "source_ok i s" "s \<in> set ?ss" "watchdogSourceIndex (ws_source s) = i"
    using ok assms(2,3) by (auto simp: wd_ok_def source_ok_def)
  have bits: "bit (rollupMask states ?ss 0) i \<longleftrightarrow> wc_enabled (ws_config s) \<and>
      ws_state s \<noteq> WS_DISABLED \<and> ws_state s \<in> states" for states
  proof -
    have "(\<exists>t\<in>set ?ss. \<not> rollupSkips t \<and> ws_state t \<in> states \<and> watchdogSourceIndex (ws_source t) = i) \<longleftrightarrow>
        \<not> rollupSkips s \<and> ws_state s \<in> states"
      using s(2,3) uniq by blast
    then show ?thesis
      unfolding bit_rollupMask by (simp add: rollupSkips_def) blast
  qed
  have le: "safeTicks (ws_config s) \<le> suppressTicks (ws_config s)"
    using s by (simp add: source_ok_def isValidConfig_def)
  have age: "safeTicks (ws_config s) \<le> ageTicks s" if "suppressTicks (ws_config s) \<le> ageTicks s"
    using le that by (rule order_trans)
  have st: "ws_state s = stateForAge (ws_config s) (ageTicks s)"
    using s(1) by (simp add: source_ok_def)
  have "ws_state s \<noteq> WS_DISABLED \<and> ws_state s \<in> {WS_LATCHED_FAULT, WS_FEED_SUPPRESSED} \<longleftrightarrow>
      wc_enabled (ws_config s) \<and> safeTicks (ws_config s) \<le> ageTicks s"
    "ws_state s \<noteq> WS_DISABLED \<and> ws_state s \<in> {WS_FEED_SUPPRESSED} \<longleftrightarrow>
      wc_enabled (ws_config s) \<and> suppressTicks (ws_config s) \<le> ageTicks s"
    using age by (simp_all add: st stateForAge_def)
  then show ?thesis
    using s(1) unfolding masks bits by (simp add: source_ok_def)
qed

lemma wd_reach_init: "reachable wd_initial wd_step (wd_configureRuntime mc sink watchdogSupervisor_init)"
  by (rule reach_init) (auto simp: wd_initial_def)

definition demoWd :: "unit watchdogSupervisor" where
  "demoWd = wd_configureRuntime None True watchdogSupervisor_init"

theorem watchdog_consistent_witness:
  "\<not> bit (faultMask (wd_status (demoWd))) 3 \<and>
   isValidConfig (ws_config (wd_sources (wd_status demoWd) ! 3))"
proof -
  have r: "reachable wd_initial wd_step demoWd"
    unfolding demoWd_def by (rule wd_reach_init)
  have "\<not> safeTicks (ws_config (wd_sources (wd_status demoWd) ! 3)) \<le> ageTicks (wd_sources (wd_status demoWd) ! 3)"
    by code_simp
  then show ?thesis
    using watchdog_consistent [OF r, of 3] by simp
qed

end
