(* ===== verification/Watchdog_Liveness.thy ===== *)
theory Watchdog_Liveness
  imports Watchdog
begin

text \<open>
  What the watchdog supervisor promises over time: when it feeds the hardware watchdog, that a
  silent source stops the feeding, and what disabling a faulted source hides from the recovery
  executor.
\<close>

section \<open>Feeding the hardware watchdog\<close>

lemma no_feed_elsewhere:
  "WatchdogFeed c \<notin> set (wd_publishTelemetry st)"
  "WatchdogFeed c \<notin> set (emitFeedEligibilityEvent r)"
  "WatchdogFeed c \<notin> set (snd (snd (wd_stepSource sink m lp s)))"
  by (simp_all add: wd_publishTelemetry_def emitFeedEligibilityEvent_def wd_stepSource_def Let_def)

lemma no_feed_in_loop: "WatchdogFeed c \<notin> set (snd (snd (wd_sourceLoop sink m lp ss)))"
  by (induction ss arbitrary: lp) (simp_all add: split_beta no_feed_elsewhere)

lemma tick_feed:
  "WatchdogFeed c \<in> set (snd (wd_schedIn_handler conn w e)) \<longleftrightarrow>
     conn \<and> c = WATCHDOG_FEED_CODE \<and> feedEligible (wd_status (fst (wd_schedIn_handler conn w e)))"
  by (auto simp: wd_schedIn_handler_def Let_def split_beta no_feed_elsewhere no_feed_in_loop)

lemma source_fed:
  assumes "source_ok i s"
  shows "rollupSkips s \<longleftrightarrow> \<not> wc_enabled (ws_config s)"
    and "wc_enabled (ws_config s) \<Longrightarrow> ws_state s = WS_FEED_SUPPRESSED \<longleftrightarrow> suppressTicks (ws_config s) \<le> ageTicks s"
  using assms by (auto simp: rollupSkips_def source_ok_def stateForAge_def split: if_splits)

lemma ok_feedEligible:
  assumes "wd_ok w"
  shows "feedEligible (wd_status w) \<longleftrightarrow>
    (\<exists>s\<in>set (wd_sources (wd_status w)). wc_enabled (ws_config s)) \<and>
    (\<forall>s\<in>set (wd_sources (wd_status w)). wc_enabled (ws_config s) \<longrightarrow> ageTicks s < suppressTicks (ws_config s))"
proof -
  let ?ss = "wd_sources (wd_status w)"
  have ok: "\<exists>i. source_ok i s" if "s \<in> set ?ss" for s
    using that assms by (auto simp: in_set_conv_nth wd_ok_def)
  have agg: "applyAggregateRollup (rollup ?ss (wd_safeRequestIssued w)) (wd_status w) = wd_status w"
    using assms by (simp add: wd_ok_def)
  have "feedEligible (wd_status w) = ru_feedEligible (rollup ?ss (wd_safeRequestIssued w))"
    by (subst agg [symmetric]) simp
  moreover have "rollupSkips s \<longleftrightarrow> \<not> wc_enabled (ws_config s)"
    "rollupSkips s \<or> ws_state s \<noteq> WS_FEED_SUPPRESSED \<longleftrightarrow>
      (wc_enabled (ws_config s) \<longrightarrow> ageTicks s < suppressTicks (ws_config s))" if "s \<in> set ?ss" for s
    using ok [OF that] source_fed [of _ s] by (auto simp: not_le [symmetric])
  ultimately show ?thesis
    unfolding rollup_feedEligible by blast
qed

text \<open>C6: The hardware watchdog is fed exactly when every enabled source is alive. A tick of
  \<open>WatchdogSupervisor::schedIn_handler\<close> in a reachable state strokes the connected watchdog port if
  and only if, after the tick, some source is enabled and every enabled source has missed fewer
  beats than its suppress limit.\<close>

theorem watchdog_feed_iff_alive:
  assumes "reachable wd_initial wd_step w" and "wd_schedIn_handler True w e = (w', out)"
  shows "WatchdogFeed WATCHDOG_FEED_CODE \<in> set out \<longleftrightarrow>
    (\<exists>s\<in>set (wd_sources (wd_status w')). wc_enabled (ws_config s)) \<and>
    (\<forall>s\<in>set (wd_sources (wd_status w')). wc_enabled (ws_config s) \<longrightarrow> ageTicks s < suppressTicks (ws_config s))"
proof -
  have "wd_ok w'"
    using wd_ok_tick [OF wd_reachable_ok [OF assms(1)], of True e] assms(2) by simp
  then show ?thesis
    using tick_feed [of WATCHDOG_FEED_CODE True w e] assms(2) ok_feedEligible by simp
qed

theorem watchdog_feed_iff_alive_witness:
  "WatchdogFeed WATCHDOG_FEED_CODE \<in> set (snd (wd_schedIn_handler True demoWd ()))"
proof -
  have r: "reachable wd_initial wd_step demoWd"
    unfolding demoWd_def by (rule wd_reach_init)
  let ?w' = "fst (wd_schedIn_handler True demoWd ())"
  have "list_ex (\<lambda>s. wc_enabled (ws_config s)) (wd_sources (wd_status ?w'))"
    "list_all (\<lambda>s. wc_enabled (ws_config s) \<longrightarrow> ageTicks s < suppressTicks (ws_config s)) (wd_sources (wd_status ?w'))"
    by code_simp+
  then show ?thesis
    using watchdog_feed_iff_alive [OF r, of "()" ?w' "snd (wd_schedIn_handler True demoWd ())"]
    by (simp add: list_ex_iff list_all_iff)
qed

section \<open>A silent source\<close>

datatype 'e wdEvent = WdBeat nat u32 | WdTick bool 'e

fun wd_run :: "'e watchdogSupervisor \<Rightarrow> 'e wdEvent list \<Rightarrow> ('e watchdogSupervisor \<times> wdOut list) option" where
  "wd_run w [] = Some (w, [])"
| "wd_run w (WdBeat port code # evs) =
     (case beatIn_handler port code w of None \<Rightarrow> None | Some w' \<Rightarrow> wd_run w' evs)"
| "wd_run w (WdTick conn e # evs) =
     (let (w', out) = wd_schedIn_handler conn w e
      in case wd_run w' evs of None \<Rightarrow> None | Some (w'', out') \<Rightarrow> Some (w'', out @ out'))"

fun tick_count :: "'e wdEvent list \<Rightarrow> nat" where
  "tick_count [] = 0"
| "tick_count (WdBeat _ _ # evs) = tick_count evs"
| "tick_count (WdTick _ _ # evs) = Suc (tick_count evs)"

lemma wd_run_Tick:
  "wd_run w (WdTick conn e # evs) = Some (w', out) \<longleftrightarrow>
     (\<exists>out'. wd_run (fst (wd_schedIn_handler conn w e)) evs = Some (w', out') \<and>
       out = snd (wd_schedIn_handler conn w e) @ out')"
  by (auto simp: split_beta split: option.splits)

lemma wd_run_Beat:
  "wd_run w (WdBeat port code # evs) = Some r \<longleftrightarrow>
     (\<exists>w1. beatIn_handler port code w = Some w1 \<and> wd_run w1 evs = Some r)"
  by (simp split: option.split)

declare wd_run.simps(2,3) [simp del]

text \<open>Induction over a run: a property kept by beats and ticks.\<close>

lemma wd_run_induct [consumes 1, case_names Nil Beat Tick]:
  assumes "wd_run w evs = Some (w', out)"
    and "\<And>w. P w [] w []"
    and "\<And>w port code w1 evs w' out. beatIn_handler port code w = Some w1 \<Longrightarrow> wd_run w1 evs = Some (w', out) \<Longrightarrow>
      P w1 evs w' out \<Longrightarrow> P w (WdBeat port code # evs) w' out"
    and "\<And>w conn e evs w' out. wd_run (fst (wd_schedIn_handler conn w e)) evs = Some (w', out) \<Longrightarrow>
      P (fst (wd_schedIn_handler conn w e)) evs w' out \<Longrightarrow>
      P w (WdTick conn e # evs) w' (snd (wd_schedIn_handler conn w e) @ out)"
  shows "P w evs w' out"
  using assms(1)
proof (induction evs arbitrary: w out)
  case Nil
  then show ?case using assms(2) by simp
next
  case (Cons ev evs)
  then show ?case
    by (cases ev) (auto simp: wd_run_Tick wd_run_Beat intro: assms(3,4))
qed

lemma wd_run_snoc:
  "wd_run w evs = Some (w', out) \<Longrightarrow> wd_run w (evs @ [WdTick conn e]) =
     Some (fst (wd_schedIn_handler conn w' e), out @ snd (wd_schedIn_handler conn w' e))"
  by (induction rule: wd_run_induct) (simp_all add: wd_run.simps(2,3) split_beta)

lemma tick_count_append: "tick_count (xs @ ys) = tick_count xs + tick_count ys"
  by (induction xs rule: tick_count.induct) simp_all

lemma wd_run_ok: "wd_run w evs = Some (w', out) \<Longrightarrow> wd_ok w \<Longrightarrow> wd_ok w'"
  by (induction rule: wd_run_induct) (auto intro: wd_ok_beat wd_ok_tick)

lemma tick_source:
  "wd_sources (wd_status (fst (wd_schedIn_handler conn w e))) =
     map (wd_nextSource (wd_mode w e)) (wd_sources (wd_status w))"
  by (rule tick_state [of conn w e])

text \<open>A beat on another port leaves a source alone.\<close>

lemma beat_other:
  "beatIn_handler port code w = Some w' \<Longrightarrow> port \<noteq> i \<Longrightarrow>
     wd_sources (wd_status w') ! i = wd_sources (wd_status w) ! i"
  "beatIn_handler port code w = Some w' \<Longrightarrow> length (wd_sources (wd_status w')) = length (wd_sources (wd_status w))"
  by (auto simp: beatIn_handler_def Let_def split: if_splits)

text \<open>How long a source has been silent: 0 if a beat waits to be seen.\<close>

definition silence :: "watchdogSourceSnapshot \<Rightarrow> nat" where
  "silence s = (if beatPending s then 0 else unat (ageTicks s) + 1)"

lemma silence_tick:
  "wc_enabled (ws_config s) \<Longrightarrow> silence (wd_nextSource m s) = min (silence s + 1) (2 ^ 32)"
  using unat_sat_inc [of "ageTicks s"] by (simp add: silence_def)

lemma silent_run:
  assumes "wd_run w evs = Some (w', out)" "\<forall>code. WdBeat i code \<notin> set evs"
    and "i < length (wd_sources (wd_status w))" "wc_enabled (ws_config (wd_sources (wd_status w) ! i))"
  shows "ws_config (wd_sources (wd_status w') ! i) = ws_config (wd_sources (wd_status w) ! i) \<and>
    min (silence (wd_sources (wd_status w) ! i) + tick_count evs) (2 ^ 32) \<le> silence (wd_sources (wd_status w') ! i)"
  using assms
proof (induction rule: wd_run_induct)
  case (Beat w port code w1 evs w' out)
  then have "port \<noteq> i" by auto
  with Beat show ?case
    using beat_other [OF Beat(1)] by simp
next
  case (Tick w conn e evs w' out)
  then show ?case
    using silence_tick [of "wd_sources (wd_status w) ! i" "wd_mode w e"] by (auto simp: tick_source)
qed simp

text \<open>C26: A source that falls silent stops the feeding. If an enabled source does not beat any more, then
  from any reachable state, after more ticks than its suppress limit the supervisor is no longer
  eligible to feed the hardware watchdog, whatever the other sources do and in every further tick
  until the source beats again.\<close>

theorem silent_source_stops_feed:
  assumes reach: "reachable wd_initial wd_step w" and i: "i < 5"
    and en: "wc_enabled (ws_config (wd_sources (wd_status w) ! i))"
    and run: "wd_run w evs = Some (w', out)" and silent: "\<forall>code. WdBeat i code \<notin> set evs"
    and long: "unat (suppressTicks (ws_config (wd_sources (wd_status w) ! i))) < tick_count evs"
  shows "\<not> feedEligible (wd_status w') \<and>
    WatchdogFeed WATCHDOG_FEED_CODE \<notin> set (snd (wd_schedIn_handler True w' e))"
proof -
  have ok: "wd_ok w" "wd_ok w'"
    using wd_reachable_ok [OF reach] wd_run_ok [OF run] by auto
  have starved: "\<not> feedEligible (wd_status w')"
    if r: "wd_run w evs = Some (w', out)" "\<forall>code. WdBeat i code \<notin> set evs"
      "unat (suppressTicks (ws_config (wd_sources (wd_status w) ! i))) < tick_count evs" "wd_ok w'" for evs w' out
  proof -
    let ?s = "wd_sources (wd_status w) ! i" and ?s' = "wd_sources (wd_status w') ! i"
    have cfg: "ws_config ?s' = ws_config ?s"
      and age: "min (silence ?s + tick_count evs) (2 ^ 32) \<le> silence ?s'"
      using silent_run [OF r(1,2)] ok i en by (auto simp: wd_ok_def)
    have "unat (suppressTicks (ws_config ?s)) < 2 ^ 32"
      using unat_word_less [of "suppressTicks (ws_config ?s)"] by simp
    with age r(3) have "unat (suppressTicks (ws_config ?s)) < silence ?s'"
      by linarith
    then have "suppressTicks (ws_config ?s') \<le> ageTicks ?s'"
      unfolding cfg word_le_nat_alt by (auto simp: silence_def split: if_splits)
    moreover have "?s' \<in> set (wd_sources (wd_status w'))"
      using r(4) i by (simp add: wd_ok_def)
    ultimately show ?thesis
      using ok_feedEligible [OF r(4)] en cfg by (auto simp: not_le [symmetric])
  qed
  have "\<not> feedEligible (wd_status (fst (wd_schedIn_handler True w' e)))"
    using starved [OF wd_run_snoc [OF run, of True e]] silent long wd_ok_tick [OF ok(2), of True e]
    by (simp add: tick_count_append)
  then show ?thesis
    using starved [OF run silent long ok(2)] by (simp add: tick_feed)
qed

text \<open>A run of ticks always returns.\<close>

lemma wd_run_ticks: "\<exists>w' out. wd_run w (replicate n (WdTick conn e)) = Some (w', out)"
  by (induction n arbitrary: w) (auto simp: wd_run_Tick)

theorem silent_source_stops_feed_witness:
  "\<exists>w' out. wd_run demoWd (replicate 6 (WdTick True ())) = Some (w', out) \<and> \<not> feedEligible (wd_status w')"
proof -
  have r: "reachable wd_initial wd_step demoWd"
    unfolding demoWd_def by (rule wd_reach_init)
  obtain w' out where run: "wd_run demoWd (replicate 6 (WdTick True ())) = Some (w', out)"
    using wd_run_ticks [of demoWd 6 True "()"] by (elim exE) (rule that)
  have "wc_enabled (ws_config (wd_sources (wd_status demoWd) ! 2))"
    "unat (suppressTicks (ws_config (wd_sources (wd_status demoWd) ! 2))) < tick_count (replicate 6 (WdTick True ()))"
    by code_simp+
  moreover have "\<forall>code. WdBeat 2 code \<notin> set (replicate 6 (WdTick True ()))"
    by simp
  ultimately have "\<not> feedEligible (wd_status w')"
    using silent_source_stops_feed [OF r _ _ run, of 2] by simp
  with run show ?thesis by (intro exI conjI)
qed

section \<open>Disabling a faulted source\<close>

lemma stepSource_clear:
  "WdSink (ClearWatchdogFault src) \<in> set (snd (snd (wd_stepSource sink m lp s))) \<longleftrightarrow>
     sink \<and> src = ws_source s \<and>
     recovered (evaluateSource (ws_config s) (s\<lparr>beatPending := False\<rparr>) (beatPending s) m)"
  by (simp add: wd_stepSource_def Let_def obc_out) blast

lemma sourceLoop_clear:
  "WdSink (ClearWatchdogFault src) \<in> set (snd (snd (wd_sourceLoop sink m lp ss))) \<Longrightarrow>
     \<exists>s\<in>set ss. src = ws_source s \<and> recovered (evaluateSource (ws_config s) (s\<lparr>beatPending := False\<rparr>) (beatPending s) m)"
  by (induction ss arbitrary: lp) (auto simp: split_beta stepSource_clear)

lemma tick_clear:
  "WdSink (ClearWatchdogFault src) \<in> set (snd (wd_schedIn_handler conn w e)) \<Longrightarrow>
     \<exists>s\<in>set (wd_sources (wd_status w)). src = ws_source s \<and>
       recovered (evaluateSource (ws_config s) (s\<lparr>beatPending := False\<rparr>) (beatPending s) (wd_mode w e))"
  by (rule sourceLoop_clear [where sink = "wd_recoverySink w"])
    (simp add: wd_schedIn_handler_def Let_def split_beta wd_publishTelemetry_def emitFeedEligibilityEvent_def
      obc_out image_iff)

definition source_off :: "watchdogSource \<Rightarrow> 'e watchdogSupervisor \<Rightarrow> bool" where
  "source_off src w \<longleftrightarrow> wd_ok w \<and> \<not> wc_enabled (ws_config (wd_sources (wd_status w) ! watchdogSourceIndex src))"

lemma source_off_quiet:
  assumes "source_off src w"
  shows "WdSink (ClearWatchdogFault src) \<notin> set (snd (wd_schedIn_handler conn w e))"
proof
  assume "WdSink (ClearWatchdogFault src) \<in> set (snd (wd_schedIn_handler conn w e))"
  from tick_clear [OF this]
  obtain s where s: "s \<in> set (wd_sources (wd_status w))" "src = ws_source s"
    and rec: "recovered (evaluateSource (ws_config s) (s\<lparr>beatPending := False\<rparr>) (beatPending s) (wd_mode w e))"
    by (elim bexE conjE) (rule that)
  obtain i where "i < 5" "s = wd_sources (wd_status w) ! i" "source_ok i s"
    using s assms by (auto simp: in_set_conv_nth source_off_def wd_ok_def)
  moreover from this have "i = watchdogSourceIndex src"
    using s by (simp add: source_ok_def)
  ultimately have "\<not> wc_enabled (ws_config s)" "ws_state s = WS_DISABLED"
    using assms by (simp_all add: source_off_def source_ok_def stateForAge_def)
  then show False
    using rec by (simp add: evaluateSource_def)
qed

lemma source_off_run:
  "wd_run w evs = Some (w', out) \<Longrightarrow> source_off src w \<Longrightarrow> WdSink (ClearWatchdogFault src) \<notin> set out"
proof (induction rule: wd_run_induct)
  case (Beat w port code w1 evs w' out)
  then have "source_off src w1"
    using wd_ok_beat [OF _ Beat(1)]
    by (auto simp: source_off_def beatIn_handler_def Let_def nth_list_update split: if_splits)
  with Beat show ?case by simp
next
  case (Tick w conn e evs w' out)
  then have "source_off src (fst (wd_schedIn_handler conn w e))"
    using wd_ok_tick [of w conn e] by (auto simp: source_off_def tick_source wd_ok_def)
  with Tick show ?case
    using source_off_quiet [of src w conn e] by simp
qed simp


lemma wd_run_reachable:
  "wd_run w evs = Some (w', out) \<Longrightarrow> reachable wd_initial wd_step w \<Longrightarrow> reachable wd_initial wd_step w'"
proof (induction rule: wd_run_induct)
  case (Beat w port code w1 evs w' out)
  then show ?case by (meson reach_step wd_beat)
next
  case (Tick w conn e evs w' out)
  moreover have "wd_step w (snd (wd_schedIn_handler conn w e)) (fst (wd_schedIn_handler conn w e))"
    by (rule wd_tick) simp
  ultimately show ?case by (meson reach_step)
qed

text \<open>A supervisor whose source \<open>EPS_FDIR\<close> may miss no beat, one tick later, and with the source disabled.\<close>

definition demoStrict :: "unit watchdogSupervisor" where
  "demoStrict = fst (SET_WATCHDOG_CONFIG_cmdHandler 0 0 (Some EPS_FDIR) True 1 1 1 demoWd)"

definition demoFault :: "unit watchdogSupervisor \<times> wdOut list" where
  "demoFault = wd_schedIn_handler True demoStrict ()"

definition demoDisabled :: "cmdResponse \<times> unit watchdogSupervisor \<times> wdOut list" where
  "demoDisabled = setConfigForRuntime (Some EPS_FDIR) False 2 3 5 (fst demoFault)"


end
