(* ===== verification/Fdir.thy ===== *)
theory Fdir
  imports Mode_Runtime Recovery_Runtime
begin

text \<open>
  The subsystem fault controllers \<open>EpsFdirController\<close> and \<open>AdcsFdirController\<close> with their policies, and
  the policy \<open>CommFdirPolicy\<close>. A health provider is a function of the state \<open>'p\<close> behind its pointer;
  the mode control is read only. Calls of the recovery sink are among the outputs.
\<close>

section \<open>EPS\<close>

record epsPollHealth =
  cacheValid :: bool
  lastPollSucceeded :: bool
  consecutivePollFailures :: u32
  cumulativePollErrors :: u32

record epsFdirDecision =
  ed_shouldEnterRetry :: bool
  ed_shouldLatchFault :: bool
  ed_shouldClearFault :: bool
  ed_shouldRequestSafe :: bool
  ed_faultLatched :: bool
  ed_failureCount :: u32
  ed_currentMode :: satMode
  ed_targetMode :: satMode

definition defaultEpsDecision :: epsFdirDecision where
  "defaultEpsDecision = \<lparr>ed_shouldEnterRetry = False, ed_shouldLatchFault = False,
     ed_shouldClearFault = False, ed_shouldRequestSafe = False, ed_faultLatched = False,
     ed_failureCount = 0, ed_currentMode = SAFE, ed_targetMode = SAFE\<rparr>"

definition EPS_ESCALATION_FAILURE_THRESHOLD :: u32 where "EPS_ESCALATION_FAILURE_THRESHOLD = 3"

definition eps_shouldRequestSafeForMode :: "satMode \<Rightarrow> bool" where
  "eps_shouldRequestSafeForMode mode \<longleftrightarrow> mode = IDLE \<or> mode = PAYLOAD \<or> mode = TTC"

definition eps_evaluate :: "epsPollHealth \<Rightarrow> bool \<Rightarrow> satMode \<Rightarrow> epsFdirDecision" where
  "eps_evaluate health currentlyLatched currentMode =
     (let decision = defaultEpsDecision\<lparr>ed_failureCount := consecutivePollFailures health,
            ed_currentMode := currentMode, ed_targetMode := currentMode\<rparr>
      in if lastPollSucceeded health then decision\<lparr>ed_shouldClearFault := currentlyLatched\<rparr>
         else if consecutivePollFailures health \<ge> EPS_ESCALATION_FAILURE_THRESHOLD then
           (let d1 = decision\<lparr>ed_faultLatched := True\<rparr>
            in if \<not> currentlyLatched then
                 (let d2 = d1\<lparr>ed_shouldLatchFault := True\<rparr>
                  in if eps_shouldRequestSafeForMode currentMode
                     then d2\<lparr>ed_shouldRequestSafe := True, ed_targetMode := SAFE\<rparr> else d2)
               else d1)
         else if consecutivePollFailures health > 0 then decision\<lparr>ed_shouldEnterRetry := True\<rparr>
         else decision)"

record ('e, 'p) epsFdirController =
  ef_modeControl :: "'e modeControl option"
  ef_healthProvider :: "('p \<Rightarrow> epsPollHealth option) option"
  ef_recoverySink :: bool
  ef_faultLatched :: bool
  ef_lastRequestedSafe :: bool
  ef_lastFailureCount :: u32
  ef_escalationCount :: u32
  ef_recoveryCount :: u32

datatype efOut = EPS_FDIR_RETRYING u32
  | EPS_FDIR_FAULT_ENTERED u32 satMode bool
  | EPS_FDIR_FAULT_CLEARED u32
  | Tlm_EPS_FDIR_FAULT_LATCHED bool
  | Tlm_EPS_FDIR_LAST_FAILURE_COUNT u32
  | Tlm_EPS_FDIR_ESCALATION_COUNT u32
  | Tlm_EPS_FDIR_RECOVERY_COUNT u32
  | Tlm_EPS_FDIR_LAST_REQUESTED_SAFE bool
  | EfSink recoveryRequest
  | EfWatchdogBeat u32

definition epsFdirController_init :: "('e, 'p) epsFdirController" where
  "epsFdirController_init = \<lparr>ef_modeControl = None, ef_healthProvider = None, ef_recoverySink = False,
     ef_faultLatched = False, ef_lastRequestedSafe = False, ef_lastFailureCount = 0,
     ef_escalationCount = 0, ef_recoveryCount = 0\<rparr>"

definition ef_configureRuntime :: "'e modeControl option \<Rightarrow> ('p \<Rightarrow> epsPollHealth option) option \<Rightarrow> bool \<Rightarrow>
    ('e, 'p) epsFdirController \<Rightarrow> ('e, 'p) epsFdirController" where
  "ef_configureRuntime modeControl healthProvider recoverySink c =
     c\<lparr>ef_modeControl := modeControl, ef_healthProvider := healthProvider, ef_recoverySink := recoverySink\<rparr>"

definition ef_publishState :: "epsFdirDecision \<Rightarrow> ('e, 'p) epsFdirController \<Rightarrow> efOut list" where
  "ef_publishState d c =
     [Tlm_EPS_FDIR_FAULT_LATCHED (ef_faultLatched c), Tlm_EPS_FDIR_LAST_FAILURE_COUNT (ed_failureCount d),
      Tlm_EPS_FDIR_ESCALATION_COUNT (ef_escalationCount c), Tlm_EPS_FDIR_RECOVERY_COUNT (ef_recoveryCount c),
      Tlm_EPS_FDIR_LAST_REQUESTED_SAFE (ef_lastRequestedSafe c)]"

text \<open>The provider's answer: None when a pointer is null or the provider returns false.\<close>

definition ef_inputs :: "('e, 'p) epsFdirController \<Rightarrow> 'p \<Rightarrow> 'e \<Rightarrow> (epsPollHealth \<times> satMode) option" where
  "ef_inputs c p e =
     (case (ef_modeControl c, ef_healthProvider c) of
        (Some mc, Some provider) \<Rightarrow> map_option (\<lambda>h. (h, mc_getModeForRuntime mc e)) (provider p)
      | _ \<Rightarrow> None)"

definition ef_runCycle :: "('e, 'p) epsFdirController \<Rightarrow> 'p \<Rightarrow> 'e \<Rightarrow>
    epsFdirDecision \<times> ('e, 'p) epsFdirController \<times> efOut list" where
  "ef_runCycle c p e =
     (case ef_inputs c p e of
        None \<Rightarrow> (defaultEpsDecision, c, [])
      | Some (health, mode) \<Rightarrow>
          let decision = eps_evaluate health (ef_faultLatched c) mode;
              retry = (if ed_shouldEnterRetry decision \<and> ed_failureCount decision \<noteq> ef_lastFailureCount c
                       then [EPS_FDIR_RETRYING (ed_failureCount decision)] else []);
              (c1, out1) =
                (if ed_shouldLatchFault decision then
                   (c\<lparr>ef_faultLatched := True, ef_lastRequestedSafe := ed_shouldRequestSafe decision,
                      ef_escalationCount := sat_inc (ef_escalationCount c)\<rparr>,
                    EPS_FDIR_FAULT_ENTERED (ed_failureCount decision) (ed_currentMode decision)
                      (ed_shouldRequestSafe decision) #
                    (if ef_recoverySink c then [EfSink (SubmitEpsTimeoutFault (ed_failureCount decision))] else []))
                 else if ed_shouldClearFault decision then
                   (c\<lparr>ef_faultLatched := False, ef_lastRequestedSafe := False,
                      ef_recoveryCount := sat_inc (ef_recoveryCount c)\<rparr>,
                    EPS_FDIR_FAULT_CLEARED (ef_lastFailureCount c) #
                    (if ef_recoverySink c then [EfSink (ClearEpsTimeoutFault (ef_lastFailureCount c))] else []))
                 else (c, []));
              c2 = c1\<lparr>ef_lastFailureCount := ed_failureCount decision\<rparr>
          in (decision, c2, retry @ out1 @ ef_publishState decision c2))"

definition ef_schedIn_handler :: "bool \<Rightarrow> ('e, 'p) epsFdirController \<Rightarrow> 'p \<Rightarrow> 'e \<Rightarrow>
    ('e, 'p) epsFdirController \<times> efOut list" where
  "ef_schedIn_handler beatConnected c p e =
     (let (d, c', out) = ef_runCycle c p e
      in (c', out @ (if beatConnected then [EfWatchdogBeat (watchdogSource_code EPS_FDIR)] else [])))"

section \<open>ADCS\<close>

record adcsPollHealth =
  lastScheduledTransportOk :: bool
  lastScheduledValidRefresh :: bool
  hasValidState :: bool
  consecutiveTransportFailures :: u32
  consecutiveNoValidRefresh :: u32
  cumulativeTransportErrors :: u32
  cumulativeNoValidRefresh :: u32

record adcsFdirDecision =
  ad_shouldEnterRetry :: bool
  ad_shouldLatchFault :: bool
  ad_shouldClearFault :: bool
  ad_faultLatched :: bool
  ad_failureCount :: u32
  ad_activeSource :: recoveryIncidentSource

definition defaultAdcsDecision :: adcsFdirDecision where
  "defaultAdcsDecision = \<lparr>ad_shouldEnterRetry = False, ad_shouldLatchFault = False,
     ad_shouldClearFault = False, ad_faultLatched = False, ad_failureCount = 0, ad_activeSource = RIS_NONE\<rparr>"

definition ADCS_ESCALATION_FAILURE_THRESHOLD :: u32 where "ADCS_ESCALATION_FAILURE_THRESHOLD = 3"

definition adcs_evaluate :: "adcsPollHealth \<Rightarrow> bool \<Rightarrow> recoveryIncidentSource \<Rightarrow> adcsFdirDecision" where
  "adcs_evaluate health currentlyLatched latchedSource =
     (let decision = defaultAdcsDecision\<lparr>ad_faultLatched := currentlyLatched,
            ad_activeSource := (if currentlyLatched then latchedSource else RIS_NONE)\<rparr>
      in if lastScheduledValidRefresh health then decision\<lparr>ad_shouldClearFault := currentlyLatched\<rparr>
         else if currentlyLatched then decision
         else if consecutiveTransportFailures health \<ge> ADCS_ESCALATION_FAILURE_THRESHOLD then
           decision\<lparr>ad_shouldLatchFault := True, ad_failureCount := consecutiveTransportFailures health,
             ad_activeSource := ADCS_POLL_TRANSPORT\<rparr>
         else if consecutiveNoValidRefresh health \<ge> ADCS_ESCALATION_FAILURE_THRESHOLD then
           decision\<lparr>ad_shouldLatchFault := True, ad_failureCount := consecutiveNoValidRefresh health,
             ad_activeSource := ADCS_POLL_FRESHNESS\<rparr>
         else if consecutiveTransportFailures health > 0 then
           decision\<lparr>ad_shouldEnterRetry := True, ad_failureCount := consecutiveTransportFailures health,
             ad_activeSource := ADCS_POLL_TRANSPORT\<rparr>
         else if consecutiveNoValidRefresh health > 0 then
           decision\<lparr>ad_shouldEnterRetry := True, ad_failureCount := consecutiveNoValidRefresh health,
             ad_activeSource := ADCS_POLL_FRESHNESS\<rparr>
         else decision)"

record 'p adcsFdirController =
  af_healthProvider :: "('p \<Rightarrow> adcsPollHealth option) option"
  af_recoverySink :: bool
  af_faultLatched :: bool
  af_latchedSource :: recoveryIncidentSource
  af_lastFailureCount :: u32
  af_escalationCount :: u32
  af_recoveryCount :: u32

datatype afOut = ADCS_FDIR_RETRYING recoveryIncidentSource u32
  | ADCS_FDIR_FAULT_ENTERED recoveryIncidentSource u32
  | ADCS_FDIR_FAULT_CLEARED recoveryIncidentSource u32
  | Tlm_ADCS_FDIR_FAULT_LATCHED bool
  | Tlm_ADCS_FDIR_ACTIVE_SOURCE recoveryIncidentSource
  | Tlm_ADCS_FDIR_LAST_FAILURE_COUNT u32
  | Tlm_ADCS_FDIR_ESCALATION_COUNT u32
  | Tlm_ADCS_FDIR_RECOVERY_COUNT u32
  | AfSink recoveryRequest
  | AfWatchdogBeat u32

definition adcsFdirController_init :: "'p adcsFdirController" where
  "adcsFdirController_init = \<lparr>af_healthProvider = None, af_recoverySink = False, af_faultLatched = False,
     af_latchedSource = RIS_NONE, af_lastFailureCount = 0, af_escalationCount = 0, af_recoveryCount = 0\<rparr>"

definition af_configureRuntime :: "('p \<Rightarrow> adcsPollHealth option) option \<Rightarrow> bool \<Rightarrow>
    'p adcsFdirController \<Rightarrow> 'p adcsFdirController" where
  "af_configureRuntime healthProvider recoverySink c =
     c\<lparr>af_healthProvider := healthProvider, af_recoverySink := recoverySink\<rparr>"

definition af_publishState :: "adcsFdirDecision \<Rightarrow> 'p adcsFdirController \<Rightarrow> afOut list" where
  "af_publishState d c =
     [Tlm_ADCS_FDIR_FAULT_LATCHED (af_faultLatched c),
      Tlm_ADCS_FDIR_ACTIVE_SOURCE (if af_faultLatched c then af_latchedSource c else ad_activeSource d),
      Tlm_ADCS_FDIR_LAST_FAILURE_COUNT (ad_failureCount d),
      Tlm_ADCS_FDIR_ESCALATION_COUNT (af_escalationCount c),
      Tlm_ADCS_FDIR_RECOVERY_COUNT (af_recoveryCount c)]"

definition af_submitFault :: "adcsFdirDecision \<Rightarrow> 'p adcsFdirController \<Rightarrow> afOut list" where
  "af_submitFault d c =
     (if \<not> af_recoverySink c then []
      else case ad_activeSource d of
             ADCS_POLL_TRANSPORT \<Rightarrow> [AfSink (SubmitAdcsPollTransportFault (ad_failureCount d))]
           | ADCS_POLL_FRESHNESS \<Rightarrow> [AfSink (SubmitAdcsPollFreshnessFault (ad_failureCount d))]
           | _ \<Rightarrow> [])"

definition af_clearFault :: "'p adcsFdirController \<Rightarrow> 'p adcsFdirController \<times> afOut list" where
  "af_clearFault c =
     (c\<lparr>af_faultLatched := False, af_latchedSource := RIS_NONE\<rparr>,
      if \<not> af_recoverySink c then []
      else case af_latchedSource c of
             ADCS_POLL_TRANSPORT \<Rightarrow> [AfSink (ClearAdcsPollTransportFault (af_lastFailureCount c))]
           | ADCS_POLL_FRESHNESS \<Rightarrow> [AfSink (ClearAdcsPollFreshnessFault (af_lastFailureCount c))]
           | _ \<Rightarrow> [])"

definition af_health :: "'p adcsFdirController \<Rightarrow> 'p \<Rightarrow> adcsPollHealth option" where
  "af_health c p = (case af_healthProvider c of None \<Rightarrow> None | Some provider \<Rightarrow> provider p)"

definition af_runCycle :: "'p adcsFdirController \<Rightarrow> 'p \<Rightarrow>
    adcsFdirDecision \<times> 'p adcsFdirController \<times> afOut list" where
  "af_runCycle c p =
     (case af_health c p of
        None \<Rightarrow> (defaultAdcsDecision, c, [])
      | Some health \<Rightarrow>
          let decision = adcs_evaluate health (af_faultLatched c) (af_latchedSource c);
              retry = (if ad_shouldEnterRetry decision \<and> ad_failureCount decision \<noteq> af_lastFailureCount c
                       then [ADCS_FDIR_RETRYING (ad_activeSource decision) (ad_failureCount decision)] else []);
              (c1, out1) =
                (if ad_shouldLatchFault decision then
                   (let c' = c\<lparr>af_faultLatched := True, af_latchedSource := ad_activeSource decision,
                               af_escalationCount := sat_inc (af_escalationCount c)\<rparr>
                    in (c', ADCS_FDIR_FAULT_ENTERED (ad_activeSource decision) (ad_failureCount decision) #
                            af_submitFault decision c'))
                 else if ad_shouldClearFault decision then
                   (let (c', out) = af_clearFault c
                    in (c'\<lparr>af_recoveryCount := sat_inc (af_recoveryCount c')\<rparr>,
                        ADCS_FDIR_FAULT_CLEARED (af_latchedSource c) (af_lastFailureCount c) # out))
                 else (c, []));
              c2 = (if ad_shouldClearFault decision then c1\<lparr>af_lastFailureCount := 0\<rparr>
                    else if ad_shouldEnterRetry decision \<or> ad_shouldLatchFault decision \<or> ad_failureCount decision > 0
                      then c1\<lparr>af_lastFailureCount := ad_failureCount decision\<rparr>
                    else c1)
          in (decision, c2, retry @ out1 @ af_publishState decision c2))"

definition af_schedIn_handler :: "bool \<Rightarrow> 'p adcsFdirController \<Rightarrow> 'p \<Rightarrow> 'p adcsFdirController \<times> afOut list" where
  "af_schedIn_handler beatConnected c p =
     (let (d, c', out) = af_runCycle c p
      in (c', out @ (if beatConnected then [AfWatchdogBeat (watchdogSource_code ADCS_FDIR)] else [])))"

section \<open>COMM policy\<close>

datatype commFdirFaultKind = COMM_KIND_NONE | PRIMARY_UNAVAILABLE | PRIMARY_TRANSPORT

record commFdirDecision =
  cd_shouldLatchFault :: bool
  cd_shouldClearFault :: bool
  cd_kind :: commFdirFaultKind
  cd_failureCount :: u32

definition commfdir_evaluate :: "bool \<Rightarrow> bool \<Rightarrow> u32 \<Rightarrow> u32 \<Rightarrow> u32 \<Rightarrow> bool \<Rightarrow> commFdirFaultKind \<Rightarrow> commFdirDecision" where
  "commfdir_evaluate primaryAvailable primaryErrorGrowth unavailable growth threshold currentlyLatched latchedKind =
     (let decision = \<lparr>cd_shouldLatchFault = False, cd_shouldClearFault = False, cd_kind = COMM_KIND_NONE,
            cd_failureCount = 0\<rparr>
      in if primaryAvailable \<and> \<not> primaryErrorGrowth then
           decision\<lparr>cd_shouldClearFault := currentlyLatched,
             cd_kind := (if currentlyLatched then latchedKind else COMM_KIND_NONE)\<rparr>
         else if currentlyLatched then decision\<lparr>cd_kind := latchedKind\<rparr>
         else if unavailable \<ge> threshold then
           decision\<lparr>cd_shouldLatchFault := True, cd_kind := PRIMARY_UNAVAILABLE, cd_failureCount := unavailable\<rparr>
         else if growth \<ge> threshold then
           decision\<lparr>cd_shouldLatchFault := True, cd_kind := PRIMARY_TRANSPORT, cd_failureCount := growth\<rparr>
         else decision)"

section \<open>The controllers keep the contract of a fault latch\<close>

fun ef_sinkCalls :: "efOut list \<Rightarrow> recoveryRequest list" where
  "ef_sinkCalls [] = []"
| "ef_sinkCalls (EfSink r # outs) = r # ef_sinkCalls outs"
| "ef_sinkCalls (_ # outs) = ef_sinkCalls outs"

fun af_sinkCalls :: "afOut list \<Rightarrow> recoveryRequest list" where
  "af_sinkCalls [] = []"
| "af_sinkCalls (AfSink r # outs) = r # af_sinkCalls outs"
| "af_sinkCalls (_ # outs) = af_sinkCalls outs"

lemma sinkCalls_append [simp]:
  "ef_sinkCalls (xs @ ys) = ef_sinkCalls xs @ ef_sinkCalls ys"
  "af_sinkCalls (us @ vs) = af_sinkCalls us @ af_sinkCalls vs"
  by (induction xs rule: ef_sinkCalls.induct, simp_all) (induction us rule: af_sinkCalls.induct, simp_all)

definition ef_latched :: "('e, 'p) epsFdirController \<Rightarrow> recoveryIncidentSource option" where
  "ef_latched c = (if ef_faultLatched c then Some EPS_TIMEOUT else None)"

definition af_latched :: "'p adcsFdirController \<Rightarrow> recoveryIncidentSource option" where
  "af_latched c = (if af_faultLatched c then Some (af_latchedSource c) else None)"

definition ef_cycle :: "'p \<times> 'e \<Rightarrow> ('e, 'p) epsFdirController \<Rightarrow> ('e, 'p) epsFdirController \<times> recoveryRequest list" where
  "ef_cycle i c = (let (c', out) = ef_schedIn_handler True c (fst i) (snd i) in (c', ef_sinkCalls out))"

definition af_cycle :: "'p \<Rightarrow> 'p adcsFdirController \<Rightarrow> 'p adcsFdirController \<times> recoveryRequest list" where
  "af_cycle p c = (let (c', out) = af_schedIn_handler True c p in (c', af_sinkCalls out))"

text \<open>The latched source of the ADCS controller is one it can report, and NONE when nothing is latched.\<close>

definition af_ok :: "'p adcsFdirController \<Rightarrow> bool" where
  "af_ok c \<longleftrightarrow> af_recoverySink c \<and>
     (if af_faultLatched c then af_latchedSource c \<in> {ADCS_POLL_TRANSPORT, ADCS_POLL_FRESHNESS}
      else af_latchedSource c = RIS_NONE)"

lemma ef_cycle_calls:
  "ef_cycle (p, e) c = (c', rs) \<Longrightarrow> ef_recoverySink c \<Longrightarrow> ef_recoverySink c' \<and>
    (case ef_inputs c p e of
       None \<Rightarrow> rs = [] \<and> ef_latched c' = ef_latched c
     | Some (h, m) \<Rightarrow>
         if lastPollSucceeded h \<and> ef_faultLatched c then
           rs = [ClearEpsTimeoutFault (ef_lastFailureCount c)] \<and> \<not> ef_faultLatched c'
         else if \<not> lastPollSucceeded h \<and> \<not> ef_faultLatched c \<and> 3 \<le> consecutivePollFailures h then
           rs = [SubmitEpsTimeoutFault (consecutivePollFailures h)] \<and> ef_faultLatched c'
         else rs = [] \<and> ef_faultLatched c' = ef_faultLatched c)"
  by (cases "ef_inputs c p e")
    (auto simp: ef_cycle_def ef_schedIn_handler_def ef_runCycle_def Let_def split_beta eps_evaluate_def
      defaultEpsDecision_def EPS_ESCALATION_FAILURE_THRESHOLD_def ef_publishState_def ef_latched_def split: if_splits)

lemma af_cycle_calls:
  "af_cycle p c = (c', rs) \<Longrightarrow> af_ok c \<Longrightarrow> af_ok c' \<and>
    (case af_health c p of
       None \<Rightarrow> rs = [] \<and> af_latched c' = af_latched c
     | Some h \<Rightarrow>
         if lastScheduledValidRefresh h then
           af_latched c' = None \<and>
           rs = (case af_latched c of None \<Rightarrow> []
                 | Some ADCS_POLL_TRANSPORT \<Rightarrow> [ClearAdcsPollTransportFault (af_lastFailureCount c)]
                 | Some _ \<Rightarrow> [ClearAdcsPollFreshnessFault (af_lastFailureCount c)])
         else if af_latched c \<noteq> None then rs = [] \<and> af_latched c' = af_latched c
         else if 3 \<le> consecutiveTransportFailures h then
           rs = [SubmitAdcsPollTransportFault (consecutiveTransportFailures h)] \<and>
           af_latched c' = Some ADCS_POLL_TRANSPORT
         else if 3 \<le> consecutiveNoValidRefresh h then
           rs = [SubmitAdcsPollFreshnessFault (consecutiveNoValidRefresh h)] \<and>
           af_latched c' = Some ADCS_POLL_FRESHNESS
         else rs = [] \<and> af_latched c' = None)"
  by (cases "af_health c p")
    (auto simp: af_cycle_def af_schedIn_handler_def af_runCycle_def Let_def split_beta adcs_evaluate_def
      defaultAdcsDecision_def ADCS_ESCALATION_FAILURE_THRESHOLD_def af_publishState_def af_latched_def af_ok_def
      af_submitFault_def af_clearFault_def split: if_splits)

interpretation ef: fault_latch ef_latched ef_cycle ef_recoverySink
  by unfold_locales
    (metis ef_cycle_calls prod.collapse, auto dest!: ef_cycle_calls simp: ef_latched_def split: option.splits if_splits)

interpretation af: fault_latch af_latched af_cycle af_ok
  by unfold_locales
    (metis af_cycle_calls prod.collapse,
     auto dest!: af_cycle_calls simp: af_ok_def af_latched_def split: option.splits if_splits)


section \<open>Properties\<close>

text \<open>C30: The EPS fault controller opens the EPS timeout incident exactly in the cycle in which three or more
  consecutive polls have failed and no fault is latched, clears it exactly in the first cycle after a
  successful poll, and over any sequence of cycles its calls strictly alternate, the fault being
  latched exactly while the incident it opened is not yet cleared.\<close>
theorem eps_fdir_calls:
  assumes "ef_recoverySink c"
  shows "bracketed (ef_latched c) (snd (ef.cycles is c)) \<and>
     open_after (ef_latched c) (snd (ef.cycles is c)) = ef_latched (fst (ef.cycles is c)) \<and>
     (\<forall>h m. ef_inputs c p e = Some (h, m) \<longrightarrow>
        snd (ef_cycle (p, e) c) =
          (if lastPollSucceeded h then
             if ef_faultLatched c then [ClearEpsTimeoutFault (ef_lastFailureCount c)] else []
           else if \<not> ef_faultLatched c \<and> 3 \<le> consecutivePollFailures h
             then [SubmitEpsTimeoutFault (consecutivePollFailures h)] else []))"
proof -
  obtain c' rs where "ef_cycle (p, e) c = (c', rs)"
    by (cases "ef_cycle (p, e) c")
  with ef_cycle_calls [OF this assms] ef.cycles_bracketed [OF assms, of "is"] show ?thesis
    by (auto split: if_splits)
qed


definition demoEpsFdir :: "(unit, epsPollHealth) epsFdirController" where
  "demoEpsFdir = ef_configureRuntime
     (Some \<lparr>mc_getModeForRuntime = (\<lambda>_. IDLE), mc_applyModeForInternalSource = (\<lambda>_ _ w. w)\<rparr>) (Some Some) True
     epsFdirController_init"

definition demoAdcsFdir :: "adcsPollHealth adcsFdirController" where
  "demoAdcsFdir = af_configureRuntime (Some Some) True adcsFdirController_init"

definition demoEpsBad :: epsPollHealth where
  "demoEpsBad = \<lparr>cacheValid = True, lastPollSucceeded = False, consecutivePollFailures = 3, cumulativePollErrors = 3\<rparr>"

definition demoAdcsBad :: adcsPollHealth where
  "demoAdcsBad = \<lparr>lastScheduledTransportOk = False, lastScheduledValidRefresh = False, hasValidState = True,
     consecutiveTransportFailures = 3, consecutiveNoValidRefresh = 5, cumulativeTransportErrors = 3,
     cumulativeNoValidRefresh = 5\<rparr>"

theorem eps_fdir_calls_witness:
  "snd (ef_cycle (demoEpsBad, ()) demoEpsFdir) = [SubmitEpsTimeoutFault 3] \<and>
   bracketed None (snd (ef.cycles [(demoEpsBad, ()), (demoEpsBad\<lparr>lastPollSucceeded := True\<rparr>, ())] demoEpsFdir))"
  using eps_fdir_calls [of demoEpsFdir "[(demoEpsBad, ()), (demoEpsBad\<lparr>lastPollSucceeded := True\<rparr>, ())]" demoEpsBad "()"]
  by (simp add: demoEpsFdir_def demoEpsBad_def ef_configureRuntime_def epsFdirController_init_def ef_inputs_def ef_latched_def)


text \<open>C39: The COMM fault policy latches only when the primary link has been unavailable, or its errors have
  grown, for the configured number of evaluations; unavailability takes precedence; a latched fault
  is cleared exactly when the primary link is available without error growth, and until then the
  latched kind is reported unchanged.\<close>
theorem comm_fdir_decision:
  "let d = commfdir_evaluate avail errs unavailable growth threshold latched kind
   in (cd_shouldClearFault d \<longleftrightarrow> latched \<and> avail \<and> \<not> errs) \<and>
      (cd_shouldLatchFault d \<longleftrightarrow> \<not> latched \<and> \<not> (avail \<and> \<not> errs) \<and> (threshold \<le> unavailable \<or> threshold \<le> growth)) \<and>
      (cd_shouldLatchFault d \<longrightarrow> (cd_kind d = PRIMARY_UNAVAILABLE \<longleftrightarrow> threshold \<le> unavailable) \<and>
         cd_failureCount d \<ge> threshold \<and> cd_kind d \<noteq> COMM_KIND_NONE) \<and>
      (latched \<longrightarrow> cd_kind d = kind)"
  by (auto simp: commfdir_evaluate_def Let_def)

theorem comm_fdir_decision_witness:
  "cd_kind (commfdir_evaluate False False 3 7 3 False COMM_KIND_NONE) = PRIMARY_UNAVAILABLE"
  using comm_fdir_decision [of False False 3 7 3 False COMM_KIND_NONE] by (simp add: Let_def commfdir_evaluate_def)

end
