(* ===== verification/Recovery.thy ===== *)
theory Recovery
  imports Mode_Runtime Recovery_Runtime
begin

text \<open>
  \<open>RecoveryExecutor\<close>: the component behind the sink of \<open>Recovery_Runtime\<close>. It opens an incident per
  fault source, escalates from a restart or a subsystem reset to a SAFE fallback and to a reboot of
  the on-board computer, and hands the exit request to the main loop. The objects behind its five
  interface pointers share the state \<open>'w\<close>. The framework record holds the time an operation reads and
  the numeric value of a command response, both of the F Prime framework.
\<close>

section \<open>Enumerations and structures\<close>

fun recoveryIncidentSource_code :: "recoveryIncidentSource \<Rightarrow> nat" where
  "recoveryIncidentSource_code WATCHDOG_EPS_BRIDGE = 0"
| "recoveryIncidentSource_code WATCHDOG_EPS_FDIR = 1"
| "recoveryIncidentSource_code WATCHDOG_MODE_SAFETY = 2"
| "recoveryIncidentSource_code WATCHDOG_COMM_CONTROLLER = 3"
| "recoveryIncidentSource_code EPS_TIMEOUT = 4"
| "recoveryIncidentSource_code WATCHDOG_ADCS_FDIR = 5"
| "recoveryIncidentSource_code ADCS_POLL_TRANSPORT = 6"
| "recoveryIncidentSource_code ADCS_POLL_FRESHNESS = 7"
| "recoveryIncidentSource_code COMM_PRIMARY_UNAVAILABLE = 8"
| "recoveryIncidentSource_code COMM_PRIMARY_TRANSPORT = 9"
| "recoveryIncidentSource_code RIS_NONE = 255"

definition RecoveryIncidentSourceCount :: nat where "RecoveryIncidentSourceCount = 10"

datatype recoveryLevel = R0_RECORD_ONLY | R1_RETRY | R2_RESTART_SOFTWARE_COMPONENT
  | R3_RESET_SUBSYSTEM_INTERFACE | R4_POWER_CYCLE_SUBSYSTEM | R5_MODE_FALLBACK | R6_OBC_REBOOT | R7_ENTER_HELL

fun recoveryLevel_code :: "recoveryLevel \<Rightarrow> nat" where
  "recoveryLevel_code R0_RECORD_ONLY = 0"
| "recoveryLevel_code R1_RETRY = 1"
| "recoveryLevel_code R2_RESTART_SOFTWARE_COMPONENT = 2"
| "recoveryLevel_code R3_RESET_SUBSYSTEM_INTERFACE = 3"
| "recoveryLevel_code R4_POWER_CYCLE_SUBSYSTEM = 4"
| "recoveryLevel_code R5_MODE_FALLBACK = 5"
| "recoveryLevel_code R6_OBC_REBOOT = 6"
| "recoveryLevel_code R7_ENTER_HELL = 7"

text \<open>Levels are compared by their numeric values.\<close>

instantiation recoveryLevel :: linorder
begin

definition less_eq_recoveryLevel :: "recoveryLevel \<Rightarrow> recoveryLevel \<Rightarrow> bool" where
  "less_eq_recoveryLevel a b \<longleftrightarrow> recoveryLevel_code a \<le> recoveryLevel_code b"

definition less_recoveryLevel :: "recoveryLevel \<Rightarrow> recoveryLevel \<Rightarrow> bool" where
  "less_recoveryLevel a b \<longleftrightarrow> recoveryLevel_code a < recoveryLevel_code b"

instance
proof
  fix x y z :: recoveryLevel
  show "x \<le> y \<Longrightarrow> y \<le> x \<Longrightarrow> x = y"
    by (cases x; cases y) (simp_all add: less_eq_recoveryLevel_def)
qed (auto simp: less_eq_recoveryLevel_def less_recoveryLevel_def)

end

datatype recoveryAction = RA_NONE | PROCESS_RESTART_INTENT | SUBSYSTEM_INTERFACE_RESET | SAFE_FALLBACK
  | OBC_REBOOT | RA_INCIDENT_CLEARED | COMM_LINK_FAILOVER | PROCESS_RESTART

datatype resetCause = UNKNOWN | RECOVERY_WATCHDOG | RECOVERY_EPS_TIMEOUT | RECOVERY_ADCS_FDIR | RECOVERY_COMM_FDIR

datatype persistentFaultRecordKind = BOOT_OBSERVED | RECOVERY_BOOT_ACK | INCIDENT_OPENED | ACTION_REQUESTED
  | ACTION_EXECUTED | REBOOT_PENDING | REBOOT_ISSUED | INCIDENT_CLEARED

record persistentFaultRecord =
  fr_kind :: persistentFaultRecordKind
  fr_source :: recoveryIncidentSource
  fr_level :: recoveryLevel
  fr_action :: recoveryAction
  fr_resetCause :: resetCause
  fr_timestampSec :: u32
  fr_uptimeSec :: u32
  fr_bootCount :: u32
  fr_consecutiveResetCount :: u32
  fr_detail :: u32
  fr_flags :: u32

record recoveryIncidentState =
  ri_active :: bool
  ri_awaitingClear :: bool
  ri_hasOpenedBefore :: bool
  ri_firstActionIssued :: bool
  ri_restartIntentIssued :: bool
  ri_processRestartPending :: bool
  ri_safeFallbackIssued :: bool
  ri_resetIssued :: bool
  ri_commFailoverIssued :: bool
  ri_rebootPending :: bool
  ri_source :: recoveryIncidentSource
  ri_currentLevel :: recoveryLevel
  ri_highestLevel :: recoveryLevel
  ri_lastAction :: recoveryAction
  ri_epoch :: u32
  ri_relatchCount :: u32
  ri_openTicks :: u32

definition recoveryIncident_init :: "recoveryIncidentSource \<Rightarrow> recoveryIncidentState" where
  "recoveryIncident_init source = \<lparr>ri_active = False, ri_awaitingClear = False, ri_hasOpenedBefore = False,
     ri_firstActionIssued = False, ri_restartIntentIssued = False, ri_processRestartPending = False,
     ri_safeFallbackIssued = False, ri_resetIssued = False, ri_commFailoverIssued = False,
     ri_rebootPending = False, ri_source = source, ri_currentLevel = R0_RECORD_ONLY,
     ri_highestLevel = R0_RECORD_ONLY, ri_lastAction = RA_NONE, ri_epoch = 0, ri_relatchCount = 0, ri_openTicks = 0\<rparr>"

record recoveryRuntimeStatus =
  rs_activeIncidentCount :: u32
  rs_activeSource :: recoveryIncidentSource
  rs_currentLevel :: recoveryLevel
  rs_highestLevel :: recoveryLevel
  rs_lastAction :: recoveryAction
  rs_pendingProcessRestart :: bool
  rs_pendingReboot :: bool
  rs_relatchCount :: u32
  rs_totalSafeFallbacks :: u32
  rs_totalResetActions :: u32
  rs_totalProcessRestarts :: u32
  rs_totalReboots :: u32
  rs_incidents :: "recoveryIncidentState list"

datatype recoveryExitRequest = EXIT_NONE | EXIT_PROCESS_RESTART | EXIT_OBC_REBOOT

record recoveryCommActionResult =
  ca_switched :: bool
  ca_alreadyOnHealthyPrimary :: bool
  ca_noHealthyBackup :: bool
  ca_sessionsRevoked :: u32
  ca_ownersCleared :: u32
  ca_finalPrimaryCommandLink :: commBand
  ca_finalPrimaryTelemetryLink :: commBand
  ca_finalPrimaryFileLink :: commBand

definition defaultCommActionResult :: recoveryCommActionResult where
  "defaultCommActionResult = \<lparr>ca_switched = False, ca_alreadyOnHealthyPrimary = False, ca_noHealthyBackup = False,
     ca_sessionsRevoked = 0, ca_ownersCleared = 0, ca_finalPrimaryCommandLink = SBAND,
     ca_finalPrimaryTelemetryLink = SBAND, ca_finalPrimaryFileLink = SBAND\<rparr>"

text \<open>\<open>IRecoveryBootControl\<close>; a reset control returns the numeric command response.\<close>

record 'w recoveryBootControl =
  bc_isBootSafeFallbackRequired :: "'w \<Rightarrow> bool"
  bc_getBootCount :: "'w \<Rightarrow> u32"
  bc_getConsecutiveResetCount :: "'w \<Rightarrow> u32"
  bc_getUptime :: "'w \<Rightarrow> u32"
  bc_recordRecoveryRestartIntent :: "resetCause \<Rightarrow> recoveryIncidentSource \<Rightarrow> recoveryLevel \<Rightarrow> 'w \<Rightarrow> bool \<times> 'w"
  bc_acknowledgeRuntimeStable :: "'w \<Rightarrow> bool \<times> 'w"

type_synonym 'w recoveryResetControl = "'w \<Rightarrow> u32 \<times> 'w"
type_synonym 'w recoveryCommControl = "'w \<Rightarrow> recoveryCommActionResult \<times> 'w"

record frameworkTime =
  ft_baseIsNone :: bool
  ft_seconds :: u32
  ft_useconds :: u32

record recoveryFramework =
  fw_time :: frameworkTime
  fw_executionError :: u32

definition persistentFaultTimeIsZero :: "frameworkTime \<Rightarrow> bool" where
  "persistentFaultTimeIsZero t \<longleftrightarrow> ft_baseIsNone t \<and> ft_seconds t = 0 \<and> ft_useconds t = 0"

definition persistentFaultTimestampSec :: "frameworkTime \<Rightarrow> u32" where
  "persistentFaultTimestampSec t = (if persistentFaultTimeIsZero t then 0 else ft_seconds t)"

datatype externalActionKind = APPLY_SAFE | APPLY_BOOT_SAFE_FALLBACK | EPS_RESET | ADCS_RESET | COMM_FAILOVER
  | RECORD_PROCESS_RESTART_INTENT | RECORD_REBOOT_INTENT | ACK_STABLE

record externalActionRequest =
  ea_kind :: externalActionKind
  ea_source :: recoveryIncidentSource
  ea_action :: recoveryAction
  ea_modeSource :: modeApplySource

definition externalAction :: "externalActionKind \<Rightarrow> recoveryIncidentSource \<Rightarrow> recoveryAction \<Rightarrow> modeApplySource \<Rightarrow>
    externalActionRequest" where
  "externalAction kind source action modeSource =
     \<lparr>ea_kind = kind, ea_source = source, ea_action = action, ea_modeSource = modeSource\<rparr>"

record 'w recoveryExecutor =
  re_modeControl :: "'w modeControl option"
  re_epsControl :: "'w recoveryResetControl option"
  re_adcsControl :: "'w recoveryResetControl option"
  re_bootControl :: "'w recoveryBootControl option"
  re_commControl :: "'w recoveryCommControl option"
  re_faultRecorder :: bool
  re_status :: recoveryRuntimeStatus
  re_stableTicks :: u32
  re_bootClampApplied :: bool
  re_stableAcked :: bool
  re_hardwareWatchdogModeEnabled :: bool
  re_processRestartRequested :: bool
  re_rebootRequested :: bool
  re_exitRequestConsumed :: bool

datatype reOut = RECOVERY_INCIDENT_OPENED recoveryIncidentSource recoveryLevel u32
  | RECOVERY_ACTION_REQUESTED recoveryIncidentSource recoveryLevel recoveryAction
  | RECOVERY_ACTION_EXECUTED recoveryIncidentSource recoveryAction u32
  | RECOVERY_REBOOT_PENDING recoveryIncidentSource recoveryLevel
  | RECOVERY_REBOOT_ISSUED recoveryIncidentSource recoveryLevel
  | RECOVERY_INCIDENT_CLEARED recoveryIncidentSource recoveryLevel u32
  | RECOVERY_STATUS u32 recoveryIncidentSource recoveryLevel recoveryAction bool bool u32
  | Tlm_RECOVERY_ACTIVE_INCIDENTS u32
  | Tlm_RECOVERY_ACTIVE_SOURCE recoveryIncidentSource
  | Tlm_RECOVERY_CURRENT_LEVEL recoveryLevel
  | Tlm_RECOVERY_HIGHEST_LEVEL recoveryLevel
  | Tlm_RECOVERY_LAST_ACTION recoveryAction
  | Tlm_RECOVERY_PENDING_REBOOT bool
  | Tlm_RECOVERY_RELATCH_COUNT u32
  | Tlm_RECOVERY_TOTAL_SAFE_FALLBACKS u32
  | Tlm_RECOVERY_TOTAL_RESET_ACTIONS u32
  | Tlm_RECOVERY_TOTAL_REBOOTS u32
  | Tlm_RECOVERY_PENDING_PROCESS_RESTART bool
  | Tlm_RECOVERY_TOTAL_PROCESS_RESTARTS u32
  | ReFaultRecord persistentFaultRecord
  | ReCmdResponse cmdResponse

definition STABLE_ACK_TICKS :: u32 where "STABLE_ACK_TICKS = 5"

definition UNCLEARED_REBOOT_TIMEOUT_TICKS :: u32 where "UNCLEARED_REBOOT_TIMEOUT_TICKS = 3"

section \<open>Tables of RecoveryRuntime.hpp\<close>

fun recoveryIncidentSourceFromWatchdog :: "watchdogSource \<Rightarrow> recoveryIncidentSource" where
  "recoveryIncidentSourceFromWatchdog EPS_BRIDGE = WATCHDOG_EPS_BRIDGE"
| "recoveryIncidentSourceFromWatchdog EPS_FDIR = WATCHDOG_EPS_FDIR"
| "recoveryIncidentSourceFromWatchdog MODE_SAFETY = WATCHDOG_MODE_SAFETY"
| "recoveryIncidentSourceFromWatchdog COMM_CONTROLLER = WATCHDOG_COMM_CONTROLLER"
| "recoveryIncidentSourceFromWatchdog ADCS_FDIR = WATCHDOG_ADCS_FDIR"

fun recoveryIncidentSourceIsWatchdog :: "recoveryIncidentSource \<Rightarrow> bool" where
  "recoveryIncidentSourceIsWatchdog WATCHDOG_EPS_BRIDGE = True"
| "recoveryIncidentSourceIsWatchdog WATCHDOG_EPS_FDIR = True"
| "recoveryIncidentSourceIsWatchdog WATCHDOG_MODE_SAFETY = True"
| "recoveryIncidentSourceIsWatchdog WATCHDOG_COMM_CONTROLLER = True"
| "recoveryIncidentSourceIsWatchdog WATCHDOG_ADCS_FDIR = True"
| "recoveryIncidentSourceIsWatchdog _ = False"

definition recoveryIncidentSourceIsIndexed :: "recoveryIncidentSource \<Rightarrow> bool" where
  "recoveryIncidentSourceIsIndexed source \<longleftrightarrow> recoveryIncidentSource_code source < RecoveryIncidentSourceCount"

fun recoveryInitialLevelForSource :: "recoveryIncidentSource \<Rightarrow> recoveryLevel" where
  "recoveryInitialLevelForSource WATCHDOG_EPS_BRIDGE = R2_RESTART_SOFTWARE_COMPONENT"
| "recoveryInitialLevelForSource WATCHDOG_EPS_FDIR = R2_RESTART_SOFTWARE_COMPONENT"
| "recoveryInitialLevelForSource WATCHDOG_MODE_SAFETY = R2_RESTART_SOFTWARE_COMPONENT"
| "recoveryInitialLevelForSource WATCHDOG_COMM_CONTROLLER = R2_RESTART_SOFTWARE_COMPONENT"
| "recoveryInitialLevelForSource WATCHDOG_ADCS_FDIR = R2_RESTART_SOFTWARE_COMPONENT"
| "recoveryInitialLevelForSource RIS_NONE = R0_RECORD_ONLY"
| "recoveryInitialLevelForSource _ = R3_RESET_SUBSYSTEM_INTERFACE"

fun recoveryResetCauseForSource :: "recoveryIncidentSource \<Rightarrow> resetCause" where
  "recoveryResetCauseForSource EPS_TIMEOUT = RECOVERY_EPS_TIMEOUT"
| "recoveryResetCauseForSource ADCS_POLL_TRANSPORT = RECOVERY_ADCS_FDIR"
| "recoveryResetCauseForSource ADCS_POLL_FRESHNESS = RECOVERY_ADCS_FDIR"
| "recoveryResetCauseForSource COMM_PRIMARY_UNAVAILABLE = RECOVERY_COMM_FDIR"
| "recoveryResetCauseForSource COMM_PRIMARY_TRANSPORT = RECOVERY_COMM_FDIR"
| "recoveryResetCauseForSource RIS_NONE = UNKNOWN"
| "recoveryResetCauseForSource _ = RECOVERY_WATCHDOG"

definition modeIsSafeRequestable :: "satMode \<Rightarrow> bool" where
  "modeIsSafeRequestable mode \<longleftrightarrow> mode = IDLE \<or> mode = PAYLOAD \<or> mode = TTC"

definition commActionResponseCode :: "recoveryCommActionResult \<Rightarrow> u32" where
  "commActionResponseCode result =
     (if ca_noHealthyBackup result then 1 else if ca_alreadyOnHealthyPrimary result then 2 else 0)"

definition isSubsystemRecoverySource :: "recoveryIncidentSource \<Rightarrow> bool" where
  "isSubsystemRecoverySource source \<longleftrightarrow> source = EPS_TIMEOUT \<or> source = ADCS_POLL_TRANSPORT \<or>
     source = ADCS_POLL_FRESHNESS \<or> source = COMM_PRIMARY_UNAVAILABLE \<or> source = COMM_PRIMARY_TRANSPORT"

definition isWatchdogRecoverySource :: "recoveryIncidentSource \<Rightarrow> bool" where
  "isWatchdogRecoverySource source \<longleftrightarrow> source = WATCHDOG_EPS_BRIDGE \<or> source = WATCHDOG_EPS_FDIR \<or>
     source = WATCHDOG_MODE_SAFETY \<or> source = WATCHDOG_COMM_CONTROLLER \<or> source = WATCHDOG_ADCS_FDIR"

definition isUnclearedTimeoutRecoverySource :: "recoveryIncidentSource \<Rightarrow> bool" where
  "isUnclearedTimeoutRecoverySource source \<longleftrightarrow> isSubsystemRecoverySource source \<or> isWatchdogRecoverySource source"

section \<open>Configuration and access\<close>

definition recoverySources :: "recoveryIncidentSource list" where
  "recoverySources = [WATCHDOG_EPS_BRIDGE, WATCHDOG_EPS_FDIR, WATCHDOG_MODE_SAFETY, WATCHDOG_COMM_CONTROLLER,
     EPS_TIMEOUT, WATCHDOG_ADCS_FDIR, ADCS_POLL_TRANSPORT, ADCS_POLL_FRESHNESS, COMM_PRIMARY_UNAVAILABLE,
     COMM_PRIMARY_TRANSPORT]"

definition recoveryStatus_init :: recoveryRuntimeStatus where
  "recoveryStatus_init = \<lparr>rs_activeIncidentCount = 0, rs_activeSource = RIS_NONE, rs_currentLevel = R0_RECORD_ONLY,
     rs_highestLevel = R0_RECORD_ONLY, rs_lastAction = RA_NONE, rs_pendingProcessRestart = False,
     rs_pendingReboot = False, rs_relatchCount = 0, rs_totalSafeFallbacks = 0, rs_totalResetActions = 0,
     rs_totalProcessRestarts = 0, rs_totalReboots = 0,
     rs_incidents = map recoveryIncident_init recoverySources\<rparr>"

definition recoveryExecutor_init :: "'w recoveryExecutor" where
  "recoveryExecutor_init = \<lparr>re_modeControl = None, re_epsControl = None, re_adcsControl = None,
     re_bootControl = None, re_commControl = None, re_faultRecorder = False, re_status = recoveryStatus_init,
     re_stableTicks = 0, re_bootClampApplied = False, re_stableAcked = False,
     re_hardwareWatchdogModeEnabled = False, re_processRestartRequested = False, re_rebootRequested = False,
     re_exitRequestConsumed = False\<rparr>"

definition re_configureRuntime :: "'w modeControl option \<Rightarrow> 'w recoveryResetControl option \<Rightarrow>
    'w recoveryResetControl option \<Rightarrow> 'w recoveryBootControl option \<Rightarrow> 'w recoveryCommControl option \<Rightarrow>
    'w recoveryExecutor \<Rightarrow> 'w recoveryExecutor" where
  "re_configureRuntime modeControl epsControl adcsControl bootControl commControl c =
     c\<lparr>re_modeControl := modeControl, re_epsControl := epsControl, re_adcsControl := adcsControl,
       re_bootControl := bootControl, re_commControl := commControl, re_stableTicks := 0,
       re_bootClampApplied := False, re_stableAcked := False, re_processRestartRequested := False,
       re_rebootRequested := False, re_exitRequestConsumed := False\<rparr>"

definition configureHardwareWatchdogModeForRuntime :: "bool \<Rightarrow> 'w recoveryExecutor \<Rightarrow> 'w recoveryExecutor" where
  "configureHardwareWatchdogModeForRuntime enabled c = c\<lparr>re_hardwareWatchdogModeEnabled := enabled\<rparr>"

definition configurePersistentFaultRecorderForRuntime :: "bool \<Rightarrow> 'w recoveryExecutor \<Rightarrow> 'w recoveryExecutor" where
  "configurePersistentFaultRecorderForRuntime recorder c = c\<lparr>re_faultRecorder := recorder\<rparr>"

definition re_currentMode :: "'w recoveryExecutor \<Rightarrow> 'w \<Rightarrow> satMode" where
  "re_currentMode c w = (case re_modeControl c of None \<Rightarrow> SAFE | Some mc \<Rightarrow> mc_getModeForRuntime mc w)"

definition bootSafeFallbackRequired :: "'w recoveryExecutor \<Rightarrow> 'w \<Rightarrow> bool" where
  "bootSafeFallbackRequired c w =
     (case re_bootControl c of None \<Rightarrow> False | Some bc \<Rightarrow> bc_isBootSafeFallbackRequired bc w)"

definition incidentForSource :: "'w recoveryExecutor \<Rightarrow> recoveryIncidentSource \<Rightarrow> recoveryIncidentState option" where
  "incidentForSource c source =
     (if recoveryIncidentSourceIsIndexed source
      then Some (rs_incidents (re_status c) ! recoveryIncidentSource_code source) else None)"

definition setIncident :: "recoveryIncidentSource \<Rightarrow> recoveryIncidentState \<Rightarrow> 'w recoveryExecutor \<Rightarrow> 'w recoveryExecutor" where
  "setIncident source inc c = c\<lparr>re_status := (re_status c)\<lparr>rs_incidents :=
     (rs_incidents (re_status c))[recoveryIncidentSource_code source := inc]\<rparr>\<rparr>"

section \<open>The status summary\<close>

definition incidentShown :: "recoveryIncidentState \<Rightarrow> bool" where
  "incidentShown inc \<longleftrightarrow> ri_active inc \<or> ri_processRestartPending inc \<or> ri_rebootPending inc"

definition summaryStep :: "recoveryIncidentState \<Rightarrow> recoveryIncidentState option \<Rightarrow> recoveryIncidentState option" where
  "summaryStep inc summary =
     (if incidentShown inc \<and>
         (case summary of None \<Rightarrow> True
          | Some s \<Rightarrow> ri_currentLevel inc > ri_currentLevel s \<or>
              (ri_currentLevel inc = ri_currentLevel s \<and> ri_epoch inc > ri_epoch s))
      then Some inc else summary)"

definition updateStatusSummary :: "recoveryIncidentState option \<Rightarrow> 'w recoveryExecutor \<Rightarrow> 'w recoveryExecutor" where
  "updateStatusSummary focusIncident c =
     (let st = re_status c;
          incs = rs_incidents st;
          activeCount = fold (\<lambda>inc n. if ri_active inc then sat_inc n else n) incs 0;
          st1 = st\<lparr>rs_activeIncidentCount := activeCount,
                   rs_pendingProcessRestart := list_ex ri_processRestartPending incs,
                   rs_pendingReboot := list_ex ri_rebootPending incs\<rparr>;
          focus = (case focusIncident of None \<Rightarrow> None | Some f \<Rightarrow> if incidentShown f then Some f else None)
      in c\<lparr>re_status :=
           (case fold summaryStep incs focus of
              Some s \<Rightarrow> st1\<lparr>rs_activeSource := ri_source s, rs_currentLevel := ri_currentLevel s,
                rs_highestLevel := ri_highestLevel s, rs_lastAction := ri_lastAction s,
                rs_relatchCount := ri_relatchCount s\<rparr>
            | None \<Rightarrow>
                if activeCount = 0
                then st1\<lparr>rs_activeSource := RIS_NONE, rs_currentLevel := R0_RECORD_ONLY,
                  rs_highestLevel := R0_RECORD_ONLY, rs_lastAction := RA_NONE, rs_relatchCount := 0\<rparr>
                else st1)\<rparr>)"

definition mapIncidents :: "(recoveryIncidentState \<Rightarrow> recoveryIncidentState) \<Rightarrow> 'w recoveryExecutor \<Rightarrow> 'w recoveryExecutor" where
  "mapIncidents f c = c\<lparr>re_status := (re_status c)\<lparr>rs_incidents := map f (rs_incidents (re_status c))\<rparr>\<rparr>"

definition consumeRecoveryExitRequestForRuntime :: "'w recoveryExecutor \<Rightarrow> recoveryExitRequest \<times> 'w recoveryExecutor" where
  "consumeRecoveryExitRequestForRuntime c =
     (if re_rebootRequested c then
        (EXIT_OBC_REBOOT, updateStatusSummary None (mapIncidents (ri_rebootPending_update (\<lambda>_. False))
           (c\<lparr>re_rebootRequested := False, re_exitRequestConsumed := True\<rparr>)))
      else if re_processRestartRequested c then
        (EXIT_PROCESS_RESTART, updateStatusSummary None (mapIncidents (ri_processRestartPending_update (\<lambda>_. False))
           (c\<lparr>re_processRestartRequested := False, re_exitRequestConsumed := True\<rparr>)))
      else (EXIT_NONE, c))"

definition consumeRebootRequestForRuntime :: "'w recoveryExecutor \<Rightarrow> bool \<times> 'w recoveryExecutor" where
  "consumeRebootRequestForRuntime c =
     (if re_rebootRequested c then
        (True, updateStatusSummary None (mapIncidents (ri_rebootPending_update (\<lambda>_. False))
           (c\<lparr>re_rebootRequested := False, re_exitRequestConsumed := True\<rparr>)))
      else (False, c\<lparr>re_rebootRequested := False\<rparr>))"

section \<open>Records and events\<close>

definition appendPersistentFaultRecord :: "recoveryFramework \<Rightarrow> 'w recoveryExecutor \<Rightarrow> 'w \<Rightarrow>
    persistentFaultRecordKind \<Rightarrow> recoveryIncidentState \<Rightarrow> recoveryAction \<Rightarrow> u32 \<Rightarrow> u32 \<Rightarrow> reOut list" where
  "appendPersistentFaultRecord fw c w kind inc action detail flags =
     (if \<not> re_faultRecorder c then []
      else let boot = (\<lambda>get. case re_bootControl c of None \<Rightarrow> 0 | Some bc \<Rightarrow> get bc w)
           in [ReFaultRecord \<lparr>fr_kind = kind, fr_source = ri_source inc, fr_level = ri_currentLevel inc,
                 fr_action = action, fr_resetCause = recoveryResetCauseForSource (ri_source inc),
                 fr_timestampSec = persistentFaultTimestampSec (fw_time fw),
                 fr_uptimeSec = boot bc_getUptime, fr_bootCount = boot bc_getBootCount,
                 fr_consecutiveResetCount = boot bc_getConsecutiveResetCount,
                 fr_detail = detail, fr_flags = flags\<rparr>])"

definition issueActionRequested :: "recoveryFramework \<Rightarrow> 'w recoveryExecutor \<Rightarrow> 'w \<Rightarrow> recoveryIncidentState \<Rightarrow>
    recoveryAction \<Rightarrow> reOut list" where
  "issueActionRequested fw c w inc action =
     RECOVERY_ACTION_REQUESTED (ri_source inc) (ri_currentLevel inc) action #
     appendPersistentFaultRecord fw c w ACTION_REQUESTED inc action 0 0"

definition issueActionExecuted :: "recoveryFramework \<Rightarrow> 'w recoveryExecutor \<Rightarrow> 'w \<Rightarrow> recoveryIncidentState \<Rightarrow>
    recoveryAction \<Rightarrow> u32 \<Rightarrow> reOut list" where
  "issueActionExecuted fw c w inc action response =
     RECOVERY_ACTION_EXECUTED (ri_source inc) action response #
     appendPersistentFaultRecord fw c w ACTION_EXECUTED inc action response 0"

section \<open>Incidents\<close>

definition openIncident :: "recoveryFramework \<Rightarrow> 'w recoveryExecutor \<Rightarrow> 'w \<Rightarrow> recoveryIncidentState \<Rightarrow>
    recoveryIncidentSource \<Rightarrow> recoveryIncidentState \<times> reOut list" where
  "openIncident fw c w inc source =
     (let relatch = (if ri_hasOpenedBefore inc then sat_inc (ri_relatchCount inc) else ri_relatchCount inc);
          level = recoveryInitialLevelForSource source;
          inc1 = inc\<lparr>ri_relatchCount := relatch, ri_active := True, ri_awaitingClear := True,
                  ri_hasOpenedBefore := True, ri_firstActionIssued := False, ri_restartIntentIssued := False,
                  ri_processRestartPending := False, ri_safeFallbackIssued := False, ri_resetIssued := False,
                  ri_commFailoverIssued := False, ri_rebootPending := False, ri_source := source,
                  ri_currentLevel := level, ri_highestLevel := level, ri_lastAction := RA_NONE,
                  ri_openTicks := 0, ri_epoch := sat_inc (ri_epoch inc)\<rparr>
      in (inc1, RECOVERY_INCIDENT_OPENED source level relatch #
                appendPersistentFaultRecord fw c w INCIDENT_OPENED inc1 RA_NONE relatch 0))"

definition closeIncident :: "recoveryFramework \<Rightarrow> 'w recoveryExecutor \<Rightarrow> 'w \<Rightarrow> recoveryIncidentState \<Rightarrow>
    recoveryIncidentState \<times> reOut list" where
  "closeIncident fw c w inc =
     (let inc1 = inc\<lparr>ri_active := False, ri_awaitingClear := False\<rparr>;
          inc2 = (if \<not> ri_processRestartPending inc \<and> \<not> ri_rebootPending inc
                  then inc1\<lparr>ri_currentLevel := R0_RECORD_ONLY, ri_lastAction := RA_INCIDENT_CLEARED\<rparr> else inc1);
          clearedRecord = inc\<lparr>ri_currentLevel := ri_highestLevel inc, ri_lastAction := RA_INCIDENT_CLEARED\<rparr>
      in (inc2, RECOVERY_INCIDENT_CLEARED (ri_source inc2) (ri_highestLevel inc2) (ri_relatchCount inc2) #
                appendPersistentFaultRecord fw c w INCIDENT_CLEARED clearedRecord RA_INCIDENT_CLEARED 0 0))"

definition raiseLevel :: "recoveryLevel \<Rightarrow> recoveryAction \<Rightarrow> recoveryIncidentState \<Rightarrow> recoveryIncidentState" where
  "raiseLevel level action inc =
     inc\<lparr>ri_currentLevel := level,
         ri_highestLevel := (if ri_highestLevel inc < level then level else ri_highestLevel inc),
         ri_lastAction := action\<rparr>"

text \<open>Each preparation returns the incident, what it emits and the external actions it appends.\<close>

type_synonym prepared = "recoveryIncidentState \<times> reOut list \<times> externalActionRequest list"

definition prepareProcessRestart :: "recoveryFramework \<Rightarrow> 'w recoveryExecutor \<Rightarrow> 'w \<Rightarrow> modeApplySource \<Rightarrow>
    recoveryIncidentState \<Rightarrow> prepared" where
  "prepareProcessRestart fw c w fallbackModeSource inc =
     (if ri_restartIntentIssued inc then (inc, [], [])
      else let inc1 = raiseLevel R2_RESTART_SOFTWARE_COMPONENT PROCESS_RESTART
                        (inc\<lparr>ri_restartIntentIssued := True, ri_firstActionIssued := True\<rparr>)
           in (inc1, issueActionRequested fw c w inc1 PROCESS_RESTART,
               [externalAction RECORD_PROCESS_RESTART_INTENT (ri_source inc1) PROCESS_RESTART fallbackModeSource]))"

definition prepareSafeFallback :: "recoveryFramework \<Rightarrow> 'w recoveryExecutor \<Rightarrow> 'w \<Rightarrow> satMode \<Rightarrow> modeApplySource \<Rightarrow>
    bool \<Rightarrow> recoveryIncidentState \<Rightarrow> bool \<times> prepared" where
  "prepareSafeFallback fw c w currentMode modeSource allowAlreadySafe inc =
     (let canRequestSafe = (modeIsSafeRequestable currentMode \<or> (allowAlreadySafe \<and> currentMode = SAFE))
      in if ri_safeFallbackIssued inc \<or> re_modeControl c = None \<or> \<not> canRequestSafe then (False, inc, [], [])
         else let inc1 = raiseLevel R5_MODE_FALLBACK SAFE_FALLBACK (inc\<lparr>ri_safeFallbackIssued := True\<rparr>)
              in (True, inc1, issueActionRequested fw c w inc1 SAFE_FALLBACK,
                  [externalAction APPLY_SAFE (ri_source inc1) SAFE_FALLBACK modeSource]))"

definition applyBootSafeFallbackClamp :: "recoveryFramework \<Rightarrow> 'w recoveryExecutor \<Rightarrow> 'w \<Rightarrow> satMode \<Rightarrow>
    modeApplySource \<Rightarrow> recoveryIncidentState \<Rightarrow> bool \<times> prepared" where
  "applyBootSafeFallbackClamp fw c w currentMode modeSource inc =
     (if \<not> bootSafeFallbackRequired c w then (False, inc, [], [])
      else prepareSafeFallback fw c w currentMode modeSource True inc)"

definition prepareEpsReset :: "recoveryFramework \<Rightarrow> 'w recoveryExecutor \<Rightarrow> 'w \<Rightarrow> recoveryIncidentState \<Rightarrow> prepared" where
  "prepareEpsReset fw c w inc =
     (if ri_resetIssued inc then (inc, [], [])
      else let inc1 = raiseLevel R3_RESET_SUBSYSTEM_INTERFACE SUBSYSTEM_INTERFACE_RESET
                        (inc\<lparr>ri_resetIssued := True, ri_firstActionIssued := True\<rparr>)
           in (inc1, issueActionRequested fw c w inc1 SUBSYSTEM_INTERFACE_RESET,
               [externalAction EPS_RESET (ri_source inc1) SUBSYSTEM_INTERFACE_RESET TestSetup]))"

definition prepareAdcsReset :: "recoveryFramework \<Rightarrow> 'w recoveryExecutor \<Rightarrow> 'w \<Rightarrow> recoveryIncidentState \<Rightarrow> prepared" where
  "prepareAdcsReset fw c w inc =
     (if ri_resetIssued inc then (inc, [], [])
      else let inc1 = raiseLevel R3_RESET_SUBSYSTEM_INTERFACE SUBSYSTEM_INTERFACE_RESET
                        (inc\<lparr>ri_resetIssued := True, ri_firstActionIssued := True\<rparr>)
           in (inc1, issueActionRequested fw c w inc1 SUBSYSTEM_INTERFACE_RESET,
               [externalAction ADCS_RESET (ri_source inc1) SUBSYSTEM_INTERFACE_RESET TestSetup]))"

definition prepareCommFailover :: "recoveryFramework \<Rightarrow> 'w recoveryExecutor \<Rightarrow> 'w \<Rightarrow> recoveryIncidentState \<Rightarrow> prepared" where
  "prepareCommFailover fw c w inc =
     (if ri_commFailoverIssued inc then (inc, [], [])
      else let inc1 = raiseLevel R3_RESET_SUBSYSTEM_INTERFACE COMM_LINK_FAILOVER
                        (inc\<lparr>ri_commFailoverIssued := True, ri_firstActionIssued := True\<rparr>)
           in (inc1, issueActionRequested fw c w inc1 COMM_LINK_FAILOVER,
               [externalAction COMM_FAILOVER (ri_source inc1) COMM_LINK_FAILOVER TestSetup]))"

definition prepareReboot :: "recoveryFramework \<Rightarrow> 'w recoveryExecutor \<Rightarrow> 'w \<Rightarrow> recoveryIncidentState \<Rightarrow> prepared" where
  "prepareReboot fw c w inc =
     (if ri_rebootPending inc then (inc, [], [])
      else let inc1 = raiseLevel R6_OBC_REBOOT OBC_REBOOT inc
           in (inc1, issueActionRequested fw c w inc1 OBC_REBOOT @
                     [RECOVERY_REBOOT_PENDING (ri_source inc1) (ri_currentLevel inc1)] @
                     appendPersistentFaultRecord fw c w REBOOT_PENDING inc1 OBC_REBOOT 0 0,
               [externalAction RECORD_REBOOT_INTENT (ri_source inc1) OBC_REBOOT TestSetup]))"

section \<open>External actions\<close>

text \<open>What executing one action returns: the executor, the world, the outputs and the follow-ups.\<close>

type_synonym 'w executed = "'w recoveryExecutor \<times> 'w \<times> reOut list \<times> externalActionRequest list"

definition applySafeAction :: "recoveryFramework \<Rightarrow> externalActionRequest \<Rightarrow> 'w recoveryExecutor \<Rightarrow> 'w \<Rightarrow> 'w executed" where
  "applySafeAction fw a c w =
     (let w1 = (case re_modeControl c of None \<Rightarrow> w
                | Some mc \<Rightarrow> mc_applyModeForInternalSource mc SAFE (ea_modeSource a) w)
      in case incidentForSource c (ea_source a) of
           None \<Rightarrow> (c, w1, [], [])
         | Some inc \<Rightarrow>
             (updateStatusSummary (Some inc) (c\<lparr>re_status := (re_status c)\<lparr>rs_totalSafeFallbacks :=
                sat_inc (rs_totalSafeFallbacks (re_status c))\<rparr>\<rparr>),
              w1, issueActionExecuted fw c w1 inc SAFE_FALLBACK 0, []))"

definition resetAction :: "recoveryFramework \<Rightarrow> 'w recoveryResetControl option \<Rightarrow> externalActionRequest \<Rightarrow>
    'w recoveryExecutor \<Rightarrow> 'w \<Rightarrow> 'w executed" where
  "resetAction fw control a c w =
     (let (response, w1) = (case control of None \<Rightarrow> (fw_executionError fw, w) | Some reset \<Rightarrow> reset w)
      in case incidentForSource c (ea_source a) of
           None \<Rightarrow> (c, w1, [], [])
         | Some inc \<Rightarrow>
             (updateStatusSummary (Some inc) (c\<lparr>re_status := (re_status c)\<lparr>rs_totalResetActions :=
                sat_inc (rs_totalResetActions (re_status c))\<rparr>\<rparr>),
              w1, issueActionExecuted fw c w1 inc SUBSYSTEM_INTERFACE_RESET response, []))"

definition commFailoverAction :: "recoveryFramework \<Rightarrow> externalActionRequest \<Rightarrow> 'w recoveryExecutor \<Rightarrow> 'w \<Rightarrow> 'w executed" where
  "commFailoverAction fw a c w =
     (let (result, w1) = (case re_commControl c of None \<Rightarrow> (defaultCommActionResult, w) | Some failover \<Rightarrow> failover w);
          (c1, out1) =
            (case incidentForSource c (ea_source a) of
               None \<Rightarrow> (c, [])
             | Some inc \<Rightarrow> (updateStatusSummary (Some inc) c,
                            issueActionExecuted fw c w1 inc COMM_LINK_FAILOVER (commActionResponseCode result)))
      in if ca_noHealthyBackup result then
           (case incidentForSource c1 (ea_source a) of
              None \<Rightarrow> (c1, w1, out1, [])
            | Some inc \<Rightarrow>
                if ri_active inc \<and> \<not> ri_rebootPending inc then
                  (let (_, inc1, out2, followups) =
                         prepareSafeFallback fw c1 w1 (re_currentMode c1 w1) FdirSubsystemFault False inc
                   in (updateStatusSummary (Some inc1) (setIncident (ea_source a) inc1 c1), w1, out1 @ out2, followups))
                else (c1, w1, out1, []))
         else (c1, w1, out1, []))"

definition recordIntent :: "'w recoveryExecutor \<Rightarrow> externalActionRequest \<Rightarrow> recoveryLevel \<Rightarrow> 'w \<Rightarrow> bool \<times> 'w" where
  "recordIntent c a level w =
     (case re_bootControl c of None \<Rightarrow> (False, w)
      | Some bc \<Rightarrow> bc_recordRecoveryRestartIntent bc (recoveryResetCauseForSource (ea_source a)) (ea_source a) level w)"

definition processRestartAction :: "recoveryFramework \<Rightarrow> externalActionRequest \<Rightarrow> 'w recoveryExecutor \<Rightarrow> 'w \<Rightarrow> 'w executed" where
  "processRestartAction fw a c w =
     (let (recorded, w1) = recordIntent c a R2_RESTART_SOFTWARE_COMPONENT w
      in case incidentForSource c (ea_source a) of
           None \<Rightarrow> (c, w1, [], [])
         | Some inc \<Rightarrow>
             if recorded then
               (let inc1 = inc\<lparr>ri_processRestartPending := True\<rparr>;
                    c1 = (setIncident (ea_source a) inc1 c)\<lparr>re_processRestartRequested := True\<rparr>;
                    c2 = c1\<lparr>re_status := (re_status c1)\<lparr>rs_pendingProcessRestart := True,
                          rs_totalProcessRestarts := sat_inc (rs_totalProcessRestarts (re_status c1))\<rparr>\<rparr>
                in (updateStatusSummary (Some inc1) c2, w1, issueActionExecuted fw c w1 inc1 PROCESS_RESTART 0, []))
             else
               (let out1 = issueActionExecuted fw c w1 inc PROCESS_RESTART (fw_executionError fw);
                    (inc1, out2, followups) =
                      (if ri_active inc \<and> \<not> ri_processRestartPending inc \<and> \<not> ri_rebootPending inc
                       then snd (prepareSafeFallback fw c w1 (re_currentMode c w1) (ea_modeSource a) True inc)
                       else (inc, [], []))
                in (updateStatusSummary (Some inc1) (setIncident (ea_source a) inc1 c), w1, out1 @ out2, followups)))"

definition rebootAction :: "recoveryFramework \<Rightarrow> externalActionRequest \<Rightarrow> 'w recoveryExecutor \<Rightarrow> 'w \<Rightarrow> 'w executed" where
  "rebootAction fw a c w =
     (let (recorded, w1) = recordIntent c a R6_OBC_REBOOT w
      in case incidentForSource c (ea_source a) of
           None \<Rightarrow> (c, w1, [], [])
         | Some inc \<Rightarrow>
             if recorded then
               (let requestRuntimeExit = (\<not> (re_hardwareWatchdogModeEnabled c \<and> recoveryIncidentSourceIsWatchdog (ea_source a)));
                    inc1 = inc\<lparr>ri_rebootPending := True\<rparr>;
                    c1 = (setIncident (ea_source a) inc1 c)\<lparr>re_rebootRequested := re_rebootRequested c \<or> requestRuntimeExit\<rparr>;
                    c2 = c1\<lparr>re_status := (re_status c1)\<lparr>rs_pendingReboot := True,
                          rs_totalReboots := sat_inc (rs_totalReboots (re_status c1))\<rparr>\<rparr>
                in (updateStatusSummary (Some inc1) c2, w1,
                    RECOVERY_REBOOT_ISSUED (ri_source inc1) (ri_currentLevel inc1) #
                    issueActionExecuted fw c w1 inc1 OBC_REBOOT 0 @
                    appendPersistentFaultRecord fw c w1 REBOOT_ISSUED inc1 OBC_REBOOT 0 0, []))
             else (updateStatusSummary (Some inc) c, w1,
                   issueActionExecuted fw c w1 inc OBC_REBOOT (fw_executionError fw), []))"

definition ackStableAction :: "'w recoveryExecutor \<Rightarrow> 'w \<Rightarrow> 'w executed" where
  "ackStableAction c w =
     (let (acked, w1) = (case re_bootControl c of None \<Rightarrow> (False, w) | Some bc \<Rightarrow> bc_acknowledgeRuntimeStable bc w)
      in (if acked then c\<lparr>re_stableAcked := True, re_stableTicks := 0\<rparr> else c, w1, [], []))"

definition executeExternalAction :: "recoveryFramework \<Rightarrow> externalActionRequest \<Rightarrow> 'w recoveryExecutor \<Rightarrow> 'w \<Rightarrow> 'w executed" where
  "executeExternalAction fw a c w =
     (case ea_kind a of
        APPLY_SAFE \<Rightarrow> applySafeAction fw a c w
      | EPS_RESET \<Rightarrow> resetAction fw (re_epsControl c) a c w
      | ADCS_RESET \<Rightarrow> resetAction fw (re_adcsControl c) a c w
      | COMM_FAILOVER \<Rightarrow> commFailoverAction fw a c w
      | RECORD_PROCESS_RESTART_INTENT \<Rightarrow> processRestartAction fw a c w
      | RECORD_REBOOT_INTENT \<Rightarrow> rebootAction fw a c w
      | ACK_STABLE \<Rightarrow> ackStableAction c w
      | APPLY_BOOT_SAFE_FALLBACK \<Rightarrow> (c, w, [], []))"

text \<open>
  The loop pops the first action and appends its follow-ups. It ends because a follow-up is always a
  SAFE application, which has no follow-up of its own.
\<close>

definition action_weight :: "externalActionRequest \<Rightarrow> nat" where
  "action_weight a = (if ea_kind a \<in> {COMM_FAILOVER, RECORD_PROCESS_RESTART_INTENT} then 2 else 1)"

lemma prepareSafeFallback_followups:
  "(b, inc1, out, fs) = prepareSafeFallback fw c w m ms al inc \<Longrightarrow>
     fs = [] \<or> (\<exists>a. fs = [a] \<and> ea_kind a = APPLY_SAFE)"
  by (auto simp: prepareSafeFallback_def Let_def externalAction_def split: if_splits)

lemma executeExternalAction_followups:
  assumes "executeExternalAction fw a c w = (c', w', out, fs)"
  shows "fs = [] \<or> ea_kind a \<in> {COMM_FAILOVER, RECORD_PROCESS_RESTART_INTENT} \<and>
           (\<exists>f. fs = [f] \<and> ea_kind f = APPLY_SAFE)"
proof (cases "ea_kind a")
  case COMM_FAILOVER
  then show ?thesis
    using assms by (auto simp: executeExternalAction_def commFailoverAction_def Let_def split_beta
        prepareSafeFallback_def externalAction_def split: if_splits option.splits)
next
  case RECORD_PROCESS_RESTART_INTENT
  then show ?thesis
    using assms by (auto simp: executeExternalAction_def processRestartAction_def Let_def split_beta
        prepareSafeFallback_def externalAction_def split: if_splits option.splits)
qed (use assms in \<open>auto simp: executeExternalAction_def applySafeAction_def resetAction_def rebootAction_def
      ackStableAction_def Let_def split_beta split: if_splits option.splits\<close>)

lemma executeExternalAction_weight:
  assumes "executeExternalAction fw a c w = (c', w', out, fs)"
  shows "sum_list (map action_weight fs) < action_weight a"
  using executeExternalAction_followups [OF assms] by (auto simp: action_weight_def)

function executeExternalActions :: "recoveryFramework \<Rightarrow> externalActionRequest list \<Rightarrow> 'w recoveryExecutor \<Rightarrow> 'w \<Rightarrow>
    'w recoveryExecutor \<times> 'w \<times> reOut list" where
  "executeExternalActions fw [] c w = (c, w, [])"
| "executeExternalActions fw (a # actions) c w =
     (let (c1, w1, out1, followups) = executeExternalAction fw a c w;
          (c2, w2, out2) = executeExternalActions fw (actions @ followups) c1 w1
      in (c2, w2, out1 @ out2))"
  by pat_completeness auto

termination
  by (relation "measure (\<lambda>(fw, actions, c, w). sum_list (map action_weight actions))")
    (auto dest!: sym [of "(_, _)" "executeExternalAction _ _ _ _"] dest: executeExternalAction_weight)

section \<open>The sink\<close>

definition submitWatchdogFault :: "recoveryFramework \<Rightarrow> watchdogSource \<Rightarrow> 'w recoveryExecutor \<Rightarrow> 'w \<Rightarrow>
    'w recoveryExecutor \<times> 'w \<times> reOut list" where
  "submitWatchdogFault fw source c w =
     (let currentMode = re_currentMode c w;
          incidentSource = recoveryIncidentSourceFromWatchdog source
      in case incidentForSource c incidentSource of
           None \<Rightarrow> (c, w, [])
         | Some inc \<Rightarrow>
             let (inc3, out, actions) =
                   (if \<not> ri_active inc then
                      let (inc1, out1) = openIncident fw c w inc incidentSource;
                          (clamped, inc2, out2, actions2) =
                            applyBootSafeFallbackClamp fw c w currentMode WatchdogFault inc1
                      in if clamped then (inc2, out1 @ out2, actions2)
                         else let (inc3, out3, actions3) = prepareProcessRestart fw c w WatchdogFault inc2
                              in (inc3, out1 @ out2 @ out3, actions2 @ actions3)
                    else (inc, [], []));
                 c1 = updateStatusSummary (Some inc3) (setIncident incidentSource inc3 c);
                 (c2, w2, out4) = executeExternalActions fw actions c1 w
             in (c2, w2, out @ out4))"

definition submitWatchdogSuppression :: "recoveryFramework \<Rightarrow> watchdogSource \<Rightarrow> 'w recoveryExecutor \<Rightarrow> 'w \<Rightarrow>
    'w recoveryExecutor \<times> 'w \<times> reOut list" where
  "submitWatchdogSuppression fw source c w =
     (let incidentSource = recoveryIncidentSourceFromWatchdog source
      in case incidentForSource c incidentSource of
           None \<Rightarrow> (c, w, [])
         | Some inc \<Rightarrow>
             let (inc1, out1) = (if \<not> ri_active inc then openIncident fw c w inc incidentSource else (inc, []));
                 (inc2, out2, actions) =
                   (if \<not> ri_rebootPending inc1 then prepareReboot fw c w inc1 else (inc1, [], []));
                 c1 = updateStatusSummary (Some inc2) (setIncident incidentSource inc2 c);
                 (c2, w2, out3) = executeExternalActions fw actions c1 w
             in (c2, w2, out1 @ out2 @ out3))"

definition clearIncidentBySource :: "recoveryFramework \<Rightarrow> recoveryIncidentSource \<Rightarrow> 'w recoveryExecutor \<Rightarrow> 'w \<Rightarrow>
    'w recoveryExecutor \<times> 'w \<times> reOut list" where
  "clearIncidentBySource fw source c w =
     (case incidentForSource c source of
        None \<Rightarrow> (c, w, [])
      | Some inc \<Rightarrow>
          if \<not> ri_active inc then (c, w, [])
          else let (inc1, out) = closeIncident fw c w inc
               in (updateStatusSummary (Some inc1) (setIncident source inc1 c), w, out))"

definition prepareSubsystemActions :: "recoveryFramework \<Rightarrow> 'w recoveryExecutor \<Rightarrow> 'w \<Rightarrow> recoveryIncidentSource \<Rightarrow>
    satMode \<Rightarrow> recoveryIncidentState \<Rightarrow> prepared" where
  "prepareSubsystemActions fw c w source currentMode inc =
     (if ri_relatchCount inc > 0 then prepareReboot fw c w inc
      else if source = EPS_TIMEOUT then
        (let (inc1, out1, actions1) = prepareEpsReset fw c w inc;
             (_, inc2, out2, actions2) = prepareSafeFallback fw c w currentMode FdirSubsystemFault False inc1
         in (inc2, out1 @ out2, actions1 @ actions2))
      else if source = ADCS_POLL_TRANSPORT \<or> source = ADCS_POLL_FRESHNESS then
        (let (inc1, out1, actions1) = prepareAdcsReset fw c w inc
         in if bootSafeFallbackRequired c w then
              (let (_, inc2, out2, actions2) = prepareSafeFallback fw c w currentMode FdirSubsystemFault True inc1
               in (inc2, out1 @ out2, actions1 @ actions2))
            else (inc1, out1, actions1))
      else if source = COMM_PRIMARY_UNAVAILABLE \<or> source = COMM_PRIMARY_TRANSPORT then prepareCommFailover fw c w inc
      else (inc, [], []))"

definition handleSubsystemFault :: "recoveryFramework \<Rightarrow> recoveryIncidentSource \<Rightarrow> satMode \<Rightarrow> 'w recoveryExecutor \<Rightarrow> 'w \<Rightarrow>
    'w recoveryExecutor \<times> 'w \<times> reOut list" where
  "handleSubsystemFault fw source currentMode c w =
     (case incidentForSource c source of
        None \<Rightarrow> (c, w, [])
      | Some inc \<Rightarrow>
          if ri_active inc \<or> re_processRestartRequested c \<or> re_rebootRequested c \<or> re_exitRequestConsumed c
          then (c, w, [])
          else let (inc1, out1) = openIncident fw c w inc source;
                   (inc2, out2, actions) = prepareSubsystemActions fw c w source currentMode inc1;
                   c1 = updateStatusSummary (Some inc2) (setIncident source inc2 c);
                   (c2, w2, out3) = executeExternalActions fw actions c1 w
               in (c2, w2, out1 @ out2 @ out3))"

text \<open>The methods of \<open>IRecoveryRequestSink\<close>.\<close>

fun re_request :: "recoveryFramework \<Rightarrow> recoveryRequest \<Rightarrow> 'w recoveryExecutor \<Rightarrow> 'w \<Rightarrow>
    'w recoveryExecutor \<times> 'w \<times> reOut list" where
  "re_request fw (SubmitWatchdogFault s) c w = submitWatchdogFault fw s c w"
| "re_request fw (SubmitWatchdogSuppression s) c w = submitWatchdogSuppression fw s c w"
| "re_request fw (ClearWatchdogFault s) c w = clearIncidentBySource fw (recoveryIncidentSourceFromWatchdog s) c w"
| "re_request fw (SubmitEpsTimeoutFault _) c w = handleSubsystemFault fw EPS_TIMEOUT (re_currentMode c w) c w"
| "re_request fw (ClearEpsTimeoutFault _) c w = clearIncidentBySource fw EPS_TIMEOUT c w"
| "re_request fw (SubmitAdcsPollTransportFault _) c w =
     handleSubsystemFault fw ADCS_POLL_TRANSPORT (re_currentMode c w) c w"
| "re_request fw (ClearAdcsPollTransportFault _) c w = clearIncidentBySource fw ADCS_POLL_TRANSPORT c w"
| "re_request fw (SubmitAdcsPollFreshnessFault _) c w =
     handleSubsystemFault fw ADCS_POLL_FRESHNESS (re_currentMode c w) c w"
| "re_request fw (ClearAdcsPollFreshnessFault _) c w = clearIncidentBySource fw ADCS_POLL_FRESHNESS c w"
| "re_request fw (SubmitCommPrimaryUnavailableFault _) c w =
     handleSubsystemFault fw COMM_PRIMARY_UNAVAILABLE (re_currentMode c w) c w"
| "re_request fw (ClearCommPrimaryUnavailableFault _) c w = clearIncidentBySource fw COMM_PRIMARY_UNAVAILABLE c w"
| "re_request fw (SubmitCommPrimaryTransportFault _) c w =
     handleSubsystemFault fw COMM_PRIMARY_TRANSPORT (re_currentMode c w) c w"
| "re_request fw (ClearCommPrimaryTransportFault _) c w = clearIncidentBySource fw COMM_PRIMARY_TRANSPORT c w"

section \<open>The periodic tick\<close>

definition applyBootClamp :: "'w recoveryExecutor \<Rightarrow> 'w \<Rightarrow> 'w recoveryExecutor \<times> 'w" where
  "applyBootClamp c w =
     (case re_modeControl c of
        None \<Rightarrow> (c, w)
      | Some mc \<Rightarrow>
          if \<not> re_bootClampApplied c \<and> bootSafeFallbackRequired c w
          then (c\<lparr>re_bootClampApplied := True\<rparr>, mc_applyModeForInternalSource mc SAFE RecoveryBootFallback w)
          else (c, w))"

definition tickIncident :: "recoveryFramework \<Rightarrow> 'w recoveryExecutor \<Rightarrow> 'w \<Rightarrow> recoveryIncidentState \<Rightarrow> prepared" where
  "tickIncident fw c w inc =
     (if isUnclearedTimeoutRecoverySource (ri_source inc) \<and> ri_active inc \<and> ri_awaitingClear inc \<and>
         \<not> ri_processRestartPending inc \<and> \<not> ri_rebootPending inc \<and> ri_firstActionIssued inc then
        (let inc1 = inc\<lparr>ri_openTicks := sat_inc (ri_openTicks inc)\<rparr>
         in if ri_openTicks inc1 \<ge> UNCLEARED_REBOOT_TIMEOUT_TICKS then prepareReboot fw c w inc1 else (inc1, [], []))
      else if ri_active inc \<and> \<not> ri_processRestartPending inc \<and> \<not> ri_rebootPending inc \<and>
              ri_currentLevel inc = R6_OBC_REBOOT then prepareReboot fw c w inc
      else (inc, [], []))"

definition tickIncidents :: "recoveryFramework \<Rightarrow> 'w recoveryExecutor \<Rightarrow> 'w \<Rightarrow>
    'w recoveryExecutor \<times> reOut list \<times> externalActionRequest list" where
  "tickIncidents fw c w =
     (if \<not> re_processRestartRequested c \<and> \<not> re_rebootRequested c \<and> \<not> re_exitRequestConsumed c then
        (let ticked = map (tickIncident fw c w) (rs_incidents (re_status c))
         in (c\<lparr>re_status := (re_status c)\<lparr>rs_incidents := map fst ticked\<rparr>\<rparr>,
             concat (map (\<lambda>t. fst (snd t)) ticked), concat (map (\<lambda>t. snd (snd t)) ticked)))
      else (c, [], []))"

definition stableCheck :: "u32 \<Rightarrow> 'w recoveryExecutor \<Rightarrow> 'w recoveryExecutor \<times> externalActionRequest list" where
  "stableCheck consecutiveResetCount c =
     (let st = re_status c
      in if rs_activeIncidentCount st = 0 \<and> \<not> rs_pendingProcessRestart st \<and> \<not> rs_pendingReboot st \<and>
            consecutiveResetCount > 0 \<and> \<not> re_stableAcked c then
           (let c1 = c\<lparr>re_stableTicks := sat_inc (re_stableTicks c)\<rparr>
            in (c1, if re_stableTicks c1 \<ge> STABLE_ACK_TICKS
                    then [externalAction ACK_STABLE RIS_NONE RA_NONE TestSetup] else []))
         else if rs_activeIncidentCount st \<noteq> 0 \<or> rs_pendingProcessRestart st \<or> rs_pendingReboot st
         then (c\<lparr>re_stableTicks := 0\<rparr>, [])
         else (c, []))"

definition re_telemetry :: "recoveryRuntimeStatus \<Rightarrow> reOut list" where
  "re_telemetry s =
     [Tlm_RECOVERY_ACTIVE_INCIDENTS (rs_activeIncidentCount s), Tlm_RECOVERY_ACTIVE_SOURCE (rs_activeSource s),
      Tlm_RECOVERY_CURRENT_LEVEL (rs_currentLevel s), Tlm_RECOVERY_HIGHEST_LEVEL (rs_highestLevel s),
      Tlm_RECOVERY_LAST_ACTION (rs_lastAction s), Tlm_RECOVERY_PENDING_REBOOT (rs_pendingReboot s),
      Tlm_RECOVERY_RELATCH_COUNT (rs_relatchCount s), Tlm_RECOVERY_TOTAL_SAFE_FALLBACKS (rs_totalSafeFallbacks s),
      Tlm_RECOVERY_TOTAL_RESET_ACTIONS (rs_totalResetActions s), Tlm_RECOVERY_TOTAL_REBOOTS (rs_totalReboots s),
      Tlm_RECOVERY_PENDING_PROCESS_RESTART (rs_pendingProcessRestart s),
      Tlm_RECOVERY_TOTAL_PROCESS_RESTARTS (rs_totalProcessRestarts s)]"

definition re_schedIn_handler :: "recoveryFramework \<Rightarrow> 'w recoveryExecutor \<Rightarrow> 'w \<Rightarrow>
    'w recoveryExecutor \<times> 'w \<times> reOut list" where
  "re_schedIn_handler fw c w =
     (let (c1, w1) = applyBootClamp c w;
          consecutiveResetCount = (case re_bootControl c1 of None \<Rightarrow> 0 | Some bc \<Rightarrow> bc_getConsecutiveResetCount bc w1);
          (c2, out2, actions2) = tickIncidents fw c1 w1;
          (c3, actions3) = stableCheck consecutiveResetCount (updateStatusSummary None c2);
          (c4, w4, out4) = executeExternalActions fw (actions2 @ actions3) c3 w1
      in (c4, w4, out2 @ out4 @ re_telemetry (re_status c4)))"

definition GET_RECOVERY_STATUS_cmdHandler :: "'w recoveryExecutor \<Rightarrow> reOut list" where
  "GET_RECOVERY_STATUS_cmdHandler c =
     (let s = re_status c
      in [RECOVERY_STATUS (rs_activeIncidentCount s) (rs_activeSource s) (rs_highestLevel s) (rs_lastAction s)
            (rs_pendingProcessRestart s) (rs_pendingReboot s) (rs_relatchCount s), ReCmdResponse CMD_OK])"

end
