(* ===== verification/Recovery_Invariant.thy ===== *)
theory Recovery_Invariant
  imports Recovery
begin

text \<open>
  The invariant of \<open>RecoveryExecutor\<close>: the incident table, each incident and the status summary stay
  consistent under every operation, and an exit is requested only after the reboot intent has been
  recorded and announced.
\<close>

section \<open>Accessors\<close>

definition inc_of :: "'w recoveryExecutor \<Rightarrow> recoveryIncidentSource \<Rightarrow> recoveryIncidentState" where
  "inc_of c s = rs_incidents (re_status c) ! recoveryIncidentSource_code s"

lemma incidentForSource_inc_of:
  "incidentForSource c s = (if recoveryIncidentSourceIsIndexed s then Some (inc_of c s) else None)"
  by (simp add: incidentForSource_def inc_of_def)

lemma updateStatusSummary_fields [simp]:
  "re_modeControl (updateStatusSummary f c) = re_modeControl c"
  "re_epsControl (updateStatusSummary f c) = re_epsControl c"
  "re_adcsControl (updateStatusSummary f c) = re_adcsControl c"
  "re_bootControl (updateStatusSummary f c) = re_bootControl c"
  "re_commControl (updateStatusSummary f c) = re_commControl c"
  "re_faultRecorder (updateStatusSummary f c) = re_faultRecorder c"
  "re_stableTicks (updateStatusSummary f c) = re_stableTicks c"
  "re_bootClampApplied (updateStatusSummary f c) = re_bootClampApplied c"
  "re_stableAcked (updateStatusSummary f c) = re_stableAcked c"
  "re_hardwareWatchdogModeEnabled (updateStatusSummary f c) = re_hardwareWatchdogModeEnabled c"
  "re_processRestartRequested (updateStatusSummary f c) = re_processRestartRequested c"
  "re_rebootRequested (updateStatusSummary f c) = re_rebootRequested c"
  "re_exitRequestConsumed (updateStatusSummary f c) = re_exitRequestConsumed c"
  "rs_incidents (re_status (updateStatusSummary f c)) = rs_incidents (re_status c)"
  "rs_pendingReboot (re_status (updateStatusSummary f c)) = list_ex ri_rebootPending (rs_incidents (re_status c))"
  "rs_pendingProcessRestart (re_status (updateStatusSummary f c)) =
     list_ex ri_processRestartPending (rs_incidents (re_status c))"
  "rs_activeIncidentCount (re_status (updateStatusSummary f c)) =
     fold (\<lambda>inc n. if ri_active inc then sat_inc n else n) (rs_incidents (re_status c)) 0"
  by (simp_all add: updateStatusSummary_def Let_def split: option.split)

lemma setIncident_fields [simp]:
  "re_modeControl (setIncident s i c) = re_modeControl c"
  "re_bootControl (setIncident s i c) = re_bootControl c"
  "re_hardwareWatchdogModeEnabled (setIncident s i c) = re_hardwareWatchdogModeEnabled c"
  "re_processRestartRequested (setIncident s i c) = re_processRestartRequested c"
  "re_rebootRequested (setIncident s i c) = re_rebootRequested c"
  "re_exitRequestConsumed (setIncident s i c) = re_exitRequestConsumed c"
  "rs_incidents (re_status (setIncident s i c)) = (rs_incidents (re_status c))[recoveryIncidentSource_code s := i]"
  by (simp_all add: setIncident_def)

lemma inc_of_updateStatusSummary [simp]: "inc_of (updateStatusSummary f c) s = inc_of c s"
  by (simp add: inc_of_def)

lemma recoveryIncidentSource_code_inj [simp]:
  "recoveryIncidentSource_code s = recoveryIncidentSource_code t \<longleftrightarrow> s = t"
  by (cases s; cases t) simp_all

lemma indexed_sources: "recoveryIncidentSourceIsIndexed s \<longleftrightarrow> s \<noteq> RIS_NONE"
  by (cases s) (simp_all add: recoveryIncidentSourceIsIndexed_def RecoveryIncidentSourceCount_def)

lemma indexed_watchdog [simp]: "recoveryIncidentSourceFromWatchdog s \<noteq> RIS_NONE"
  by (cases s) simp_all

lemma watchdog_source [simp]: "recoveryIncidentSourceIsWatchdog (recoveryIncidentSourceFromWatchdog s)"
  by (cases s) simp_all

lemma uncleared_sources: "isUnclearedTimeoutRecoverySource s \<longleftrightarrow> s \<noteq> RIS_NONE"
  by (cases s) (simp_all add: isUnclearedTimeoutRecoverySource_def isSubsystemRecoverySource_def isWatchdogRecoverySource_def)

lemma code_less: "s \<noteq> RIS_NONE \<Longrightarrow> recoveryIncidentSource_code s < 10"
  by (cases s) simp_all

section \<open>The invariant\<close>

definition incident_wf :: "recoveryIncidentState \<Rightarrow> bool" where
  "incident_wf inc \<longleftrightarrow>
     ri_awaitingClear inc = ri_active inc \<and> (ri_active inc \<longrightarrow> ri_hasOpenedBefore inc) \<and>
     ri_currentLevel inc \<le> ri_highestLevel inc \<and> ri_highestLevel inc \<le> R6_OBC_REBOOT \<and>
     (ri_rebootPending inc \<longrightarrow> ri_highestLevel inc = R6_OBC_REBOOT) \<and>
     (ri_processRestartPending inc \<longrightarrow> recoveryIncidentSourceIsWatchdog (ri_source inc))"

definition table_wf :: "'w recoveryExecutor \<Rightarrow> bool" where
  "table_wf c \<longleftrightarrow> map ri_source (rs_incidents (re_status c)) = recoverySources \<and>
     (\<forall>inc \<in> set (rs_incidents (re_status c)). incident_wf inc)"

definition summary_wf :: "'w recoveryExecutor \<Rightarrow> bool" where
  "summary_wf c \<longleftrightarrow>
     unat (rs_activeIncidentCount (re_status c)) = length (filter ri_active (rs_incidents (re_status c))) \<and>
     rs_pendingReboot (re_status c) = list_ex ri_rebootPending (rs_incidents (re_status c)) \<and>
     rs_pendingProcessRestart (re_status c) = list_ex ri_processRestartPending (rs_incidents (re_status c))"

definition recovery_wf :: "'w recoveryExecutor \<Rightarrow> bool" where
  "recovery_wf c \<longleftrightarrow> table_wf c \<and> summary_wf c"

lemma table_length: "table_wf c \<Longrightarrow> length (rs_incidents (re_status c)) = 10"
  by (drule arg_cong [where f = length, OF table_wf_def [THEN iffD1, THEN conjunct1]]) (simp add: recoverySources_def)

lemma inc_of_source: "table_wf c \<Longrightarrow> s \<noteq> RIS_NONE \<Longrightarrow> ri_source (inc_of c s) = s"
proof -
  assume wf: "table_wf c" and s: "s \<noteq> RIS_NONE"
  then have "ri_source (inc_of c s) = recoverySources ! recoveryIncidentSource_code s"
    using code_less [OF s] table_length [OF wf] unfolding inc_of_def table_wf_def by (metis nth_map)
  also have "\<dots> = s"
    using s by (cases s) (simp_all add: recoverySources_def)
  finally show ?thesis .
qed

lemma inc_of_wf: "table_wf c \<Longrightarrow> s \<noteq> RIS_NONE \<Longrightarrow> incident_wf (inc_of c s)"
  by (simp add: inc_of_def table_length code_less table_wf_def)

lemma table_wf_update [simp]: "table_wf (updateStatusSummary f c) = table_wf c"
  by (simp add: table_wf_def)

lemma active_count:
  "unat n + length (filter ri_active incs) < 2 ^ 32 \<Longrightarrow>
   unat (fold (\<lambda>inc m. if ri_active inc then sat_inc m else m) incs n) = unat n + length (filter ri_active incs)"
  for n :: u32
  by (induction incs arbitrary: n) (auto simp: unat_sat_inc)

lemma summary_wf_update: "table_wf c \<Longrightarrow> summary_wf (updateStatusSummary f c)"
proof -
  assume "table_wf c"
  then have "length (filter ri_active (rs_incidents (re_status c))) \<le> 10"
    by (metis length_filter_le table_length)
  then show ?thesis
    by (simp add: summary_wf_def active_count)
qed

lemma recovery_wf_update: "table_wf c \<Longrightarrow> recovery_wf (updateStatusSummary f c)"
  by (simp add: recovery_wf_def summary_wf_update)

lemma table_wf_set:
  assumes "table_wf c" "incident_wf inc" "ri_source inc = s" "s \<noteq> RIS_NONE"
  shows "table_wf (setIncident s inc c)"
proof -
  have "map ri_source ((rs_incidents (re_status c))[recoveryIncidentSource_code s := inc]) =
      recoverySources[recoveryIncidentSource_code s := s]"
    using assms by (simp add: map_update table_wf_def)
  also have "\<dots> = recoverySources"
    using \<open>s \<noteq> RIS_NONE\<close> by (cases s) (simp_all add: recoverySources_def)
  finally show ?thesis
    using assms set_update_subset_insert [of "rs_incidents (re_status c)"] unfolding table_wf_def by auto
qed

lemma inc_of_set:
  "table_wf c \<Longrightarrow> s \<noteq> RIS_NONE \<Longrightarrow> t \<noteq> RIS_NONE \<Longrightarrow>
   inc_of (setIncident s inc c) t = (if t = s then inc else inc_of c t)"
  by (simp add: inc_of_def table_length code_less nth_list_update)

section \<open>Incident operations\<close>

lemma level_bounds [simp]:
  "l \<le> R7_ENTER_HELL" "R0_RECORD_ONLY \<le> l" "R2_RESTART_SOFTWARE_COMPONENT \<le> R6_OBC_REBOOT"
  "R3_RESET_SUBSYSTEM_INTERFACE \<le> R6_OBC_REBOOT" "R5_MODE_FALLBACK \<le> R6_OBC_REBOOT"
  by (cases l; simp add: less_eq_recoveryLevel_def)+

lemma raiseLevel_fields [simp]:
  "ri_source (raiseLevel l a inc) = ri_source inc" "ri_active (raiseLevel l a inc) = ri_active inc"
  "ri_rebootPending (raiseLevel l a inc) = ri_rebootPending inc"
  "ri_processRestartPending (raiseLevel l a inc) = ri_processRestartPending inc"
  "ri_firstActionIssued (raiseLevel l a inc) = ri_firstActionIssued inc"
  "ri_currentLevel (raiseLevel l a inc) = l"
  "ri_highestLevel (raiseLevel l a inc) = max (ri_highestLevel inc) l"
  by (auto simp: raiseLevel_def max_def)

lemma raiseLevel_wf: "incident_wf inc \<Longrightarrow> l \<le> R6_OBC_REBOOT \<Longrightarrow> incident_wf (raiseLevel l a inc)"
  by (auto simp: incident_wf_def raiseLevel_def)

lemma openIncident_wf:
  "source \<noteq> RIS_NONE \<Longrightarrow> openIncident fw c w inc source = (inc1, out) \<Longrightarrow>
     incident_wf inc1 \<and> ri_source inc1 = source \<and> ri_active inc1 \<and> \<not> ri_rebootPending inc1 \<and>
     \<not> ri_processRestartPending inc1"
  by (cases source) (auto simp: openIncident_def Let_def incident_wf_def)

lemma closeIncident_wf:
  assumes "closeIncident fw c w inc = (inc1, out)" "incident_wf inc"
  shows "incident_wf inc1 \<and> ri_source inc1 = ri_source inc"
proof -
  have "inc1 = fst (closeIncident fw c w inc)"
    using assms by simp
  with assms(2) show ?thesis
    by (simp add: closeIncident_def Let_def incident_wf_def)
qed

text \<open>What every preparation step keeps, and the actions it may append.\<close>

definition action_ok :: "recoveryIncidentState \<Rightarrow> externalActionRequest \<Rightarrow> bool" where
  "action_ok inc a \<longleftrightarrow> ea_source a = ri_source inc \<and>
     (ea_kind a = RECORD_REBOOT_INTENT \<longrightarrow> ri_highestLevel inc = R6_OBC_REBOOT) \<and>
     (ea_kind a = RECORD_PROCESS_RESTART_INTENT \<longrightarrow> recoveryIncidentSourceIsWatchdog (ri_source inc))"

definition prepared_ok :: "recoveryIncidentState \<Rightarrow> prepared \<Rightarrow> bool" where
  "prepared_ok inc p \<longleftrightarrow>
     (case p of (inc1, out, actions) \<Rightarrow>
        (incident_wf inc \<longrightarrow> incident_wf inc1 \<and> (\<forall>a \<in> set actions. action_ok inc1 a)) \<and>
        ri_source inc1 = ri_source inc \<and> ri_highestLevel inc \<le> ri_highestLevel inc1 \<and>
        (\<forall>s l. RECOVERY_REBOOT_ISSUED s l \<notin> set out))"

lemma append_not_issued [simp]:
  "RECOVERY_REBOOT_ISSUED s l \<notin> set (appendPersistentFaultRecord fw c w k inc a d fl)"
  "RECOVERY_REBOOT_ISSUED s l \<notin> set (issueActionRequested fw c w inc a)"
  "RECOVERY_REBOOT_ISSUED s l \<notin> set (issueActionExecuted fw c w inc a d)"
  by (simp_all add: issueActionRequested_def issueActionExecuted_def appendPersistentFaultRecord_def Let_def)

lemma max_R6: "l \<le> R6_OBC_REBOOT \<Longrightarrow> max l R6_OBC_REBOOT = R6_OBC_REBOOT"
  by (simp add: max_def)

lemmas prepared_simps = prepared_ok_def action_ok_def externalAction_def Let_def

lemma flags_wf [simp]:
  "incident_wf (inc\<lparr>ri_resetIssued := b, ri_firstActionIssued := d\<rparr>) = incident_wf inc"
  "incident_wf (inc\<lparr>ri_commFailoverIssued := b, ri_firstActionIssued := d\<rparr>) = incident_wf inc"
  "incident_wf (inc\<lparr>ri_restartIntentIssued := b, ri_firstActionIssued := d\<rparr>) = incident_wf inc"
  "incident_wf (inc\<lparr>ri_safeFallbackIssued := b\<rparr>) = incident_wf inc"
  "incident_wf (inc\<lparr>ri_openTicks := n\<rparr>) = incident_wf inc"
  by (simp_all add: incident_wf_def)

lemma prepared_ok_nothing [simp]: "prepared_ok inc (inc, [], [])"
  by (simp add: prepared_ok_def)

lemma prepareProcessRestart_ok:
  "recoveryIncidentSourceIsWatchdog (ri_source inc) \<Longrightarrow> prepared_ok inc (prepareProcessRestart fw c w ms inc)"
  by (simp add: prepareProcessRestart_def prepared_simps raiseLevel_wf)

lemma prepareSafeFallback_ok: "prepared_ok inc (snd (prepareSafeFallback fw c w m ms al inc))"
  by (simp add: prepareSafeFallback_def prepared_simps raiseLevel_wf)

lemma applyBootSafeFallbackClamp_ok: "prepared_ok inc (snd (applyBootSafeFallbackClamp fw c w m ms inc))"
  by (simp add: applyBootSafeFallbackClamp_def prepareSafeFallback_ok)

lemma prepareResets_ok:
  "prepared_ok inc (prepareEpsReset fw c w inc)" "prepared_ok inc (prepareAdcsReset fw c w inc)"
  "prepared_ok inc (prepareCommFailover fw c w inc)"
  by (simp_all add: prepareEpsReset_def prepareAdcsReset_def prepareCommFailover_def prepared_simps raiseLevel_wf)

lemma incident_wf_highest: "incident_wf inc \<Longrightarrow> ri_highestLevel inc \<le> R6_OBC_REBOOT"
  by (simp add: incident_wf_def)

lemma prepareReboot_ok: "prepared_ok inc (prepareReboot fw c w inc)"
  by (simp add: prepareReboot_def prepared_simps raiseLevel_wf max_R6 incident_wf_highest)

lemma prepared_ok_trans:
  assumes "prepared_ok inc (inc1, out1, as1)" "prepared_ok inc1 (inc2, out2, as2)"
    and "\<And>a. a \<in> set as1 \<Longrightarrow> ea_kind a = RECORD_REBOOT_INTENT \<Longrightarrow> False"
  shows "prepared_ok inc (inc2, out1 @ out2, as1 @ as2)"
  using assms by (auto simp: prepared_ok_def action_ok_def)


section \<open>External actions keep the invariant\<close>

text \<open>One operation leads to a consistent executor in which no incident lost its highest level.\<close>

definition evolves :: "'w recoveryExecutor \<Rightarrow> 'w recoveryExecutor \<Rightarrow> bool" where
  "evolves c c' \<longleftrightarrow> recovery_wf c' \<and>
     (\<forall>s. s \<noteq> RIS_NONE \<longrightarrow> ri_highestLevel (inc_of c s) \<le> ri_highestLevel (inc_of c' s))"

definition actions_ok :: "'w recoveryExecutor \<Rightarrow> externalActionRequest list \<Rightarrow> bool" where
  "actions_ok c as \<longleftrightarrow> (\<forall>a \<in> set as. ea_source a \<noteq> RIS_NONE \<longrightarrow> action_ok (inc_of c (ea_source a)) a)"

lemma evolves_actions_ok:
  assumes "evolves c c'" "actions_ok c as" "table_wf c"
  shows "actions_ok c' as"
  unfolding actions_ok_def
proof (intro ballI impI)
  fix a assume a: "a \<in> set as" "ea_source a \<noteq> RIS_NONE"
  have wf: "table_wf c'"
    using assms by (simp add: evolves_def recovery_wf_def)
  have ok: "action_ok (inc_of c (ea_source a)) a"
    using assms a by (simp add: actions_ok_def)
  have "ri_highestLevel (inc_of c (ea_source a)) \<le> ri_highestLevel (inc_of c' (ea_source a))"
    using assms a by (simp add: evolves_def)
  moreover have "ri_highestLevel (inc_of c' (ea_source a)) \<le> R6_OBC_REBOOT"
    using wf a by (simp add: inc_of_wf incident_wf_highest)
  ultimately show "action_ok (inc_of c' (ea_source a)) a"
    using ok a assms wf by (auto simp: action_ok_def inc_of_source intro: antisym)
qed

lemma evolves_refl: "recovery_wf c \<Longrightarrow> evolves c c"
  by (simp add: evolves_def)

lemma evolves_trans: "evolves c c' \<Longrightarrow> evolves c' c'' \<Longrightarrow> evolves c c''"
  by (auto simp: evolves_def intro: order.trans)

lemma evolves_same_incidents:
  assumes "table_wf c" "rs_incidents (re_status d) = rs_incidents (re_status c)"
  shows "evolves c (updateStatusSummary f d)"
proof -
  have "table_wf d"
    using assms by (simp add: table_wf_def)
  then show ?thesis
    using assms by (simp add: evolves_def recovery_wf_update) (simp add: inc_of_def)
qed

lemma evolves_set:
  assumes "table_wf c" "incident_wf inc" "ri_source inc = s" "s \<noteq> RIS_NONE"
    and "ri_highestLevel (inc_of c s) \<le> ri_highestLevel inc"
    and "rs_incidents (re_status d) = rs_incidents (re_status (setIncident s inc c))"
  shows "evolves c (updateStatusSummary f d)"
proof -
  have wf: "table_wf (setIncident s inc c)"
    by (rule table_wf_set) fact+
  have "inc_of d t = (if t = s then inc else inc_of c t)" if "t \<noteq> RIS_NONE" for t
    using inc_of_set [OF assms(1,4) that, of inc] assms(6) by (simp add: inc_of_def)
  with assms evolves_same_incidents [OF wf assms(6), of f] show ?thesis
    by (auto simp: evolves_def)
qed

lemma evolves_prepared:
  assumes "table_wf c" "s \<noteq> RIS_NONE" "prepared_ok (inc_of c s) (inc1, out, as)"
    and "rs_incidents (re_status d) = rs_incidents (re_status (setIncident s inc1 c))"
  shows "evolves c (updateStatusSummary f d) \<and> actions_ok (updateStatusSummary f d) as"
proof -
  have inc: "incident_wf (inc_of c s)" "ri_source (inc_of c s) = s"
    using assms by (simp_all add: inc_of_wf inc_of_source)
  have prep: "incident_wf inc1" "ri_source inc1 = s" "ri_highestLevel (inc_of c s) \<le> ri_highestLevel inc1"
    "\<forall>a \<in> set as. action_ok inc1 a"
    using assms(3) inc by (auto simp: prepared_ok_def)
  have "inc_of d s = inc1"
    using inc_of_set [OF assms(1,2,2), of inc1] assms(4) by (simp add: inc_of_def)
  with prep have "actions_ok (updateStatusSummary f d) as"
    by (simp add: actions_ok_def action_ok_def)
  with evolves_set [OF assms(1) prep(1,2) assms(2) prep(3) assms(4), of f] show ?thesis
    by simp
qed

lemma applySafeAction_evolves:
  "recovery_wf c \<Longrightarrow> applySafeAction fw a c w = (c', w', out, fs) \<Longrightarrow> evolves c c' \<and> fs = []"
  by (auto simp: applySafeAction_def Let_def recovery_wf_def split: option.splits
      intro!: evolves_same_incidents evolves_refl)

lemma resetAction_evolves:
  "recovery_wf c \<Longrightarrow> resetAction fw ctl a c w = (c', w', out, fs) \<Longrightarrow> evolves c c' \<and> fs = []"
  by (auto simp: resetAction_def Let_def split_beta recovery_wf_def split: option.splits
      intro!: evolves_same_incidents evolves_refl)

lemma ackStableAction_evolves:
  "recovery_wf c \<Longrightarrow> ackStableAction c w = (c', w', out, fs) \<Longrightarrow> evolves c c' \<and> fs = []"
  by (auto simp: ackStableAction_def Let_def split_beta evolves_def recovery_wf_def table_wf_def summary_wf_def inc_of_def
      split: if_splits)

lemma rebootAction_evolves:
  assumes wf: "recovery_wf c" and ok: "actions_ok c [a]" and kind: "ea_kind a = RECORD_REBOOT_INTENT"
    and exec: "rebootAction fw a c w = (c', w', out, fs)"
  shows "evolves c c' \<and> fs = []"
proof (cases "ea_source a = RIS_NONE")
  case True
  then show ?thesis
    using exec wf by (auto simp: rebootAction_def Let_def split_beta incidentForSource_inc_of indexed_sources
        intro!: evolves_refl)
next
  case False
  let ?inc = "inc_of c (ea_source a)"
  have t: "table_wf c"
    using wf by (simp add: recovery_wf_def)
  have inc: "incident_wf ?inc" "ri_source ?inc = ea_source a" "ri_highestLevel ?inc = R6_OBC_REBOOT"
    using t False ok kind by (simp_all add: inc_of_wf inc_of_source actions_ok_def action_ok_def)
  then have "incident_wf (?inc\<lparr>ri_rebootPending := True\<rparr>)"
    by (simp add: incident_wf_def)
  note this [simp]
  show ?thesis
  proof (cases "fst (recordIntent c a R6_OBC_REBOOT w)")
    case True
    with exec inc t False show ?thesis
      by (auto simp: rebootAction_def Let_def split_beta incidentForSource_inc_of indexed_sources
          intro!: evolves_set [where s = "ea_source a" and inc = "?inc\<lparr>ri_rebootPending := True\<rparr>"])
  next
    case not_recorded: False
    with exec t False show ?thesis
      by (auto simp: rebootAction_def Let_def split_beta incidentForSource_inc_of indexed_sources
          intro!: evolves_same_incidents)
  qed
qed

lemma processRestartAction_evolves:
  assumes wf: "recovery_wf c" and ok: "actions_ok c [a]" and kind: "ea_kind a = RECORD_PROCESS_RESTART_INTENT"
    and exec: "processRestartAction fw a c w = (c', w', out, fs)"
  shows "evolves c c' \<and> actions_ok c' fs"
proof (cases "ea_source a = RIS_NONE")
  case True
  then show ?thesis
    using exec wf by (auto simp: processRestartAction_def Let_def split_beta incidentForSource_inc_of indexed_sources
        actions_ok_def intro!: evolves_refl)
next
  case False
  let ?inc = "inc_of c (ea_source a)" and ?rec = "recordIntent c a R2_RESTART_SOFTWARE_COMPONENT w"
  have t: "table_wf c"
    using wf by (simp add: recovery_wf_def)
  have inc: "incident_wf ?inc" "ri_source ?inc = ea_source a" "recoveryIncidentSourceIsWatchdog (ea_source a)"
    using t False ok kind by (auto simp: inc_of_wf inc_of_source actions_ok_def action_ok_def)
  then have inc1: "incident_wf (?inc\<lparr>ri_processRestartPending := True\<rparr>)"
    by (simp add: incident_wf_def)
  show ?thesis
  proof (cases "fst ?rec")
    case True
    with exec inc inc1 t False show ?thesis
      by (auto simp: processRestartAction_def Let_def split_beta incidentForSource_inc_of indexed_sources actions_ok_def
          intro!: evolves_set [where s = "ea_source a" and inc = "?inc\<lparr>ri_processRestartPending := True\<rparr>"])
  next
    case not_recorded: False
    define p where "p = (if ri_active ?inc \<and> \<not> ri_processRestartPending ?inc \<and> \<not> ri_rebootPending ?inc
      then snd (prepareSafeFallback fw c (snd ?rec) (re_currentMode c (snd ?rec)) (ea_modeSource a) True ?inc)
      else (?inc, [], []))"
    obtain inc1 out2 fs1 where p: "p = (inc1, out2, fs1)"
      by (cases p) auto
    have "prepared_ok ?inc (inc1, out2, fs1)"
      using p by (auto simp: p_def prepareSafeFallback_ok split: if_splits
          dest: arg_cong [where f = "prepared_ok ?inc"])
    moreover have "c' = updateStatusSummary (Some inc1) (setIncident (ea_source a) inc1 c)" "fs = fs1"
      using exec not_recorded False p
      by (auto simp: processRestartAction_def Let_def split_beta incidentForSource_inc_of indexed_sources p_def [symmetric])
    ultimately show ?thesis
      using evolves_prepared [OF t False, of inc1 out2 fs1] by simp
  qed
qed


lemma commFailoverAction_evolves:
  assumes wf: "recovery_wf c" and exec: "commFailoverAction fw a c w = (c', w', out, fs)"
  shows "evolves c c' \<and> actions_ok c' fs"
proof (cases "ea_source a = RIS_NONE")
  case True
  then have "incidentForSource d (ea_source a) = None" for d :: "'a recoveryExecutor"
    by (simp add: incidentForSource_inc_of indexed_sources)
  with exec have "c' = c" "fs = []"
    by (simp_all add: commFailoverAction_def split_beta split: if_splits)
  with wf show ?thesis
    by (simp add: actions_ok_def evolves_refl)
next
  case False
  let ?inc = "inc_of c (ea_source a)" and ?c1 = "updateStatusSummary (Some (inc_of c (ea_source a))) c"
  define r where "r = (case re_commControl c of None \<Rightarrow> (defaultCommActionResult, w) | Some failover \<Rightarrow> failover w)"
  have t: "table_wf c"
    using wf by (simp add: recovery_wf_def)
  have first: "evolves c ?c1"
    by (rule evolves_same_incidents [OF t refl])
  show ?thesis
  proof (cases "ca_noHealthyBackup (fst r) \<and> ri_active ?inc \<and> \<not> ri_rebootPending ?inc")
    case True
    define p where "p = snd (prepareSafeFallback fw ?c1 (snd r) (re_currentMode ?c1 (snd r)) FdirSubsystemFault False ?inc)"
    obtain inc1 out2 fs1 where p: "p = (inc1, out2, fs1)"
      by (cases p) auto
    have "prepared_ok (inc_of ?c1 (ea_source a)) (inc1, out2, fs1)"
      using p prepareSafeFallback_ok [of ?inc fw ?c1 "snd r" "re_currentMode ?c1 (snd r)" FdirSubsystemFault False]
      by (simp add: p_def)
    moreover have "c' = updateStatusSummary (Some inc1) (setIncident (ea_source a) inc1 ?c1)" "fs = fs1"
      using exec True False p
      by (auto simp: commFailoverAction_def Let_def split_beta incidentForSource_inc_of indexed_sources
          r_def [symmetric] p_def [symmetric])
    ultimately show ?thesis
      using evolves_prepared [of ?c1 "ea_source a" inc1 out2 fs1] t False evolves_trans [OF first] by simp
  next
    case no: False
    then have "c' = ?c1" "fs = []"
      using exec False by (auto simp: commFailoverAction_def Let_def split_beta incidentForSource_inc_of
          indexed_sources r_def [symmetric] split: if_splits)
    with first show ?thesis
      by (simp add: actions_ok_def)
  qed
qed

lemma executeExternalAction_evolves:
  assumes "recovery_wf c" "actions_ok c [a]" "executeExternalAction fw a c w = (c', w', out, fs)"
  shows "evolves c c' \<and> actions_ok c' fs"
proof (cases "ea_kind a")
  case APPLY_SAFE
  then show ?thesis
    using assms applySafeAction_evolves [of c fw a w c' w' out fs]
    by (simp add: executeExternalAction_def actions_ok_def)
next
  case APPLY_BOOT_SAFE_FALLBACK
  then show ?thesis
    using assms by (auto simp: executeExternalAction_def actions_ok_def intro: evolves_refl)
next
  case EPS_RESET
  then show ?thesis
    using assms resetAction_evolves [of c fw "re_epsControl c" a w c' w' out fs]
    by (simp add: executeExternalAction_def actions_ok_def)
next
  case ADCS_RESET
  then show ?thesis
    using assms resetAction_evolves [of c fw "re_adcsControl c" a w c' w' out fs]
    by (simp add: executeExternalAction_def actions_ok_def)
next
  case COMM_FAILOVER
  then show ?thesis
    using assms commFailoverAction_evolves [of c fw a w c' w' out fs]
    by (simp add: executeExternalAction_def)
next
  case RECORD_PROCESS_RESTART_INTENT
  then show ?thesis
    using assms processRestartAction_evolves [of c a fw w c' w' out fs]
    by (simp add: executeExternalAction_def)
next
  case RECORD_REBOOT_INTENT
  then show ?thesis
    using assms rebootAction_evolves [of c a fw w c' w' out fs] by (simp add: executeExternalAction_def actions_ok_def)
next
  case ACK_STABLE
  then show ?thesis
    using assms ackStableAction_evolves [of c w c' w' out fs]
    by (simp add: executeExternalAction_def actions_ok_def)
qed

lemma actions_ok_append [simp]: "actions_ok c (xs @ ys) \<longleftrightarrow> actions_ok c xs \<and> actions_ok c ys"
  by (auto simp: actions_ok_def)

section \<open>Exits are justified\<close>

text \<open>
  The main loop is asked to reboot only by an operation that recorded the intent and announced it, and
  never for a watchdog source while the hardware watchdog is in charge; it is asked to restart the process
  only by an operation whose restart intent was recorded.
\<close>

definition exit_justified :: "'w recoveryExecutor \<Rightarrow> reOut list \<Rightarrow> 'w recoveryExecutor \<Rightarrow> bool" where
  "exit_justified c out c' \<longleftrightarrow>
     (re_rebootRequested c' \<longrightarrow> re_rebootRequested c \<or>
       (\<exists>s l. RECOVERY_REBOOT_ISSUED s l \<in> set out \<and>
          \<not> (re_hardwareWatchdogModeEnabled c \<and> recoveryIncidentSourceIsWatchdog s))) \<and>
     (re_processRestartRequested c' \<longrightarrow> re_processRestartRequested c \<or>
       (\<exists>s. RECOVERY_ACTION_EXECUTED s PROCESS_RESTART 0 \<in> set out))"

lemma commFailover_flags:
  assumes "commFailoverAction fw a c w = (c', w', out, fs)"
  shows "re_rebootRequested c' = re_rebootRequested c \<and> re_processRestartRequested c' = re_processRestartRequested c \<and>
     re_hardwareWatchdogModeEnabled c' = re_hardwareWatchdogModeEnabled c"
  using assms by (auto simp: commFailoverAction_def Let_def split_beta split: option.splits if_splits)

lemma executeExternalAction_exit:
  assumes "table_wf c" "executeExternalAction fw a c w = (c', w', out, fs)"
  shows "exit_justified c out c' \<and> re_hardwareWatchdogModeEnabled c' = re_hardwareWatchdogModeEnabled c"
proof (cases "ea_kind a")
  case RECORD_REBOOT_INTENT
  then show ?thesis
    using assms by (cases "ea_source a = RIS_NONE")
      (auto simp: executeExternalAction_def rebootAction_def Let_def split_beta incidentForSource_inc_of indexed_sources
        exit_justified_def inc_of_source split: if_splits)
next
  case RECORD_PROCESS_RESTART_INTENT
  then show ?thesis
    using assms by (cases "ea_source a = RIS_NONE"; cases "fst (recordIntent c a R2_RESTART_SOFTWARE_COMPONENT w)")
      (auto simp: executeExternalAction_def processRestartAction_def Let_def split_beta incidentForSource_inc_of
        indexed_sources exit_justified_def issueActionExecuted_def)
next
  case COMM_FAILOVER
  then show ?thesis
    using assms commFailover_flags [of fw a c w c' w' out fs] by (simp add: executeExternalAction_def exit_justified_def)
qed (use assms in \<open>auto simp: executeExternalAction_def applySafeAction_def resetAction_def ackStableAction_def
      exit_justified_def Let_def split_beta split: option.splits if_splits\<close>)

lemma exit_justified_trans:
  "exit_justified c out1 c1 \<Longrightarrow> exit_justified c1 out2 c2 \<Longrightarrow>
   re_hardwareWatchdogModeEnabled c1 = re_hardwareWatchdogModeEnabled c \<Longrightarrow> exit_justified c (out1 @ out2) c2"
  unfolding exit_justified_def by auto

text \<open>A finished operation leaves a consistent executor and justified exit requests.\<close>

definition op_ok :: "'w recoveryExecutor \<Rightarrow> 'w recoveryExecutor \<times> 'w \<times> reOut list \<Rightarrow> bool" where
  "op_ok c r \<longleftrightarrow> recovery_wf (fst r) \<and> exit_justified c (snd (snd r)) (fst r)"

lemma op_ok_refl: "recovery_wf c \<Longrightarrow> op_ok c (c, w, out)"
  by (simp add: op_ok_def exit_justified_def)

lemma executeExternalActions_ok:
  "recovery_wf c \<Longrightarrow> actions_ok c as \<Longrightarrow> op_ok c (executeExternalActions fw as c w)"
proof (induction fw as c w rule: executeExternalActions.induct)
  case (2 fw a as c w)
  obtain c1 w1 out1 fs where one: "executeExternalAction fw a c w = (c1, w1, out1, fs)"
    by (cases "executeExternalAction fw a c w")
  have oks: "actions_ok c [a]" "actions_ok c as" and t: "table_wf c"
    using 2(2,3) by (simp_all add: actions_ok_def recovery_wf_def)
  have ev: "evolves c c1" "actions_ok c1 fs"
    using executeExternalAction_evolves [OF 2(2) oks(1) one] by simp_all
  have "recovery_wf c1" "actions_ok c1 as"
    using ev(1) evolves_actions_ok [OF ev(1) oks(2) t] by (simp_all add: evolves_def)
  then have "op_ok c1 (executeExternalActions fw (as @ fs) c1 w1)"
    using 2(1) [OF one [symmetric] refl refl refl] ev(2) by simp
  then show ?case
    using exit_justified_trans [of c out1 c1] executeExternalAction_exit [OF t one] by (simp add: one split_beta op_ok_def)
qed (simp add: op_ok_refl)

section \<open>Every operation keeps the invariant\<close>

lemma finish_operation:
  assumes "table_wf c" "s \<noteq> RIS_NONE" "incident_wf inc" "ri_source inc = s" "\<forall>a \<in> set as. action_ok inc a"
  shows "op_ok c (case executeExternalActions fw as (updateStatusSummary f (setIncident s inc c)) w of
      (c2, w2, out2) \<Rightarrow> (c2, w2, pre @ out2))"
proof -
  let ?c = "updateStatusSummary f (setIncident s inc c)"
  have "recovery_wf ?c"
    using assms by (simp add: recovery_wf_update table_wf_set)
  moreover have "actions_ok ?c as"
    using assms by (simp add: actions_ok_def action_ok_def inc_of_set)
  ultimately have "op_ok ?c (executeExternalActions fw as ?c w)"
    by (rule executeExternalActions_ok)
  then show ?thesis
    by (auto simp: op_ok_def exit_justified_def split_beta)
qed

lemma finish_prepared:
  assumes "table_wf c" "s \<noteq> RIS_NONE" "incident_wf inc" "ri_source inc = s" "prepared_ok inc p" "p = (inc1, out, as)"
  shows "op_ok c (case executeExternalActions fw as (updateStatusSummary f (setIncident s inc1 c)) w of
      (c2, w2, out2) \<Rightarrow> (c2, w2, pre @ out2))"
  using assms by (intro finish_operation) (auto simp: prepared_ok_def)

lemma submitWatchdogFault_ok:
  assumes "recovery_wf c"
  shows "op_ok c (submitWatchdogFault fw source c w)"
proof -
  let ?s = "recoveryIncidentSourceFromWatchdog source"
  let ?inc = "inc_of c ?s"
  obtain inc1 out1 where op: "openIncident fw c w ?inc ?s = (inc1, out1)"
    by (cases "openIncident fw c w ?inc ?s")
  obtain b inc2 out2 as2 where cl: "applyBootSafeFallbackClamp fw c w (re_currentMode c w) WatchdogFault inc1 = (b, inc2, out2, as2)"
    by (cases "applyBootSafeFallbackClamp fw c w (re_currentMode c w) WatchdogFault inc1")
  obtain inc3 out3 as3 where pr: "prepareProcessRestart fw c w WatchdogFault inc2 = (inc3, out3, as3)"
    by (cases "prepareProcessRestart fw c w WatchdogFault inc2")
  have t: "table_wf c"
    using assms by (simp add: recovery_wf_def)
  have i1: "incident_wf inc1" "ri_source inc1 = ?s"
    using openIncident_wf [OF indexed_watchdog op] by simp_all
  have ok2: "prepared_ok inc1 (inc2, out2, as2)"
    using applyBootSafeFallbackClamp_ok [of inc1 fw c w "re_currentMode c w" WatchdogFault] cl by simp
  then have i2: "incident_wf inc2" "ri_source inc2 = ?s"
    using i1 by (auto simp: prepared_ok_def)
  have "prepared_ok inc2 (inc3, out3, as3)"
    using prepareProcessRestart_ok [of inc2 fw c w WatchdogFault] pr i2 by simp
  moreover have none: "as2 = []" if "\<not> b"
    using cl that by (auto simp: applyBootSafeFallbackClamp_def prepareSafeFallback_def Let_def split: if_splits)
  ultimately have fin: "op_ok c (case executeExternalActions fw as3 (updateStatusSummary (Some inc3) (setIncident ?s inc3 c)) w of
      (c2, w2, out4) \<Rightarrow> (c2, w2, (out1 @ out2 @ out3) @ out4))"
    "op_ok c (case executeExternalActions fw as2 (updateStatusSummary (Some inc2) (setIncident ?s inc2 c)) w of
      (c2, w2, out4) \<Rightarrow> (c2, w2, (out1 @ out2) @ out4))"
    using finish_prepared [OF t indexed_watchdog i2 _ refl] finish_prepared [OF t indexed_watchdog i1 ok2 refl] by blast+
  show ?thesis
  proof (cases "ri_active ?inc")
    case True
    have "recovery_wf (updateStatusSummary (Some ?inc) (setIncident ?s ?inc c))"
      using t by (simp add: recovery_wf_update table_wf_set inc_of_wf inc_of_source)
    then show ?thesis
      using True by (simp add: submitWatchdogFault_def Let_def incidentForSource_inc_of indexed_sources
          op_ok_def exit_justified_def)
  next
    case False
    then show ?thesis
      using fin none by (cases b) (simp_all add: submitWatchdogFault_def Let_def incidentForSource_inc_of indexed_sources op cl pr split_beta)
  qed
qed

lemma submitWatchdogSuppression_ok:
  assumes "recovery_wf c"
  shows "op_ok c (submitWatchdogSuppression fw source c w)"
proof -
  let ?s = "recoveryIncidentSourceFromWatchdog source"
  let ?inc = "inc_of c ?s"
  obtain inc1 out1 where op: "(if \<not> ri_active ?inc then openIncident fw c w ?inc ?s else (?inc, [])) = (inc1, out1)"
    by (cases "if \<not> ri_active ?inc then openIncident fw c w ?inc ?s else (?inc, [])")
  obtain inc2 out2 as where pr: "(if \<not> ri_rebootPending inc1 then prepareReboot fw c w inc1 else (inc1, [], [])) = (inc2, out2, as)"
    by (cases "if \<not> ri_rebootPending inc1 then prepareReboot fw c w inc1 else (inc1, [], [])")
  have t: "table_wf c"
    using assms by (simp add: recovery_wf_def)
  have i1: "incident_wf inc1" "ri_source inc1 = ?s"
    using openIncident_wf [of ?s fw c w ?inc inc1 out1] op t
    by (auto simp: inc_of_wf inc_of_source split: if_splits)
  have "prepared_ok inc1 (inc2, out2, as)"
    using prepareReboot_ok [of inc1 fw c w] pr by (auto split: if_splits)
  note fin = finish_prepared [OF t indexed_watchdog i1 this refl, where fw = fw and f = "Some inc2" and w = w and pre = "out1 @ out2"]
  have eq: "submitWatchdogSuppression fw source c w =
      (let (c2, w2, out3) = executeExternalActions fw as (updateStatusSummary (Some inc2) (setIncident ?s inc2 c)) w
       in (c2, w2, out1 @ out2 @ out3))"
    unfolding submitWatchdogSuppression_def Let_def incidentForSource_inc_of indexed_sources
    by (simp only: indexed_watchdog not_False_eq_True if_True option.case op pr prod.case)
  show ?thesis
    unfolding eq using fin by simp
qed

lemma clearIncidentBySource_ok:
  assumes "recovery_wf c"
  shows "op_ok c (clearIncidentBySource fw s c w)"
proof (cases "s = RIS_NONE \<or> \<not> ri_active (inc_of c s)")
  case True
  then show ?thesis
    using assms by (auto simp: clearIncidentBySource_def incidentForSource_inc_of indexed_sources op_ok_refl)
next
  case False
  obtain inc1 out where cl: "closeIncident fw c w (inc_of c s) = (inc1, out)"
    by (cases "closeIncident fw c w (inc_of c s)")
  have t: "table_wf c"
    using assms by (simp add: recovery_wf_def)
  have "incident_wf inc1" "ri_source inc1 = s"
    using closeIncident_wf [OF cl] t False by (simp_all add: inc_of_wf inc_of_source)
  then show ?thesis
    using False cl t by (simp add: clearIncidentBySource_def incidentForSource_inc_of indexed_sources
        recovery_wf_update table_wf_set op_ok_def exit_justified_def)
qed

lemma prepareSubsystemActions_ok: "prepared_ok inc (prepareSubsystemActions fw c w source m inc)"
proof -
  have seq: "prepared_ok inc (case p of (inc1, out1, as1) \<Rightarrow>
      case prepareSafeFallback fw c w m FdirSubsystemFault al inc1 of
        (_, inc2, out2, as2) \<Rightarrow> (inc2, out1 @ out2, as1 @ as2))"
    if "prepared_ok inc p" "\<forall>a \<in> set (snd (snd p)). ea_kind a \<noteq> RECORD_REBOOT_INTENT" for p al
    using that prepareSafeFallback_ok [of "fst p" fw c w m FdirSubsystemFault al]
    by (auto simp: split_beta intro!: prepared_ok_trans)
  have kinds: "\<forall>a \<in> set (snd (snd (prepareEpsReset fw c w inc))). ea_kind a \<noteq> RECORD_REBOOT_INTENT"
    "\<forall>a \<in> set (snd (snd (prepareAdcsReset fw c w inc))). ea_kind a \<noteq> RECORD_REBOOT_INTENT"
    by (simp_all add: prepareEpsReset_def prepareAdcsReset_def Let_def externalAction_def)
  show ?thesis
    using seq [OF prepareResets_ok(1) kinds(1), of False] seq [OF prepareResets_ok(2) kinds(2), of True]
      prepareResets_ok(2) [of inc fw c w]
    by (simp add: prepareSubsystemActions_def Let_def prepareReboot_ok prepareResets_ok split_beta)
qed

lemma handleSubsystemFault_ok:
  assumes "recovery_wf c"
  shows "op_ok c (handleSubsystemFault fw s m c w)"
proof (cases "s = RIS_NONE \<or> ri_active (inc_of c s) \<or> re_processRestartRequested c \<or> re_rebootRequested c \<or>
    re_exitRequestConsumed c")
  case True
  then show ?thesis
    using assms by (auto simp: handleSubsystemFault_def incidentForSource_inc_of indexed_sources op_ok_refl)
next
  case False
  then have s: "s \<noteq> RIS_NONE" by simp
  obtain inc1 out1 where op: "openIncident fw c w (inc_of c s) s = (inc1, out1)"
    by (cases "openIncident fw c w (inc_of c s) s")
  obtain inc2 out2 as where pr: "prepareSubsystemActions fw c w s m inc1 = (inc2, out2, as)"
    by (cases "prepareSubsystemActions fw c w s m inc1")
  have t: "table_wf c"
    using assms by (simp add: recovery_wf_def)
  have i1: "incident_wf inc1" "ri_source inc1 = s"
    using openIncident_wf [OF s op] by simp_all
  have "prepared_ok inc1 (inc2, out2, as)"
    using prepareSubsystemActions_ok [of inc1 fw c w s m] pr by simp
  from finish_prepared [OF t s i1 this refl, where fw = fw and f = "Some inc2" and w = w and pre = "out1 @ out2"] show ?thesis
    using False op pr by (simp add: handleSubsystemFault_def Let_def incidentForSource_inc_of indexed_sources split_beta)
qed

lemma re_request_ok: "recovery_wf c \<Longrightarrow> op_ok c (re_request fw r c w)"
  by (cases r) (simp_all add: submitWatchdogFault_ok submitWatchdogSuppression_ok clearIncidentBySource_ok handleSubsystemFault_ok)

end
