(* ===== verification/Recovery_Escalation.thy ===== *)
theory Recovery_Escalation
  imports Mode_Manager Recovery_Invariant
begin

text \<open>
  How \<open>RecoveryExecutor\<close> escalates. The invariant holds in every reachable state; the main loop is asked
  to exit only after the intent has been recorded; a source that fails again after it was cleared
  reboots the computer; an incident that nobody clears reboots it at the third tick; under the boot
  SAFE fallback a watchdog fault no longer restarts anything.
\<close>

section \<open>The tick keeps the invariant\<close>

lemma inc_of_member:
  assumes "table_wf c" "inc \<in> set (rs_incidents (re_status c))"
  shows "ri_source inc \<noteq> RIS_NONE \<and> inc_of c (ri_source inc) = inc"
proof -
  obtain i where i: "i < 10" "rs_incidents (re_status c) ! i = inc"
    using assms table_length [OF assms(1)] by (metis in_set_conv_nth)
  have "ri_source inc = recoverySources ! i"
    using assms i table_length [OF assms(1)] unfolding table_wf_def by (metis nth_map)
  moreover have "recoverySources ! i \<noteq> RIS_NONE \<and> recoveryIncidentSource_code (recoverySources ! i) = i"
    using i(1) by (simp add: recoverySources_def less_Suc_eq numeral_nat) (elim disjE; simp)
  ultimately show ?thesis
    using i by (simp add: inc_of_def)
qed

lemma prepared_ok_openTicks: "prepared_ok (inc\<lparr>ri_openTicks := n\<rparr>) p \<Longrightarrow> prepared_ok inc p"
  by (simp add: prepared_ok_def split_beta)

lemma tickIncident_ok: "prepared_ok inc (tickIncident fw c w inc)"
  using prepared_ok_openTicks [OF prepareReboot_ok [of "inc\<lparr>ri_openTicks := sat_inc (ri_openTicks inc)\<rparr>" fw c w]]
    prepared_ok_openTicks [OF prepared_ok_nothing [of "inc\<lparr>ri_openTicks := sat_inc (ri_openTicks inc)\<rparr>"]]
  by (simp add: tickIncident_def Let_def prepareReboot_ok)

lemma tickIncidents_wf:
  assumes wf: "table_wf c" and tick: "tickIncidents fw c w = (c', out, as)"
  shows "table_wf c' \<and> actions_ok c' as"
proof (cases "\<not> re_processRestartRequested c \<and> \<not> re_rebootRequested c \<and> \<not> re_exitRequestConsumed c")
  case False
  then show ?thesis
    using wf tick by (auto simp: tickIncidents_def actions_ok_def)
next
  case True
  let ?t = "tickIncident fw c w" and ?incs = "rs_incidents (re_status c)"
  have c': "rs_incidents (re_status c') = map (\<lambda>i. fst (?t i)) ?incs" and as: "as = concat (map (\<lambda>i. snd (snd (?t i))) ?incs)"
    using tick True by (auto simp: tickIncidents_def Let_def comp_def)
  have ok: "incident_wf (fst (?t i)) \<and> ri_source (fst (?t i)) = ri_source i \<and> (\<forall>a \<in> set (snd (snd (?t i))). action_ok (fst (?t i)) a)"
    if "i \<in> set ?incs" for i
    using tickIncident_ok [of i fw c w] that wf by (auto simp: prepared_ok_def split_beta table_wf_def)
  have srcs: "map (\<lambda>i. ri_source (fst (?t i))) ?incs = map ri_source ?incs"
    by (rule map_cong) (simp_all add: ok)
  have wf': "table_wf c'"
    using wf ok by (simp add: table_wf_def c' comp_def srcs)
  have "action_ok (inc_of c' (ea_source a)) a" if a: "a \<in> set as" for a
  proof -
    obtain i where i: "i \<in> set ?incs" "a \<in> set (snd (snd (?t i)))"
      using a by (auto simp: as)
    then have "action_ok (fst (?t i)) a" "fst (?t i) \<in> set (rs_incidents (re_status c'))"
      using ok by (auto simp: c')
    then show ?thesis
      using inc_of_member [OF wf'] by (simp add: action_ok_def)
  qed
  with wf' show ?thesis
    by (simp add: actions_ok_def)
qed

lemma recovery_wf_cong:
  "re_status c' = re_status c \<Longrightarrow> recovery_wf c' = recovery_wf c"
  by (simp add: recovery_wf_def table_wf_def summary_wf_def)

lemma stableCheck_wf:
  "stableCheck n c = (c', as) \<Longrightarrow> recovery_wf c \<Longrightarrow> recovery_wf c' \<and> actions_ok c' as \<and> inc_of c' = inc_of c"
  by (auto simp: stableCheck_def Let_def actions_ok_def externalAction_def inc_of_def fun_eq_iff
      cong: recovery_wf_cong split: if_splits)

lemma applyBootClamp_frame:
  "applyBootClamp c w = (c', w') \<Longrightarrow> re_status c' = re_status c \<and> re_bootControl c' = re_bootControl c \<and>
     re_rebootRequested c' = re_rebootRequested c \<and> re_processRestartRequested c' = re_processRestartRequested c \<and>
     re_exitRequestConsumed c' = re_exitRequestConsumed c \<and>
     re_hardwareWatchdogModeEnabled c' = re_hardwareWatchdogModeEnabled c"
  by (auto simp: applyBootClamp_def split: option.splits if_splits)

lemma tickIncidents_frame:
  "tickIncidents fw c w = (c', out, as) \<Longrightarrow> re_bootControl c' = re_bootControl c \<and>
     re_rebootRequested c' = re_rebootRequested c \<and> re_processRestartRequested c' = re_processRestartRequested c \<and>
     re_exitRequestConsumed c' = re_exitRequestConsumed c \<and>
     re_hardwareWatchdogModeEnabled c' = re_hardwareWatchdogModeEnabled c"
  by (auto simp: tickIncidents_def Let_def split: if_splits)

lemma stableCheck_frame:
  "stableCheck n c = (c', as) \<Longrightarrow> re_bootControl c' = re_bootControl c \<and>
     re_rebootRequested c' = re_rebootRequested c \<and> re_processRestartRequested c' = re_processRestartRequested c \<and>
     re_exitRequestConsumed c' = re_exitRequestConsumed c \<and>
     re_hardwareWatchdogModeEnabled c' = re_hardwareWatchdogModeEnabled c"
  by (auto simp: stableCheck_def Let_def split: if_splits)

lemma re_schedIn_handler_ok:
  assumes "recovery_wf c"
  shows "op_ok c (re_schedIn_handler fw c w)"
proof -
  obtain c1 w1 where clamp: "applyBootClamp c w = (c1, w1)"
    by (cases "applyBootClamp c w")
  obtain c2 out2 as2 where tick: "tickIncidents fw c1 w1 = (c2, out2, as2)"
    by (cases "tickIncidents fw c1 w1")
  let ?n = "case re_bootControl c1 of None \<Rightarrow> 0 | Some bc \<Rightarrow> bc_getConsecutiveResetCount bc w1"
  obtain c3 as3 where stable: "stableCheck ?n (updateStatusSummary None c2) = (c3, as3)"
    by (cases "stableCheck ?n (updateStatusSummary None c2)")
  have "table_wf c1"
    using assms applyBootClamp_frame [OF clamp] by (simp add: recovery_wf_def table_wf_def)
  from tickIncidents_wf [OF this tick] have t2: "table_wf c2" "actions_ok c2 as2"
    by simp_all
  have c3: "recovery_wf c3" "actions_ok c3 as3" "inc_of c3 = inc_of (updateStatusSummary None c2)"
    using stableCheck_wf [OF stable recovery_wf_update [OF t2(1)]] by simp_all
  then have "actions_ok c3 (as2 @ as3)"
    using t2(2) by (auto simp: actions_ok_def)
  from executeExternalActions_ok [OF c3(1) this, of fw w1]
  have "op_ok c3 (executeExternalActions fw (as2 @ as3) c3 w1)" .
  moreover have "re_rebootRequested c3 = re_rebootRequested c" "re_processRestartRequested c3 = re_processRestartRequested c"
    "re_hardwareWatchdogModeEnabled c3 = re_hardwareWatchdogModeEnabled c"
    using applyBootClamp_frame [OF clamp] tickIncidents_frame [OF tick] stableCheck_frame [OF stable] by simp_all
  ultimately show ?thesis
    using clamp tick stable
    by (auto simp: re_schedIn_handler_def Let_def split_beta op_ok_def exit_justified_def)
qed

lemma mapIncidents_wf:
  assumes "table_wf c" "\<And>i. incident_wf i \<Longrightarrow> incident_wf (f i)" "\<And>i. ri_source (f i) = ri_source i"
    and "re_status d = re_status c"
  shows "table_wf (mapIncidents f d)"
  using assms by (auto simp: table_wf_def mapIncidents_def comp_def)

lemma clear_pending_wf:
  "incident_wf i \<Longrightarrow> incident_wf (i\<lparr>ri_rebootPending := False\<rparr>)"
  "incident_wf i \<Longrightarrow> incident_wf (i\<lparr>ri_processRestartPending := False\<rparr>)"
  by (simp_all add: incident_wf_def)

lemma consume_wf:
  assumes "recovery_wf c"
  shows "recovery_wf (snd (consumeRecoveryExitRequestForRuntime c))" "recovery_wf (snd (consumeRebootRequestForRuntime c))"
proof -
  have "table_wf (mapIncidents (ri_rebootPending_update (\<lambda>_. False)) (c\<lparr>re_rebootRequested := a, re_exitRequestConsumed := b\<rparr>))"
    "table_wf (mapIncidents (ri_processRestartPending_update (\<lambda>_. False)) (c\<lparr>re_processRestartRequested := a, re_exitRequestConsumed := b\<rparr>))"
    for a b
    using assms by (auto simp: recovery_wf_def clear_pending_wf intro!: mapIncidents_wf)
  then show "recovery_wf (snd (consumeRecoveryExitRequestForRuntime c))" "recovery_wf (snd (consumeRebootRequestForRuntime c))"
    using assms by (simp_all add: consumeRecoveryExitRequestForRuntime_def consumeRebootRequestForRuntime_def
        recovery_wf_update cong: recovery_wf_cong)
qed

section \<open>Steps\<close>

text \<open>
  A step is one call on the executor, labelled with what it emits, or a change of the world by the
  other components.
\<close>

inductive re_step :: "'w recoveryExecutor \<times> 'w \<Rightarrow> reOut list \<Rightarrow> 'w recoveryExecutor \<times> 'w \<Rightarrow> bool" where
  re_step_request: "re_request fw r c w = (c', w', out) \<Longrightarrow> re_step (c, w) out (c', w')"
| re_step_tick: "re_schedIn_handler fw c w = (c', w', out) \<Longrightarrow> re_step (c, w) out (c', w')"
| re_step_consume: "consumeRecoveryExitRequestForRuntime c = (x, c') \<Longrightarrow> re_step (c, w) [] (c', w)"
| re_step_consumeReboot: "consumeRebootRequestForRuntime c = (b, c') \<Longrightarrow> re_step (c, w) [] (c', w)"
| re_step_configure: "re_step (c, w) [] (re_configureRuntime mc ec ac bc cc c, w)"
| re_step_hardware: "re_step (c, w) [] (configureHardwareWatchdogModeForRuntime b c, w)"
| re_step_recorder: "re_step (c, w) [] (configurePersistentFaultRecorderForRuntime b c, w)"
| re_step_status: "re_step (c, w) (GET_RECOVERY_STATUS_cmdHandler c) (c, w)"
| re_step_world: "re_step (c, w) [] (c, w')"

inductive_cases re_stepE: "re_step (c, w) out (c', w')"

lemma re_step_ok: "re_step s out s' \<Longrightarrow> recovery_wf (fst s) \<Longrightarrow> op_ok (fst s) (fst s', snd s', out)"
proof (induction rule: re_step.induct)
  case (re_step_request fw r c w c' w' out)
  then show ?case using re_request_ok [of c fw r w] by simp
next
  case (re_step_tick fw c w c' w' out)
  then show ?case using re_schedIn_handler_ok [of c fw w] by simp
next
  case (re_step_consume c x c' w)
  then show ?case using consume_wf(1) [of c]
    by (auto simp: op_ok_def exit_justified_def consumeRecoveryExitRequestForRuntime_def mapIncidents_def split: if_splits)
next
  case (re_step_consumeReboot c b c' w)
  then show ?case using consume_wf(2) [of c]
    by (auto simp: op_ok_def exit_justified_def consumeRebootRequestForRuntime_def mapIncidents_def split: if_splits)
qed (simp_all add: re_configureRuntime_def configureHardwareWatchdogModeForRuntime_def op_ok_def exit_justified_def
    configurePersistentFaultRecorderForRuntime_def recovery_wf_def table_wf_def summary_wf_def)

lemma recovery_wf_init: "recovery_wf recoveryExecutor_init"
  by (simp add: recovery_wf_def table_wf_def summary_wf_def recoveryExecutor_init_def recoveryStatus_init_def
      recoverySources_def recoveryIncident_init_def incident_wf_def)

definition re_initial :: "'w recoveryExecutor \<times> 'w \<Rightarrow> bool" where
  "re_initial s \<longleftrightarrow> fst s = recoveryExecutor_init"

lemma re_reachable_wf: "reachable re_initial re_step s \<Longrightarrow> recovery_wf (fst s)"
  by (erule reachable_invariant) (auto simp: re_initial_def recovery_wf_init op_ok_def dest: re_step_ok)

text \<open>C11: In every state the recovery executor reaches, the incident table holds exactly one incident per
  source in order, every incident is consistent (it awaits its clearing iff it is active, its level
  never exceeds its highest level, a pending reboot was escalated to R6, only watchdog incidents restart
  the process), and the status summary counts the active incidents and pending exits exactly.\<close>
theorem recovery_state_consistent:
  "reachable re_initial re_step s \<Longrightarrow> recovery_wf (fst s)"
  by (rule re_reachable_wf)

definition demoFw :: recoveryFramework where
  "demoFw = \<lparr>fw_time = \<lparr>ft_baseIsNone = False, ft_seconds = 100, ft_useconds = 0\<rparr>, fw_executionError = 4\<rparr>"

theorem recovery_state_consistent_witness:
  "recovery_wf (fst (re_request demoFw (SubmitEpsTimeoutFault 3) (recoveryExecutor_init :: unit recoveryExecutor) ()))"
proof -
  have "reachable re_initial re_step (recoveryExecutor_init :: unit recoveryExecutor, ())"
    by (rule reach_init) (simp add: re_initial_def)
  moreover obtain c' w' out where
    "re_request demoFw (SubmitEpsTimeoutFault 3) (recoveryExecutor_init :: unit recoveryExecutor) () = (c', w', out)"
    by (cases "re_request demoFw (SubmitEpsTimeoutFault 3) (recoveryExecutor_init :: unit recoveryExecutor) ()")
  ultimately have "reachable re_initial re_step
      (fst (re_request demoFw (SubmitEpsTimeoutFault 3) (recoveryExecutor_init :: unit recoveryExecutor) ()), w')"
    using re_step_request [of demoFw "SubmitEpsTimeoutFault 3"] reach_step by fastforce
  from recovery_state_consistent [OF this] show ?thesis
    by simp
qed




section \<open>Recording a reboot\<close>

lemma sat_inc_pos: "(0 :: u32) < sat_inc n"
  by (simp add: word_less_nat_alt unat_sat_inc)

text \<open>A boot control that never fails to record an intent.\<close>

definition bc_records :: "'w recoveryBootControl \<Rightarrow> bool" where
  "bc_records bc \<longleftrightarrow> (\<forall>cause source level w. fst (bc_recordRecoveryRestartIntent bc cause source level w))"

lemma reboot_recorded:
  assumes "table_wf c" "s \<noteq> RIS_NONE" "re_bootControl c = Some bc" "bc_records bc"
    and "executeExternalAction fw (externalAction RECORD_REBOOT_INTENT s OBC_REBOOT ms) c w = (c', w', out, fs)"
  shows "inc_of c' t = (if t = s then (inc_of c t)\<lparr>ri_rebootPending := True\<rparr> else inc_of c t) \<or> t = RIS_NONE"
    and "re_rebootRequested c' \<longleftrightarrow> re_rebootRequested c \<or>
           \<not> (re_hardwareWatchdogModeEnabled c \<and> recoveryIncidentSourceIsWatchdog s)"
    and "RECOVERY_REBOOT_ISSUED s (ri_currentLevel (inc_of c s)) \<in> set out" and "fs = []"
    and "re_bootControl c' = re_bootControl c" and "re_processRestartRequested c' = re_processRestartRequested c"
    and "re_exitRequestConsumed c' = re_exitRequestConsumed c"
    and "re_hardwareWatchdogModeEnabled c' = re_hardwareWatchdogModeEnabled c"
    and "table_wf c \<Longrightarrow> rs_pendingReboot (re_status c')"
proof -
  let ?rec = "bc_recordRecoveryRestartIntent bc (recoveryResetCauseForSource s) s R6_OBC_REBOOT w"
  let ?inc = "(inc_of c s)\<lparr>ri_rebootPending := True\<rparr>"
  define d where "d = (setIncident s ?inc c)\<lparr>re_rebootRequested := re_rebootRequested c \<or>
      \<not> (re_hardwareWatchdogModeEnabled c \<and> recoveryIncidentSourceIsWatchdog s)\<rparr>"
  define d2 where "d2 = d\<lparr>re_status := (re_status d)\<lparr>rs_pendingReboot := True,
      rs_totalReboots := sat_inc (rs_totalReboots (re_status d))\<rparr>\<rparr>"
  have r: "fst ?rec"
    using assms(4) by (simp add: bc_records_def)
  have c': "c' = updateStatusSummary (Some ?inc) d2" and fs: "fs = []"
    and out: "out = RECOVERY_REBOOT_ISSUED (ri_source ?inc) (ri_currentLevel ?inc) #
      issueActionExecuted fw c (snd ?rec) ?inc OBC_REBOOT 0 @
      appendPersistentFaultRecord fw c (snd ?rec) REBOOT_ISSUED ?inc OBC_REBOOT 0 0"
    using assms(2,3,5) r
    by (auto simp: executeExternalAction_def externalAction_def rebootAction_def recordIntent_def Let_def split_beta
        incidentForSource_inc_of indexed_sources d_def d2_def)
  have d2: "inc_of d2 t = inc_of (setIncident s ?inc c) t" for t
    by (simp add: d_def d2_def inc_of_def)
  show "inc_of c' t = (if t = s then (inc_of c t)\<lparr>ri_rebootPending := True\<rparr> else inc_of c t) \<or> t = RIS_NONE"
    using inc_of_set [OF assms(1,2), of t ?inc] by (auto simp: c' d2)
  show "RECOVERY_REBOOT_ISSUED s (ri_currentLevel (inc_of c s)) \<in> set out"
    using inc_of_source [OF assms(1,2)] by (simp add: out)
  have "?inc \<in> set (rs_incidents (re_status d2))"
    using code_less [OF assms(2)] table_length [OF assms(1)] by (simp add: d_def d2_def set_update_memI)
  then show "rs_pendingReboot (re_status c')"
    by (simp add: c' list_ex_iff) (rule bexI [where x = ?inc], simp_all)
  show "re_rebootRequested c' \<longleftrightarrow> re_rebootRequested c \<or>
      \<not> (re_hardwareWatchdogModeEnabled c \<and> recoveryIncidentSourceIsWatchdog s)"
    "re_bootControl c' = re_bootControl c" "re_processRestartRequested c' = re_processRestartRequested c"
    "re_exitRequestConsumed c' = re_exitRequestConsumed c" "fs = []"
    "re_hardwareWatchdogModeEnabled c' = re_hardwareWatchdogModeEnabled c"
    by (simp_all add: c' fs d2_def d_def)
qed


text \<open>C27: A subsystem fault that latches again after its incident was opened before reboots the computer at
  once: when the boot manager records the intent, the reboot is announced at level R6, the incident is
  pending and the main loop is asked to reboot.\<close>
theorem relatched_subsystem_fault_reboots:
  assumes wf: "recovery_wf c" and r: "request_opens r = Some s"
    and closed: "\<not> ri_active (inc_of c s)" "ri_hasOpenedBefore (inc_of c s)"
    and idle: "\<not> re_processRestartRequested c" "\<not> re_rebootRequested c" "\<not> re_exitRequestConsumed c"
    and boot: "re_bootControl c = Some bc" "bc_records bc"
    and req: "re_request fw r c w = (c', w', out)"
  shows "re_rebootRequested c' \<and> ri_rebootPending (inc_of c' s) \<and> rs_pendingReboot (re_status c') \<and>
     RECOVERY_REBOOT_ISSUED s R6_OBC_REBOOT \<in> set out"
proof -
  have s: "s \<noteq> RIS_NONE" "\<not> recoveryIncidentSourceIsWatchdog s" and h: "re_request fw r c w = handleSubsystemFault fw s (re_currentMode c w) c w"
    using r by (cases r; auto)+
  obtain inc1 out1 where op: "openIncident fw c w (inc_of c s) s = (inc1, out1)"
    by (cases "openIncident fw c w (inc_of c s) s")
  have i1: "incident_wf inc1" "ri_source inc1 = s" "\<not> ri_rebootPending inc1"
    using openIncident_wf [OF s(1) op] by simp_all
  have "0 < ri_relatchCount inc1"
    using op closed by (auto simp: openIncident_def Let_def sat_inc_pos)
  define inc2 where "inc2 = raiseLevel R6_OBC_REBOOT OBC_REBOOT inc1"
  define d where "d = updateStatusSummary (Some inc2) (setIncident s inc2 c)"
  let ?a = "externalAction RECORD_REBOOT_INTENT s OBC_REBOOT TestSetup"
  obtain out2 where prep: "prepareSubsystemActions fw c w s (re_currentMode c w) inc1 = (inc2, out2, [?a])"
    using \<open>0 < ri_relatchCount inc1\<close> i1 by (simp add: prepareSubsystemActions_def prepareReboot_def Let_def inc2_def)
  obtain c2 w2 out3 fs where ex: "executeExternalAction fw ?a d w = (c2, w2, out3, fs)"
    by (cases "executeExternalAction fw ?a d w")
  have t: "table_wf c"
    using wf by (simp add: recovery_wf_def)
  have td: "table_wf d" and dinc: "inc_of d s = inc2"
    using table_wf_set [OF t, of inc2 s] i1 s inc_of_set [OF t s(1) s(1), of inc2]
    by (simp_all add: d_def inc2_def raiseLevel_wf)
  have dboot: "re_bootControl d = Some bc"
    by (simp add: d_def boot)
  note rec = reboot_recorded [OF td s(1) dboot boot(2) ex]
  have "c' = c2" "set out3 \<subseteq> set out"
    using req h closed idle s op prep ex rec(4)
    by (auto simp: handleSubsystemFault_def incidentForSource_inc_of indexed_sources d_def)
  moreover have "RECOVERY_REBOOT_ISSUED s R6_OBC_REBOOT \<in> set out3"
    using rec(3) by (simp add: dinc inc2_def)
  ultimately show ?thesis
    using rec(1) [of s] rec(2) rec(9) [OF td] s by auto
qed


definition demoBoot :: "unit recoveryBootControl" where
  "demoBoot = \<lparr>bc_isBootSafeFallbackRequired = (\<lambda>_. False), bc_getBootCount = (\<lambda>_. 1),
     bc_getConsecutiveResetCount = (\<lambda>_. 0), bc_getUptime = (\<lambda>_. 100),
     bc_recordRecoveryRestartIntent = (\<lambda>cause source level w. (True, w)),
     bc_acknowledgeRuntimeStable = (\<lambda>w. (True, w))\<rparr>"

definition demoRecovery :: "(recoveryIncidentState \<Rightarrow> recoveryIncidentState) \<Rightarrow> unit recoveryExecutor" where
  "demoRecovery f = updateStatusSummary None (setIncident EPS_TIMEOUT (f (recoveryIncident_init EPS_TIMEOUT))
     (recoveryExecutor_init\<lparr>re_bootControl := Some demoBoot\<rparr>))"

lemma demoBoot_records: "bc_records demoBoot"
  by (simp add: bc_records_def demoBoot_def)

lemma demoRecovery_wf:
  assumes "incident_wf (f (recoveryIncident_init EPS_TIMEOUT))" "ri_source (f (recoveryIncident_init EPS_TIMEOUT)) = EPS_TIMEOUT"
  shows "recovery_wf (demoRecovery f)" "inc_of (demoRecovery f) EPS_TIMEOUT = f (recoveryIncident_init EPS_TIMEOUT)"
proof -
  have "table_wf (recoveryExecutor_init\<lparr>re_bootControl := Some demoBoot\<rparr>)"
    using recovery_wf_init [where 'a = unit] by (simp add: recovery_wf_def table_wf_def)
  with assms show "recovery_wf (demoRecovery f)" "inc_of (demoRecovery f) EPS_TIMEOUT = f (recoveryIncident_init EPS_TIMEOUT)"
    by (simp_all add: demoRecovery_def recovery_wf_update table_wf_set inc_of_set)
qed

lemma demoRecovery_fields [simp]:
  "re_bootControl (demoRecovery f) = Some demoBoot" "\<not> re_processRestartRequested (demoRecovery f)"
  "\<not> re_rebootRequested (demoRecovery f)" "\<not> re_exitRequestConsumed (demoRecovery f)"
  "\<not> re_hardwareWatchdogModeEnabled (demoRecovery f)"
  by (simp_all add: demoRecovery_def recoveryExecutor_init_def)

theorem relatched_subsystem_fault_reboots_witness:
  "\<exists>c' w' out. re_request demoFw (SubmitEpsTimeoutFault 3) (demoRecovery (ri_hasOpenedBefore_update (\<lambda>_. True))) () = (c', w', out) \<and>
     re_rebootRequested c' \<and> ri_rebootPending (inc_of c' EPS_TIMEOUT) \<and> RECOVERY_REBOOT_ISSUED EPS_TIMEOUT R6_OBC_REBOOT \<in> set out"
proof -
  let ?f = "ri_hasOpenedBefore_update (\<lambda>_. True)"
  obtain c' w' out where r: "re_request demoFw (SubmitEpsTimeoutFault 3) (demoRecovery ?f) () = (c', w', out)"
    by (cases "re_request demoFw (SubmitEpsTimeoutFault 3) (demoRecovery ?f) ()")
  have wf: "recovery_wf (demoRecovery ?f)" "inc_of (demoRecovery ?f) EPS_TIMEOUT = ?f (recoveryIncident_init EPS_TIMEOUT)"
    by (rule demoRecovery_wf; simp add: incident_wf_def recoveryIncident_init_def)+
  have inc: "\<not> ri_active (inc_of (demoRecovery ?f) EPS_TIMEOUT)" "ri_hasOpenedBefore (inc_of (demoRecovery ?f) EPS_TIMEOUT)"
    by (simp_all add: wf(2) recoveryIncident_init_def)
  show ?thesis
    using relatched_subsystem_fault_reboots [OF wf(1) _ inc _ _ _ _ demoBoot_records r] r by simp
qed


section \<open>An incident that is never cleared\<close>

fun re_ticks :: "recoveryFramework list \<Rightarrow> 'w recoveryExecutor \<Rightarrow> 'w \<Rightarrow> 'w recoveryExecutor \<times> 'w" where
  "re_ticks [] c w = (c, w)"
| "re_ticks (fw # fws) c w = (let (c', w', _) = re_schedIn_handler fw c w in re_ticks fws c' w')"

text \<open>Reboot intents and stability acknowledgements are the only actions of a tick.\<close>

definition tick_action :: "externalActionRequest \<Rightarrow> bool" where
  "tick_action a \<longleftrightarrow> (\<exists>s. s \<noteq> RIS_NONE \<and> a = externalAction RECORD_REBOOT_INTENT s OBC_REBOOT TestSetup) \<or>
     a = externalAction ACK_STABLE RIS_NONE RA_NONE TestSetup"

text \<open>
  What the actions of a tick do to the executor: intents already pending stay pending, every reboot
  action leaves its incident pending, and the other incidents are untouched.
\<close>

definition reboots_done :: "externalActionRequest list \<Rightarrow> 'w recoveryExecutor \<Rightarrow> 'w recoveryExecutor \<Rightarrow> bool" where
  "reboots_done as c c' \<longleftrightarrow>
     re_bootControl c' = re_bootControl c \<and> re_processRestartRequested c' = re_processRestartRequested c \<and>
     re_exitRequestConsumed c' = re_exitRequestConsumed c \<and>
     re_hardwareWatchdogModeEnabled c' = re_hardwareWatchdogModeEnabled c \<and>
     (re_rebootRequested c \<longrightarrow> re_rebootRequested c') \<and>
     (\<forall>t. t \<noteq> RIS_NONE \<longrightarrow> ri_rebootPending (inc_of c t) \<longrightarrow> ri_rebootPending (inc_of c' t)) \<and>
     (\<forall>a \<in> set as. ea_kind a = RECORD_REBOOT_INTENT \<longrightarrow> ri_rebootPending (inc_of c' (ea_source a)) \<and>
        (\<not> re_hardwareWatchdogModeEnabled c \<longrightarrow> re_rebootRequested c')) \<and>
     ((\<forall>a \<in> set as. ea_kind a \<noteq> RECORD_REBOOT_INTENT) \<longrightarrow>
        re_rebootRequested c' = re_rebootRequested c \<and> (\<forall>t. t \<noteq> RIS_NONE \<longrightarrow> inc_of c' t = inc_of c t))"

lemma reboots_done_Cons:
  assumes one: "reboots_done [a] c c1" and rest: "reboots_done as c1 c2"
    and a: "ea_kind a = RECORD_REBOOT_INTENT \<Longrightarrow> ea_source a \<noteq> RIS_NONE"
  shows "reboots_done (a # as) c c2"
proof -
  have keep: "t \<noteq> RIS_NONE \<Longrightarrow> ri_rebootPending (inc_of c1 t) \<Longrightarrow> ri_rebootPending (inc_of c2 t)" for t
    using rest by (simp add: reboots_done_def)
  show ?thesis
    using one rest unfolding reboots_done_def by (simp add: a keep)
qed

lemma tick_execute_one:
  assumes wf: "table_wf c" and a: "tick_action a" and boot: "re_bootControl c = Some bc" "bc_records bc"
    and ex: "executeExternalAction fw a c w = (c', w', out, fs)"
  shows "fs = [] \<and> reboots_done [a] c c'"
  using a unfolding tick_action_def
proof (elim disjE exE conjE)
  fix s assume s: "s \<noteq> RIS_NONE" "a = externalAction RECORD_REBOOT_INTENT s OBC_REBOOT TestSetup"
  note rec = reboot_recorded [OF wf s(1) boot ex [unfolded s(2)]]
  have "ri_rebootPending (inc_of c' t)" if "t \<noteq> RIS_NONE" "ri_rebootPending (inc_of c t) \<or> t = s" for t
    using rec(1) [of t] that by (auto split: if_splits)
  with rec(2-8) s boot show ?thesis
    by (simp add: externalAction_def reboots_done_def)
next
  assume "a = externalAction ACK_STABLE RIS_NONE RA_NONE TestSetup"
  then show ?thesis
    using ex boot by (auto simp: executeExternalAction_def externalAction_def ackStableAction_def Let_def split_beta
        inc_of_def reboots_done_def split: if_splits)
qed


lemma tick_execute:
  assumes "\<forall>a \<in> set as. tick_action a" "recovery_wf c" "actions_ok c as" "re_bootControl c = Some bc" "bc_records bc"
  shows "reboots_done as c (fst (executeExternalActions fw as c w))"
  using assms
proof (induction as arbitrary: c w)
  case (Cons a as)
  obtain c1 w1 out1 fs where one: "executeExternalAction fw a c w = (c1, w1, out1, fs)"
    by (cases "executeExternalAction fw a c w")
  have t: "table_wf c" and oks: "actions_ok c [a]" "actions_ok c as"
    using Cons.prems by (simp_all add: recovery_wf_def actions_ok_def)
  have ev: "evolves c c1" "actions_ok c1 fs"
    using executeExternalAction_evolves [OF Cons.prems(2) oks(1) one] by simp_all
  have wf1: "recovery_wf c1" "actions_ok c1 as"
    using ev(1) evolves_actions_ok [OF ev(1) oks(2) t] by (simp_all add: evolves_def)
  have a: "tick_action a"
    using Cons.prems(1) by simp
  note first = tick_execute_one [OF t a Cons.prems(4,5) one]
  have boot1: "re_bootControl c1 = Some bc"
    using first Cons.prems(4) by (simp add: reboots_done_def)
  have "reboots_done as c1 (fst (executeExternalActions fw as c1 w1))"
    using Cons.prems(1,5) by (intro Cons.IH wf1 boot1) simp_all
  then have "reboots_done (a # as) c (fst (executeExternalActions fw as c1 w1))"
    using a first by (elim conjE) (rule reboots_done_Cons, auto simp: tick_action_def externalAction_def)
  then show ?case
    using first by (simp add: one split_beta)
qed (simp add: reboots_done_def)

definition waiting :: "'w recoveryExecutor \<Rightarrow> recoveryIncidentSource \<Rightarrow> bool" where
  "waiting c s \<longleftrightarrow> ri_active (inc_of c s) \<and> ri_firstActionIssued (inc_of c s) \<and>
     \<not> ri_processRestartPending (inc_of c s) \<and> \<not> ri_rebootPending (inc_of c s)"

definition reboot_on_its_way :: "'w recoveryExecutor \<Rightarrow> bool" where
  "reboot_on_its_way c \<longleftrightarrow> (\<exists>s. s \<noteq> RIS_NONE \<and> ri_rebootPending (inc_of c s)) \<and>
     (\<not> re_hardwareWatchdogModeEnabled c \<longrightarrow> re_rebootRequested c)"

definition no_exit_yet :: "'w recoveryExecutor \<Rightarrow> bool" where
  "no_exit_yet c \<longleftrightarrow> \<not> re_processRestartRequested c \<and> \<not> re_exitRequestConsumed c"

lemma tickIncident_actions: "a \<in> set (snd (snd (tickIncident fw c w inc))) \<Longrightarrow>
    a = externalAction RECORD_REBOOT_INTENT (ri_source inc) OBC_REBOOT TestSetup"
  by (auto simp: tickIncident_def prepareReboot_def Let_def split: if_splits)

lemma tickIncident_pending: "ri_rebootPending (fst (tickIncident fw c w inc)) = ri_rebootPending inc"
  by (simp add: tickIncident_def prepareReboot_def Let_def)

lemma tickIncident_quiet:
  "snd (snd (tickIncident fw c w inc)) = [] \<Longrightarrow> tickIncident fw c w inc = (inc, [], []) \<or>
     tickIncident fw c w inc = (inc\<lparr>ri_openTicks := sat_inc (ri_openTicks inc)\<rparr>, [], [])"
  by (auto simp: tickIncident_def prepareReboot_def Let_def split: if_splits)

lemma tickIncident_waiting:
  assumes "table_wf c" "s \<noteq> RIS_NONE" "waiting c s"
  shows "tickIncident fw d w (inc_of c s) =
     (let inc = (inc_of c s)\<lparr>ri_openTicks := sat_inc (ri_openTicks (inc_of c s))\<rparr>
      in if 3 \<le> sat_inc (ri_openTicks (inc_of c s)) then prepareReboot fw d w inc else (inc, [], []))"
  using assms inc_of_wf [OF assms(1,2)] inc_of_source [OF assms(1,2)]
  by (simp add: tickIncident_def waiting_def incident_wf_def uncleared_sources UNCLEARED_REBOOT_TIMEOUT_TICKS_def Let_def)

lemma tickIncidents_inc_of:
  assumes wf: "table_wf c" and s: "s \<noteq> RIS_NONE" and run: "no_exit_yet c" "\<not> re_rebootRequested c"
    and tick: "tickIncidents fw c w = (c', out, as)"
  shows "inc_of c' s = fst (tickIncident fw c w (inc_of c s))"
    and "set (snd (snd (tickIncident fw c w (inc_of c s)))) \<subseteq> set as"
    and "\<forall>a \<in> set as. tick_action a"
proof -
  let ?incs = "rs_incidents (re_status c)"
  have as: "as = concat (map (\<lambda>i. snd (snd (tickIncident fw c w i))) ?incs)"
    and c': "rs_incidents (re_status c') = map (\<lambda>i. fst (tickIncident fw c w i)) ?incs"
    using tick run by (auto simp: tickIncidents_def no_exit_yet_def Let_def comp_def)
  have mem: "inc_of c s \<in> set ?incs"
    using table_length [OF wf] code_less [OF s] by (simp add: inc_of_def)
  show "inc_of c' s = fst (tickIncident fw c w (inc_of c s))"
    using table_length [OF wf] code_less [OF s] by (simp add: inc_of_def c')
  show "set (snd (snd (tickIncident fw c w (inc_of c s)))) \<subseteq> set as"
    using mem by (auto simp: as)
  show "\<forall>a \<in> set as. tick_action a"
    using inc_of_member [OF wf] by (auto simp: as tick_action_def dest!: tickIncident_actions)
qed


text \<open>
  One tick: either a reboot gets on its way, or an incident that waits for its clearing has counted
  one more tick.
\<close>

definition tick_state :: "'w recoveryBootControl \<Rightarrow> recoveryIncidentSource \<Rightarrow> nat \<Rightarrow> 'w recoveryExecutor \<Rightarrow> bool" where
  "tick_state bc s n c \<longleftrightarrow> recovery_wf c \<and> re_bootControl c = Some bc \<and> no_exit_yet c \<and>
     (reboot_on_its_way c \<or>
      \<not> re_rebootRequested c \<and> waiting c s \<and> n \<le> unat (ri_openTicks (inc_of c s)))"

lemma stableCheck_actions:
  "stableCheck n c = (c', as) \<Longrightarrow> \<forall>a \<in> set as. tick_action a \<and> ea_kind a \<noteq> RECORD_REBOOT_INTENT"
  by (auto simp: stableCheck_def Let_def tick_action_def externalAction_def split: if_splits)

lemma tick_parts:
  assumes "recovery_wf c" "re_bootControl c = Some bc" "bc_records bc" "no_exit_yet c"
    and "applyBootClamp c w = (c1, w1)" "tickIncidents fw c1 w1 = (c2, out2, as2)"
    and "re_schedIn_handler fw c w = (c', w', out)"
  shows "\<exists>as c3. set as2 \<subseteq> set as \<and> (\<forall>a \<in> set as. ea_kind a = RECORD_REBOOT_INTENT \<longrightarrow> a \<in> set as2) \<and>
     reboots_done as c3 c' \<and> inc_of c3 = inc_of c2 \<and>
     re_rebootRequested c3 = re_rebootRequested c \<and> re_bootControl c3 = Some bc \<and> no_exit_yet c3 \<and>
     re_hardwareWatchdogModeEnabled c3 = re_hardwareWatchdogModeEnabled c"
proof -
  note clamp = assms(5) and tick = assms(6)
  note f1 = applyBootClamp_frame [OF clamp] and f2 = tickIncidents_frame [OF tick]
  let ?n = "case re_bootControl c1 of None \<Rightarrow> 0 | Some bc \<Rightarrow> bc_getConsecutiveResetCount bc w1"
  obtain c3 as3 where stable: "stableCheck ?n (updateStatusSummary None c2) = (c3, as3)"
    by (cases "stableCheck ?n (updateStatusSummary None c2)")
  note f3 = stableCheck_frame [OF stable]
  have t1: "table_wf c1"
    using assms(1) f1 by (simp add: recovery_wf_def table_wf_def)
  have t2: "table_wf c2" "actions_ok c2 as2"
    using tickIncidents_wf [OF t1 tick] by simp_all
  have c3: "recovery_wf c3" "actions_ok c3 as3" "inc_of c3 = inc_of (updateStatusSummary None c2)"
    using stableCheck_wf [OF stable recovery_wf_update [OF t2(1)]] by simp_all
  have as2: "\<forall>a \<in> set as2. tick_action a"
  proof (cases "re_rebootRequested c")
    case True
    then show ?thesis using tick f1 by (auto simp: tickIncidents_def)
  next
    case False
    have "no_exit_yet c1" "\<not> re_rebootRequested c1"
      using assms(4) False f1 by (simp_all add: no_exit_yet_def)
    then show ?thesis
      using tickIncidents_inc_of(3) [OF t1 _ _ _ tick, of EPS_TIMEOUT] by simp
  qed
  have ok: "actions_ok c3 (as2 @ as3)"
    using t2(2) c3 by (auto simp: actions_ok_def)
  have all: "\<forall>a \<in> set (as2 @ as3). tick_action a"
    using as2 stableCheck_actions [OF stable] by auto
  have boot: "re_bootControl c3 = Some bc"
    using f1 f2 f3 assms(2) by simp
  have "reboots_done (as2 @ as3) c3 (fst (executeExternalActions fw (as2 @ as3) c3 w1))"
    by (rule tick_execute [OF all c3(1) ok boot assms(3)])
  moreover have "c' = fst (executeExternalActions fw (as2 @ as3) c3 w1)"
    using assms(7) clamp tick stable by (auto simp: re_schedIn_handler_def Let_def split_beta)
  moreover have "inc_of c3 = inc_of c2"
    using c3(3) by (simp add: fun_eq_iff)
  ultimately show ?thesis
    using f1 f2 f3 boot assms(4) stableCheck_actions [OF stable]
    by (intro exI [of _ "as2 @ as3"] exI [of _ c3]) (auto simp: no_exit_yet_def)
qed

lemma tick_progress:
  assumes st: "tick_state bc s n c" and s: "s \<noteq> RIS_NONE" and bc: "bc_records bc"
    and tick: "re_schedIn_handler fw c w = (c', w', out)"
  shows "tick_state bc s (Suc n) c' \<and> (2 \<le> n \<longrightarrow> reboot_on_its_way c')"
proof -
  have wf: "recovery_wf c" "re_bootControl c = Some bc" "no_exit_yet c"
    using st by (simp_all add: tick_state_def)
  have wf': "recovery_wf c'"
    using re_schedIn_handler_ok [OF wf(1), of fw w] tick by (simp add: op_ok_def)
  obtain c1 w1 where clamp: "applyBootClamp c w = (c1, w1)"
    by (cases "applyBootClamp c w")
  obtain c2 out2 as2 where t2: "tickIncidents fw c1 w1 = (c2, out2, as2)"
    by (cases "tickIncidents fw c1 w1")
  note f1 = applyBootClamp_frame [OF clamp]
  have t1: "table_wf c1" and i1: "inc_of c1 = inc_of c"
    using wf f1 by (simp_all add: recovery_wf_def table_wf_def inc_of_def fun_eq_iff)
  obtain as c3 where parts: "set as2 \<subseteq> set as"
    and from_tick: "\<forall>a \<in> set as. ea_kind a = RECORD_REBOOT_INTENT \<longrightarrow> a \<in> set as2"
    and parts: "set as2 \<subseteq> set as" "reboots_done as c3 c'" "inc_of c3 = inc_of c2"
    "re_rebootRequested c3 = re_rebootRequested c" "re_bootControl c3 = Some bc" "no_exit_yet c3"
    "re_hardwareWatchdogModeEnabled c3 = re_hardwareWatchdogModeEnabled c"
    using tick_parts [OF wf(1,2) bc wf(3) clamp t2 tick] by (elim exE conjE) (rule that; assumption)
  have base: "recovery_wf c' \<and> re_bootControl c' = Some bc \<and> no_exit_yet c'"
    using parts wf' by (simp add: reboots_done_def no_exit_yet_def)
  have way: "reboot_on_its_way c'" if "a \<in> set as2" "tick_action a" "ea_kind a = RECORD_REBOOT_INTENT" for a
  proof -
    have "ea_source a \<noteq> RIS_NONE"
      using that by (auto simp: tick_action_def externalAction_def)
    then show ?thesis
      using that parts(1,2) by (auto simp: reboot_on_its_way_def reboots_done_def)
  qed
  show ?thesis
  proof (cases "reboot_on_its_way c")
    case True
    have pend: "ri_rebootPending (inc_of c2 t) = ri_rebootPending (inc_of c t)" if "t \<noteq> RIS_NONE" for t
    proof (cases "re_rebootRequested c")
      case True
      then have "c2 = c1"
        using t2 f1 by (auto simp: tickIncidents_def)
      then show ?thesis by (simp add: i1)
    next
      case False
      then show ?thesis
        using tickIncidents_inc_of(1) [OF t1 that _ _ t2] wf(3) f1 by (simp add: no_exit_yet_def i1 tickIncident_pending)
    qed
    have "reboot_on_its_way c'"
      using True parts pend by (auto simp: reboot_on_its_way_def reboots_done_def)
    with base show ?thesis
      by (simp add: tick_state_def)
  next
    case False
    then have w: "\<not> re_rebootRequested c" "waiting c s" "n \<le> unat (ri_openTicks (inc_of c s))"
      using st by (simp_all add: tick_state_def)
    have run: "no_exit_yet c1" "\<not> re_rebootRequested c1" and ws: "waiting c1 s"
      using w wf f1 by (simp_all add: no_exit_yet_def waiting_def i1)
    note ti = tickIncidents_inc_of [OF t1 s run t2]
    show ?thesis
    proof (cases "as2 = []")
      case False
      then obtain a where "a \<in> set as2" by (cases as2) auto
      moreover from this obtain i where "a \<in> set (snd (snd (tickIncident fw c1 w1 i)))"
        using t2 run by (auto simp: tickIncidents_def no_exit_yet_def Let_def)
      ultimately have "reboot_on_its_way c'"
        using way ti(3) tickIncident_actions by (fastforce simp: externalAction_def)
      with base show ?thesis
        by (simp add: tick_state_def)
    next
      case True
      then have none: "snd (snd (tickIncident fw c1 w1 (inc_of c1 s))) = []"
        using ti(2) by simp
      note tw = tickIncident_waiting [OF t1 s ws, of fw c1 w1]
      have less: "\<not> 3 \<le> sat_inc (ri_openTicks (inc_of c1 s))"
        using none tw ws by (auto simp: prepareReboot_def waiting_def Let_def split: if_splits)
      then have small: "unat (sat_inc (ri_openTicks (inc_of c1 s))) < 3"
        by (simp add: word_le_nat_alt)
      then have inc: "unat (sat_inc (ri_openTicks (inc_of c1 s))) = Suc (unat (ri_openTicks (inc_of c1 s)))"
        by (simp add: unat_sat_inc)
      have c2: "inc_of c2 s = (inc_of c1 s)\<lparr>ri_openTicks := sat_inc (ri_openTicks (inc_of c1 s))\<rparr>"
        using ti(1) tw less by (simp add: Let_def)
      have "n < 2"
        using small inc w(3) by (simp add: i1)
      moreover have "tick_state bc s (Suc n) c'"
      proof -
        have "\<forall>a \<in> set as. ea_kind a \<noteq> RECORD_REBOOT_INTENT"
          using from_tick True by auto
        then have c': "re_rebootRequested c' = re_rebootRequested c" "inc_of c' s = inc_of c2 s"
          using parts s by (auto simp: reboots_done_def)
        have "waiting c' s" "Suc n \<le> unat (ri_openTicks (inc_of c' s))"
          using ws w(3) inc unfolding waiting_def c'(2) c2 by (simp_all add: i1)
        with base w(1) c'(1) show ?thesis
          by (simp add: tick_state_def)
      qed
      ultimately show ?thesis by simp
    qed
  qed
qed


lemma ticks_progress:
  "tick_state bc s n c \<Longrightarrow> s \<noteq> RIS_NONE \<Longrightarrow> bc_records bc \<Longrightarrow> 3 \<le> n + length fws \<Longrightarrow> fws \<noteq> [] \<Longrightarrow>
   reboot_on_its_way (fst (re_ticks fws c w)) \<and> recovery_wf (fst (re_ticks fws c w))"
proof (induction fws arbitrary: n c w)
  case (Cons fw fws)
  obtain c' w' out where tick: "re_schedIn_handler fw c w = (c', w', out)"
    by (cases "re_schedIn_handler fw c w")
  note p = tick_progress [OF Cons.prems(1-3) tick]
  show ?case
  proof (cases "fws = []")
    case True
    then show ?thesis
      using p Cons.prems(4) by (simp add: tick tick_state_def)
  next
    case False
    then show ?thesis
      using Cons.IH [of "Suc n" c' w'] p Cons.prems by (simp add: tick)
  qed
qed simp



section \<open>The boot SAFE fallback\<close>

text \<open>C28: While the boot manager requires the SAFE fallback, a watchdog fault in any mode but HELL neither asks
  for a restart nor for a reboot: the incident goes to the mode fallback level, the mode becomes SAFE and
  no later tick of the executor escalates this incident.\<close>
theorem boot_fallback_stops_restarts:
  assumes wf: "recovery_wf c" and closed: "\<not> ri_active (inc_of c (recoveryIncidentSourceFromWatchdog source))"
    and boot: "bootSafeFallbackRequired c w" and mode: "re_modeControl c = Some mc" "mode_control mc"
    and not_hell: "mc_getModeForRuntime mc w \<noteq> HELL"
    and run: "submitWatchdogFault fw source c w = (c', w', out)"
  shows "re_processRestartRequested c' = re_processRestartRequested c \<and> re_rebootRequested c' = re_rebootRequested c \<and>
     mc_getModeForRuntime mc w' = SAFE \<and>
     ri_currentLevel (inc_of c' (recoveryIncidentSourceFromWatchdog source)) = R5_MODE_FALLBACK \<and>
     tickIncident fw' d w'' (inc_of c' (recoveryIncidentSourceFromWatchdog source)) =
       (inc_of c' (recoveryIncidentSourceFromWatchdog source), [], [])"
proof -
  let ?s = "recoveryIncidentSourceFromWatchdog source"
  obtain inc1 out1 where op: "openIncident fw c w (inc_of c ?s) ?s = (inc1, out1)"
    by (cases "openIncident fw c w (inc_of c ?s) ?s")
  have i1: "ri_source inc1 = ?s" "\<not> ri_safeFallbackIssued inc1" "\<not> ri_firstActionIssued inc1" "incident_wf inc1"
    using openIncident_wf [OF indexed_watchdog op] op by (auto simp: openIncident_def Let_def)
  have req: "modeIsSafeRequestable (re_currentMode c w) \<or> re_currentMode c w = SAFE"
    using not_hell mode(1) by (cases "mc_getModeForRuntime mc w") (simp_all add: re_currentMode_def modeIsSafeRequestable_def)
  define inc2 where "inc2 = raiseLevel R5_MODE_FALLBACK SAFE_FALLBACK (inc1\<lparr>ri_safeFallbackIssued := True\<rparr>)"
  let ?a = "externalAction APPLY_SAFE ?s SAFE_FALLBACK WatchdogFault"
  obtain out2 where cl: "applyBootSafeFallbackClamp fw c w (re_currentMode c w) WatchdogFault inc1 = (True, inc2, out2, [?a])"
    using boot req mode(1) i1 by (auto simp: applyBootSafeFallbackClamp_def prepareSafeFallback_def Let_def inc2_def)
  have inc2: "\<not> ri_firstActionIssued inc2" "ri_currentLevel inc2 = R5_MODE_FALLBACK"
    by (simp_all add: inc2_def i1)
  have t: "table_wf c"
    using wf by (simp add: recovery_wf_def)
  define e where "e = updateStatusSummary (Some inc2) (setIncident ?s inc2 c)"
  obtain c2 w2 out3 fs where ex: "executeExternalAction fw ?a e w = (c2, w2, out3, fs)"
    by (cases "executeExternalAction fw ?a e w")
  have c2: "fs = []" "w2 = mc_applyModeForInternalSource mc SAFE WatchdogFault w" "inc_of c2 ?s = inc_of e ?s"
    "re_processRestartRequested c2 = re_processRestartRequested e" "re_rebootRequested c2 = re_rebootRequested e"
    using ex mode(1) by (auto simp: executeExternalAction_def applySafeAction_def externalAction_def Let_def
        incidentForSource_inc_of indexed_sources e_def) (simp_all add: inc_of_def)
  have "c' = c2" "w' = w2"
    using run closed op cl ex c2(1) by (auto simp: submitWatchdogFault_def Let_def incidentForSource_inc_of indexed_sources e_def)
  moreover have "inc_of e ?s = inc2"
    using inc_of_set [OF t indexed_watchdog [of source] indexed_watchdog [of source], of inc2] by (simp add: e_def)
  ultimately show ?thesis
    using c2 inc2 mode_control.get_apply [OF mode(2)] by (simp add: e_def tickIncident_def)
qed


definition demoFallback :: "(unit modeManager \<times> mmOut list) recoveryExecutor" where
  "demoFallback = recoveryExecutor_init\<lparr>re_modeControl := Some (modeManager_control 0),
     re_bootControl := Some \<lparr>bc_isBootSafeFallbackRequired = (\<lambda>_. True), bc_getBootCount = (\<lambda>_. 1),
       bc_getConsecutiveResetCount = (\<lambda>_. 3), bc_getUptime = (\<lambda>_. 100),
       bc_recordRecoveryRestartIntent = (\<lambda>cause source level w. (True, w)),
       bc_acknowledgeRuntimeStable = (\<lambda>w. (True, w))\<rparr>\<rparr>"

theorem boot_fallback_stops_restarts_witness:
  "\<exists>c' w' out. submitWatchdogFault demoFw EPS_FDIR demoFallback ((modeManager_init 0)\<lparr>mm_currentMode := PAYLOAD\<rparr>, []) = (c', w', out) \<and>
     \<not> re_processRestartRequested c' \<and> mm_currentMode (fst w') = SAFE"
proof -
  let ?w = "((modeManager_init 0)\<lparr>mm_currentMode := PAYLOAD\<rparr>, []) :: unit modeManager \<times> mmOut list"
  obtain c' w' out where r: "submitWatchdogFault demoFw EPS_FDIR demoFallback ?w = (c', w', out)"
    by (cases "submitWatchdogFault demoFw EPS_FDIR demoFallback ?w")
  have wf: "recovery_wf demoFallback"
    using recovery_wf_init [where 'a = "unit modeManager \<times> mmOut list"]
    by (simp add: demoFallback_def recovery_wf_def table_wf_def summary_wf_def)
  have closed: "\<not> ri_active (inc_of demoFallback (recoveryIncidentSourceFromWatchdog EPS_FDIR))"
    by (simp add: demoFallback_def inc_of_def recoveryExecutor_init_def recoveryStatus_init_def recoverySources_def
        recoveryIncident_init_def)
  have boot: "bootSafeFallbackRequired demoFallback ?w" and mode: "re_modeControl demoFallback = Some (modeManager_control 0)"
    by (simp_all add: demoFallback_def bootSafeFallbackRequired_def)
  have hell: "mc_getModeForRuntime (modeManager_control 0) ?w \<noteq> HELL"
    by (simp add: modeManager_control_def getModeForRuntime_def)
  have "\<not> re_processRestartRequested demoFallback"
    by (simp add: demoFallback_def recoveryExecutor_init_def)
  with boot_fallback_stops_restarts [OF wf closed boot mode mm.mode_control_axioms hell r,
      where fw' = demoFw and d = demoFallback and w'' = ?w] r show ?thesis
    by (auto simp: modeManager_control_def getModeForRuntime_def split_beta)
qed

end
