(* ===== verification/Byte_Fields.thy ===== *)
theory Byte_Fields
  imports Obc_Prelude
begin

text \<open>
  Reading back the fields of a byte image: a field is found at its offset when the image from there on
  starts with its encoding, and the chunks of a concatenation of equally long pieces are the pieces.
\<close>

lemma nth_drop_prefix: "drop n bs = xs @ ys \<Longrightarrow> i < length xs \<Longrightarrow> bs ! (n + i) = xs ! i"
  by (metis (no_types, lifting) add_leE drop_all length_append length_greater_0_conv linorder_not_le list.size(3) nat_le_linear
      not_add_less1 nth_append nth_drop trans_less_add1 not_less_zero)

lemma get8_at: "drop n bs = b # ys \<Longrightarrow> get8 bs n = b"
  using nth_drop_prefix [of n bs "[b]" ys 0] by (simp add: get8_def)

lemma get_le16_at: "drop n bs = le16 w @ ys \<Longrightarrow> get_le16 bs n = w"
  using nth_drop_prefix [of n bs "le16 w" ys 0] nth_drop_prefix [of n bs "le16 w" ys 1] join16 [of w]
  by (simp add: get_le16_def le16_def or.commute)

lemma get_le32_at: "drop n bs = le32 w @ ys \<Longrightarrow> get_le32 bs n = w"
  using nth_drop_prefix [of n bs "le32 w" ys 0] nth_drop_prefix [of n bs "le32 w" ys 1]
    nth_drop_prefix [of n bs "le32 w" ys 2] nth_drop_prefix [of n bs "le32 w" ys 3] join32 [of w]
  by (simp add: get_le32_def le32_def ac_simps)

lemma get_be16_at: "drop n bs = be16 w @ ys \<Longrightarrow> get_be16 bs n = w"
  using nth_drop_prefix [of n bs "be16 w" ys 0] nth_drop_prefix [of n bs "be16 w" ys 1] join16 [of w]
  by (simp add: get_be16_def be16_def)

lemma get_be32_at: "drop n bs = be32 w @ ys \<Longrightarrow> get_be32 bs n = w"
  using nth_drop_prefix [of n bs "be32 w" ys 0] nth_drop_prefix [of n bs "be32 w" ys 1]
    nth_drop_prefix [of n bs "be32 w" ys 2] nth_drop_prefix [of n bs "be32 w" ys 3] join32 [of w]
  by (simp add: get_be32_def be32_def)

lemmas field_at = get8_at get_le16_at get_le32_at get_be16_at get_be32_at

text \<open>Chunks of equal length.\<close>

definition chunk :: "nat \<Rightarrow> nat \<Rightarrow> bytes \<Rightarrow> bytes" where
  "chunk n i bs = take n (drop (i * n) bs)"

lemma chunk_concat:
  assumes "\<forall>x \<in> set xs. length (f x) = n" "i < length xs"
  shows "chunk n i (concat (map f xs)) = f (xs ! i)"
  using assms
proof (induction xs arbitrary: i)
  case (Cons x xs)
  then show ?case
    by (cases i) (simp_all add: chunk_def)
qed simp

lemma length_concat_const: "\<forall>x \<in> set xs. length (f x) = n \<Longrightarrow> length (concat (map f xs)) = length xs * n"
  by (induction xs) simp_all

lemma decode_chunks:
  assumes "\<forall>x \<in> set xs. length (f x) = n \<and> g (f x) = x" "length xs = k"
  shows "map (\<lambda>i. g (chunk n i (concat (map f xs)))) [0..<k] = xs"
  using assms by (intro nth_equalityI) (simp_all add: chunk_concat)

end
