(* ===== verification/Dual_Copy.thy ===== *)
theory Dual_Copy
  imports Byte_Fields
begin

text \<open>
  What \<open>PersistentFaultStore\<close> and \<open>CommandFreshnessStore\<close> have in common: a snapshot is kept in two files
  written in turn, the reader takes the valid copy with the higher generation. The file system is a map
  from paths to contents; what the operating system answers to a directory call and what a write
  leaves in the file are parameters.
\<close>

datatype storeCopy = COPY_NONE | COPY_A | COPY_B

type_synonym filesystem = "string \<Rightarrow> bytes option"

datatype pathType = PATH_FILE | PATH_DIRECTORY | PATH_OTHER

record osCalls =
  os_getPathType :: "string \<Rightarrow> pathType"
  os_createDirectory :: "string \<Rightarrow> bool"
  os_writeFile :: "string \<Rightarrow> bytes option \<Rightarrow> bytes \<Rightarrow> bool \<times> bytes option"

record storePaths =
  sp_rootDir :: string
  sp_copyAPath :: string
  sp_copyBPath :: string

definition joinPath :: "string \<Rightarrow> string \<Rightarrow> string" where
  "joinPath base child =
     (if base = [] then child else if child = [] then base
      else if last base = CHR ''/'' then base @ child else base @ ''/'' @ child)"

text \<open>The segments \<open>std::getline\<close> yields for the separator; empty ones are skipped by the caller.\<close>

fun path_segments :: "string \<Rightarrow> string list" where
  "path_segments [] = [[]]"
| "path_segments (c # cs) =
     (if c = CHR ''/'' then [] # path_segments cs
      else case path_segments cs of [] \<Rightarrow> [[c]] | s # ss \<Rightarrow> (c # s) # ss)"

fun makeDirectories :: "osCalls \<Rightarrow> string \<Rightarrow> string list \<Rightarrow> bool" where
  "makeDirectories os current [] = True"
| "makeDirectories os current (segment # segments) =
     (if segment = [] then makeDirectories os current segments
      else let path = (if current \<noteq> [] \<and> last current \<noteq> CHR ''/'' then current @ ''/'' else current) @ segment
           in case os_getPathType os path of
                PATH_DIRECTORY \<Rightarrow> makeDirectories os path segments
              | PATH_FILE \<Rightarrow> False
              | PATH_OTHER \<Rightarrow> if os_createDirectory os path then makeDirectories os path segments else False)"

definition ensureDirectoryTree :: "osCalls \<Rightarrow> string \<Rightarrow> bool" where
  "ensureDirectoryTree os rootDir =
     (if rootDir = [] then False
      else makeDirectories os (if hd rootDir = CHR ''/'' then ''/'' else []) (path_segments rootDir))"

definition getCopyPath :: "storePaths \<Rightarrow> storeCopy \<Rightarrow> string" where
  "getCopyPath sp copy = (case copy of COPY_A \<Rightarrow> sp_copyAPath sp | COPY_B \<Rightarrow> sp_copyBPath sp | COPY_NONE \<Rightarrow> [])"

definition targetCopy :: "storeCopy \<Rightarrow> storeCopy" where
  "targetCopy activeCopy = (if activeCopy = COPY_A then COPY_B else COPY_A)"

definition writeFileBytes :: "osCalls \<Rightarrow> string \<Rightarrow> bytes \<Rightarrow> filesystem \<Rightarrow> bool \<times> filesystem" where
  "writeFileBytes os path bytes fs =
     (let (ok, content) = os_writeFile os path (fs path) bytes in (ok, fs(path := content)))"

text \<open>The parsed copy behind a path; an empty path or a missing file has none.\<close>

definition copyAt :: "(bytes \<Rightarrow> 's option) \<Rightarrow> string \<Rightarrow> filesystem \<Rightarrow> 's option" where
  "copyAt parse path fs = (if path = [] then None else Option.bind (fs path) parse)"

definition pickCopy :: "('s \<Rightarrow> u32) \<Rightarrow> 's option \<Rightarrow> 's option \<Rightarrow> (storeCopy \<times> 's) option" where
  "pickCopy generation a b =
     (case (a, b) of
        (Some sa, None) \<Rightarrow> Some (COPY_A, sa)
      | (Some sa, Some sb) \<Rightarrow> if generation sa \<ge> generation sb then Some (COPY_A, sa) else Some (COPY_B, sb)
      | (None, Some sb) \<Rightarrow> Some (COPY_B, sb)
      | (None, None) \<Rightarrow> None)"

text \<open>
  The behaviour of a write that may be cut off: the file is left as it was, or holds a beginning of
  the new contents; only a complete write reports success.
\<close>

definition truncating_write :: "osCalls \<Rightarrow> bool" where
  "truncating_write os \<longleftrightarrow>
     (\<forall>path old new. let (ok, content) = os_writeFile os path old new
        in (ok \<longrightarrow> content = Some new) \<and> (content = old \<or> (\<exists>n. content = Some (take n new))))"

text \<open>An instance of the parameters: every directory exists and every write completes.\<close>

definition demoOs :: osCalls where
  "demoOs = \<lparr>os_getPathType = (\<lambda>_. PATH_DIRECTORY), os_createDirectory = (\<lambda>_. True),
     os_writeFile = (\<lambda>path old new. (True, Some new))\<rparr>"

lemma demoOs_truncating: "truncating_write demoOs"
  unfolding truncating_write_def demoOs_def by (auto intro: take_all [OF order.refl, symmetric])

lemma demoOs_directories: "makeDirectories demoOs cur segs"
  by (induction demoOs cur segs rule: makeDirectories.induct) (simp_all add: demoOs_def Let_def)

section \<open>The interface of a snapshot format\<close>

text \<open>
  A format has images of one fixed size, reads back what it writes, and rejects every other size. The
  selection of the active copy is then safe against a write that is cut off.
\<close>

locale snapshot_format =
  fixes parse :: "bytes \<Rightarrow> 's option" and encode :: "'s \<Rightarrow> bytes" and generation :: "'s \<Rightarrow> u32"
    and ok :: "'s \<Rightarrow> bool" and size :: nat
  assumes parse_encode: "ok s \<Longrightarrow> parse (encode s) = Some s"
    and parse_size: "parse bs = Some s \<Longrightarrow> length bs = size"
    and encode_size: "ok s \<Longrightarrow> length (encode s) = size"
begin

lemma parse_torn: "ok s \<Longrightarrow> parse (take n (encode s)) = Some t \<Longrightarrow> t = s"
  using parse_size [of "take n (encode s)" t] encode_size [of s] parse_encode [of s]
  by (cases "n < size") (auto simp: min_def split: if_splits)

lemma copy_after_write:
  assumes "truncating_write os" "ok s" "path \<noteq> []" "writeFileBytes os path (encode s) fs = (b, fs')"
  shows "copyAt parse path fs' \<in> {copyAt parse path fs, None, Some s} \<and> (b \<longrightarrow> copyAt parse path fs' = Some s)"
proof -
  obtain content where w: "os_writeFile os path (fs path) (encode s) = (b, content)" "fs' = fs(path := content)"
    using assms(4) by (cases "os_writeFile os path (fs path) (encode s)") (simp add: writeFileBytes_def)
  have c: "b \<longrightarrow> content = Some (encode s)" "content = fs path \<or> (\<exists>n. content = Some (take n (encode s)))"
    using assms(1) [unfolded truncating_write_def, rule_format, of path "fs path" "encode s"] w(1) by simp_all
  have at: "copyAt parse path fs' = Option.bind content parse"
    using assms(3) w(2) by (simp add: copyAt_def)
  have "Option.bind content parse \<in> {copyAt parse path fs, None, Some s}"
    using c(2)
  proof (elim disjE exE)
    fix n assume n: "content = Some (take n (encode s))"
    show ?thesis
      using parse_torn [OF assms(2), of n] by (cases "parse (take n (encode s))") (auto simp: n)
  qed (simp add: copyAt_def assms(3))
  with c(1) show ?thesis
    by (auto simp: at parse_encode [OF assms(2)])
qed

lemma pick_after_write:
  assumes os: "truncating_write os" and s: "ok s" and paths: "pa \<noteq> []" "pb \<noteq> []" "pa \<noteq> pb"
    and active: "pickCopy generation (copyAt parse pa fs) (copyAt parse pb fs) = p"
    and newer: "\<forall>c t. p = Some (c, t) \<longrightarrow> generation t < generation s"
    and target: "tgt = (if (\<exists>t. p = Some (COPY_A, t)) then pb else pa)"
    and wrt: "writeFileBytes os tgt (encode s) fs = (b, fs')"
  shows "pickCopy generation (copyAt parse pa fs') (copyAt parse pb fs') \<in>
           {p, Some (if tgt = pa then COPY_A else COPY_B, s)} \<and>
         (b \<longrightarrow> pickCopy generation (copyAt parse pa fs') (copyAt parse pb fs') =
           Some (if tgt = pa then COPY_A else COPY_B, s))"
proof -
  have t: "tgt \<noteq> []"
    using paths target by simp
  note w = copy_after_write [OF os s t wrt]
  have other: "path \<noteq> tgt \<Longrightarrow> copyAt parse path fs' = copyAt parse path fs" for path
    using wrt by (auto simp: writeFileBytes_def Let_def split_beta copyAt_def)
  let ?a = "copyAt parse pa fs" and ?b = "copyAt parse pb fs"
  show ?thesis
  proof (cases "\<exists>t. p = Some (COPY_A, t)")
    case True
    then obtain t where t: "p = Some (COPY_A, t)" ..
    then have a: "?a = Some t"
      using active by (auto simp: pickCopy_def split: option.splits if_splits)
    have tgt: "tgt = pb" and pa: "copyAt parse pa fs' = Some t"
      using t target other [of pa] paths a by simp_all
    have "\<not> generation s \<le> generation t"
      using newer t by (simp add: not_le)
    then have new: "pickCopy generation (Some t) (Some s) = Some (COPY_B, s)"
      and gone: "pickCopy generation (Some t) None = p" and same: "pickCopy generation (Some t) ?b = p"
      using active a t by (simp_all add: pickCopy_def)
    from w show ?thesis
      unfolding tgt pa using new gone same paths by auto
  next
    case False
    then have tgt: "tgt = pa" and pb: "copyAt parse pb fs' = ?b"
      using target other [of pb] paths by simp_all
    have gone: "pickCopy generation None ?b = p" and same: "pickCopy generation ?a ?b = p"
      using active False by (auto simp: pickCopy_def split: option.splits if_splits)
    have new: "pickCopy generation (Some s) ?b = Some (COPY_A, s)"
      using gone newer by (cases ?b) (auto simp: pickCopy_def)
    from w show ?thesis
      unfolding tgt pb using new gone same paths by auto
  qed
qed

end

end
