(* ===== verification/Persistent_Fault.thy ===== *)
theory Persistent_Fault
  imports Crc32 Dual_Copy
begin

text \<open>
  \<open>PersistentFaultStore\<close> and \<open>PersistentFaultManager\<close>: the history of recovery events that survives a
  reboot, a ring of 64 records in two copies. A stored record keeps the raw values of its
  enumerators, as the wire structure does; structures are copied with \<open>memcpy\<close> on a little-endian host.
\<close>

unbundle bit_operations_syntax

section \<open>Records and images\<close>

definition PersistentFaultStoreCapacity :: u32 where "PersistentFaultStoreCapacity = 64"

definition PersistentFaultHistoryMaxReadback :: u32 where "PersistentFaultHistoryMaxReadback = 16"

definition PF_SNAPSHOT_MAGIC :: u32 where "PF_SNAPSHOT_MAGIC = 0x31524650"

definition PF_SNAPSHOT_VERSION :: u16 where "PF_SNAPSHOT_VERSION = 1"

record storedRecord =
  sr_kind :: u8
  sr_source :: u8
  sr_level :: u8
  sr_action :: u8
  sr_resetCause :: u8
  sr_timestampSec :: u32
  sr_uptimeSec :: u32
  sr_bootCount :: u32
  sr_consecutiveResetCount :: u32
  sr_detail :: u32
  sr_flags :: u32

definition defaultStoredRecord :: storedRecord where
  "defaultStoredRecord = \<lparr>sr_kind = 0, sr_source = 255, sr_level = 0, sr_action = 0, sr_resetCause = 0,
     sr_timestampSec = 0, sr_uptimeSec = 0, sr_bootCount = 0, sr_consecutiveResetCount = 0, sr_detail = 0, sr_flags = 0\<rparr>"

record faultSnapshot =
  fs_generation :: u32
  fs_count :: u32
  fs_nextIndex :: u32
  fs_records :: "storedRecord list"

definition pf_emptySnapshot :: faultSnapshot where
  "pf_emptySnapshot = \<lparr>fs_generation = 0, fs_count = 0, fs_nextIndex = 0, fs_records = replicate 64 defaultStoredRecord\<rparr>"

definition pf_toWire :: "storedRecord \<Rightarrow> bytes" where
  "pf_toWire r = [sr_kind r, sr_source r, sr_level r, sr_action r, sr_resetCause r, 0] @ le16 0 @
     le32 (sr_timestampSec r) @ le32 (sr_uptimeSec r) @ le32 (sr_bootCount r) @ le32 (sr_consecutiveResetCount r) @
     le32 (sr_detail r) @ le32 (sr_flags r)"

definition pf_fromWire :: "bytes \<Rightarrow> storedRecord" where
  "pf_fromWire bs = \<lparr>sr_kind = get8 bs 0, sr_source = get8 bs 1, sr_level = get8 bs 2, sr_action = get8 bs 3,
     sr_resetCause = get8 bs 4, sr_timestampSec = get_le32 bs 8, sr_uptimeSec = get_le32 bs 12,
     sr_bootCount = get_le32 bs 16, sr_consecutiveResetCount = get_le32 bs 20, sr_detail = get_le32 bs 24,
     sr_flags = get_le32 bs 28\<rparr>"

definition pf_snapshotBytes :: nat where "pf_snapshotBytes = 32 + 32 * 64"

definition pf_header :: "faultSnapshot \<Rightarrow> u32 \<Rightarrow> bytes" where
  "pf_header s crc = le32 PF_SNAPSHOT_MAGIC @ le16 PF_SNAPSHOT_VERSION @ le16 0 @ le32 (fs_generation s) @
     le32 PersistentFaultStoreCapacity @ le32 (fs_count s) @ le32 (fs_nextIndex s) @ le32 32 @ le32 crc"

definition pf_image :: "faultSnapshot \<Rightarrow> bytes" where
  "pf_image s =
     (let body = concat (map pf_toWire (fs_records s))
      in pf_header s (crc32 (pf_header s 0 @ body)) @ body)"

definition pf_parse :: "bytes \<Rightarrow> faultSnapshot option" where
  "pf_parse bytes =
     (if length bytes \<noteq> pf_snapshotBytes then None
      else if get_le32 bytes 0 \<noteq> PF_SNAPSHOT_MAGIC \<or> get_le16 bytes 4 \<noteq> PF_SNAPSHOT_VERSION \<or>
              get_le32 bytes 12 \<noteq> PersistentFaultStoreCapacity \<or> get_le32 bytes 24 \<noteq> 32 \<or>
              get_le32 bytes 16 > PersistentFaultStoreCapacity \<or> get_le32 bytes 20 \<ge> PersistentFaultStoreCapacity then None
      else if get_le32 bytes 28 \<noteq> crc32 (take 28 bytes @ [0, 0, 0, 0] @ drop 32 bytes) then None
      else Some \<lparr>fs_generation = get_le32 bytes 8, fs_count = get_le32 bytes 16, fs_nextIndex = get_le32 bytes 20,
             fs_records = map (\<lambda>i. pf_fromWire (chunk 32 i (drop 32 bytes))) [0..<64]\<rparr>)"

section \<open>The store\<close>

definition pf_setRootDir :: "string \<Rightarrow> storePaths" where
  "pf_setRootDir rootDir = \<lparr>sp_rootDir = rootDir, sp_copyAPath = joinPath rootDir ''fault-ring-a.bin'',
     sp_copyBPath = joinPath rootDir ''fault-ring-b.bin''\<rparr>"

definition pf_loadSnapshot :: "storePaths \<Rightarrow> filesystem \<Rightarrow> storeCopy \<times> faultSnapshot" where
  "pf_loadSnapshot sp fs =
     (case pickCopy fs_generation (copyAt pf_parse (sp_copyAPath sp) fs) (copyAt pf_parse (sp_copyBPath sp) fs) of
        Some r \<Rightarrow> r | None \<Rightarrow> (COPY_NONE, pf_emptySnapshot))"

definition pf_writeCopy :: "osCalls \<Rightarrow> storePaths \<Rightarrow> storeCopy \<Rightarrow> faultSnapshot \<Rightarrow> filesystem \<Rightarrow> bool \<times> filesystem" where
  "pf_writeCopy os sp copy s fs =
     (let path = getCopyPath sp copy in if path = [] then (False, fs) else writeFileBytes os path (pf_image s) fs)"

definition pf_push :: "storedRecord \<Rightarrow> faultSnapshot \<Rightarrow> faultSnapshot" where
  "pf_push r s = s\<lparr>fs_records := (fs_records s)[unat (fs_nextIndex s) := r],
     fs_nextIndex := (fs_nextIndex s + 1) mod PersistentFaultStoreCapacity,
     fs_count := min (fs_count s + 1) PersistentFaultStoreCapacity,
     fs_generation := fs_generation s + 1\<rparr>"

definition pf_append :: "osCalls \<Rightarrow> storePaths \<Rightarrow> storedRecord \<Rightarrow> filesystem \<Rightarrow> bool \<times> filesystem" where
  "pf_append os sp r fs =
     (if \<not> ensureDirectoryTree os (sp_rootDir sp) then (False, fs)
      else let (activeCopy, s) = pf_loadSnapshot sp fs
           in pf_writeCopy os sp (targetCopy activeCopy) (pf_push r s) fs)"

record historyStatus =
  hs_totalRecords :: u32
  hs_returnedRecords :: u32
  hs_activeCopy :: storeCopy
  hs_generation :: u32

text \<open>The loop of \<open>readLatest\<close>: the index walks backwards through the ring.\<close>

fun pf_walk :: "nat \<Rightarrow> u32 \<Rightarrow> storedRecord list \<Rightarrow> storedRecord list" where
  "pf_walk 0 index records = []"
| "pf_walk (Suc n) index records =
     records ! unat index # pf_walk n (if index = 0 then PersistentFaultStoreCapacity - 1 else index - 1) records"

definition pf_readLatest :: "storePaths \<Rightarrow> u32 \<Rightarrow> filesystem \<Rightarrow> historyStatus \<times> storedRecord list" where
  "pf_readLatest sp limit fs =
     (let (activeCopy, s) = pf_loadSnapshot sp fs;
          requested = (if limit = 0 then fs_count s else limit);
          returned = min requested (fs_count s);
          start = (if fs_nextIndex s = 0 then PersistentFaultStoreCapacity - 1 else fs_nextIndex s - 1)
      in (\<lparr>hs_totalRecords = fs_count s, hs_returnedRecords = returned, hs_activeCopy = activeCopy,
           hs_generation = fs_generation s\<rparr>,
          if returned = 0 then [] else pf_walk (unat returned) start (fs_records s)))"

section \<open>The manager\<close>

datatype pfOut = PERSISTENT_FAULT_STORE_APPEND_FAILED u8
  | PERSISTENT_FAULT_HISTORY_UNAVAILABLE
  | PERSISTENT_FAULT_HISTORY_STATUS u32 u32 storeCopy u32
  | PERSISTENT_FAULT_HISTORY_RECORD u32 storedRecord
  | PfCmdResponse bool

definition pfm_init :: storePaths where
  "pfm_init = \<lparr>sp_rootDir = [], sp_copyAPath = [], sp_copyBPath = []\<rparr>"

definition pfm_configure :: "osCalls \<Rightarrow> string \<Rightarrow> storePaths \<Rightarrow> bool \<times> storePaths" where
  "pfm_configure os persistentRoot sp =
     (if persistentRoot = [] then (False, sp)
      else let sp1 = pf_setRootDir (joinPath persistentRoot ''recovery'')
           in (ensureDirectoryTree os (sp_rootDir sp1), sp1))"

definition pfm_append :: "osCalls \<Rightarrow> storePaths \<Rightarrow> storedRecord \<Rightarrow> filesystem \<Rightarrow> bool \<times> filesystem \<times> pfOut list" where
  "pfm_append os sp r fs =
     (if sp_rootDir sp = [] then (False, fs, [PERSISTENT_FAULT_STORE_APPEND_FAILED (sr_kind r)])
      else let (ok, fs1) = pf_append os sp r fs
           in (ok, fs1, if ok then [] else [PERSISTENT_FAULT_STORE_APPEND_FAILED (sr_kind r)]))"

definition pfm_clampLimit :: "u32 \<Rightarrow> u32" where
  "pfm_clampLimit requested =
     (if requested = 0 then PersistentFaultHistoryMaxReadback else min requested PersistentFaultHistoryMaxReadback)"

definition pfm_history :: "storePaths \<Rightarrow> u32 \<Rightarrow> filesystem \<Rightarrow> (historyStatus \<times> storedRecord list) option" where
  "pfm_history sp limit fs = (if sp_rootDir sp = [] then None else Some (pf_readLatest sp (pfm_clampLimit limit) fs))"

definition GET_PERSISTENT_FAULT_HISTORY_cmdHandler :: "storePaths \<Rightarrow> u32 \<Rightarrow> filesystem \<Rightarrow> pfOut list" where
  "GET_PERSISTENT_FAULT_HISTORY_cmdHandler sp limit fs =
     (case pfm_history sp limit fs of
        None \<Rightarrow> [PERSISTENT_FAULT_HISTORY_UNAVAILABLE, PfCmdResponse False]
      | Some (st, records) \<Rightarrow>
          PERSISTENT_FAULT_HISTORY_STATUS (hs_totalRecords st) (hs_returnedRecords st) (hs_activeCopy st) (hs_generation st) #
          map (\<lambda>(i, r). PERSISTENT_FAULT_HISTORY_RECORD (word_of_nat i) r) (enumerate 0 records) @ [PfCmdResponse True])"

section \<open>The image format\<close>

definition pf_ok :: "faultSnapshot \<Rightarrow> bool" where
  "pf_ok s \<longleftrightarrow> length (fs_records s) = 64 \<and> fs_count s \<le> 64 \<and> fs_nextIndex s < 64"

lemma pf_empty_ok: "pf_ok pf_emptySnapshot"
  by (simp add: pf_ok_def pf_emptySnapshot_def)

lemma wire_fields:
  "get8 (pf_toWire r) 0 = sr_kind r" "get8 (pf_toWire r) 1 = sr_source r" "get8 (pf_toWire r) 2 = sr_level r"
  "get8 (pf_toWire r) 3 = sr_action r" "get8 (pf_toWire r) 4 = sr_resetCause r"
  "get_le32 (pf_toWire r) 8 = sr_timestampSec r" "get_le32 (pf_toWire r) 12 = sr_uptimeSec r"
  "get_le32 (pf_toWire r) 16 = sr_bootCount r" "get_le32 (pf_toWire r) 20 = sr_consecutiveResetCount r"
  "get_le32 (pf_toWire r) 24 = sr_detail r" "get_le32 (pf_toWire r) 28 = sr_flags r"
  by (rule field_at; simp add: pf_toWire_def)+

lemma pf_fromWire_toWire: "pf_fromWire (pf_toWire r) = r"
  unfolding pf_fromWire_def wire_fields by simp

lemma length_toWire: "length (pf_toWire r) = 32"
  by (simp add: pf_toWire_def)

lemma length_header: "length (pf_header s crc) = 32"
  by (simp add: pf_header_def)

lemma length_body: "pf_ok s \<Longrightarrow> length (concat (map pf_toWire (fs_records s))) = 2048"
  by (simp add: length_concat_const [where n = 32] length_toWire pf_ok_def)

lemma length_image: "pf_ok s \<Longrightarrow> length (pf_image s) = pf_snapshotBytes"
  by (simp add: pf_image_def Let_def length_header length_body pf_snapshotBytes_def)

lemma header_fields:
  "get_le32 (pf_header s crc @ body) 0 = PF_SNAPSHOT_MAGIC" "get_le16 (pf_header s crc @ body) 4 = PF_SNAPSHOT_VERSION"
  "get_le32 (pf_header s crc @ body) 8 = fs_generation s" "get_le32 (pf_header s crc @ body) 12 = PersistentFaultStoreCapacity"
  "get_le32 (pf_header s crc @ body) 16 = fs_count s" "get_le32 (pf_header s crc @ body) 20 = fs_nextIndex s"
  "get_le32 (pf_header s crc @ body) 24 = 32" "get_le32 (pf_header s crc @ body) 28 = crc"
  by (rule field_at; simp add: pf_header_def)+

lemma header_zero_crc: "take 28 (pf_header s crc @ body) @ [0, 0, 0, 0] = pf_header s 0"
  by (simp add: pf_header_def le32_def)

lemma pf_parse_image:
  assumes ok: "pf_ok s"
  shows "pf_parse (pf_image s) = Some s"
proof -
  let ?body = "concat (map pf_toWire (fs_records s))"
  let ?crc = "crc32 (pf_header s 0 @ ?body)"
  have img: "pf_image s = pf_header s ?crc @ ?body"
    by (simp add: pf_image_def Let_def)
  have crc: "crc32 (take 28 (pf_image s) @ [0, 0, 0, 0] @ drop 32 (pf_image s)) = ?crc"
    using header_zero_crc [of s ?crc ?body] unfolding img by (simp only: append_assoc [symmetric]) (simp add: length_header)
  have recs: "map (\<lambda>i. pf_fromWire (chunk 32 i (drop 32 (pf_image s)))) [0..<64] = fs_records s"
    unfolding img using ok by (simp add: length_header decode_chunks length_toWire pf_fromWire_toWire pf_ok_def)
  note fields = header_fields [of s ?crc ?body, folded img]
  have "pf_parse (pf_image s) = Some \<lparr>fs_generation = fs_generation s, fs_count = fs_count s,
      fs_nextIndex = fs_nextIndex s, fs_records = fs_records s\<rparr>"
    unfolding pf_parse_def fields crc recs length_image [OF ok] using ok
    by (simp add: PersistentFaultStoreCapacity_def not_less not_le pf_ok_def)
  then show ?thesis
    by simp
qed


lemma pf_parse_ok: "pf_parse bs = Some s \<Longrightarrow> pf_ok s \<and> length bs = pf_snapshotBytes"
  by (auto simp: pf_parse_def pf_ok_def PersistentFaultStoreCapacity_def not_less not_le split: if_splits)

interpretation pf: snapshot_format pf_parse pf_image fs_generation pf_ok pf_snapshotBytes
  by unfold_locales (simp_all add: pf_parse_image pf_parse_ok length_image)

text \<open>C13: A snapshot of the fault history is read back from its file image exactly as it was written: header,
  checksum and all 64 records.\<close>
theorem fault_image_roundtrip:
  "length (fs_records s) = 64 \<Longrightarrow> fs_count s \<le> 64 \<Longrightarrow> fs_nextIndex s < 64 \<Longrightarrow> pf_parse (pf_image s) = Some s"
  by (rule pf.parse_encode) (simp add: pf_ok_def)

theorem fault_image_roundtrip_witness:
  "pf_parse (pf_image (pf_push (defaultStoredRecord\<lparr>sr_detail := 7\<rparr>) pf_emptySnapshot)) =
     Some (pf_push (defaultStoredRecord\<lparr>sr_detail := 7\<rparr>) pf_emptySnapshot)"
  by (rule fault_image_roundtrip) (simp_all add: pf_push_def pf_emptySnapshot_def PersistentFaultStoreCapacity_def)

section \<open>The history as a list\<close>

text \<open>The abstract history: the records of the ring, newest first.\<close>

definition pf_ring :: "faultSnapshot \<Rightarrow> storedRecord list" where
  "pf_ring s = map (\<lambda>k. fs_records s ! ((unat (fs_nextIndex s) + 63 - k) mod 64)) [0..<unat (fs_count s)]"

definition pf_historyOf :: "storePaths \<Rightarrow> filesystem \<Rightarrow> storedRecord list" where
  "pf_historyOf sp fs = pf_ring (snd (pf_loadSnapshot sp fs))"

lemma pf_load_ok: "pf_ok (snd (pf_loadSnapshot sp fs))"
proof -
  have parsed: "copyAt pf_parse p fs = Some t \<Longrightarrow> pf_ok t" for p t
    by (auto simp: copyAt_def pf_parse_ok split: if_splits bind_splits)
  show ?thesis
    by (auto simp: pf_loadSnapshot_def pickCopy_def pf_empty_ok parsed split: option.splits)
qed

lemma unat_next: "pf_ok s \<Longrightarrow> unat (fs_nextIndex s) < 64"
  by (simp add: pf_ok_def word_less_nat_alt)

lemma unat_count: "pf_ok s \<Longrightarrow> unat (fs_count s) \<le> 64"
  by (simp add: pf_ok_def word_le_nat_alt)

lemma push_next:
  assumes "pf_ok s"
  shows "unat (fs_nextIndex (pf_push r s)) = (unat (fs_nextIndex s) + 1) mod 64"
    and "unat (fs_count (pf_push r s)) = min (unat (fs_count s) + 1) 64"
proof -
  have "unat (fs_nextIndex s + 1) = unat (fs_nextIndex s) + 1"
    using assms unat_inc_less [of "fs_nextIndex s" 64] by (simp add: pf_ok_def)
  then show "unat (fs_nextIndex (pf_push r s)) = (unat (fs_nextIndex s) + 1) mod 64"
    by (simp add: pf_push_def PersistentFaultStoreCapacity_def unat_mod_distrib)
  have "fs_count s < 65"
    using assms by (simp add: pf_ok_def word_less_nat_alt word_le_nat_alt)
  then have "unat (fs_count s + 1) = unat (fs_count s) + 1"
    by (rule unat_inc_less)
  then show "unat (fs_count (pf_push r s)) = min (unat (fs_count s) + 1) 64"
    by (simp add: pf_push_def PersistentFaultStoreCapacity_def min_def word_le_nat_alt)
qed

lemma push_ok: "pf_ok s \<Longrightarrow> pf_ok (pf_push r s)"
  using push_next [of s r] by (simp add: pf_ok_def word_less_nat_alt word_le_nat_alt) (simp add: pf_push_def)

lemma push_ring:
  assumes ok: "pf_ok s"
  shows "pf_ring (pf_push r s) = take 64 (r # pf_ring s)"
proof (rule nth_equalityI)
  let ?n = "unat (fs_nextIndex s)" and ?c = "unat (fs_count s)"
  note push = push_next [OF ok, of r] and n = unat_next [OF ok] and c = unat_count [OF ok]
  show "length (pf_ring (pf_push r s)) = length (take 64 (r # pf_ring s))"
    using push(2) by (simp add: pf_ring_def)
  fix k assume "k < length (pf_ring (pf_push r s))"
  then have k: "k < 64" "k \<le> ?c"
    using push(2) by (simp_all add: pf_ring_def)
  have len: "length (fs_records s) = 64"
    using ok by (simp add: pf_ok_def)
  have recs: "fs_records (pf_push r s) = (fs_records s)[?n := r]"
    by (simp add: pf_push_def)
  have index: "((?n + 1) mod 64 + 63 - k) mod 64 = (?n + 64 - k) mod 64"
  proof (cases "?n = 63")
    case True
    have "63 + 64 - k = (63 - k) + 64"
      using k by simp
    then have "(63 + 64 - k) mod 64 = 63 - k"
      using k by (simp only: mod_add_self2) simp
    then show ?thesis
      using True k by simp
  next
    case False
    then show ?thesis using n k by (simp add: add.commute)
  qed
  have "pf_ring (pf_push r s) ! k = (fs_records s)[?n := r] ! ((?n + 64 - k) mod 64)"
  proof -
    have "k < unat (fs_count (pf_push r s))"
      using k push(2) by simp
    then have "pf_ring (pf_push r s) ! k = (fs_records s)[?n := r] ! ((unat (fs_nextIndex (pf_push r s)) + 63 - k) mod 64)"
      by (simp add: pf_ring_def recs del: upt_Suc)
    then show ?thesis
      by (simp only: push(1) index)
  qed
  also have "\<dots> = (r # pf_ring s) ! k"
  proof (cases k)
    case 0
    then show ?thesis using n len by simp
  next
    case (Suc j)
    have "(?n + 63 - j) mod 64 \<noteq> ?n"
    proof (cases "?n + 63 - j < 64")
      case True
      then show ?thesis using k(1) Suc by simp
    next
      case False
      then have "(?n + 63 - j) mod 64 = ?n + 63 - j - 64"
        using n by (simp add: le_mod_geq)
      then show ?thesis using False by simp
    qed
    then show ?thesis
      using Suc k len by (simp add: pf_ring_def nth_list_update add.commute)
  qed
  finally show "pf_ring (pf_push r s) ! k = take 64 (r # pf_ring s) ! k"
    using k(1) by (simp only: nth_take)
qed


section \<open>Appending and reading\<close>

lemma pf_paths:
  "sp_copyAPath (pf_setRootDir dir) \<noteq> []" "sp_copyBPath (pf_setRootDir dir) \<noteq> []"
  "sp_copyAPath (pf_setRootDir dir) \<noteq> sp_copyBPath (pf_setRootDir dir)"
  by (simp_all add: pf_setRootDir_def joinPath_def)

lemma pf_append_load:
  assumes os: "truncating_write os" and sp: "sp = pf_setRootDir dir"
    and app: "pf_append os sp r fs = (b, fs')" and mk: "ensureDirectoryTree os (sp_rootDir sp)"
    and gen: "fs_generation (snd (pf_loadSnapshot sp fs)) \<noteq> - 1"
  shows "pf_loadSnapshot sp fs' \<in> {pf_loadSnapshot sp fs,
           (targetCopy (fst (pf_loadSnapshot sp fs)), pf_push r (snd (pf_loadSnapshot sp fs)))} \<and>
         (b \<longrightarrow> pf_loadSnapshot sp fs' =
           (targetCopy (fst (pf_loadSnapshot sp fs)), pf_push r (snd (pf_loadSnapshot sp fs))))"
proof -
  let ?pa = "sp_copyAPath sp" and ?pb = "sp_copyBPath sp"
  let ?p = "pickCopy fs_generation (copyAt pf_parse ?pa fs) (copyAt pf_parse ?pb fs)"
  let ?s = "snd (pf_loadSnapshot sp fs)" and ?act = "fst (pf_loadSnapshot sp fs)"
  define tgt where "tgt = (if (\<exists>t. ?p = Some (COPY_A, t)) then ?pb else ?pa)"
  have act: "?act = COPY_A \<longleftrightarrow> (\<exists>t. ?p = Some (COPY_A, t))"
    by (auto simp: pf_loadSnapshot_def split: option.splits)
  have path: "getCopyPath sp (targetCopy ?act) = tgt"
    using act by (auto simp: getCopyPath_def targetCopy_def tgt_def)
  have wrt: "writeFileBytes os tgt (pf_image (pf_push r ?s)) fs = (b, fs')"
    using app mk path pf_paths [of dir] by (auto simp: pf_append_def pf_writeCopy_def split_beta Let_def tgt_def sp split: if_splits)
  have "fs_generation ?s < - 1"
    using gen by (simp add: word_order.not_eq_extremum)
  from unat_inc_less [OF this] have less: "fs_generation ?s < fs_generation (pf_push r ?s)"
    by (simp add: pf_push_def word_less_nat_alt)
  have newer: "\<forall>c t. ?p = Some (c, t) \<longrightarrow> fs_generation t < fs_generation (pf_push r ?s)"
    using less by (auto simp: pf_loadSnapshot_def)
  have new: "(if tgt = ?pa then COPY_A else COPY_B) = targetCopy ?act"
    using act pf_paths [of dir] by (auto simp: tgt_def targetCopy_def sp)
  note w = pf.pick_after_write [OF os push_ok [OF pf_load_ok] pf_paths [of dir, folded sp] refl newer tgt_def wrt, unfolded new]
  show ?thesis
    using w by (auto simp: pf_loadSnapshot_def)
qed

text \<open>C5: Appending a record is atomic. Whatever a write that is cut off leaves in the file, a later read finds
  the old history or the old history with the new record in front, cut to 64 records; when the append
  reports success it finds the latter. (While the generation counter has not reached its maximum.)\<close>
theorem fault_append_atomic:
  assumes "truncating_write os" "sp = pf_setRootDir dir" "pf_append os sp r fs = (b, fs')"
    and "fs_generation (snd (pf_loadSnapshot sp fs)) \<noteq> - 1"
  shows "pf_historyOf sp fs' \<in> {pf_historyOf sp fs, take 64 (r # pf_historyOf sp fs)} \<and>
     (b \<longrightarrow> pf_historyOf sp fs' = take 64 (r # pf_historyOf sp fs))"
proof (cases "ensureDirectoryTree os (sp_rootDir sp)")
  case True
  show ?thesis
    using pf_append_load [OF assms(1-3) True assms(4)] push_ring [OF pf_load_ok, of r sp fs] by (auto simp: pf_historyOf_def)
next
  case False
  then show ?thesis
    using assms(3) by (auto simp: pf_append_def)
qed

lemma demo_append: "pf_append demoOs (pf_setRootDir ''/d'') r fs =
    (True, fs(getCopyPath (pf_setRootDir ''/d'') (targetCopy (fst (pf_loadSnapshot (pf_setRootDir ''/d'') fs))) \<mapsto>
       pf_image (pf_push r (snd (pf_loadSnapshot (pf_setRootDir ''/d'') fs)))))"
proof -
  have "getCopyPath (pf_setRootDir ''/d'') (targetCopy c) \<noteq> []" for c
    by (simp add: getCopyPath_def targetCopy_def pf_setRootDir_def joinPath_def)
  moreover have "ensureDirectoryTree demoOs (sp_rootDir (pf_setRootDir ''/d''))"
    by (simp add: ensureDirectoryTree_def demoOs_directories pf_setRootDir_def del: makeDirectories.simps)
  ultimately show ?thesis
    by (simp add: pf_append_def pf_writeCopy_def split_beta Let_def writeFileBytes_def) (simp add: demoOs_def)
qed

theorem fault_append_atomic_witness:
  "\<exists>fs'. pf_append demoOs (pf_setRootDir ''/d'') defaultStoredRecord (\<lambda>_. None) = (True, fs') \<and>
     pf_historyOf (pf_setRootDir ''/d'') fs' = [defaultStoredRecord]"
proof -
  let ?sp = "pf_setRootDir ''/d''"
  obtain fs' where a: "pf_append demoOs ?sp defaultStoredRecord (\<lambda>_. None) = (True, fs')"
    by (simp add: demo_append)
  have l: "snd (pf_loadSnapshot ?sp (\<lambda>_. None)) = pf_emptySnapshot"
    by (simp add: pf_loadSnapshot_def copyAt_def pickCopy_def)
  have "fs_generation (snd (pf_loadSnapshot ?sp (\<lambda>_. None))) \<noteq> - 1"
    unfolding l by (simp add: pf_emptySnapshot_def)
  from fault_append_atomic [OF demoOs_truncating refl a this] a l show ?thesis
    by (auto simp: pf_historyOf_def pf_ring_def pf_emptySnapshot_def)
qed

text \<open>C37: Once the generation counter stands at its maximum, an append that reports success is not visible to any
  reader: the new copy has generation 0 and the old copy stays the active one.\<close>
theorem fault_append_lost_on_wrap:
  assumes os: "truncating_write os" and sp: "sp = pf_setRootDir dir"
    and copy: "copyAt pf_parse (sp_copyAPath sp) fs = Some s" "fs_generation s = - 1"
    and app: "pf_append os sp r fs = (True, fs')"
  shows "pf_historyOf sp fs' = pf_historyOf sp fs"
proof -
  have load: "pf_loadSnapshot sp fs = (COPY_A, s)"
    using copy by (auto simp: pf_loadSnapshot_def pickCopy_def split: option.splits)
  let ?pa = "sp_copyAPath sp" and ?pb = "sp_copyBPath sp"
  have wrt: "writeFileBytes os ?pb (pf_image (pf_push r s)) fs = (True, fs')"
    using app load pf_paths [of dir]
    by (auto simp: pf_append_def pf_writeCopy_def targetCopy_def getCopyPath_def sp Let_def split: if_splits)
  have ok: "pf_ok (pf_push r s)"
    using push_ok [OF pf_load_ok [of sp fs]] load by simp
  have b: "copyAt pf_parse ?pb fs' = Some (pf_push r s)"
    using pf.copy_after_write [OF os ok _ wrt] pf_paths [of dir] sp by simp
  have a: "copyAt pf_parse ?pa fs' = Some s"
    using wrt copy(1) pf_paths(3) [of dir] sp by (auto simp: writeFileBytes_def Let_def split_beta copyAt_def)
  have "pf_loadSnapshot sp fs' = (COPY_A, s)"
    by (simp add: pf_loadSnapshot_def pickCopy_def a b pf_push_def copy(2))
  with load show ?thesis
    by (simp add: pf_historyOf_def)
qed

theorem fault_append_lost_on_wrap_witness:
  "\<exists>fs fs'. pf_append demoOs (pf_setRootDir ''/d'') (defaultStoredRecord\<lparr>sr_detail := 9\<rparr>) fs = (True, fs') \<and>
     pf_historyOf (pf_setRootDir ''/d'') fs' = []"
proof -
  let ?sp = "pf_setRootDir ''/d''" and ?s = "pf_emptySnapshot\<lparr>fs_generation := - 1\<rparr>"
  let ?fs = "(\<lambda>_. None)(sp_copyAPath ?sp \<mapsto> pf_image ?s)"
  have "pf_ok ?s"
    by (simp add: pf_ok_def pf_emptySnapshot_def)
  then have c: "copyAt pf_parse (sp_copyAPath ?sp) ?fs = Some ?s"
    using pf_paths(1) by (simp add: copyAt_def pf_parse_image)
  have g: "fs_generation ?s = - 1"
    by simp
  obtain fs' where a: "pf_append demoOs ?sp (defaultStoredRecord\<lparr>sr_detail := 9\<rparr>) ?fs = (True, fs')"
    by (simp add: demo_append)
  have "pf_loadSnapshot ?sp ?fs = (COPY_A, ?s)"
    using c pf_paths(3) [of "''/d''"] by (auto simp: pf_loadSnapshot_def pickCopy_def copyAt_def split: option.splits)
  then have "pf_historyOf ?sp ?fs = []"
    by (simp add: pf_historyOf_def pf_ring_def pf_emptySnapshot_def)
  with fault_append_lost_on_wrap [OF demoOs_truncating refl c g a] a show ?thesis
    by (intro exI [of _ ?fs] exI [of _ fs']) simp
qed

lemma pf_walk_ring:
  assumes "length recs = 64"
  shows "n \<le> 64 \<Longrightarrow> unat i < 64 \<Longrightarrow> pf_walk n i recs = map (\<lambda>k. recs ! ((unat i + 64 - k) mod 64)) [0..<n]"
proof (induction n arbitrary: i)
  case (Suc n)
  let ?j = "if i = 0 then PersistentFaultStoreCapacity - 1 else i - 1"
  have j: "unat ?j = (unat i + 63) mod 64"
  proof (cases "i = 0")
    case True
    then show ?thesis by (simp add: PersistentFaultStoreCapacity_def)
  next
    case False
    then have "unat (i - 1) = unat i - 1"
      by (simp add: unat_minus_one)
    moreover have "0 < unat i"
      using False by (simp add: unat_gt_0)
    moreover have "unat i + 63 = (unat i - 1) + 64"
      using \<open>0 < unat i\<close> by simp
    then have "(unat i + 63) mod 64 = unat i - 1"
      using Suc.prems(2) by (simp only: mod_add_self2) simp
    ultimately show ?thesis
      using False by simp
  qed
  have "((unat i + 63) mod 64 + 64 - k) mod 64 = (unat i + 64 - Suc k) mod 64" if "k < n" for k
  proof -
    have "(unat i + 63) mod 64 + 64 - k = (unat i + 63) mod 64 + (64 - k)" "unat i + 64 - Suc k = unat i + 63 - k"
      using that Suc.prems by simp_all
    moreover have "unat i + 63 + (64 - k) = (unat i + 63 - k) + 64"
      using that Suc.prems by simp
    ultimately show ?thesis
      by (metis mod_add_left_eq mod_add_self2)
  qed
  then have "pf_walk n ?j recs = map (\<lambda>k. recs ! ((unat i + 64 - Suc k) mod 64)) [0..<n]"
    using Suc.IH [of ?j] Suc.prems j by simp
  then show ?case
    using Suc.prems by (simp add: upt_conv_Cons map_Suc_upt [symmetric] del: upt_Suc)
qed simp

text \<open>C34: The history command reads the newest records first: it returns the first records of the history, all
  of them for limit 0 and at most the limit otherwise, and reports how many there are.\<close>
theorem fault_read_latest:
  "pf_readLatest sp limit fs =
     (let h = pf_historyOf sp fs; n = (if limit = 0 then length h else min (unat limit) (length h))
      in (\<lparr>hs_totalRecords = word_of_nat (length h), hs_returnedRecords = word_of_nat n,
           hs_activeCopy = fst (pf_loadSnapshot sp fs), hs_generation = fs_generation (snd (pf_loadSnapshot sp fs))\<rparr>,
          take n h))"
proof -
  let ?s = "snd (pf_loadSnapshot sp fs)"
  let ?r = "min (if limit = 0 then fs_count ?s else limit) (fs_count ?s)"
  define st where "st = (if fs_nextIndex ?s = 0 then PersistentFaultStoreCapacity - 1 else fs_nextIndex ?s - 1)"
  note ok = pf_load_ok [of sp fs]
  have len: "length (pf_historyOf sp fs) = unat (fs_count ?s)"
    by (simp add: pf_historyOf_def pf_ring_def)
  have r: "unat ?r = (if limit = 0 then unat (fs_count ?s) else min (unat limit) (unat (fs_count ?s)))"
    by (simp add: min_def word_le_nat_alt)
  have start: "unat st = (unat (fs_nextIndex ?s) + 63) mod 64"
  proof (cases "fs_nextIndex ?s = 0")
    case False
    then have "unat (fs_nextIndex ?s - 1) = unat (fs_nextIndex ?s) - 1" "0 < unat (fs_nextIndex ?s)"
      by (simp_all add: unat_minus_one unat_gt_0)
    moreover from this(2) have "unat (fs_nextIndex ?s) + 63 = (unat (fs_nextIndex ?s) - 1) + 64" by simp
    then have "(unat (fs_nextIndex ?s) + 63) mod 64 = unat (fs_nextIndex ?s) - 1"
      using unat_next [OF ok] by (simp only: mod_add_self2) simp
    ultimately show ?thesis using False by (simp add: st_def)
  qed (simp add: PersistentFaultStoreCapacity_def st_def)
  have r64: "unat ?r \<le> 64" and st64: "unat st < 64" and recs: "length (fs_records ?s) = 64"
    using r unat_count [OF ok] start ok by (auto simp: pf_ok_def)
  have "pf_walk (unat ?r) st (fs_records ?s) =
      map (\<lambda>k. fs_records ?s ! (((unat (fs_nextIndex ?s) + 63) mod 64 + 64 - k) mod 64)) [0..<unat ?r]"
    by (simp only: pf_walk_ring [OF recs r64 st64] start)
  also have "\<dots> = take (unat ?r) (pf_historyOf sp fs)"
  proof -
    have "((m + 63) mod 64 + 64 - k) mod 64 = (m + 63 - k) mod 64" if "k < 64" for m k :: nat
    proof -
      have "(m + 63) mod 64 + 64 - k = (m + 63) mod 64 + (64 - k)" "m + 63 + (64 - k) = (m + 63 - k) + 64"
        using that by simp_all
      then show ?thesis
        by (metis mod_add_left_eq mod_add_self2)
    qed
    then show ?thesis
      using unat_count [OF ok] r by (auto simp: pf_historyOf_def pf_ring_def take_map)
  qed
  finally have walk: "(if ?r = 0 then [] else pf_walk (unat ?r) st (fs_records ?s)) = take (unat ?r) (pf_historyOf sp fs)"
    by simp
  show ?thesis
    unfolding pf_readLatest_def split_beta Let_def st_def [symmetric] walk using len r
    by (auto simp: min_def word_le_nat_alt)
qed

end
