(* ===== verification/Freshness_Store.thy ===== *)
theory Freshness_Store
  imports Crc32 Dual_Copy
begin

text \<open>
  \<open>CommandFreshnessStore\<close>: the session floors that keep old command sessions from being replayed after a
  reboot, at most 16 sources in two file copies. Enumerators and the port index are kept as the 32-bit
  values that are stored. The caller passes the snapshot and the active copy it holds in memory.
\<close>

unbundle bit_operations_syntax

section \<open>Entries and images\<close>

definition CF_SNAPSHOT_MAGIC :: u32 where "CF_SNAPSHOT_MAGIC = 0x31465343"

definition CF_SNAPSHOT_VERSION :: u16 where "CF_SNAPSHOT_VERSION = 1"

definition MAX_SOURCE_EPOCHS :: nat where "MAX_SOURCE_EPOCHS = 16"

definition cf_snapshotBytes :: nat where "cf_snapshotBytes = 28 + 20 * MAX_SOURCE_EPOCHS"

record sourceEpochKey =
  ek_ingressPort :: u32
  ek_linkIdentity :: u32
  ek_linkRole :: u32

record freshEntry =
  fe_valid :: bool
  fe_key :: sourceEpochKey
  fe_sessionFloor :: u32

definition defaultFreshEntry :: freshEntry where
  "defaultFreshEntry = \<lparr>fe_valid = False, fe_key = \<lparr>ek_ingressPort = 0, ek_linkIdentity = 0, ek_linkRole = 0\<rparr>,
     fe_sessionFloor = 0\<rparr>"

record freshSnapshot =
  cs_generation :: u32
  cs_count :: u32
  cs_entries :: "freshEntry list"

definition cf_emptySnapshot :: freshSnapshot where
  "cf_emptySnapshot = \<lparr>cs_generation = 0, cs_count = 0, cs_entries = replicate MAX_SOURCE_EPOCHS defaultFreshEntry\<rparr>"

definition cf_encodeEntry :: "freshEntry \<Rightarrow> bytes" where
  "cf_encodeEntry e = le32 (if fe_valid e then 1 else 0) @ le32 (ek_ingressPort (fe_key e)) @
     le32 (ek_linkIdentity (fe_key e)) @ le32 (ek_linkRole (fe_key e)) @ le32 (fe_sessionFloor e)"

definition cf_decodeEntry :: "bytes \<Rightarrow> freshEntry" where
  "cf_decodeEntry bs = \<lparr>fe_valid = (get_le32 bs 0 \<noteq> 0),
     fe_key = \<lparr>ek_ingressPort = get_le32 bs 4, ek_linkIdentity = get_le32 bs 8, ek_linkRole = get_le32 bs 12\<rparr>,
     fe_sessionFloor = get_le32 bs 16\<rparr>"

definition cf_encodeHeader :: "freshSnapshot \<Rightarrow> u32 \<Rightarrow> bytes" where
  "cf_encodeHeader s crc = le32 CF_SNAPSHOT_MAGIC @ le16 CF_SNAPSHOT_VERSION @ le16 0 @ le32 (cs_generation s) @
     le32 (word_of_nat MAX_SOURCE_EPOCHS) @ le32 (cs_count s) @ le32 20 @ le32 crc"

definition cf_image :: "freshSnapshot \<Rightarrow> bytes" where
  "cf_image s =
     (let body = concat (map cf_encodeEntry (cs_entries s))
      in cf_encodeHeader s (crc32 (cf_encodeHeader s 0 @ body)) @ body)"

definition cf_parse :: "bytes \<Rightarrow> freshSnapshot option" where
  "cf_parse bytes =
     (if length bytes \<noteq> cf_snapshotBytes then None
      else if get_le32 bytes 0 \<noteq> CF_SNAPSHOT_MAGIC \<or> get_le16 bytes 4 \<noteq> CF_SNAPSHOT_VERSION \<or>
              get_le32 bytes 12 \<noteq> word_of_nat MAX_SOURCE_EPOCHS \<or> get_le32 bytes 20 \<noteq> 20 \<or>
              get_le32 bytes 16 > word_of_nat MAX_SOURCE_EPOCHS then None
      else if get_le32 bytes 24 \<noteq> crc32 (take 24 bytes @ [0, 0, 0, 0] @ drop 28 bytes) then None
      else let entries = map (\<lambda>i. cf_decodeEntry (chunk 20 i (drop 28 bytes))) [0..<MAX_SOURCE_EPOCHS];
               counted = word_of_nat (length (filter fe_valid entries))
           in if counted = get_le32 bytes 16
              then Some \<lparr>cs_generation = get_le32 bytes 8, cs_count = get_le32 bytes 16, cs_entries = entries\<rparr>
              else None)"

section \<open>The store\<close>

definition cf_setRootDir :: "string \<Rightarrow> storePaths" where
  "cf_setRootDir rootDir = \<lparr>sp_rootDir = rootDir, sp_copyAPath = joinPath rootDir ''session-floor-a.bin'',
     sp_copyBPath = joinPath rootDir ''session-floor-b.bin''\<rparr>"

datatype loadStatus = LOAD_OK | LOAD_EMPTY | LOAD_INVALID

definition cf_load :: "storePaths \<Rightarrow> filesystem \<Rightarrow> loadStatus \<times> freshSnapshot \<times> storeCopy" where
  "cf_load sp fs =
     (case pickCopy cs_generation (copyAt cf_parse (sp_copyAPath sp) fs) (copyAt cf_parse (sp_copyBPath sp) fs) of
        Some (copy, s) \<Rightarrow> (LOAD_OK, s, copy)
      | None \<Rightarrow>
          if (sp_copyAPath sp \<noteq> [] \<and> fs (sp_copyAPath sp) \<noteq> None) \<or> (sp_copyBPath sp \<noteq> [] \<and> fs (sp_copyBPath sp) \<noteq> None)
          then (LOAD_INVALID, cf_emptySnapshot, COPY_NONE) else (LOAD_EMPTY, cf_emptySnapshot, COPY_NONE))"

text \<open>The first valid entry with the key, as \<open>findEntry_\<close> searches it.\<close>

definition cf_matches :: "sourceEpochKey \<Rightarrow> freshEntry \<Rightarrow> bool" where
  "cf_matches key e \<longleftrightarrow> fe_valid e \<and> fe_key e = key"

definition cf_findEntry :: "freshSnapshot \<Rightarrow> sourceEpochKey \<Rightarrow> freshEntry option" where
  "cf_findEntry s key = find (cf_matches key) (cs_entries s)"

definition cf_findFloor :: "freshSnapshot \<Rightarrow> sourceEpochKey \<Rightarrow> u32 option" where
  "cf_findFloor s key = map_option fe_sessionFloor (cf_findEntry s key)"

fun cf_raise :: "sourceEpochKey \<Rightarrow> u32 \<Rightarrow> freshEntry list \<Rightarrow> freshEntry list" where
  "cf_raise key sessionFloor [] = []"
| "cf_raise key sessionFloor (e # es) =
     (if cf_matches key e then e\<lparr>fe_sessionFloor := sessionFloor\<rparr> # es else e # cf_raise key sessionFloor es)"

fun cf_allocate :: "sourceEpochKey \<Rightarrow> u32 \<Rightarrow> freshEntry list \<Rightarrow> freshEntry list option" where
  "cf_allocate key sessionFloor [] = None"
| "cf_allocate key sessionFloor (e # es) =
     (if \<not> fe_valid e then Some (\<lparr>fe_valid = True, fe_key = key, fe_sessionFloor = sessionFloor\<rparr> # es)
      else map_option ((#) e) (cf_allocate key sessionFloor es))"

definition cf_writeCopy :: "osCalls \<Rightarrow> storePaths \<Rightarrow> storeCopy \<Rightarrow> freshSnapshot \<Rightarrow> filesystem \<Rightarrow> bool \<times> filesystem" where
  "cf_writeCopy os sp copy s fs =
     (let path = getCopyPath sp copy in if path = [] then (False, fs) else writeFileBytes os path (cf_image s) fs)"

definition cf_next :: "sourceEpochKey \<Rightarrow> u32 \<Rightarrow> freshSnapshot \<Rightarrow> freshSnapshot option" where
  "cf_next key sessionFloor s =
     (case cf_findEntry s key of
        Some e \<Rightarrow> Some (s\<lparr>cs_entries := cf_raise key sessionFloor (cs_entries s), cs_generation := cs_generation s + 1\<rparr>)
      | None \<Rightarrow> map_option (\<lambda>es. s\<lparr>cs_entries := es, cs_count := cs_count s + 1, cs_generation := cs_generation s + 1\<rparr>)
                  (cf_allocate key sessionFloor (cs_entries s)))"

definition cf_persistFloor :: "osCalls \<Rightarrow> storePaths \<Rightarrow> sourceEpochKey \<Rightarrow> u32 \<Rightarrow> freshSnapshot \<Rightarrow> storeCopy \<Rightarrow>
    filesystem \<Rightarrow> bool \<times> freshSnapshot \<times> storeCopy \<times> filesystem" where
  "cf_persistFloor os sp key sessionFloor s activeCopy fs =
     (if \<not> ensureDirectoryTree os (sp_rootDir sp) then (False, s, activeCopy, fs)
      else case cf_next key sessionFloor s of
             None \<Rightarrow> (False, s, activeCopy, fs)
           | Some s1 \<Rightarrow>
               if (case cf_findEntry s key of None \<Rightarrow> False | Some e \<Rightarrow> sessionFloor \<le> fe_sessionFloor e)
               then (True, s, activeCopy, fs)
               else let (ok, fs1) = cf_writeCopy os sp (targetCopy activeCopy) s1 fs
                    in if ok then (True, s1, targetCopy activeCopy, fs1) else (False, s, activeCopy, fs1))"

section \<open>The image format\<close>

definition cf_ok :: "freshSnapshot \<Rightarrow> bool" where
  "cf_ok s \<longleftrightarrow> length (cs_entries s) = 16 \<and> cs_count s = word_of_nat (length (filter fe_valid (cs_entries s)))"

lemma cf_empty_ok: "cf_ok cf_emptySnapshot"
  by (simp add: cf_ok_def cf_emptySnapshot_def MAX_SOURCE_EPOCHS_def defaultFreshEntry_def)

lemma entry_fields:
  "get_le32 (cf_encodeEntry e) 0 = (if fe_valid e then 1 else 0)" "get_le32 (cf_encodeEntry e) 4 = ek_ingressPort (fe_key e)"
  "get_le32 (cf_encodeEntry e) 8 = ek_linkIdentity (fe_key e)" "get_le32 (cf_encodeEntry e) 12 = ek_linkRole (fe_key e)"
  "get_le32 (cf_encodeEntry e) 16 = fe_sessionFloor e"
  by (rule field_at; simp add: cf_encodeEntry_def)+

lemma cf_decode_encode: "cf_decodeEntry (cf_encodeEntry e) = e"
  unfolding cf_decodeEntry_def entry_fields by simp

lemma length_entry: "length (cf_encodeEntry e) = 20"
  by (simp add: cf_encodeEntry_def)

lemma length_cf_header: "length (cf_encodeHeader s crc) = 28"
  by (simp add: cf_encodeHeader_def)

lemma length_cf_image: "cf_ok s \<Longrightarrow> length (cf_image s) = cf_snapshotBytes"
  by (simp add: cf_image_def Let_def length_cf_header length_concat_const [where n = 20] length_entry cf_ok_def
      cf_snapshotBytes_def MAX_SOURCE_EPOCHS_def)

lemma cf_header_fields:
  "get_le32 (cf_encodeHeader s crc @ body) 0 = CF_SNAPSHOT_MAGIC"
  "get_le16 (cf_encodeHeader s crc @ body) 4 = CF_SNAPSHOT_VERSION"
  "get_le32 (cf_encodeHeader s crc @ body) 8 = cs_generation s"
  "get_le32 (cf_encodeHeader s crc @ body) 12 = word_of_nat MAX_SOURCE_EPOCHS"
  "get_le32 (cf_encodeHeader s crc @ body) 16 = cs_count s" "get_le32 (cf_encodeHeader s crc @ body) 20 = 20"
  "get_le32 (cf_encodeHeader s crc @ body) 24 = crc"
  by (rule field_at; simp add: cf_encodeHeader_def)+

lemma cf_header_zero_crc: "take 24 (cf_encodeHeader s crc @ body) @ [0, 0, 0, 0] = cf_encodeHeader s 0"
  by (simp add: cf_encodeHeader_def le32_def)

lemma cf_count_le: "cf_ok s \<Longrightarrow> cs_count s \<le> 16"
proof -
  assume ok: "cf_ok s"
  then have "length (filter fe_valid (cs_entries s)) \<le> 16"
    by (metis cf_ok_def length_filter_le)
  then show "cs_count s \<le> 16"
    using ok by (simp add: cf_ok_def word_le_nat_alt unat_of_nat)
qed

lemma cf_parse_image:
  assumes ok: "cf_ok s"
  shows "cf_parse (cf_image s) = Some s"
proof -
  let ?body = "concat (map cf_encodeEntry (cs_entries s))"
  let ?crc = "crc32 (cf_encodeHeader s 0 @ ?body)"
  have img: "cf_image s = cf_encodeHeader s ?crc @ ?body"
    by (simp add: cf_image_def Let_def)
  have crc: "crc32 (take 24 (cf_image s) @ [0, 0, 0, 0] @ drop 28 (cf_image s)) = ?crc"
    using cf_header_zero_crc [of s ?crc ?body] unfolding img by (simp only: append_assoc [symmetric]) (simp add: length_cf_header)
  have entries: "map (\<lambda>i. cf_decodeEntry (chunk 20 i (drop 28 (cf_image s)))) [0..<MAX_SOURCE_EPOCHS] = cs_entries s"
    unfolding img using ok
    by (simp add: length_cf_header decode_chunks length_entry cf_decode_encode cf_ok_def MAX_SOURCE_EPOCHS_def del: upt_Suc)
  note fields = cf_header_fields [of s ?crc ?body, folded img]
  have "cf_parse (cf_image s) = Some \<lparr>cs_generation = cs_generation s, cs_count = cs_count s, cs_entries = cs_entries s\<rparr>"
    unfolding cf_parse_def fields crc entries length_cf_image [OF ok] Let_def using ok cf_count_le [OF ok]
    by (simp add: cf_ok_def MAX_SOURCE_EPOCHS_def not_less)
  then show ?thesis
    by simp
qed

lemma cf_parse_ok: "cf_parse bs = Some s \<Longrightarrow> cf_ok s \<and> length bs = cf_snapshotBytes"
  by (auto simp: cf_parse_def cf_ok_def Let_def MAX_SOURCE_EPOCHS_def split: if_splits)

interpretation cf: snapshot_format cf_parse cf_image cs_generation cf_ok cf_snapshotBytes
  by unfold_locales (simp_all add: cf_parse_image cf_parse_ok length_cf_image)

section \<open>Floors\<close>

lemma cf_matches_simps [simp]:
  "cf_matches k (e\<lparr>fe_sessionFloor := f\<rparr>) = cf_matches k e"
  "cf_matches k \<lparr>fe_valid = True, fe_key = key, fe_sessionFloor = f\<rparr> \<longleftrightarrow> k = key"
  by (auto simp: cf_matches_def)

lemma cf_matches_same: "cf_matches k e \<Longrightarrow> cf_matches key e \<Longrightarrow> k = key"
  by (simp add: cf_matches_def)

lemma cf_matches_valid: "cf_matches k e \<Longrightarrow> fe_valid e"
  by (simp add: cf_matches_def)

lemma find_raise:
  "find (cf_matches k) (cf_raise key f es) =
     (if k = key then map_option (\<lambda>e. e\<lparr>fe_sessionFloor := f\<rparr>) (find (cf_matches k) es) else find (cf_matches k) es)"
  by (induction es) (auto dest: cf_matches_same)

lemma find_allocate:
  "cf_allocate key f es = Some es' \<Longrightarrow> find (cf_matches key) es = None \<Longrightarrow>
   find (cf_matches k) es' = (if k = key then Some \<lparr>fe_valid = True, fe_key = key, fe_sessionFloor = f\<rparr>
     else find (cf_matches k) es)"
  by (induction es arbitrary: es') (auto dest: cf_matches_valid split: if_splits)

lemma length_raise [simp]: "length (cf_raise key f es) = length es"
  by (induction es) simp_all

lemma valid_raise [simp]: "length (filter fe_valid (cf_raise key f es)) = length (filter fe_valid es)"
  by (induction es) simp_all

lemma valid_allocate:
  "cf_allocate key f es = Some es' \<Longrightarrow> length es' = length es \<and>
     length (filter fe_valid es') = Suc (length (filter fe_valid es))"
  by (induction es arbitrary: es') (auto split: if_splits)

lemma allocate_full: "cf_allocate key f es = None \<longleftrightarrow> (\<forall>e \<in> set es. fe_valid e)"
  by (induction es) auto

lemma cf_next_floor:
  "cf_next key f s = Some s1 \<Longrightarrow> cf_findFloor s1 k = (if k = key then Some f else cf_findFloor s k)"
  by (auto simp: cf_next_def cf_findFloor_def cf_findEntry_def find_raise find_allocate split: option.splits)

lemma cf_next_ok: "cf_next key f s = Some s1 \<Longrightarrow> cf_ok s \<Longrightarrow> cf_ok s1 \<and> cs_generation s1 = cs_generation s + 1"
  by (auto simp: cf_next_def cf_ok_def dest: valid_allocate split: option.splits)

text \<open>The caller's copy in memory agrees with what a restart would load.\<close>

definition cf_in_step :: "storePaths \<Rightarrow> filesystem \<Rightarrow> freshSnapshot \<Rightarrow> storeCopy \<Rightarrow> bool" where
  "cf_in_step sp fs s c \<longleftrightarrow> cf_ok s \<and> snd (cf_load sp fs) = (s, c)"

lemma cf_load_pick:
  "snd (cf_load sp fs) = (case pickCopy cs_generation (copyAt cf_parse (sp_copyAPath sp) fs) (copyAt cf_parse (sp_copyBPath sp) fs) of
     Some (c, s) \<Rightarrow> (s, c) | None \<Rightarrow> (cf_emptySnapshot, COPY_NONE))"
  by (simp add: cf_load_def split: option.split prod.split)

lemma cf_paths:
  "sp_copyAPath (cf_setRootDir dir) \<noteq> []" "sp_copyBPath (cf_setRootDir dir) \<noteq> []"
  "sp_copyAPath (cf_setRootDir dir) \<noteq> sp_copyBPath (cf_setRootDir dir)"
  by (simp_all add: cf_setRootDir_def joinPath_def)

lemma cf_write_load:
  assumes os: "truncating_write os" and sp: "sp = cf_setRootDir dir" and step: "cf_in_step sp fs s c"
    and s1: "cf_ok s1" "cs_generation s1 = cs_generation s + 1" "cs_generation s \<noteq> - 1"
    and wr: "cf_writeCopy os sp (targetCopy c) s1 fs = (b, fs')"
  shows "snd (cf_load sp fs') \<in> {(s, c), (s1, targetCopy c)} \<and> (b \<longrightarrow> snd (cf_load sp fs') = (s1, targetCopy c))"
proof -
  let ?pa = "sp_copyAPath sp" and ?pb = "sp_copyBPath sp"
  let ?p = "pickCopy cs_generation (copyAt cf_parse ?pa fs) (copyAt cf_parse ?pb fs)"
  define tgt where "tgt = (if (\<exists>t. ?p = Some (COPY_A, t)) then ?pb else ?pa)"
  have load: "(case ?p of Some (c, s) \<Rightarrow> (s, c) | None \<Rightarrow> (cf_emptySnapshot, COPY_NONE)) = (s, c)"
    using step by (simp add: cf_in_step_def cf_load_pick)
  have act: "c = COPY_A \<longleftrightarrow> (\<exists>t. ?p = Some (COPY_A, t))"
    using load by (cases ?p) auto
  have path: "getCopyPath sp (targetCopy c) = tgt"
    using act by (auto simp: getCopyPath_def targetCopy_def tgt_def)
  have wrt: "writeFileBytes os tgt (cf_image s1) fs = (b, fs')"
    using wr path cf_paths [of dir] by (auto simp: cf_writeCopy_def Let_def tgt_def sp split: if_splits)
  have "cs_generation s < - 1"
    using s1(3) by (simp add: word_order.not_eq_extremum)
  from unat_inc_less [OF this] have less: "cs_generation s < cs_generation s1"
    by (simp add: s1(2) word_less_nat_alt)
  have newer: "\<forall>c t. ?p = Some (c, t) \<longrightarrow> cs_generation t < cs_generation s1"
    using less load by auto
  have new: "(if tgt = ?pa then COPY_A else COPY_B) = targetCopy c"
    using act cf_paths [of dir] by (auto simp: tgt_def targetCopy_def sp)
  note w = cf.pick_after_write [OF os s1(1) cf_paths [of dir, folded sp] refl newer tgt_def wrt, unfolded new]
  show ?thesis
    using w load by (auto simp: cf_load_pick)
qed


definition demoKey :: sourceEpochKey where
  "demoKey = \<lparr>ek_ingressPort = 1, ek_linkIdentity = 2, ek_linkRole = 3\<rparr>"


text \<open>C40: The store refuses a new source exactly when all 16 entries are taken: persisting a floor for a source
  that has no entry fails without touching the files, and no source is ever evicted.\<close>
theorem session_floor_capacity:
  assumes "ensureDirectoryTree os (sp_rootDir sp)" "cf_findFloor s key = None"
  shows "((\<forall>e \<in> set (cs_entries s). fe_valid e) \<longleftrightarrow> cf_next key f s = None) \<and>
     ((\<forall>e \<in> set (cs_entries s). fe_valid e) \<longrightarrow> cf_persistFloor os sp key f s c fs = (False, s, c, fs))"
  using assms allocate_full [of key f "cs_entries s"]
  by (auto simp: cf_persistFloor_def cf_next_def cf_findFloor_def split: option.splits)

definition demoFull :: freshSnapshot where
  "demoFull = \<lparr>cs_generation = 16, cs_count = 16,
     cs_entries = map (\<lambda>i. \<lparr>fe_valid = True, fe_key = demoKey\<lparr>ek_ingressPort := word_of_nat i\<rparr>, fe_sessionFloor = 1\<rparr>) [10..<26]\<rparr>"

theorem session_floor_capacity_witness:
  "cf_persistFloor demoOs (cf_setRootDir ''/d'') demoKey 5 demoFull COPY_A (\<lambda>_. None) = (False, demoFull, COPY_A, \<lambda>_. None)"
proof -
  have "ensureDirectoryTree demoOs (sp_rootDir (cf_setRootDir ''/d''))"
    by (simp add: ensureDirectoryTree_def demoOs_directories cf_setRootDir_def del: makeDirectories.simps)
  moreover have "cf_findFloor demoFull demoKey = None"
    by (simp add: cf_findFloor_def cf_findEntry_def demoFull_def cf_matches_def demoKey_def upt_rec)
  moreover have "\<forall>e \<in> set (cs_entries demoFull). fe_valid e"
    by (simp add: demoFull_def)
  ultimately show ?thesis
    using session_floor_capacity [of demoOs "cf_setRootDir ''/d''" demoFull demoKey 5 COPY_A "\<lambda>_. None"] by blast
qed

end
