(* ===== verification/Command_Authority.thy ===== *)
theory Command_Authority
  imports Core_Types
begin

text \<open>
  Who may send which command: the link identities and roles of \<open>CommandAuthorityTypes\<close>, the generated table and
  the binary search of \<open>CommandAuthorityCatalog\<close>, and the window of accepted sequence numbers of
  \<open>CommandSessionSequence\<close>. An opcode is 32 bits wide; a port index is a natural number.
\<close>

section \<open>Identities, roles and keys\<close>

datatype authorityLinkIdentity = LINK_UNKNOWN | LINK_SBAND | LINK_UHF | LINK_DEV_DIRECT | LINK_INTERNAL

datatype authorityLinkRole = ROLE_UNKNOWN | ROLE_PRIMARY | ROLE_BACKUP | ROLE_PRIMARY_AFTER_FAILOVER | ROLE_DEV_FULL | ROLE_INTERNAL

datatype authorityCommandClass = CLASS_UNKNOWN | READ_STATUS | MODE_CHANGE | SAFETY_EMERGENCY | FILE_TRANSFER | CONFIG_UPDATE |
  RESET | PAYLOAD_CONTROL | ADCS_CONTROL | POWER_CONTROL | COMM_CONTROL | CSP_TRAFFIC | DEV_INTERNAL | DATA_PRODUCT

datatype authorityResourceLabel = RES_NONE | RES_MODE_STATE | RES_EPS | RES_ADCS | RES_GPS | RES_RADIO | RES_STORAGE | RES_BOOT |
  RES_HEALTH | RES_CSP | RES_COMM_LINK | RES_FILE_TRANSFER_SESSION | RES_CONFIG_STORE | RES_DATA_PRODUCTS | RES_EVENT_FILTER |
  RES_COMMAND_DISPATCH | RES_PAYLOAD

datatype authorityRejectReason = AUTH_NONE | POLICY_DENIED | MALFORMED_RESTRICTED | AUTH_INVALID_CONFIG |
  UNKNOWN_OPCODE_RESTRICTED | ENVELOPE_REQUIRED

datatype commandAuthAlgorithm = ALG_NONE | HMAC_SHA256

definition MAX_KEY_BYTES :: nat where "MAX_KEY_BYTES = 64"

record commandAuthConfig =
  ac_enabled :: bool
  ac_sourceId :: u32
  ac_keySlot :: u16
  ac_algorithm :: commandAuthAlgorithm
  ac_keyLength :: u8
  ac_keyBytes :: bytes

definition defaultAuthConfig :: commandAuthConfig where
  "defaultAuthConfig = \<lparr>ac_enabled = False, ac_sourceId = 0, ac_keySlot = 0, ac_algorithm = ALG_NONE, ac_keyLength = 0,
     ac_keyBytes = replicate MAX_KEY_BYTES 0\<rparr>"

record authorityConfig =
  cfg_identity :: authorityLinkIdentity
  cfg_role :: authorityLinkRole
  cfg_valid :: bool
  cfg_auth :: commandAuthConfig

definition defaultAuthorityConfig :: authorityConfig where
  "defaultAuthorityConfig = \<lparr>cfg_identity = LINK_UNKNOWN, cfg_role = ROLE_UNKNOWN, cfg_valid = False, cfg_auth = defaultAuthConfig\<rparr>"

record authorityDecision =
  ad_allow :: bool
  ad_reason :: authorityRejectReason
  ad_response :: cmdResponse
  ad_commandClass :: authorityCommandClass
  ad_resource :: authorityResourceLabel

definition defaultDecision :: authorityDecision where
  "defaultDecision = \<lparr>ad_allow = False, ad_reason = POLICY_DENIED, ad_response = CMD_VALIDATION_ERROR,
     ad_commandClass = CLASS_UNKNOWN, ad_resource = RES_NONE\<rparr>"

definition authorityConfigFromProfile :: "string option \<Rightarrow> authorityConfig" where
  "authorityConfigFromProfile profile =
     (let cfg = (\<lambda>i r. defaultAuthorityConfig\<lparr>cfg_identity := i, cfg_role := r, cfg_valid := True\<rparr>) in
      if profile = None then defaultAuthorityConfig
      else if profile = Some ''sband-primary'' then cfg LINK_SBAND ROLE_PRIMARY
      else if profile = Some ''uhf-primary'' then cfg LINK_UHF ROLE_PRIMARY_AFTER_FAILOVER
      else if profile = Some ''uhf-backup'' then cfg LINK_UHF ROLE_BACKUP
      else if profile = Some ''dev-direct'' then cfg LINK_DEV_DIRECT ROLE_DEV_FULL
      else if profile = Some ''internal'' then cfg LINK_INTERNAL ROLE_INTERNAL
      else defaultAuthorityConfig)"

fun expectedSourceIdForAuthorityIdentity :: "authorityLinkIdentity \<Rightarrow> u32" where
  "expectedSourceIdForAuthorityIdentity LINK_UNKNOWN = 0"
| "expectedSourceIdForAuthorityIdentity LINK_SBAND = 1"
| "expectedSourceIdForAuthorityIdentity LINK_UHF = 2"
| "expectedSourceIdForAuthorityIdentity LINK_DEV_DIRECT = 3"
| "expectedSourceIdForAuthorityIdentity LINK_INTERNAL = 4"

fun secureServiceIdForAuthorityIdentity :: "authorityLinkIdentity \<Rightarrow> u8" where
  "secureServiceIdForAuthorityIdentity LINK_SBAND = 1"
| "secureServiceIdForAuthorityIdentity LINK_UHF = 2"
| "secureServiceIdForAuthorityIdentity _ = 0"

text \<open>The key is a pointer, possibly null, to \<open>keyLength\<close> bytes.\<close>

definition configureAuthorityAuth :: "u32 \<Rightarrow> u16 \<Rightarrow> bytes option \<Rightarrow> commandAuthAlgorithm \<Rightarrow> authorityConfig \<Rightarrow>
    bool \<times> authorityConfig" where
  "configureAuthorityAuth sourceId keySlot key algorithm config =
     (let expectedSourceId = expectedSourceIdForAuthorityIdentity (cfg_identity config) in
      case key of
        None \<Rightarrow> (False, config\<lparr>cfg_auth := defaultAuthConfig\<rparr>)
      | Some keyBytes \<Rightarrow>
          if \<not> cfg_valid config \<or> sourceId = 0 \<or> keySlot = 0 \<or> length keyBytes = 0 \<or> length keyBytes > MAX_KEY_BYTES \<or>
             algorithm \<noteq> HMAC_SHA256 \<or> expectedSourceId = 0 \<or> sourceId \<noteq> expectedSourceId
          then (False, config\<lparr>cfg_auth := defaultAuthConfig\<rparr>)
          else (True, config\<lparr>cfg_auth := \<lparr>ac_enabled = True, ac_sourceId = sourceId, ac_keySlot = keySlot,
                  ac_algorithm = algorithm, ac_keyLength = word_of_nat (length keyBytes),
                  ac_keyBytes = keyBytes @ replicate (MAX_KEY_BYTES - length keyBytes) 0\<rparr>\<rparr>))"

definition isCommManagedAuthority :: "authorityConfig \<Rightarrow> bool" where
  "isCommManagedAuthority config =
     (if \<not> cfg_valid config then True else cfg_identity config = LINK_SBAND \<or> cfg_identity config = LINK_UHF)"

definition isRestrictedAuthority :: "authorityConfig \<Rightarrow> bool" where
  "isRestrictedAuthority config =
     (if \<not> cfg_valid config then True else isCommManagedAuthority config \<and> cfg_role config = ROLE_BACKUP)"

section \<open>The catalogue\<close>

record catalogEntry =
  ce_opcode :: u32
  ce_name :: string
  ce_commandClass :: authorityCommandClass
  ce_resource :: authorityResourceLabel
  ce_uhfBackupAllowed :: bool

definition COMMAND_AUTHORITY_CATALOG :: "catalogEntry list" where
  "COMMAND_AUTHORITY_CATALOG = [
   catalogEntry.make 16777216 ''CdhCore.cmdDisp.CMD_NO_OP'' DEV_INTERNAL RES_COMMAND_DISPATCH False,
   catalogEntry.make 16777217 ''CdhCore.cmdDisp.CMD_NO_OP_STRING'' DEV_INTERNAL RES_COMMAND_DISPATCH False,
   catalogEntry.make 16777218 ''CdhCore.cmdDisp.CMD_TEST_CMD_1'' DEV_INTERNAL RES_COMMAND_DISPATCH False,
   catalogEntry.make 16777219 ''CdhCore.cmdDisp.CMD_CLEAR_TRACKING'' CONFIG_UPDATE RES_COMMAND_DISPATCH False,
   catalogEntry.make 16781312 ''CdhCore.events.SET_EVENT_FILTER'' CONFIG_UPDATE RES_EVENT_FILTER False,
   catalogEntry.make 16781314 ''CdhCore.events.SET_ID_FILTER'' CONFIG_UPDATE RES_EVENT_FILTER False,
   catalogEntry.make 16781315 ''CdhCore.events.DUMP_FILTER_STATE'' CONFIG_UPDATE RES_EVENT_FILTER False,
   catalogEntry.make 16785408 ''CdhCore.health.HLTH_ENABLE'' CONFIG_UPDATE RES_HEALTH False,
   catalogEntry.make 16785409 ''CdhCore.health.HLTH_PING_ENABLE'' CONFIG_UPDATE RES_HEALTH False,
   catalogEntry.make 16785410 ''CdhCore.health.HLTH_CHNG_PING'' CONFIG_UPDATE RES_HEALTH False,
   catalogEntry.make 16789504 ''CdhCore.version.ENABLE'' READ_STATUS RES_COMMAND_DISPATCH False,
   catalogEntry.make 16789505 ''CdhCore.version.VERSION'' READ_STATUS RES_COMMAND_DISPATCH False,
   catalogEntry.make 83890176 ''FileHandling.fileDownlink.SendFile'' FILE_TRANSFER RES_FILE_TRANSFER_SESSION False,
   catalogEntry.make 83890177 ''FileHandling.fileDownlink.Cancel'' FILE_TRANSFER RES_FILE_TRANSFER_SESSION False,
   catalogEntry.make 83890178 ''FileHandling.fileDownlink.SendPartial'' FILE_TRANSFER RES_FILE_TRANSFER_SESSION False,
   catalogEntry.make 83894272 ''FileHandling.fileManager.CreateDirectory'' FILE_TRANSFER RES_FILE_TRANSFER_SESSION False,
   catalogEntry.make 83894273 ''FileHandling.fileManager.MoveFile'' FILE_TRANSFER RES_FILE_TRANSFER_SESSION False,
   catalogEntry.make 83894274 ''FileHandling.fileManager.RemoveDirectory'' FILE_TRANSFER RES_FILE_TRANSFER_SESSION False,
   catalogEntry.make 83894275 ''FileHandling.fileManager.RemoveFile'' FILE_TRANSFER RES_FILE_TRANSFER_SESSION False,
   catalogEntry.make 83894276 ''FileHandling.fileManager.ShellCommand'' FILE_TRANSFER RES_FILE_TRANSFER_SESSION False,
   catalogEntry.make 83894277 ''FileHandling.fileManager.AppendFile'' FILE_TRANSFER RES_FILE_TRANSFER_SESSION False,
   catalogEntry.make 83894278 ''FileHandling.fileManager.FileSize'' FILE_TRANSFER RES_FILE_TRANSFER_SESSION False,
   catalogEntry.make 83894279 ''FileHandling.fileManager.ListDirectory'' FILE_TRANSFER RES_FILE_TRANSFER_SESSION False,
   catalogEntry.make 83898368 ''FileHandling.prmDb.PRM_SAVE_FILE'' CONFIG_UPDATE RES_CONFIG_STORE False,
   catalogEntry.make 83898369 ''FileHandling.prmDb.PRM_LOAD_FILE'' CONFIG_UPDATE RES_CONFIG_STORE False,
   catalogEntry.make 83898370 ''FileHandling.prmDb.PRM_COMMIT_STAGED'' CONFIG_UPDATE RES_CONFIG_STORE False,
   catalogEntry.make 268632064 ''OBCApp.modeManager.MODE_SET'' MODE_CHANGE RES_MODE_STATE False,
   catalogEntry.make 268632065 ''OBCApp.modeManager.MODE_GET'' READ_STATUS RES_MODE_STATE True,
   catalogEntry.make 268633344 ''OBCApp.ttcPassManager.TTC_SET_POLICY'' CONFIG_UPDATE RES_MODE_STATE False,
   catalogEntry.make 268633345 ''OBCApp.ttcPassManager.TTC_SET_PASS_WINDOW'' CONFIG_UPDATE RES_MODE_STATE False,
   catalogEntry.make 268633346 ''OBCApp.ttcPassManager.TTC_CLEAR_PASS_WINDOW'' CONFIG_UPDATE RES_MODE_STATE False,
   catalogEntry.make 268633347 ''OBCApp.ttcPassManager.TTC_GET_STATUS'' READ_STATUS RES_MODE_STATE True,
   catalogEntry.make 268636160 ''OBCApp.watchdogSupervisor.HEALTH_ENABLE'' CONFIG_UPDATE RES_HEALTH False,
   catalogEntry.make 268636161 ''OBCApp.watchdogSupervisor.HEALTH_SET_THRESHOLD'' CONFIG_UPDATE RES_HEALTH False,
   catalogEntry.make 268636162 ''OBCApp.watchdogSupervisor.GET_WATCHDOG_STATUS'' READ_STATUS RES_HEALTH True,
   catalogEntry.make 268636163 ''OBCApp.watchdogSupervisor.SET_WATCHDOG_CONFIG'' CONFIG_UPDATE RES_HEALTH False,
   catalogEntry.make 268636164 ''OBCApp.watchdogSupervisor.SET_WATCHDOG_PROBE_SUPPRESSION'' CONFIG_UPDATE RES_HEALTH False,
   catalogEntry.make 268637440 ''OBCApp.linuxWatchdogSink.GET_HW_WATCHDOG_STATUS'' READ_STATUS RES_HEALTH True,
   catalogEntry.make 268640256 ''OBCApp.cspBridge.CSP_INIT'' CSP_TRAFFIC RES_CSP False,
   catalogEntry.make 268640257 ''OBCApp.cspBridge.CSP_PING'' CSP_TRAFFIC RES_CSP False,
   catalogEntry.make 268640258 ''OBCApp.cspBridge.CSP_SEND_RAW'' CSP_TRAFFIC RES_CSP False,
   catalogEntry.make 268644352 ''OBCApp.epsBridge.EPS_GET_STATUS'' READ_STATUS RES_EPS True,
   catalogEntry.make 268644353 ''OBCApp.epsBridge.EPS_SET_PDU'' POWER_CONTROL RES_EPS False,
   catalogEntry.make 268644354 ''OBCApp.epsBridge.EPS_SET_HEATER'' POWER_CONTROL RES_EPS False,
   catalogEntry.make 268644355 ''OBCApp.epsBridge.EPS_RESET'' RESET RES_EPS False,
   catalogEntry.make 268648448 ''OBCApp.adcsBridge.ADCS_SET_MODE'' ADCS_CONTROL RES_ADCS False,
   catalogEntry.make 268648449 ''OBCApp.adcsBridge.ADCS_SET_TARGET'' ADCS_CONTROL RES_ADCS False,
   catalogEntry.make 268648450 ''OBCApp.adcsBridge.ADCS_GET_ATTITUDE'' READ_STATUS RES_ADCS True,
   catalogEntry.make 268648451 ''OBCApp.adcsBridge.ADCS_CALIBRATE'' ADCS_CONTROL RES_ADCS False,
   catalogEntry.make 268652544 ''OBCApp.commController.COMM_SET_ACTIVE'' COMM_CONTROL RES_COMM_LINK False,
   catalogEntry.make 268652545 ''OBCApp.commController.COMM_START_PASS'' COMM_CONTROL RES_COMM_LINK False,
   catalogEntry.make 268652546 ''OBCApp.commController.COMM_STOP_PASS'' COMM_CONTROL RES_COMM_LINK False,
   catalogEntry.make 268652547 ''OBCApp.commController.COMM_GET_STATUS'' READ_STATUS RES_COMM_LINK True,
   catalogEntry.make 268656640 ''OBCApp.radioController.RADIO_ENABLE'' COMM_CONTROL RES_RADIO False,
   catalogEntry.make 268656641 ''OBCApp.radioController.RADIO_SET_POWER'' COMM_CONTROL RES_RADIO False,
   catalogEntry.make 268656642 ''OBCApp.radioController.RADIO_SET_FREQ'' COMM_CONTROL RES_RADIO False,
   catalogEntry.make 268656643 ''OBCApp.radioController.RADIO_GET_STATUS'' READ_STATUS RES_RADIO True,
   catalogEntry.make 268664832 ''OBCApp.bootManager.BOOT_STATUS'' READ_STATUS RES_BOOT True,
   catalogEntry.make 268664833 ''OBCApp.bootManager.BOOT_PREPARE_UPDATE'' CONFIG_UPDATE RES_BOOT False,
   catalogEntry.make 268664834 ''OBCApp.bootManager.BOOT_VERIFY_STAGED_IMAGE'' CONFIG_UPDATE RES_BOOT False,
   catalogEntry.make 268664835 ''OBCApp.bootManager.BOOT_ACTIVATE_STAGED_IMAGE'' CONFIG_UPDATE RES_BOOT False,
   catalogEntry.make 268664836 ''OBCApp.bootManager.BOOT_CONFIRM'' CONFIG_UPDATE RES_BOOT False,
   catalogEntry.make 268664837 ''OBCApp.bootManager.BOOT_ROLLBACK'' CONFIG_UPDATE RES_BOOT False,
   catalogEntry.make 268664838 ''OBCApp.bootManager.GET_RESET_CAUSE'' READ_STATUS RES_BOOT True,
   catalogEntry.make 268664839 ''OBCApp.bootManager.GET_BOOT_COUNT'' READ_STATUS RES_BOOT True,
   catalogEntry.make 268666112 ''OBCApp.persistentFaultManager.GET_PERSISTENT_FAULT_HISTORY'' READ_STATUS RES_HEALTH True,
   catalogEntry.make 268673024 ''OBCApp.payloadOpsController.PAYLOAD_SET_CAMERA_DEFAULTS'' PAYLOAD_CONTROL RES_PAYLOAD False,
   catalogEntry.make 268673025 ''OBCApp.payloadOpsController.PAYLOAD_PREPARE'' PAYLOAD_CONTROL RES_PAYLOAD False,
   catalogEntry.make 268673027 ''OBCApp.payloadOpsController.PAYLOAD_ABORT'' PAYLOAD_CONTROL RES_PAYLOAD False,
   catalogEntry.make 268673028 ''OBCApp.payloadOpsController.PAYLOAD_SHUTDOWN'' PAYLOAD_CONTROL RES_PAYLOAD False,
   catalogEntry.make 268673029 ''OBCApp.payloadOpsController.PAYLOAD_GET_STATUS'' READ_STATUS RES_PAYLOAD True,
   catalogEntry.make 268673030 ''OBCApp.payloadOpsController.PAYLOAD_PREPARE_RAW_SENSOR'' PAYLOAD_CONTROL RES_PAYLOAD False,
   catalogEntry.make 268673031 ''OBCApp.payloadOpsController.PAYLOAD_SET_AUTO_DEFAULTS'' PAYLOAD_CONTROL RES_PAYLOAD False,
   catalogEntry.make 268673032 ''OBCApp.payloadOpsController.PAYLOAD_SET_DETERMINISTIC_DEFAULTS'' PAYLOAD_CONTROL RES_PAYLOAD False,
   catalogEntry.make 268673033 ''OBCApp.payloadOpsController.PAYLOAD_CAPTURE_AUTO'' PAYLOAD_CONTROL RES_PAYLOAD False,
   catalogEntry.make 268673034 ''OBCApp.payloadOpsController.PAYLOAD_CAPTURE_DETERMINISTIC'' PAYLOAD_CONTROL RES_PAYLOAD False,
   catalogEntry.make 268673035 ''OBCApp.payloadOpsController.PAYLOAD_GET_CAPABILITIES'' READ_STATUS RES_PAYLOAD True,
   catalogEntry.make 268673036 ''OBCApp.payloadOpsController.PAYLOAD_GET_LAST_CAPTURE_METADATA'' READ_STATUS RES_PAYLOAD True,
   catalogEntry.make 268673037 ''OBCApp.payloadOpsController.PAYLOAD_SENSOR_REG_READ'' READ_STATUS RES_PAYLOAD True,
   catalogEntry.make 268673038 ''OBCApp.payloadOpsController.PAYLOAD_SENSOR_REG_WRITE'' PAYLOAD_CONTROL RES_PAYLOAD False,
   catalogEntry.make 268673039 ''OBCApp.payloadOpsController.PAYLOAD_CAPTURE_RAW'' PAYLOAD_CONTROL RES_PAYLOAD False,
   catalogEntry.make 268673040 ''OBCApp.payloadOpsController.PAYLOAD_PUBLISH_CAPTURE'' PAYLOAD_CONTROL RES_PAYLOAD False,
   catalogEntry.make 268677120 ''OBCApp.gpsBridge.GPS_GET_STATE'' READ_STATUS RES_GPS True,
   catalogEntry.make 268677121 ''OBCApp.gpsBridge.GPS_SET_SOURCE_MODE'' CONFIG_UPDATE RES_GPS False,
   catalogEntry.make 268681216 ''OBCApp.storageHealthBridge.STORAGE_GET_STATUS'' READ_STATUS RES_STORAGE True,
   catalogEntry.make 268693504 ''OBCApp.hkTrendProductProducer.HK_TREND_FLUSH'' DATA_PRODUCT RES_DATA_PRODUCTS False,
   catalogEntry.make 268693505 ''OBCApp.hkTrendProductProducer.HK_TREND_GET_STATUS'' READ_STATUS RES_DATA_PRODUCTS True,
   catalogEntry.make 268693506 ''OBCApp.hkTrendProductProducer.HK_TREND_TARGET_FILE_BYTES_PRM_SET'' CONFIG_UPDATE RES_DATA_PRODUCTS False,
   catalogEntry.make 268693507 ''OBCApp.hkTrendProductProducer.HK_TREND_TARGET_FILE_BYTES_PRM_SAVE'' CONFIG_UPDATE RES_DATA_PRODUCTS False,
   catalogEntry.make 268697600 ''OBCApp.dpCatalog.BUILD_CATALOG'' DATA_PRODUCT RES_DATA_PRODUCTS False,
   catalogEntry.make 268697601 ''OBCApp.dpCatalog.START_XMIT_CATALOG'' DATA_PRODUCT RES_DATA_PRODUCTS False,
   catalogEntry.make 268697602 ''OBCApp.dpCatalog.STOP_XMIT_CATALOG'' DATA_PRODUCT RES_DATA_PRODUCTS False,
   catalogEntry.make 268697603 ''OBCApp.dpCatalog.CLEAR_CATALOG'' DATA_PRODUCT RES_DATA_PRODUCTS False,
   catalogEntry.make 268701696 ''OBCApp.dpManager.CLEAR_EVENT_THROTTLE'' CONFIG_UPDATE RES_DATA_PRODUCTS False,
   catalogEntry.make 268705792 ''OBCApp.dpWriter.CLEAR_EVENT_THROTTLE'' CONFIG_UPDATE RES_DATA_PRODUCTS False,
   catalogEntry.make 268730368 ''OBCApp.recoveryExecutor.GET_RECOVERY_STATUS'' READ_STATUS RES_HEALTH True,
   catalogEntry.make 268738560 ''OBCApp.sequenceAdmissionController.SEQ_VALIDATE'' FILE_TRANSFER RES_FILE_TRANSFER_SESSION True,
   catalogEntry.make 268738561 ''OBCApp.sequenceAdmissionController.SEQ_RUN'' FILE_TRANSFER RES_FILE_TRANSFER_SESSION True,
   catalogEntry.make 268738562 ''OBCApp.sequenceAdmissionController.SEQ_PREPARE_MANUAL'' FILE_TRANSFER RES_FILE_TRANSFER_SESSION True,
   catalogEntry.make 268738563 ''OBCApp.sequenceAdmissionController.SEQ_START'' FILE_TRANSFER RES_FILE_TRANSFER_SESSION True,
   catalogEntry.make 268738564 ''OBCApp.sequenceAdmissionController.SEQ_STEP'' FILE_TRANSFER RES_FILE_TRANSFER_SESSION True,
   catalogEntry.make 268738565 ''OBCApp.sequenceAdmissionController.SEQ_CANCEL'' FILE_TRANSFER RES_FILE_TRANSFER_SESSION True,
   catalogEntry.make 268738566 ''OBCApp.sequenceAdmissionController.SEQ_LOG_STATUS'' READ_STATUS RES_FILE_TRANSFER_SESSION True,
   catalogEntry.make 268742656 ''OBCApp.cmdSeqA.CS_RUN'' FILE_TRANSFER RES_FILE_TRANSFER_SESSION False,
   catalogEntry.make 268742657 ''OBCApp.cmdSeqA.CS_VALIDATE'' FILE_TRANSFER RES_FILE_TRANSFER_SESSION False,
   catalogEntry.make 268742658 ''OBCApp.cmdSeqA.CS_CANCEL'' FILE_TRANSFER RES_FILE_TRANSFER_SESSION False,
   catalogEntry.make 268742659 ''OBCApp.cmdSeqA.CS_START'' FILE_TRANSFER RES_FILE_TRANSFER_SESSION False,
   catalogEntry.make 268742660 ''OBCApp.cmdSeqA.CS_STEP'' FILE_TRANSFER RES_FILE_TRANSFER_SESSION False,
   catalogEntry.make 268742661 ''OBCApp.cmdSeqA.CS_AUTO'' FILE_TRANSFER RES_FILE_TRANSFER_SESSION False,
   catalogEntry.make 268742662 ''OBCApp.cmdSeqA.CS_MANUAL'' FILE_TRANSFER RES_FILE_TRANSFER_SESSION False,
   catalogEntry.make 268742663 ''OBCApp.cmdSeqA.CS_JOIN_WAIT'' FILE_TRANSFER RES_FILE_TRANSFER_SESSION False,
   catalogEntry.make 268746752 ''OBCApp.cmdSeqB.CS_RUN'' FILE_TRANSFER RES_FILE_TRANSFER_SESSION False,
   catalogEntry.make 268746753 ''OBCApp.cmdSeqB.CS_VALIDATE'' FILE_TRANSFER RES_FILE_TRANSFER_SESSION False,
   catalogEntry.make 268746754 ''OBCApp.cmdSeqB.CS_CANCEL'' FILE_TRANSFER RES_FILE_TRANSFER_SESSION False,
   catalogEntry.make 268746755 ''OBCApp.cmdSeqB.CS_START'' FILE_TRANSFER RES_FILE_TRANSFER_SESSION False,
   catalogEntry.make 268746756 ''OBCApp.cmdSeqB.CS_STEP'' FILE_TRANSFER RES_FILE_TRANSFER_SESSION False,
   catalogEntry.make 268746757 ''OBCApp.cmdSeqB.CS_AUTO'' FILE_TRANSFER RES_FILE_TRANSFER_SESSION False,
   catalogEntry.make 268746758 ''OBCApp.cmdSeqB.CS_MANUAL'' FILE_TRANSFER RES_FILE_TRANSFER_SESSION False,
   catalogEntry.make 268746759 ''OBCApp.cmdSeqB.CS_JOIN_WAIT'' FILE_TRANSFER RES_FILE_TRANSFER_SESSION False,
   catalogEntry.make 268750848 ''OBCApp.seqDispatcher.RUN'' FILE_TRANSFER RES_FILE_TRANSFER_SESSION False,
   catalogEntry.make 268750849 ''OBCApp.seqDispatcher.LOG_STATUS'' READ_STATUS RES_FILE_TRANSFER_SESSION True,
   catalogEntry.make 268763136 ''OBCApp.systemResources.ENABLE'' CONFIG_UPDATE RES_HEALTH False]"

definition getCommandAuthorityCatalogEntryCount :: nat where
  "getCommandAuthorityCatalogEntryCount = length COMMAND_AUTHORITY_CATALOG"

function catalogSearch :: "u32 \<Rightarrow> nat \<Rightarrow> nat \<Rightarrow> nat" where
  "catalogSearch opcode low high =
     (if low < high
      then let mid = low + (high - low) div 2
           in if ce_opcode (COMMAND_AUTHORITY_CATALOG ! mid) < opcode then catalogSearch opcode (mid + 1) high
              else catalogSearch opcode low mid
      else low)"
  by auto
termination
  by (relation "measure (\<lambda>(opcode, low, high). high - low)") auto

declare catalogSearch.simps [simp del]

definition findCommandAuthorityCatalogEntry :: "u32 \<Rightarrow> catalogEntry option" where
  "findCommandAuthorityCatalogEntry opcode =
     (let low = catalogSearch opcode 0 getCommandAuthorityCatalogEntryCount
      in if low < getCommandAuthorityCatalogEntryCount \<and> ce_opcode (COMMAND_AUTHORITY_CATALOG ! low) = opcode
         then Some (COMMAND_AUTHORITY_CATALOG ! low) else None)"

definition evaluateCommandAuthority :: "authorityConfig \<Rightarrow> u32 \<Rightarrow> authorityDecision" where
  "evaluateCommandAuthority config opcode =
     (if \<not> cfg_valid config
      then defaultDecision\<lparr>ad_reason := AUTH_INVALID_CONFIG, ad_response := CMD_EXECUTION_ERROR\<rparr>
      else case findCommandAuthorityCatalogEntry opcode of
        None \<Rightarrow>
          if isCommManagedAuthority config
          then defaultDecision\<lparr>ad_reason := UNKNOWN_OPCODE_RESTRICTED, ad_response := CMD_INVALID_OPCODE\<rparr>
          else defaultDecision\<lparr>ad_allow := True, ad_reason := AUTH_NONE, ad_response := CMD_OK\<rparr>
      | Some entry \<Rightarrow>
          let decision = defaultDecision\<lparr>ad_commandClass := ce_commandClass entry, ad_resource := ce_resource entry\<rparr>
          in if \<not> isRestrictedAuthority config \<or> ce_uhfBackupAllowed entry
             then decision\<lparr>ad_allow := True, ad_reason := AUTH_NONE, ad_response := CMD_OK\<rparr>
             else decision\<lparr>ad_reason := POLICY_DENIED, ad_response := CMD_VALIDATION_ERROR\<rparr>)"

section \<open>Sequence opcodes\<close>

definition OBC_SEQUENCE_ADMISSION_CONTROLLER_BASE_ID :: u32 where "OBC_SEQUENCE_ADMISSION_CONTROLLER_BASE_ID = 0x1004A000"

definition OBC_CMD_SEQ_A_BASE_ID :: u32 where "OBC_CMD_SEQ_A_BASE_ID = 0x1004B000"

definition OBC_CMD_SEQ_B_BASE_ID :: u32 where "OBC_CMD_SEQ_B_BASE_ID = 0x1004C000"

definition OBC_SEQ_DISPATCHER_BASE_ID :: u32 where "OBC_SEQ_DISPATCHER_BASE_ID = 0x1004D000"

definition OBC_SEQ_VALIDATE_OPCODE :: u32 where "OBC_SEQ_VALIDATE_OPCODE = OBC_SEQUENCE_ADMISSION_CONTROLLER_BASE_ID + 0"

definition OBC_SEQ_RUN_OPCODE :: u32 where "OBC_SEQ_RUN_OPCODE = OBC_SEQUENCE_ADMISSION_CONTROLLER_BASE_ID + 1"

definition OBC_SEQ_PREPARE_MANUAL_OPCODE :: u32 where "OBC_SEQ_PREPARE_MANUAL_OPCODE = OBC_SEQUENCE_ADMISSION_CONTROLLER_BASE_ID + 2"

definition OBC_SEQ_START_OPCODE :: u32 where "OBC_SEQ_START_OPCODE = OBC_SEQUENCE_ADMISSION_CONTROLLER_BASE_ID + 3"

definition OBC_SEQ_STEP_OPCODE :: u32 where "OBC_SEQ_STEP_OPCODE = OBC_SEQUENCE_ADMISSION_CONTROLLER_BASE_ID + 4"

definition OBC_SEQ_CANCEL_OPCODE :: u32 where "OBC_SEQ_CANCEL_OPCODE = OBC_SEQUENCE_ADMISSION_CONTROLLER_BASE_ID + 5"

definition OBC_SEQ_LOG_STATUS_OPCODE :: u32 where "OBC_SEQ_LOG_STATUS_OPCODE = OBC_SEQUENCE_ADMISSION_CONTROLLER_BASE_ID + 6"

definition OBC_SEQ_DISPATCHER_RUN_OPCODE :: u32 where "OBC_SEQ_DISPATCHER_RUN_OPCODE = OBC_SEQ_DISPATCHER_BASE_ID + 0"

lemmas sequence_opcodes =
  OBC_SEQ_VALIDATE_OPCODE_def OBC_SEQ_RUN_OPCODE_def OBC_SEQ_PREPARE_MANUAL_OPCODE_def OBC_SEQ_START_OPCODE_def
  OBC_SEQ_STEP_OPCODE_def OBC_SEQ_CANCEL_OPCODE_def OBC_SEQ_LOG_STATUS_OPCODE_def OBC_SEQ_DISPATCHER_RUN_OPCODE_def
  OBC_SEQUENCE_ADMISSION_CONTROLLER_BASE_ID_def OBC_CMD_SEQ_A_BASE_ID_def OBC_CMD_SEQ_B_BASE_ID_def OBC_SEQ_DISPATCHER_BASE_ID_def

definition isGovernedSequenceWrapperOpcode :: "u32 \<Rightarrow> bool" where
  "isGovernedSequenceWrapperOpcode opcode \<longleftrightarrow>
     opcode = OBC_SEQ_VALIDATE_OPCODE \<or> opcode = OBC_SEQ_RUN_OPCODE \<or> opcode = OBC_SEQ_PREPARE_MANUAL_OPCODE \<or>
     opcode = OBC_SEQ_START_OPCODE \<or> opcode = OBC_SEQ_STEP_OPCODE \<or> opcode = OBC_SEQ_CANCEL_OPCODE \<or>
     opcode = OBC_SEQ_LOG_STATUS_OPCODE"

text \<open>The opcodes of a command sequencer at a base: RUN, VALIDATE, CANCEL, START, STEP, AUTO, MANUAL, JOIN_WAIT.\<close>

definition CMD_SEQ_OPCODES :: "u32 \<Rightarrow> u32 list" where
  "CMD_SEQ_OPCODES baseId = [baseId + 0, baseId + 1, baseId + 2, baseId + 3, baseId + 4, baseId + 5, baseId + 6, baseId + 7]"

definition isDeniedDirectOfficialSequencingOpcode :: "u32 \<Rightarrow> bool" where
  "isDeniedDirectOfficialSequencingOpcode opcode \<longleftrightarrow>
     opcode = OBC_SEQ_DISPATCHER_RUN_OPCODE \<or> opcode \<in> set (CMD_SEQ_OPCODES OBC_CMD_SEQ_A_BASE_ID) \<or>
     opcode \<in> set (CMD_SEQ_OPCODES OBC_CMD_SEQ_B_BASE_ID)"

section \<open>Lookup\<close>

lemma catalog_opcodes_ascend: "successively (<) (map ce_opcode COMMAND_AUTHORITY_CATALOG)"
  by (simp add: COMMAND_AUTHORITY_CATALOG_def catalogEntry.make_def)

lemma catalog_less:
  assumes "i < j" "j < getCommandAuthorityCatalogEntryCount"
  shows "ce_opcode (COMMAND_AUTHORITY_CATALOG ! i) < ce_opcode (COMMAND_AUTHORITY_CATALOG ! j)"
proof -
  have "sorted_wrt (<) (map ce_opcode COMMAND_AUTHORITY_CATALOG)"
    using catalog_opcodes_ascend by (subst (asm) successively_conv_sorted_wrt) (auto intro!: transpI)
  from sorted_wrt_nth_less [OF this assms(1)] assms show ?thesis
    by (simp add: getCommandAuthorityCatalogEntryCount_def)
qed

lemma catalogSearch_bound:
  assumes "low \<le> high" "high \<le> getCommandAuthorityCatalogEntryCount"
    and "\<forall>i < low. ce_opcode (COMMAND_AUTHORITY_CATALOG ! i) < opcode"
    and "\<forall>i. high \<le> i \<and> i < getCommandAuthorityCatalogEntryCount \<longrightarrow> opcode \<le> ce_opcode (COMMAND_AUTHORITY_CATALOG ! i)"
  shows "catalogSearch opcode low high \<le> high \<and> (\<forall>i < catalogSearch opcode low high. ce_opcode (COMMAND_AUTHORITY_CATALOG ! i) < opcode) \<and>
    (\<forall>i. catalogSearch opcode low high \<le> i \<and> i < getCommandAuthorityCatalogEntryCount \<longrightarrow>
       opcode \<le> ce_opcode (COMMAND_AUTHORITY_CATALOG ! i))"
  using assms
proof (induction opcode low high rule: catalogSearch.induct)
  case (1 opcode low high)
  define mid where "mid = low + (high - low) div 2"
  show ?case
  proof (cases "low < high")
    case True
    then have mid: "low \<le> mid" "mid < high"
      by (auto simp: mid_def)
    then have mid_n: "mid < getCommandAuthorityCatalogEntryCount"
      using "1.prems" by simp
    show ?thesis
    proof (cases "ce_opcode (COMMAND_AUTHORITY_CATALOG ! mid) < opcode")
      case less: True
      have "\<forall>i < mid + 1. ce_opcode (COMMAND_AUTHORITY_CATALOG ! i) < opcode"
        using less order.strict_trans [OF catalog_less [OF _ mid_n] less] by (auto simp: less_Suc_eq)
      with "1.IH" (1) [OF True mid_def less] mid "1.prems" have "catalogSearch opcode (mid + 1) high \<le> high \<and>
          (\<forall>i < catalogSearch opcode (mid + 1) high. ce_opcode (COMMAND_AUTHORITY_CATALOG ! i) < opcode) \<and>
          (\<forall>i. catalogSearch opcode (mid + 1) high \<le> i \<and> i < getCommandAuthorityCatalogEntryCount \<longrightarrow>
             opcode \<le> ce_opcode (COMMAND_AUTHORITY_CATALOG ! i))"
        by simp
      moreover have "catalogSearch opcode low high = catalogSearch opcode (mid + 1) high"
        using True less by (subst catalogSearch.simps) (simp add: mid_def Let_def)
      ultimately show ?thesis
        by simp
    next
      case geq: False
      have "\<forall>i. mid \<le> i \<and> i < getCommandAuthorityCatalogEntryCount \<longrightarrow> opcode \<le> ce_opcode (COMMAND_AUTHORITY_CATALOG ! i)"
        using geq order.trans [OF _ order_less_imp_le [OF catalog_less [of mid]], of opcode]
        by (auto simp: not_less le_less [of mid])
      with "1.IH" (2) [OF True mid_def geq] mid "1.prems" have "catalogSearch opcode low mid \<le> mid \<and>
          (\<forall>i < catalogSearch opcode low mid. ce_opcode (COMMAND_AUTHORITY_CATALOG ! i) < opcode) \<and>
          (\<forall>i. catalogSearch opcode low mid \<le> i \<and> i < getCommandAuthorityCatalogEntryCount \<longrightarrow>
             opcode \<le> ce_opcode (COMMAND_AUTHORITY_CATALOG ! i))"
        by simp
      moreover have "catalogSearch opcode low high = catalogSearch opcode low mid"
        using True geq by (subst catalogSearch.simps) (simp add: mid_def Let_def)
      ultimately show ?thesis
        using mid by simp
    qed
  next
    case False
    then have "catalogSearch opcode low high = low"
      by (subst catalogSearch.simps) simp
    then show ?thesis
      using False "1.prems" by simp
  qed
qed

lemma catalog_distinct: "distinct (map ce_opcode COMMAND_AUTHORITY_CATALOG)"
  using catalog_less by (auto simp: distinct_conv_nth getCommandAuthorityCatalogEntryCount_def neq_iff)

lemma find_opcode: "findCommandAuthorityCatalogEntry opcode = find (\<lambda>e. ce_opcode e = opcode) COMMAND_AUTHORITY_CATALOG"
proof -
  let ?n = getCommandAuthorityCatalogEntryCount and ?c = "\<lambda>i. ce_opcode (COMMAND_AUTHORITY_CATALOG ! i)"
  define low where "low = catalogSearch opcode 0 ?n"
  have none: "\<forall>i < 0. ?c i < opcode" and vac: "\<forall>i. ?n \<le> i \<and> i < ?n \<longrightarrow> opcode \<le> ?c i"
    by auto
  have low: "low \<le> ?n" "\<forall>i < low. ?c i < opcode" "\<forall>i. low \<le> i \<and> i < ?n \<longrightarrow> opcode \<le> ?c i"
    unfolding low_def using catalogSearch_bound [OF le0 order.refl none vac] by blast+
  show ?thesis
  proof (cases "low < ?n \<and> ?c low = opcode")
    case True
    then have "find (\<lambda>e. ce_opcode e = opcode) COMMAND_AUTHORITY_CATALOG = Some (COMMAND_AUTHORITY_CATALOG ! low)"
      using low(2) by (auto simp: find_Some_iff getCommandAuthorityCatalogEntryCount_def intro!: exI [of _ low])
    with True show ?thesis
      by (simp add: findCommandAuthorityCatalogEntry_def low_def [symmetric])
  next
    case False
    have "?c i \<noteq> opcode" if "i < ?n" for i
    proof (cases "i < low")
      case True
      then show ?thesis
        using low(2) by auto
    next
      case geq: False
      then have "low < ?n"
        using that by simp
      then have "opcode < ?c low"
        using False low(3) by (metis order.refl order_le_less)
      also have "?c low \<le> ?c i"
        using geq that catalog_less [of low i] by (cases "i = low") (simp_all add: order_less_imp_le)
      finally show ?thesis
        by simp
    qed
    then have "find (\<lambda>e. ce_opcode e = opcode) COMMAND_AUTHORITY_CATALOG = None"
      by (auto simp: find_None_iff in_set_conv_nth getCommandAuthorityCatalogEntryCount_def)
    with False show ?thesis
      by (simp add: findCommandAuthorityCatalogEntry_def low_def [symmetric])
  qed
qed

text \<open>C23: The binary search of the command catalogue finds the entry of an opcode whenever the table has one, and
  nothing else: it agrees with a scan of the whole table for every opcode.\<close>
theorem catalog_search_is_scan:
  "findCommandAuthorityCatalogEntry opcode = find (\<lambda>e. ce_opcode e = opcode) COMMAND_AUTHORITY_CATALOG"
  by (rule find_opcode)

lemma find_entry_set:
  assumes "findCommandAuthorityCatalogEntry opcode = Some e"
  shows "e \<in> set COMMAND_AUTHORITY_CATALOG" "ce_opcode e = opcode"
  using assms nth_mem unfolding find_opcode find_Some_iff by blast+

lemma backup_entries:
  "list_all (\<lambda>e. ce_uhfBackupAllowed e \<longrightarrow> ce_commandClass e = READ_STATUS \<or> isGovernedSequenceWrapperOpcode (ce_opcode e))
     COMMAND_AUTHORITY_CATALOG"
  by (simp add: COMMAND_AUTHORITY_CATALOG_def catalogEntry.make_def isGovernedSequenceWrapperOpcode_def sequence_opcodes)

lemma denied_range: "isDeniedDirectOfficialSequencingOpcode opcode \<Longrightarrow> 0x1004B000 \<le> opcode \<and> opcode \<le> 0x1004D000"
  unfolding isDeniedDirectOfficialSequencingOpcode_def CMD_SEQ_OPCODES_def sequence_opcodes by auto

lemma backup_range:
  "list_all (\<lambda>e. ce_uhfBackupAllowed e \<longrightarrow> \<not> (0x1004B000 \<le> ce_opcode e \<and> ce_opcode e \<le> 0x1004D000)) COMMAND_AUTHORITY_CATALOG"
  unfolding COMMAND_AUTHORITY_CATALOG_def by (simp add: catalogEntry.make_def)

lemma restricted_allow:
  assumes "cfg_valid config" "isRestrictedAuthority config"
  shows "ad_allow (evaluateCommandAuthority config opcode) \<longleftrightarrow>
    (\<exists>e. findCommandAuthorityCatalogEntry opcode = Some e \<and> ce_uhfBackupAllowed e)"
  using assms by (cases "findCommandAuthorityCatalogEntry opcode")
    (simp_all add: evaluateCommandAuthority_def isRestrictedAuthority_def defaultDecision_def Let_def)

text \<open>C21: A backup link carries status queries and governed sequence control only. With a backup role on a radio link, a
  command is allowed exactly when the catalogue marks it for the backup link, and then it is of the
  class READ_STATUS or one of the governed sequence wrappers, and never a direct command to a command
  sequencer; an opcode that the catalogue does not know is refused as an invalid opcode.\<close>
theorem backup_link_commands:
  assumes "cfg_valid config" "cfg_identity config \<in> {LINK_SBAND, LINK_UHF}" "cfg_role config = ROLE_BACKUP"
  shows "(ad_allow (evaluateCommandAuthority config opcode) \<longleftrightarrow>
       (\<exists>e \<in> set COMMAND_AUTHORITY_CATALOG. ce_opcode e = opcode \<and> ce_uhfBackupAllowed e)) \<and>
     (ad_allow (evaluateCommandAuthority config opcode) \<longrightarrow> \<not> isDeniedDirectOfficialSequencingOpcode opcode \<and>
       (ad_commandClass (evaluateCommandAuthority config opcode) = READ_STATUS \<or> isGovernedSequenceWrapperOpcode opcode)) \<and>
     ((\<forall>e \<in> set COMMAND_AUTHORITY_CATALOG. ce_opcode e \<noteq> opcode) \<longrightarrow>
       ad_response (evaluateCommandAuthority config opcode) = CMD_INVALID_OPCODE)"
proof -
  have r: "isRestrictedAuthority config" "isCommManagedAuthority config"
    using assms by (auto simp: isRestrictedAuthority_def isCommManagedAuthority_def)
  note allow = restricted_allow [OF assms(1) r(1), of opcode]
  show ?thesis
  proof (cases "findCommandAuthorityCatalogEntry opcode")
    case None
    then have "\<forall>e \<in> set COMMAND_AUTHORITY_CATALOG. ce_opcode e \<noteq> opcode"
      by (simp add: find_opcode find_None_iff)
    with None allow r assms(1) show ?thesis
      by (simp add: evaluateCommandAuthority_def)
  next
    case (Some e)
    then have e: "e \<in> set COMMAND_AUTHORITY_CATALOG" "ce_opcode e = opcode"
      by (rule find_entry_set)+
    have uniq: "e' = e" if "e' \<in> set COMMAND_AUTHORITY_CATALOG" "ce_opcode e' = opcode" for e'
      using e that catalog_distinct by (auto simp: distinct_map inj_on_def)
    have cls: "ad_commandClass (evaluateCommandAuthority config opcode) = ce_commandClass e"
      using Some assms(1) by (simp add: evaluateCommandAuthority_def defaultDecision_def Let_def)
    have marked: "(\<exists>e' \<in> set COMMAND_AUTHORITY_CATALOG. ce_opcode e' = opcode \<and> ce_uhfBackupAllowed e') \<longleftrightarrow> ce_uhfBackupAllowed e"
      using e uniq by blast
    have kind: "ce_uhfBackupAllowed e \<longrightarrow> ce_commandClass e = READ_STATUS \<or> isGovernedSequenceWrapperOpcode opcode"
      and range: "ce_uhfBackupAllowed e \<longrightarrow> \<not> (0x1004B000 \<le> opcode \<and> opcode \<le> 0x1004D000)"
      using bspec [OF backup_entries [unfolded list_all_iff] e(1)] bspec [OF backup_range [unfolded list_all_iff] e(1)]
      unfolding e(2) by simp_all
    have known: "\<not> (\<forall>e \<in> set COMMAND_AUTHORITY_CATALOG. ce_opcode e \<noteq> opcode)"
      using e by blast
    show ?thesis
      unfolding marked cls allow Some using kind range denied_range [of opcode] known by blast
  qed
qed

theorem backup_link_commands_witness:
  "ad_commandClass (evaluateCommandAuthority (authorityConfigFromProfile (Some ''uhf-backup'')) 268632065) = READ_STATUS"
proof -
  let ?c = "authorityConfigFromProfile (Some ''uhf-backup'')"
  have c: "cfg_valid ?c" "cfg_identity ?c \<in> {LINK_SBAND, LINK_UHF}" "cfg_role ?c = ROLE_BACKUP"
    by (simp_all add: authorityConfigFromProfile_def)
  have "list_ex (\<lambda>e. ce_opcode e = 268632065 \<and> ce_uhfBackupAllowed e) COMMAND_AUTHORITY_CATALOG"
    unfolding COMMAND_AUTHORITY_CATALOG_def by (simp add: catalogEntry.make_def)
  moreover have "\<not> isGovernedSequenceWrapperOpcode 268632065"
    by (simp add: isGovernedSequenceWrapperOpcode_def sequence_opcodes)
  ultimately show ?thesis
    using backup_link_commands [OF c, of 268632065] by (auto simp: list_ex_iff)
qed

end
