(* ===== verification/Command_Window.thy ===== *)
theory Command_Window
  imports Command_Authority "HOL-Library.Multiset"
begin

text \<open>
  \<open>CommandSequenceWindow\<close> of \<open>CommandSessionSequence\<close>: the last accepted sequence number of up to 16 command sessions.
  The table is a list of 16 entries; its abstraction is the map from session keys to the last accepted
  number. The locale states what a client of the window relies on.
\<close>

record commandSessionKey =
  sk_ingressPort :: nat
  sk_linkIdentity :: authorityLinkIdentity
  sk_linkRole :: authorityLinkRole
  sk_sessionId :: u32

datatype commandSequenceResult = ACCEPTED | REJECTED_NOT_INCREASING | REJECTED_TABLE_FULL

datatype commandSequenceRejectReason = SEQ_REJECT_NONE | NOT_INCREASING | WINDOW_FULL

record sessionEntry =
  se_valid :: bool
  se_key :: commandSessionKey
  se_lastAccepted :: u32

type_synonym sequenceWindow = "sessionEntry list"

definition MAX_SESSIONS :: nat where "MAX_SESSIONS = 16"

definition defaultSessionEntry :: sessionEntry where
  "defaultSessionEntry = \<lparr>se_valid = False,
     se_key = \<lparr>sk_ingressPort = 0, sk_linkIdentity = LINK_UNKNOWN, sk_linkRole = ROLE_UNKNOWN, sk_sessionId = 0\<rparr>,
     se_lastAccepted = 0\<rparr>"

definition sessionKeysEqual :: "commandSessionKey \<Rightarrow> commandSessionKey \<Rightarrow> bool" where
  "sessionKeysEqual lhs rhs \<longleftrightarrow> sk_ingressPort lhs = sk_ingressPort rhs \<and> sk_linkIdentity lhs = sk_linkIdentity rhs \<and>
     sk_linkRole lhs = sk_linkRole rhs \<and> sk_sessionId lhs = sk_sessionId rhs"

text \<open>The pointer to an entry is its index.\<close>

fun w_findEntry :: "commandSessionKey \<Rightarrow> sequenceWindow \<Rightarrow> nat option" where
  "w_findEntry key [] = None"
| "w_findEntry key (e # es) =
     (if se_valid e \<and> sessionKeysEqual (se_key e) key then Some 0 else map_option Suc (w_findEntry key es))"

fun w_freeEntry :: "sequenceWindow \<Rightarrow> nat option" where
  "w_freeEntry [] = None"
| "w_freeEntry (e # es) = (if \<not> se_valid e then Some 0 else map_option Suc (w_freeEntry es))"

definition w_allocateEntry :: "commandSessionKey \<Rightarrow> sequenceWindow \<Rightarrow> (nat \<times> sequenceWindow) option" where
  "w_allocateEntry key w =
     map_option (\<lambda>i. (i, w[i := (w ! i)\<lparr>se_valid := True, se_key := key\<rparr>])) (w_freeEntry w)"

definition w_evaluateAndAccept :: "commandSessionKey \<Rightarrow> u32 \<Rightarrow> sequenceWindow \<Rightarrow> commandSequenceResult \<times> sequenceWindow" where
  "w_evaluateAndAccept key sequenceNumber w =
     (case w_findEntry key w of
        None \<Rightarrow>
          (case w_allocateEntry key w of
             None \<Rightarrow> (REJECTED_TABLE_FULL, w)
           | Some (i, w') \<Rightarrow> (ACCEPTED, w'[i := (w' ! i)\<lparr>se_lastAccepted := sequenceNumber\<rparr>]))
      | Some i \<Rightarrow>
          if sequenceNumber \<le> se_lastAccepted (w ! i) then (REJECTED_NOT_INCREASING, w)
          else (ACCEPTED, w[i := (w ! i)\<lparr>se_lastAccepted := sequenceNumber\<rparr>]))"

definition w_resetSession :: "commandSessionKey \<Rightarrow> sequenceWindow \<Rightarrow> bool \<times> sequenceWindow" where
  "w_resetSession key w =
     (case w_findEntry key w of None \<Rightarrow> (False, w) | Some i \<Rightarrow> (True, w[i := defaultSessionEntry]))"

definition w_fromSource :: "nat \<Rightarrow> authorityLinkIdentity \<Rightarrow> authorityLinkRole \<Rightarrow> commandSessionKey \<Rightarrow> bool" where
  "w_fromSource ingressPort identity role key \<longleftrightarrow>
     sk_ingressPort key = ingressPort \<and> sk_linkIdentity key = identity \<and> sk_linkRole key = role"

definition w_resetSource :: "nat \<Rightarrow> authorityLinkIdentity \<Rightarrow> authorityLinkRole \<Rightarrow> sequenceWindow \<Rightarrow> sequenceWindow" where
  "w_resetSource ingressPort identity role w =
     map (\<lambda>e. if se_valid e \<and> w_fromSource ingressPort identity role (se_key e) then defaultSessionEntry else e) w"

definition w_resetAll :: "sequenceWindow \<Rightarrow> sequenceWindow" where
  "w_resetAll w = replicate MAX_SESSIONS defaultSessionEntry"

section \<open>Abstraction\<close>

definition w_wf :: "sequenceWindow \<Rightarrow> bool" where
  "w_wf w \<longleftrightarrow> length w = MAX_SESSIONS \<and> distinct (map se_key (filter se_valid w))"

definition w_last :: "sequenceWindow \<Rightarrow> commandSessionKey \<Rightarrow> u32 option" where
  "w_last w key = map_option (\<lambda>i. se_lastAccepted (w ! i)) (w_findEntry key w)"

definition w_used :: "sequenceWindow \<Rightarrow> nat" where
  "w_used w = length (filter se_valid w)"

lemma keysEqual_eq [simp]: "sessionKeysEqual k k' \<longleftrightarrow> k = k'"
  by (auto simp: sessionKeysEqual_def)

lemma find_bound: "w_findEntry key w = Some i \<Longrightarrow> i < length w \<and> se_valid (w ! i) \<and> se_key (w ! i) = key"
  by (induction w arbitrary: i) (auto split: if_splits)

lemma find_none: "w_findEntry key w = None \<longleftrightarrow> key \<notin> se_key ` set (filter se_valid w)"
  by (induction w) auto

lemma free_bound: "w_freeEntry w = Some i \<Longrightarrow> i < length w \<and> \<not> se_valid (w ! i)"
  by (induction w arbitrary: i) (auto split: if_splits)

lemma free_none: "w_freeEntry w = None \<longleftrightarrow> w_used w = length w"
proof -
  have "w_freeEntry w = None \<longleftrightarrow> (\<forall>e \<in> set w. se_valid e)"
    by (induction w) auto
  then show ?thesis
    by (simp add: w_used_def filter_id_conv) (metis filter_True length_filter_less less_irrefl)
qed

lemma find_update_same:
  "w_findEntry key w = Some i \<Longrightarrow> se_valid e \<Longrightarrow> se_key e = key \<Longrightarrow> w_findEntry k (w[i := e]) = w_findEntry k w"
  by (induction w arbitrary: i) (auto split: if_splits)

lemma find_update_new:
  "w_freeEntry w = Some i \<Longrightarrow> w_findEntry key w = None \<Longrightarrow> se_valid e \<Longrightarrow> se_key e = key \<Longrightarrow>
   w_findEntry k (w[i := e]) = (if k = key then Some i else w_findEntry k w)"
  by (induction w arbitrary: i) (auto split: if_splits)

lemma valid_update_same:
  "i < length w \<Longrightarrow> se_valid (w ! i) \<Longrightarrow> se_valid e \<Longrightarrow> se_key e = se_key (w ! i) \<Longrightarrow>
   map se_key (filter se_valid (w[i := e])) = map se_key (filter se_valid w)"
  by (induction w arbitrary: i) (auto split: nat.splits)

lemma valid_update_new:
  "i < length w \<Longrightarrow> \<not> se_valid (w ! i) \<Longrightarrow> se_valid e \<Longrightarrow>
   mset (map se_key (filter se_valid (w[i := e]))) = add_mset (se_key e) (mset (map se_key (filter se_valid w)))"
  by (induction w arbitrary: i) (auto split: nat.splits)

definition w_keys :: "sequenceWindow \<Rightarrow> commandSessionKey set" where
  "w_keys w = dom (w_last w)"

lemma keys_valid: "w_keys w = se_key ` set (filter se_valid w)"
  using find_none by (auto simp: w_keys_def w_last_def dom_def)

lemma used_keys: "w_wf w \<Longrightarrow> w_used w = card (w_keys w)"
  by (simp only: w_wf_def w_used_def keys_valid) (metis distinct_card length_map list.set_map)

lemma last_update_same:
  assumes "w_findEntry key w = Some i"
  shows "w_last (w[i := (w ! i)\<lparr>se_lastAccepted := n\<rparr>]) = (w_last w)(key \<mapsto> n)"
proof (rule ext)
  fix k
  have i: "i < length w" "se_valid (w ! i)" "se_key (w ! i) = key"
    using find_bound [OF assms] by auto
  have "j \<noteq> i" if "w_findEntry k w = Some j" "k \<noteq> key" for j
    using find_bound [OF that(1)] that(2) i by auto
  then show "w_last (w[i := (w ! i)\<lparr>se_lastAccepted := n\<rparr>]) k = ((w_last w)(key \<mapsto> n)) k"
    using assms i by (cases "w_findEntry k w") (auto simp: w_last_def find_update_same [OF assms])
qed

lemma last_update_new:
  assumes "w_freeEntry w = Some i" "w_findEntry key w = None" "se_valid e" "se_key e = key"
  shows "w_last (w[i := e]) = (w_last w)(key \<mapsto> se_lastAccepted e)"
proof (rule ext)
  fix k
  have i: "i < length w" "\<not> se_valid (w ! i)"
    using free_bound [OF assms(1)] by auto
  have "j \<noteq> i" if "w_findEntry k w = Some j" for j
    using find_bound [OF that(1)] i by auto
  then show "w_last (w[i := e]) k = ((w_last w)(key \<mapsto> se_lastAccepted e)) k"
    using i by (cases "w_findEntry k w") (auto simp: w_last_def find_update_new [OF assms])
qed

lemma accept_known:
  assumes "w_last w key = Some l"
  shows "fst (w_evaluateAndAccept key n w) = (if l < n then ACCEPTED else REJECTED_NOT_INCREASING)"
    and "w_last (snd (w_evaluateAndAccept key n w)) = (if l < n then (w_last w)(key \<mapsto> n) else w_last w)"
    and "w_wf w \<Longrightarrow> w_wf (snd (w_evaluateAndAccept key n w))"
proof -
  obtain i where i: "w_findEntry key w = Some i" "se_lastAccepted (w ! i) = l"
    using assms by (auto simp: w_last_def)
  note b = find_bound [OF i(1)]
  show "fst (w_evaluateAndAccept key n w) = (if l < n then ACCEPTED else REJECTED_NOT_INCREASING)"
    "w_last (snd (w_evaluateAndAccept key n w)) = (if l < n then (w_last w)(key \<mapsto> n) else w_last w)"
    using i last_update_same [OF i(1), of n] by (auto simp: w_evaluateAndAccept_def)
  show "w_wf w \<Longrightarrow> w_wf (snd (w_evaluateAndAccept key n w))"
    using i b valid_update_same [of i w "(w ! i)\<lparr>se_lastAccepted := n\<rparr>"] by (simp add: w_evaluateAndAccept_def w_wf_def)
qed

lemma accept_new:
  assumes "w_last w key = None" "w_wf w"
  shows "fst (w_evaluateAndAccept key n w) = (if w_used w < MAX_SESSIONS then ACCEPTED else REJECTED_TABLE_FULL)"
    and "w_last (snd (w_evaluateAndAccept key n w)) = (if w_used w < MAX_SESSIONS then (w_last w)(key \<mapsto> n) else w_last w)"
    and "w_wf (snd (w_evaluateAndAccept key n w))"
proof -
  have f: "w_findEntry key w = None"
    using assms(1) by (simp add: w_last_def)
  have len: "length w = MAX_SESSIONS" and used: "w_used w \<le> MAX_SESSIONS"
    using assms(2) length_filter_le [of se_valid w] by (simp_all add: w_wf_def w_used_def)
  have "fst (w_evaluateAndAccept key n w) = (if w_used w < MAX_SESSIONS then ACCEPTED else REJECTED_TABLE_FULL) \<and>
    w_last (snd (w_evaluateAndAccept key n w)) = (if w_used w < MAX_SESSIONS then (w_last w)(key \<mapsto> n) else w_last w) \<and>
    w_wf (snd (w_evaluateAndAccept key n w))"
  proof (cases "w_freeEntry w")
    case None
    then show ?thesis
      using f len free_none [of w] assms(2) by (simp add: w_evaluateAndAccept_def w_allocateEntry_def)
  next
    case (Some i)
    let ?e = "(w ! i)\<lparr>se_valid := True, se_key := key, se_lastAccepted := n\<rparr>"
    have b: "i < length w" "\<not> se_valid (w ! i)"
      using free_bound [OF Some] by auto
    have room: "w_used w < MAX_SESSIONS"
      using Some free_none [of w] len used by (cases "w_used w = MAX_SESSIONS") auto
    have run: "w_evaluateAndAccept key n w = (ACCEPTED, w[i := ?e])"
      using f Some b by (simp add: w_evaluateAndAccept_def w_allocateEntry_def)
    have "distinct (map se_key (filter se_valid (w[i := ?e])))"
      using mset_eq_imp_distinct_iff [of _ "key # map se_key (filter se_valid w)"] valid_update_new [OF b, of ?e] f assms(2)
      by (simp add: w_wf_def find_none)
    then show ?thesis
      using run room len last_update_new [OF Some f, of ?e] by (simp add: w_wf_def)
  qed
  then show "fst (w_evaluateAndAccept key n w) = (if w_used w < MAX_SESSIONS then ACCEPTED else REJECTED_TABLE_FULL)"
    "w_last (snd (w_evaluateAndAccept key n w)) = (if w_used w < MAX_SESSIONS then (w_last w)(key \<mapsto> n) else w_last w)"
    "w_wf (snd (w_evaluateAndAccept key n w))"
    by simp_all
qed

lemma accept_wf: "w_wf w \<Longrightarrow> w_wf (snd (w_evaluateAndAccept key n w))"
  using accept_known(3) accept_new(3) by (cases "w_last w key") auto

lemma filter_reset: "filter se_valid (map (\<lambda>e. if se_valid e \<and> P (se_key e) then defaultSessionEntry else e) w) =
    filter (\<lambda>e. \<not> P (se_key e)) (filter se_valid w)"
  by (induction w) (auto simp: defaultSessionEntry_def)

lemma reset_source_wf: "w_wf w \<Longrightarrow> w_wf (w_resetSource p i r w)"
  unfolding w_wf_def w_resetSource_def filter_reset by (simp add: distinct_map_filter del: filter_filter)

lemma reset_source_keys: "w_keys (w_resetSource p i r w) = {k \<in> w_keys w. \<not> w_fromSource p i r k}"
  unfolding keys_valid w_resetSource_def filter_reset by auto

lemma reset_source_find:
  "\<not> w_fromSource p i r k \<Longrightarrow> w_findEntry k (w_resetSource p i r w) = w_findEntry k w"
  by (induction w) (auto simp: w_resetSource_def defaultSessionEntry_def)

lemma reset_source_last:
  "w_last (w_resetSource p i r w) k = (if w_fromSource p i r k then None else w_last w k)"
proof (cases "w_fromSource p i r k")
  case True
  then have "k \<notin> w_keys (w_resetSource p i r w)"
    by (simp add: reset_source_keys)
  then show ?thesis
    using True by (simp add: w_keys_def domIff)
next
  case False
  then show ?thesis
    using find_bound [of k w] by (cases "w_findEntry k w")
      (auto simp: w_last_def reset_source_find, auto simp: w_resetSource_def)
qed

lemma reset_all: "w_wf (w_resetAll w)" "w_keys (w_resetAll w) = {}" "w_last (w_resetAll w) k = None"
proof -
  show wf: "w_wf (w_resetAll w)" and k: "w_keys (w_resetAll w) = {}"
    by (simp_all add: w_wf_def w_resetAll_def keys_valid defaultSessionEntry_def)
  show "w_last (w_resetAll w) k = None"
    using k by (auto simp: w_keys_def)
qed

lemma distinct_keys_remove:
  "distinct (map se_key (filter se_valid w)) \<Longrightarrow> w_findEntry key w = Some i \<Longrightarrow>
   map se_key (filter se_valid (w[i := defaultSessionEntry])) = remove1 key (map se_key (filter se_valid w))"
  by (induction w arbitrary: i) (auto simp: defaultSessionEntry_def split: if_splits)

lemma reset_session:
  assumes "w_wf w"
  shows "w_wf (snd (w_resetSession key w))" "w_keys (snd (w_resetSession key w)) = w_keys w - {key}"
    "fst (w_resetSession key w) \<longleftrightarrow> key \<in> w_keys w"
proof -
  have "w_wf (snd (w_resetSession key w)) \<and> w_keys (snd (w_resetSession key w)) = w_keys w - {key} \<and>
    (fst (w_resetSession key w) \<longleftrightarrow> key \<in> w_keys w)"
  proof (cases "w_findEntry key w")
    case None
    then show ?thesis
      using assms by (simp add: w_resetSession_def w_keys_def w_last_def domIff)
  next
    case (Some i)
    have d: "distinct (map se_key (filter se_valid w))" "length w = MAX_SESSIONS"
      using assms by (simp_all add: w_wf_def)
    note k = distinct_keys_remove [OF d(1) Some]
    have keys: "w_keys v = set (map se_key (filter se_valid v))" for v
      by (simp add: keys_valid)
    have "key \<in> w_keys w"
      using Some by (simp add: w_keys_def w_last_def domIff)
    then show ?thesis
      unfolding w_wf_def keys using Some d k by (simp add: w_resetSession_def keys)
  qed
  then show "w_wf (snd (w_resetSession key w))" "w_keys (snd (w_resetSession key w)) = w_keys w - {key}"
    "fst (w_resetSession key w) \<longleftrightarrow> key \<in> w_keys w"
    by simp_all
qed

section \<open>The interface of a sequence window\<close>

text \<open>The numbers a window accepts for a list of requests, with their keys.\<close>

fun accepted_run :: "('k \<Rightarrow> u32 \<Rightarrow> 'w \<Rightarrow> commandSequenceResult \<times> 'w) \<Rightarrow> 'w \<Rightarrow> ('k \<times> u32) list \<Rightarrow> ('k \<times> u32) list" where
  "accepted_run accept w [] = []"
| "accepted_run accept w ((k, n) # reqs) =
     (let (r, w') = accept k n w in if r = ACCEPTED then (k, n) # accepted_run accept w' reqs else accepted_run accept w' reqs)"

locale sequence_window =
  fixes accept :: "'k \<Rightarrow> u32 \<Rightarrow> 'w \<Rightarrow> commandSequenceResult \<times> 'w" and last :: "'w \<Rightarrow> 'k \<Rightarrow> u32 option"
    and wf :: "'w \<Rightarrow> bool" and room :: "'w \<Rightarrow> bool"
  assumes keeps_wf: "wf w \<Longrightarrow> wf (snd (accept k n w))"
    and known: "wf w \<Longrightarrow> last w k = Some l \<Longrightarrow> fst (accept k n w) = (if l < n then ACCEPTED else REJECTED_NOT_INCREASING)"
    and unknown: "wf w \<Longrightarrow> last w k = None \<Longrightarrow> fst (accept k n w) = (if room w then ACCEPTED else REJECTED_TABLE_FULL)"
    and updates: "wf w \<Longrightarrow> last (snd (accept k n w)) = (if fst (accept k n w) = ACCEPTED then (last w)(k \<mapsto> n) else last w)"
begin

lemma accepted_above: "wf w \<Longrightarrow> fst (accept k n w) = ACCEPTED \<Longrightarrow> last w k = Some l \<Longrightarrow> l < n"
  using known [of w k l n] by (simp split: if_splits)

lemma last_grows:
  assumes "wf w" "last w k = Some l"
  shows "\<exists>l'. last (snd (accept k' n w)) k = Some l' \<and> l \<le> l'"
  using assms updates [OF assms(1), of k' n] accepted_above [OF assms(1), of k' n l]
  by (auto intro: order_less_imp_le)

lemma run_above:
  "wf w \<Longrightarrow> last w key = Some l \<Longrightarrow> (key, n) \<in> set (accepted_run accept w reqs) \<Longrightarrow> l < n"
proof (induction reqs arbitrary: w l)
  case (Cons req reqs)
  obtain k m where req: "req = (k, m)"
    by (cases req)
  obtain r w' where a: "accept k m w = (r, w')"
    by (cases "accept k m w")
  have wf': "wf w'"
    using keeps_wf [OF Cons.prems(1), of k m] a by simp
  obtain l' where l': "last w' key = Some l'" "l \<le> l'"
    using last_grows [OF Cons.prems(1,2), of k m] a by auto
  from Cons.prems(3) consider "r = ACCEPTED" "k = key" "m = n" | "(key, n) \<in> set (accepted_run accept w' reqs)"
    by (auto simp: req a split: if_splits)
  then show ?case
  proof cases
    case 1
    then show ?thesis
      using accepted_above [OF Cons.prems(1), of key n l] Cons.prems(2) a by simp
  next
    case 2
    then show ?thesis
      using Cons.IH [OF wf' l'(1)] l'(2) by simp
  qed
qed simp

lemma run_increases:
  "wf w \<Longrightarrow> sorted_wrt (<) (map snd (filter (\<lambda>(k, n). k = key) (accepted_run accept w reqs)))"
proof (induction reqs arbitrary: w)
  case (Cons req reqs)
  obtain k m where req: "req = (k, m)"
    by (cases req)
  obtain r w' where a: "accept k m w = (r, w')"
    by (cases "accept k m w")
  have wf': "wf w'"
    using keeps_wf [OF Cons.prems, of k m] a by simp
  note ih = Cons.IH [OF wf']
  show ?case
  proof (cases "r = ACCEPTED \<and> k = key")
    case True
    then have "last w' key = Some m"
      using updates [OF Cons.prems, of k m] a by simp
    then have "\<forall>n. (key, n) \<in> set (accepted_run accept w' reqs) \<longrightarrow> m < n"
      using run_above [OF wf'] by blast
    then show ?thesis
      using ih True a by (auto simp: req)
  qed (use ih in \<open>auto simp: req a\<close>)
qed simp

end

interpretation sw: sequence_window w_evaluateAndAccept w_last w_wf "\<lambda>w. w_used w < MAX_SESSIONS"
proof unfold_locales
  fix w k n and l :: u32
  assume wf: "w_wf w"
  show "w_wf (snd (w_evaluateAndAccept k n w))"
    by (rule accept_wf [OF wf])
  show "w_last (snd (w_evaluateAndAccept k n w)) =
      (if fst (w_evaluateAndAccept k n w) = ACCEPTED then (w_last w)(k \<mapsto> n) else w_last w)"
    using accept_known(1,2) [of w k _ n] accept_new(1,2) [OF _ wf, of k n] by (cases "w_last w k") auto
qed (simp_all add: accept_known(1) accept_new(1))

text \<open>C17: The window accepts no sequence number twice. For any list of requests of any sessions, the numbers
  accepted for one session strictly increase and all lie above the last number accepted before; a session the
  window knows is refused only for a number that does not increase.\<close>
theorem sequence_numbers_increase:
  assumes "w_wf w"
  shows "sorted_wrt (<) (map snd (filter (\<lambda>(k, n). k = key) (accepted_run w_evaluateAndAccept w reqs))) \<and>
    (\<forall>l. w_last w key = Some l \<longrightarrow>
       (\<forall>n. (key, n) \<in> set (accepted_run w_evaluateAndAccept w reqs) \<longrightarrow> l < n) \<and>
       (\<forall>n. fst (w_evaluateAndAccept key n w) = (if l < n then ACCEPTED else REJECTED_NOT_INCREASING)))"
  using sw.run_increases [OF assms] sw.run_above [OF assms] sw.known [OF assms] by blast

theorem sequence_numbers_increase_witness:
  "sorted_wrt (<) (map snd (filter (\<lambda>(k, n). k = se_key defaultSessionEntry)
     (accepted_run w_evaluateAndAccept (w_resetAll []) [(se_key defaultSessionEntry, 3), (se_key defaultSessionEntry, 3)])))"
  using sequence_numbers_increase [OF reset_all(1)] by blast

end
