(* ===== verification/Fw_Packets.thy ===== *)
theory Fw_Packets
  imports Byte_Fields "HOL-Library.Monad_Syntax"
begin

text \<open>
  What the command components use of the serialization of the F Prime framework, as parameters: the encodings
  of integers and of the packet descriptor, the command packet, and appending to a communication
  buffer. \<open>fw_documented\<close> states the documented behaviour: an encoding has a fixed size and is read back, a
  command packet is the descriptor, the opcode and the arguments, and an append fails when the
  capacity configured in \<open>FpConstants.fpp\<close> would be exceeded.
\<close>

definition FW_COM_BUFFER_MAX_SIZE :: nat where "FW_COM_BUFFER_MAX_SIZE = 512"

record fwSerial =
  fw_ser8 :: "u8 \<Rightarrow> bytes"
  fw_ser16 :: "u16 \<Rightarrow> bytes"
  fw_ser32 :: "u32 \<Rightarrow> bytes"
  fw_des8 :: "bytes \<Rightarrow> (u8 \<times> bytes) option"
  fw_des16 :: "bytes \<Rightarrow> (u16 \<times> bytes) option"
  fw_des32 :: "bytes \<Rightarrow> (u32 \<times> bytes) option"
  fw_descriptorSize :: nat
  fw_commandDescriptor :: bytes
  fw_desDescriptor :: "bytes \<Rightarrow> (bool \<times> bytes) option"
  fw_cmdPacket :: "bytes \<Rightarrow> (u32 \<times> bytes) option"
  fw_append :: "bytes \<Rightarrow> bytes \<Rightarrow> bytes option"

definition fw_reads :: "fwSerial \<Rightarrow> bool" where
  "fw_reads fw \<longleftrightarrow>
     (\<forall>bs x r. fw_des8 fw bs = Some (x, r) \<longleftrightarrow> bs = fw_ser8 fw x @ r) \<and>
     (\<forall>bs x r. fw_des16 fw bs = Some (x, r) \<longleftrightarrow> bs = fw_ser16 fw x @ r) \<and>
     (\<forall>bs x r. fw_des32 fw bs = Some (x, r) \<longleftrightarrow> bs = fw_ser32 fw x @ r) \<and>
     (\<forall>bs r. fw_desDescriptor fw bs = Some (True, r) \<longleftrightarrow> bs = fw_commandDescriptor fw @ r)"

definition fw_widths :: "fwSerial \<Rightarrow> bool" where
  "fw_widths fw \<longleftrightarrow> (\<forall>x. length (fw_ser8 fw x) = 1) \<and> (\<forall>x. length (fw_ser16 fw x) = 2) \<and>
     (\<forall>x. length (fw_ser32 fw x) = 4) \<and> length (fw_commandDescriptor fw) = fw_descriptorSize fw"

definition fw_packets :: "fwSerial \<Rightarrow> bool" where
  "fw_packets fw \<longleftrightarrow> (\<forall>bs op args. fw_cmdPacket fw bs = Some (op, args) \<longleftrightarrow>
     bs = fw_commandDescriptor fw @ fw_ser32 fw op @ args \<and> length bs \<le> FW_COM_BUFFER_MAX_SIZE)"

definition fw_bounded :: "fwSerial \<Rightarrow> bool" where
  "fw_bounded fw \<longleftrightarrow> (\<forall>buf bs. fw_append fw buf bs =
     (if length buf + length bs \<le> FW_COM_BUFFER_MAX_SIZE then Some (buf @ bs) else None))"

definition fw_documented :: "fwSerial \<Rightarrow> bool" where
  "fw_documented fw \<longleftrightarrow> fw_reads fw \<and> fw_widths fw \<and> fw_packets fw \<and> fw_bounded fw"

text \<open>An append whose status the code ignores: the buffer stays as it was when there is no room.\<close>

definition fw_put :: "fwSerial \<Rightarrow> bytes \<Rightarrow> bytes \<Rightarrow> bytes" where
  "fw_put fw bs buf = (case fw_append fw buf bs of None \<Rightarrow> buf | Some buf' \<Rightarrow> buf')"

text \<open>The least size of a command: the descriptor and the opcode.\<close>

definition MIN_INNER_COMMAND_SIZE :: "fwSerial \<Rightarrow> nat" where
  "MIN_INNER_COMMAND_SIZE fw = fw_descriptorSize fw + 4"

definition fw_command :: "fwSerial \<Rightarrow> u32 \<Rightarrow> bytes \<Rightarrow> bytes" where
  "fw_command fw op args = fw_commandDescriptor fw @ fw_ser32 fw op @ args"

text \<open>
  \<open>tryDecodeInnerOpcode\<close>, the same in both packet formats: the opcode of a command that may not be complete,
  for the answer to a rejected packet.
\<close>

definition UNKNOWN_OPCODE :: u32 where "UNKNOWN_OPCODE = 0xFFFFFFFF"

definition tryDecodeInnerOpcode :: "fwSerial \<Rightarrow> bytes \<Rightarrow> u32" where
  "tryDecodeInnerOpcode fw data =
     (if length data < MIN_INNER_COMMAND_SIZE fw then UNKNOWN_OPCODE
      else case fw_desDescriptor fw data of
             Some (True, r) \<Rightarrow> (case fw_des32 fw r of Some (opcode, _) \<Rightarrow> opcode | None \<Rightarrow> UNKNOWN_OPCODE)
           | _ \<Rightarrow> UNKNOWN_OPCODE)"

lemma fw_des:
  assumes "fw_documented fw"
  shows "fw_des8 fw bs = Some (b, r) \<longleftrightarrow> bs = fw_ser8 fw b @ r" "fw_des16 fw bs = Some (h, r) \<longleftrightarrow> bs = fw_ser16 fw h @ r"
    "fw_des32 fw bs = Some (w, r) \<longleftrightarrow> bs = fw_ser32 fw w @ r"
    "fw_desDescriptor fw bs = Some (True, r) \<longleftrightarrow> bs = fw_commandDescriptor fw @ r"
  using assms by (simp_all add: fw_documented_def fw_reads_def)

lemma fw_sizes:
  assumes "fw_documented fw"
  shows "length (fw_ser8 fw b) = 1" "length (fw_ser16 fw h) = 2" "length (fw_ser32 fw w) = 4"
    "length (fw_commandDescriptor fw) = fw_descriptorSize fw"
  using assms by (simp_all add: fw_documented_def fw_widths_def)

lemma fw_packet:
  assumes "fw_documented fw"
  shows "fw_cmdPacket fw bs = Some (op, args) \<longleftrightarrow> bs = fw_command fw op args \<and> length bs \<le> FW_COM_BUFFER_MAX_SIZE"
  using assms by (simp add: fw_documented_def fw_packets_def fw_command_def)

lemma fw_room:
  assumes "fw_documented fw"
  shows "fw_append fw buf bs = (if length buf + length bs \<le> FW_COM_BUFFER_MAX_SIZE then Some (buf @ bs) else None)"
    "fw_put fw bs buf = (if length buf + length bs \<le> FW_COM_BUFFER_MAX_SIZE then buf @ bs else buf)"
  using assms by (simp_all add: fw_documented_def fw_bounded_def fw_put_def)

lemma put_all:
  assumes "fw_documented fw"
  shows "length buf + length (concat pieces) \<le> FW_COM_BUFFER_MAX_SIZE \<Longrightarrow> fold (fw_put fw) pieces buf = buf @ concat pieces"
  by (induction pieces arbitrary: buf) (simp_all add: fw_room [OF assms])

lemma length_command: "fw_documented fw \<Longrightarrow> length (fw_command fw op args) = MIN_INNER_COMMAND_SIZE fw + length args"
  by (simp add: fw_command_def MIN_INNER_COMMAND_SIZE_def fw_sizes)

lemma command_opcode: "fw_documented fw \<Longrightarrow> tryDecodeInnerOpcode fw (fw_command fw op args) = op"
  by (simp add: tryDecodeInnerOpcode_def fw_command_def MIN_INNER_COMMAND_SIZE_def fw_sizes fw_des [THEN iffD2, OF _ refl])

section \<open>An instance\<close>

text \<open>Big-endian integers and a descriptor of two bytes.\<close>

definition demoSerial :: fwSerial where
  "demoSerial = \<lparr>fw_ser8 = (\<lambda>x. [x]), fw_ser16 = be16, fw_ser32 = be32,
     fw_des8 = (\<lambda>bs. case bs of [] \<Rightarrow> None | b # r \<Rightarrow> Some (b, r)),
     fw_des16 = (\<lambda>bs. if length bs < 2 then None else Some (get_be16 bs 0, drop 2 bs)),
     fw_des32 = (\<lambda>bs. if length bs < 4 then None else Some (get_be32 bs 0, drop 4 bs)),
     fw_descriptorSize = 2, fw_commandDescriptor = [0, 0],
     fw_desDescriptor = (\<lambda>bs. if length bs < 2 then None else Some (take 2 bs = [0, 0], drop 2 bs)),
     fw_cmdPacket = (\<lambda>bs. if length bs < 6 \<or> length bs > FW_COM_BUFFER_MAX_SIZE \<or> take 2 bs \<noteq> [0, 0] then None
                      else Some (get_be32 bs 2, drop 6 bs)),
     fw_append = (\<lambda>buf bs. if length buf + length bs \<le> FW_COM_BUFFER_MAX_SIZE then Some (buf @ bs) else None)\<rparr>"

lemma split16: "be16 (push_bit 8 (ucast a) OR ucast b) = [a, b]" for a b :: u8
  unfolding be16_def by (simp, intro conjI; rule bit_word_eqI) (auto simp: bit_simps dest: bit_imp_le_length)

lemma split32: "be32 (push_bit 24 (ucast a) OR push_bit 16 (ucast b) OR push_bit 8 (ucast c) OR ucast d) = [a, b, c, d]"
  for a b c d :: u8
  unfolding be32_def by (simp, intro conjI; rule bit_word_eqI) (auto simp: bit_simps dest: bit_imp_le_length)

lemma demo_des16: "(if length bs < 2 then None else Some (get_be16 bs 0, drop 2 bs)) = Some (x, r) \<longleftrightarrow> bs = be16 x @ r"
proof
  assume "(if length bs < 2 then None else Some (get_be16 bs 0, drop 2 bs)) = Some (x, r)"
  then obtain a b where "bs = [a, b] @ r" "x = get_be16 bs 0"
    by (cases bs; cases "tl bs") (auto split: if_splits)
  then show "bs = be16 x @ r"
    using split16 [of a b] by (simp add: get_be16_def)
next
  assume "bs = be16 x @ r"
  then show "(if length bs < 2 then None else Some (get_be16 bs 0, drop 2 bs)) = Some (x, r)"
    using get_be16_encode [of "[]" x r] by simp
qed

lemma four: "\<not> length bs < 4 \<Longrightarrow> \<exists>a b c d r. bs = [a, b, c, d] @ r"
  by (cases bs; cases "tl bs"; cases "tl (tl bs)"; cases "tl (tl (tl bs))") auto

lemma demo_des32: "(if length bs < 4 then None else Some (get_be32 bs 0, drop 4 bs)) = Some (x, r) \<longleftrightarrow> bs = be32 x @ r"
proof
  assume s: "(if length bs < 4 then None else Some (get_be32 bs 0, drop 4 bs)) = Some (x, r)"
  then obtain a b c d r' where "bs = [a, b, c, d] @ r'"
    using four [of bs] by (auto split: if_splits)
  with s show "bs = be32 x @ r"
    using split32 [of a b c d] by (auto simp: get_be32_def numeral_3_eq_3 numeral_2_eq_2)
next
  assume "bs = be32 x @ r"
  then show "(if length bs < 4 then None else Some (get_be32 bs 0, drop 4 bs)) = Some (x, r)"
    using get_be32_encode [of "[]" x r] by simp
qed

lemma two: "take 2 bs = [0, 0] \<longleftrightarrow> (\<exists>r. bs = 0 # 0 # r)" for bs :: bytes
  by (cases bs; cases "tl bs") auto

lemma demo_packet:
  "fw_cmdPacket demoSerial bs = Some (op, args) \<longleftrightarrow> bs = [0, 0] @ be32 op @ args \<and> length bs \<le> FW_COM_BUFFER_MAX_SIZE"
proof (cases "\<exists>r. bs = 0 # 0 # r")
  case True
  then obtain r where r: "bs = 0 # 0 # r" ..
  have "get_be32 bs 2 = get_be32 r 0"
    by (simp add: r get_be32_def numeral_2_eq_2 numeral_3_eq_3)
  then show ?thesis
    using demo_des32 [of r op args] by (auto simp: demoSerial_def r not_less)
next
  case False
  then show ?thesis
    by (auto simp: demoSerial_def two)
qed

lemma demo_des8: "(case bs of [] \<Rightarrow> None | b # r \<Rightarrow> Some (b, r)) = Some (x, r) \<longleftrightarrow> bs = x # r"
  by (cases bs) simp_all

lemma demo_descriptor:
  "(if length bs < 2 then None else Some (take 2 bs = [0, 0], drop 2 bs)) = Some (True, r) \<longleftrightarrow> bs = 0 # 0 # (r :: bytes)"
  by (cases bs; cases "tl bs") auto

lemma demoSerial_documented: "fw_documented demoSerial"
  unfolding fw_documented_def fw_packets_def demo_packet
  by (simp add: fw_reads_def fw_widths_def fw_bounded_def demoSerial_def demo_des8 demo_des16 demo_des32 demo_descriptor)

lemma demo_min: "MIN_INNER_COMMAND_SIZE demoSerial = 6"
  by (simp add: MIN_INNER_COMMAND_SIZE_def demoSerial_def)

end
