(* ===== verification/Auth_Crypto.thy ===== *)
theory Auth_Crypto
  imports Obc_Prelude
begin

text \<open>
  \<open>CommandAuthCrypto\<close>: SHA-256 as a streaming accumulator, HMAC over it, and the comparison of digests. The
  reference definition pads the whole message and folds the compression function over its blocks of
  64 bytes. The buffer of the accumulator is a list of 64 bytes of which the first \<open>m_bufferSize\<close> are pending.
\<close>

unbundle bit_operations_syntax

section \<open>The accumulator\<close>

record sha256Accumulator =
  m_state :: "u32 list"
  m_totalBytes :: u64
  m_buffer :: bytes
  m_bufferSize :: nat

definition SHA256_BLOCK_SIZE :: nat where "SHA256_BLOCK_SIZE = 64"

definition SHA256_INITIAL :: "u32 list" where
  "SHA256_INITIAL = [0x6A09E667, 0xBB67AE85, 0x3C6EF372, 0xA54FF53A, 0x510E527F, 0x9B05688C, 0x1F83D9AB, 0x5BE0CD19]"

definition sha256_init :: sha256Accumulator where
  "sha256_init = \<lparr>m_state = SHA256_INITIAL, m_totalBytes = 0, m_buffer = replicate SHA256_BLOCK_SIZE 0, m_bufferSize = 0\<rparr>"

definition rotateRight :: "u32 \<Rightarrow> nat \<Rightarrow> u32" where
  "rotateRight v count = drop_bit count v OR push_bit (32 - count) v"

definition choose_ch :: "u32 \<Rightarrow> u32 \<Rightarrow> u32 \<Rightarrow> u32" where
  "choose_ch x y z = (x AND y) XOR ((NOT x) AND z)"

definition majority :: "u32 \<Rightarrow> u32 \<Rightarrow> u32 \<Rightarrow> u32" where
  "majority x y z = (x AND y) XOR (x AND z) XOR (y AND z)"

definition bigSigma0 :: "u32 \<Rightarrow> u32" where
  "bigSigma0 v = rotateRight v 2 XOR rotateRight v 13 XOR rotateRight v 22"

definition bigSigma1 :: "u32 \<Rightarrow> u32" where
  "bigSigma1 v = rotateRight v 6 XOR rotateRight v 11 XOR rotateRight v 25"

definition smallSigma0 :: "u32 \<Rightarrow> u32" where
  "smallSigma0 v = rotateRight v 7 XOR rotateRight v 18 XOR drop_bit 3 v"

definition smallSigma1 :: "u32 \<Rightarrow> u32" where
  "smallSigma1 v = rotateRight v 17 XOR rotateRight v 19 XOR drop_bit 10 v"

definition SHA256_K :: "u32 list" where
  "SHA256_K = [
   0x428A2F98, 0x71374491, 0xB5C0FBCF, 0xE9B5DBA5, 0x3956C25B, 0x59F111F1, 0x923F82A4, 0xAB1C5ED5,
   0xD807AA98, 0x12835B01, 0x243185BE, 0x550C7DC3, 0x72BE5D74, 0x80DEB1FE, 0x9BDC06A7, 0xC19BF174,
   0xE49B69C1, 0xEFBE4786, 0x0FC19DC6, 0x240CA1CC, 0x2DE92C6F, 0x4A7484AA, 0x5CB0A9DC, 0x76F988DA,
   0x983E5152, 0xA831C66D, 0xB00327C8, 0xBF597FC7, 0xC6E00BF3, 0xD5A79147, 0x06CA6351, 0x14292967,
   0x27B70A85, 0x2E1B2138, 0x4D2C6DFC, 0x53380D13, 0x650A7354, 0x766A0ABB, 0x81C2C92E, 0x92722C85,
   0xA2BFE8A1, 0xA81A664B, 0xC24B8B70, 0xC76C51A3, 0xD192E819, 0xD6990624, 0xF40E3585, 0x106AA070,
   0x19A4C116, 0x1E376C08, 0x2748774C, 0x34B0BCB5, 0x391C0CB3, 0x4ED8AA4A, 0x5B9CCA4F, 0x682E6FF3,
   0x748F82EE, 0x78A5636F, 0x84C87814, 0x8CC70208, 0x90BEFFFA, 0xA4506CEB, 0xBEF9A3F7, 0xC67178F2]"

definition scheduleStep :: "nat \<Rightarrow> u32 list \<Rightarrow> u32 list" where
  "scheduleStep i w = w[i := smallSigma1 (w ! (i - 2)) + w ! (i - 7) + smallSigma0 (w ! (i - 15)) + w ! (i - 16)]"

definition sha256_schedule :: "bytes \<Rightarrow> u32 list" where
  "sha256_schedule block =
     fold scheduleStep [16..<64] (map (\<lambda>i. get_be32 block (i * 4)) [0..<16] @ replicate 48 0)"

type_synonym sha256Regs = "u32 \<times> u32 \<times> u32 \<times> u32 \<times> u32 \<times> u32 \<times> u32 \<times> u32"

fun sha256_round :: "u32 \<Rightarrow> u32 \<Rightarrow> sha256Regs \<Rightarrow> sha256Regs" where
  "sha256_round k s (a, b, c, d, e, f, g, h) =
     (let temp1 = h + bigSigma1 e + choose_ch e f g + k + s;
          temp2 = bigSigma0 a + majority a b c
      in (temp1 + temp2, a, b, c, d + temp1, e, f, g))"

fun sha256_rounds :: "u32 list \<Rightarrow> u32 list \<Rightarrow> sha256Regs \<Rightarrow> sha256Regs" where
  "sha256_rounds (k # ks) (s # ss) r = sha256_rounds ks ss (sha256_round k s r)"
| "sha256_rounds _ _ r = r"

definition sha256_transform :: "bytes \<Rightarrow> u32 list \<Rightarrow> u32 list" where
  "sha256_transform block st =
     (case sha256_rounds SHA256_K (sha256_schedule block) (st ! 0, st ! 1, st ! 2, st ! 3, st ! 4, st ! 5, st ! 6, st ! 7) of
        (a, b, c, d, e, f, g, h) \<Rightarrow>
          [st ! 0 + a, st ! 1 + b, st ! 2 + c, st ! 3 + d, st ! 4 + e, st ! 5 + f, st ! 6 + g, st ! 7 + h])"

text \<open>\<open>std::copy_n\<close> into the buffer at an offset.\<close>

definition copyInto :: "nat \<Rightarrow> bytes \<Rightarrow> bytes \<Rightarrow> bytes" where
  "copyInto offset src dst = take offset dst @ src @ drop (offset + length src) dst"

text \<open>
  The loop of \<open>update\<close> on the bytes that are left. Between iterations fewer than 64 bytes are pending (lemma
  \<open>sha_update\<close>); with a full buffer the loop of the code would copy nothing, and the model stops.
\<close>

function sha256_updateLoop :: "bytes \<Rightarrow> sha256Accumulator \<Rightarrow> sha256Accumulator" where
  "sha256_updateLoop data acc =
     (if data = [] \<or> SHA256_BLOCK_SIZE \<le> m_bufferSize acc then acc
      else let copySize = min (SHA256_BLOCK_SIZE - m_bufferSize acc) (length data);
               acc1 = acc\<lparr>m_buffer := copyInto (m_bufferSize acc) (take copySize data) (m_buffer acc),
                          m_bufferSize := m_bufferSize acc + copySize\<rparr>;
               acc2 = (if m_bufferSize acc1 = SHA256_BLOCK_SIZE
                       then acc1\<lparr>m_state := sha256_transform (m_buffer acc1) (m_state acc1), m_bufferSize := 0\<rparr> else acc1)
           in sha256_updateLoop (drop copySize data) acc2)"
  by auto
termination
  by (relation "measure (\<lambda>(data, acc). length data)") (auto simp: min_def)

declare sha256_updateLoop.simps [simp del]

text \<open>A null pointer or an empty range leaves the accumulator alone.\<close>

definition sha256_update :: "bytes \<Rightarrow> sha256Accumulator \<Rightarrow> sha256Accumulator" where
  "sha256_update data acc =
     (if data = [] then acc
      else sha256_updateLoop data (acc\<lparr>m_totalBytes := m_totalBytes acc + word_of_nat (length data)\<rparr>))"

definition be64 :: "u64 \<Rightarrow> bytes" where
  "be64 v = map (\<lambda>i. ucast (drop_bit (8 * (7 - i)) v AND 0xFF)) [0..<8]"

definition sha256_final :: "sha256Accumulator \<Rightarrow> bytes" where
  "sha256_final acc =
     (let acc1 = acc\<lparr>m_buffer := copyInto (m_bufferSize acc) [0x80] (m_buffer acc), m_bufferSize := m_bufferSize acc + 1\<rparr>;
          acc2 = (if m_bufferSize acc1 > SHA256_BLOCK_SIZE - 8
                  then let buf = copyInto (m_bufferSize acc1) (replicate (SHA256_BLOCK_SIZE - m_bufferSize acc1) 0) (m_buffer acc1)
                       in acc1\<lparr>m_buffer := buf, m_state := sha256_transform buf (m_state acc1), m_bufferSize := 0\<rparr>
                  else acc1);
          zeroed = copyInto (m_bufferSize acc2) (replicate (SHA256_BLOCK_SIZE - 8 - m_bufferSize acc2) 0) (m_buffer acc2);
          totalBits = m_totalBytes acc2 * 8;
          lastBlock = copyInto (SHA256_BLOCK_SIZE - 8) (be64 totalBits) zeroed
      in concat (map be32 (sha256_transform lastBlock (m_state acc2))))"

definition sha256Bytes :: "bytes \<Rightarrow> bytes" where
  "sha256Bytes data = sha256_final (sha256_update data sha256_init)"

text \<open>Pointers may be null; the key range may be empty.\<close>

definition hmacSha256 :: "bytes option \<Rightarrow> bytes option \<Rightarrow> bytes option" where
  "hmacSha256 key data =
     (case (key, data) of
        (Some k, Some d) \<Rightarrow>
          if k = [] then None
          else let normalizedKey = (if length k > SHA256_BLOCK_SIZE then copyInto 0 (sha256Bytes k) (replicate SHA256_BLOCK_SIZE 0)
                                    else copyInto 0 k (replicate SHA256_BLOCK_SIZE 0));
                   innerPad = map (\<lambda>b. b XOR 0x36) normalizedKey;
                   outerPad = map (\<lambda>b. b XOR 0x5C) normalizedKey;
                   innerDigest = sha256_final (sha256_update d (sha256_update innerPad sha256_init))
               in Some (sha256_final (sha256_update innerDigest (sha256_update outerPad sha256_init)))
      | _ \<Rightarrow> None)"

definition constantTimeEqual :: "bytes option \<Rightarrow> bytes option \<Rightarrow> nat \<Rightarrow> bool" where
  "constantTimeEqual lhs rhs sz =
     (case (lhs, rhs) of
        (Some l, Some r) \<Rightarrow> fold (\<lambda>i diff. diff OR (l ! i XOR r ! i)) [0..<sz] 0 = (0 :: u8)
      | _ \<Rightarrow> False)"

section \<open>The reference definition\<close>

function blocks64 :: "bytes \<Rightarrow> bytes list" where
  "blocks64 bs = (if length bs < 64 then [] else take 64 bs # blocks64 (drop 64 bs))"
  by auto
termination
  by (relation "measure length") auto

declare blocks64.simps [simp del]

definition sha256_pad :: "bytes \<Rightarrow> bytes" where
  "sha256_pad msg = msg @ 0x80 # replicate ((119 - length msg mod 64) mod 64) 0 @ be64 (word_of_nat (length msg) * 8)"

definition sha256_compress :: "bytes \<Rightarrow> u32 list \<Rightarrow> u32 list" where
  "sha256_compress bs st = fold sha256_transform (blocks64 bs) st"

definition sha256_ref :: "bytes \<Rightarrow> bytes" where
  "sha256_ref msg = concat (map be32 (sha256_compress (sha256_pad msg) SHA256_INITIAL))"

definition hmac_ref :: "bytes \<Rightarrow> bytes \<Rightarrow> bytes" where
  "hmac_ref key msg =
     (let k = (if length key > 64 then sha256_ref key else key);
          k0 = k @ replicate (64 - length k) 0
      in sha256_ref (map (\<lambda>b. b XOR 0x5C) k0 @ sha256_ref (map (\<lambda>b. b XOR 0x36) k0 @ msg)))"

lemma blocks_nil: "length bs < 64 \<Longrightarrow> blocks64 bs = []"
  by (subst blocks64.simps) simp

lemma blocks_cons: "length b = 64 \<Longrightarrow> blocks64 (b @ bs) = b # blocks64 bs"
  by (subst blocks64.simps) simp

lemma blocks_append: "64 dvd length a \<Longrightarrow> blocks64 (a @ b) = blocks64 a @ blocks64 b"
proof (induction a rule: blocks64.induct)
  case (1 a)
  show ?case
  proof (cases "length a < 64")
    case True
    then have "a = []"
      using "1.prems" by (auto dest!: dvd_imp_le)
    then show ?thesis
      by (simp add: blocks_nil)
  next
    case False
    then have dv: "64 dvd length (drop 64 a)"
      using "1.prems" by (simp add: dvd_minus_self)
    have "blocks64 (a @ b) = take 64 a # blocks64 (drop 64 a @ b)" "blocks64 a = take 64 a # blocks64 (drop 64 a)"
      using False by (subst blocks64.simps, simp)+
    then show ?thesis
      using "1.IH" [OF False dv] by simp
  qed
qed

lemma compress_append: "64 dvd length a \<Longrightarrow> sha256_compress (a @ b) st = sha256_compress b (sha256_compress a st)"
  by (simp add: sha256_compress_def blocks_append)

lemma compress_block: "length b = 64 \<Longrightarrow> sha256_compress b st = sha256_transform b st"
  using blocks_cons [of b "[]"] by (simp add: sha256_compress_def blocks_nil)

section \<open>Streaming\<close>

text \<open>The accumulator has taken in the message: the full blocks are compressed, the rest is pending.\<close>

definition sha_at :: "sha256Accumulator \<Rightarrow> bytes \<Rightarrow> bool" where
  "sha_at acc msg \<longleftrightarrow> (\<exists>done rest. msg = done @ rest \<and> 64 dvd length done \<and> length rest < 64 \<and>
     m_state acc = sha256_compress done SHA256_INITIAL \<and> m_bufferSize acc = length rest \<and>
     take (length rest) (m_buffer acc) = rest \<and> length (m_buffer acc) = 64)"

lemma sha_at_init: "sha_at sha256_init []"
  by (simp add: sha_at_def sha256_init_def SHA256_BLOCK_SIZE_def sha256_compress_def blocks_nil)

lemma length_copyInto: "off + length src \<le> length dst \<Longrightarrow> length (copyInto off src dst) = length dst"
  by (simp add: copyInto_def)

lemma take_copyInto: "off \<le> length dst \<Longrightarrow> take (off + length src) (copyInto off src dst) = take off dst @ src"
  by (simp add: copyInto_def min_def)

lemma sha_loop:
  "sha_at acc msg \<Longrightarrow> sha_at (sha256_updateLoop data acc) (msg @ data) \<and>
   m_totalBytes (sha256_updateLoop data acc) = m_totalBytes acc"
proof (induction data acc arbitrary: msg rule: sha256_updateLoop.induct)
  case (1 data acc)
  obtain don rest where at: "msg = don @ rest" "64 dvd length don" "length rest < 64"
    "m_state acc = sha256_compress don SHA256_INITIAL" "m_bufferSize acc = length rest"
    "take (length rest) (m_buffer acc) = rest" "length (m_buffer acc) = 64"
    using "1.prems" by (auto simp: sha_at_def)
  show ?case
  proof (cases "data = []")
    case True
    then show ?thesis
      using "1.prems" by (subst (1 2) sha256_updateLoop.simps) simp
  next
    case False
    define n where "n = min (SHA256_BLOCK_SIZE - m_bufferSize acc) (length data)"
    define a1 where "a1 = acc\<lparr>m_buffer := copyInto (m_bufferSize acc) (take n data) (m_buffer acc),
      m_bufferSize := m_bufferSize acc + n\<rparr>"
    define a2 where "a2 = (if m_bufferSize a1 = SHA256_BLOCK_SIZE
      then a1\<lparr>m_state := sha256_transform (m_buffer a1) (m_state a1), m_bufferSize := 0\<rparr> else a1)"
    have go: "\<not> (data = [] \<or> SHA256_BLOCK_SIZE \<le> m_bufferSize acc)"
      using False at by (simp add: SHA256_BLOCK_SIZE_def)
    have run: "sha256_updateLoop data acc = sha256_updateLoop (drop n data) a2"
      using go by (subst sha256_updateLoop.simps) (simp add: n_def a1_def a2_def Let_def)
    have n: "n \<le> 64 - length rest" "n \<le> length data" "length (take n data) = n"
      using at by (auto simp: n_def SHA256_BLOCK_SIZE_def)
    have buf: "length (m_buffer a1) = 64" "take (length rest + n) (m_buffer a1) = rest @ take n data"
      using length_copyInto [of "length rest" "take n data" "m_buffer acc"]
        take_copyInto [of "length rest" "m_buffer acc" "take n data"] at n by (simp_all add: a1_def)
    have "sha_at a2 (msg @ take n data)"
    proof (cases "length rest + n = 64")
      case True
      have full: "m_buffer a1 = rest @ take n data"
        using buf True by simp
      have "sha256_compress (don @ rest @ take n data) SHA256_INITIAL = sha256_transform (m_buffer a1) (m_state a1)"
        unfolding full using at True n by (simp add: compress_append compress_block a1_def)
      then show ?thesis
        unfolding sha_at_def using True at buf n
        by (intro exI [of _ "don @ rest @ take n data"] exI [of _ "[]"]) (simp add: a2_def a1_def SHA256_BLOCK_SIZE_def)
    next
      case part: False
      then show ?thesis
        unfolding sha_at_def using at buf n
        by (intro exI [of _ don] exI [of _ "rest @ take n data"]) (simp add: a2_def a1_def SHA256_BLOCK_SIZE_def)
    qed
    from "1.IH" [OF go n_def a1_def a2_def this] show ?thesis
      by (simp add: run) (simp add: a1_def a2_def)
  qed
qed

definition sha_ready :: "sha256Accumulator \<Rightarrow> bytes \<Rightarrow> bool" where
  "sha_ready acc msg \<longleftrightarrow> sha_at acc msg \<and> m_totalBytes acc = word_of_nat (length msg)"

lemma sha_ready_init: "sha_ready sha256_init []"
  by (simp add: sha_ready_def sha_at_init) (simp add: sha256_init_def)

lemma sha_update: "sha_ready acc msg \<Longrightarrow> sha_ready (sha256_update data acc) (msg @ data)"
  using sha_loop [of "acc\<lparr>m_totalBytes := m_totalBytes acc + word_of_nat (length data)\<rparr>" msg data]
  by (auto simp: sha_ready_def sha256_update_def sha_at_def)

lemma length_be64 [simp]: "length (be64 v) = 8"
  by (simp add: be64_def)

lemma copyInto_append: "off = length xs \<Longrightarrow> copyInto off src (xs @ ys) = xs @ src @ drop (length src) ys"
  by (simp add: copyInto_def)

lemma last_block:
  assumes "length rest + 1 \<le> 56" "length buf = 64" "take (length rest + 1) buf = rest @ [0x80 :: u8]"
  shows "copyInto 56 (be64 x) (copyInto (length rest + 1) (replicate (55 - length rest) 0) buf) =
    rest @ 0x80 # replicate (55 - length rest) 0 @ be64 x"
proof -
  have zeros: "copyInto (length rest + 1) (replicate (55 - length rest) 0) buf =
      (rest @ [0x80] @ replicate (55 - length rest) 0) @ drop 56 buf"
    using assms by (simp add: copyInto_def)
  have "56 = length (rest @ [0x80 :: u8] @ replicate (55 - length rest) 0)"
    using assms by simp
  from copyInto_append [OF this] show ?thesis
    unfolding zeros using assms by simp
qed

lemma length_transform: "length (sha256_transform b st) = 8"
  by (simp add: sha256_transform_def split: prod.split)

lemma sha_final:
  assumes "sha_ready acc msg"
  shows "sha256_final acc = sha256_ref msg"
proof -
  obtain don rest where at: "msg = don @ rest" "64 dvd length don" "length rest < 64"
    "m_state acc = sha256_compress don SHA256_INITIAL" "m_bufferSize acc = length rest"
    "take (length rest) (m_buffer acc) = rest" "length (m_buffer acc) = 64" "m_totalBytes acc = word_of_nat (length msg)"
    using assms by (auto simp: sha_ready_def sha_at_def)
  let ?r = "length rest"
  define len where "len = be64 (word_of_nat (length msg) * 8)"
  have len8: "length len = 8"
    by (simp add: len_def)
  define b1 where "b1 = copyInto ?r [0x80] (m_buffer acc)"
  have b1: "length b1 = 64" "take (?r + 1) b1 = rest @ [0x80]"
    using at length_copyInto [of ?r "[0x80]" "m_buffer acc"] take_copyInto [of ?r "m_buffer acc" "[0x80]"]
    by (simp_all add: b1_def)
  have mod: "length msg mod 64 = ?r"
    using at(1-3) by (auto elim!: dvdE)
  show ?thesis
  proof (cases "?r + 1 \<le> 56")
    case True
    have blk: "copyInto 56 len (copyInto (?r + 1) (replicate (55 - ?r) 0) b1) = rest @ 0x80 # replicate (55 - ?r) 0 @ len"
      unfolding len_def by (rule last_block [OF True b1])
    have "119 - ?r = 64 + (55 - ?r)"
      using True by simp
    then have "(119 - ?r) mod 64 = 55 - ?r"
      by (simp only: mod_add_self1) (simp add: mod_less)
    then have pad: "sha256_pad msg = don @ (rest @ 0x80 # replicate (55 - ?r) 0 @ len)"
      unfolding sha256_pad_def mod len_def [symmetric] by (simp add: at(1))
    have "length (rest @ 0x80 # replicate (55 - ?r) 0 @ len) = 64"
      using True len8 by simp
    then have "sha256_compress (sha256_pad msg) SHA256_INITIAL =
        sha256_transform (rest @ 0x80 # replicate (55 - ?r) 0 @ len) (m_state acc)"
      unfolding pad compress_append [OF at(2)] at(4) by (rule compress_block)
    then show ?thesis
      using True at(5,8) blk by (simp add: sha256_final_def sha256_ref_def Let_def SHA256_BLOCK_SIZE_def b1_def [symmetric] len_def [symmetric])
  next
    case False
    have blk: "copyInto (?r + 1) (replicate (63 - ?r) 0) b1 = rest @ 0x80 # replicate (63 - ?r) 0"
      using at(3) b1 by (simp add: copyInto_def)
    have last: "copyInto 56 len (copyInto 0 (replicate 56 0) b2) = replicate 56 0 @ len" if "length b2 = 64" for b2
      using that len8 by (simp add: copyInto_def)
    have "(119 - ?r) mod 64 = 63 - ?r + 56"
      using False at(3) by (subst mod_less) simp_all
    then have pad: "sha256_pad msg = don @ (rest @ 0x80 # replicate (63 - ?r) 0) @ (replicate 56 0 @ len)"
      unfolding sha256_pad_def mod len_def [symmetric] by (simp only: at(1) replicate_add append_assoc append_Cons)
    have b64: "length (rest @ 0x80 # replicate (63 - ?r) (0 :: u8)) = 64" "length (replicate 56 0 @ len) = 64"
      using at(3) len8 by simp_all
    have "sha256_compress (sha256_pad msg) SHA256_INITIAL =
        sha256_transform (replicate 56 0 @ len) (sha256_transform (rest @ 0x80 # replicate (63 - ?r) 0) (m_state acc))"
      unfolding pad compress_append [OF at(2)] at(4) using b64 by (simp only: compress_append compress_block dvd_refl)
    then show ?thesis
      using False at(3,5,8) blk last [of "rest @ 0x80 # replicate (63 - ?r) 0"]
      by (simp add: sha256_final_def sha256_ref_def Let_def SHA256_BLOCK_SIZE_def b1_def [symmetric] len_def [symmetric])
  qed
qed

lemma sha256Bytes_ref: "sha256Bytes data = sha256_ref data"
  using sha_final [OF sha_update [OF sha_ready_init, of data]] by (simp add: sha256Bytes_def)

lemma length_concat_be32: "length (concat (map be32 ws)) = 4 * length ws"
  by (induction ws) simp_all

lemma length_fold_transform: "length st = 8 \<Longrightarrow> length (fold sha256_transform bl st) = 8"
  by (induction bl arbitrary: st) (simp_all add: length_transform)

lemma length_sha256 [simp]: "length (sha256_ref msg) = 32"
proof -
  have "length (sha256_compress (sha256_pad msg) SHA256_INITIAL) = 8"
    by (simp add: sha256_compress_def length_fold_transform SHA256_INITIAL_def)
  then show ?thesis
    by (simp add: sha256_ref_def length_concat_be32)
qed

lemma sha_two_updates: "sha256_final (sha256_update d2 (sha256_update d1 sha256_init)) = sha256_ref (d1 @ d2)"
  using sha_final [OF sha_update [OF sha_update [OF sha_ready_init, of d1], of d2]] by simp

lemma hmac_value: "key \<noteq> [] \<Longrightarrow> hmacSha256 (Some key) (Some msg) = Some (hmac_ref key msg)"
  by (simp add: hmacSha256_def hmac_ref_def Let_def sha_two_updates sha256Bytes_ref copyInto_def SHA256_BLOCK_SIZE_def)

lemma length_hmac [simp]: "length (hmac_ref key msg) = 32"
  by (simp add: hmac_ref_def Let_def)

text \<open>C9: The streaming SHA-256 of the code computes the padded, block-wise definition. However the message is split
  over calls of update, the digest is that of the concatenation; it has 32 bytes.\<close>
theorem sha256_streaming_is_padded:
  "sha256_final (fold sha256_update pieces sha256_init) = sha256_ref (concat pieces) \<and>
   length (sha256_final (fold sha256_update pieces sha256_init)) = 32"
proof -
  have "sha_ready acc msg \<Longrightarrow> sha_ready (fold sha256_update pieces acc) (msg @ concat pieces)" for acc msg
  proof (induction pieces arbitrary: acc msg)
    case (Cons p ps)
    from Cons.IH [OF sha_update [OF Cons.prems, of p]] show ?case
      by simp
  qed simp
  from sha_final [OF this [OF sha_ready_init]] show ?thesis
    by simp
qed

text \<open>C22: The message authentication code is the nested hash of the HMAC definition for every key and message, with
  a long key hashed first; it is refused only for a null pointer or an empty key.\<close>
theorem hmac_is_nested_hash:
  "hmacSha256 key msg =
     (case (key, msg) of (Some k, Some m) \<Rightarrow> if k = [] then None else Some (hmac_ref k m) | _ \<Rightarrow> None)"
  by (cases key; cases msg) (simp_all add: hmac_value, simp_all add: hmacSha256_def)

lemma diff_fold: "fold (\<lambda>i diff. diff OR (l ! i XOR r ! i)) [0..<n] d = (0 :: u8) \<longleftrightarrow> d = 0 \<and> (\<forall>i < n. l ! i = (r ! i :: u8))"
proof (induction n)
  case (Suc n)
  have "x XOR y = 0 \<longleftrightarrow> x = y" for x y :: u8
    by (auto simp: bit_eq_iff bit_xor_iff)
  then show ?case
    using Suc by (auto simp: less_Suc_eq or_eq_0_iff)
qed simp

lemma constantTimeEqual_eq: "length l = n \<Longrightarrow> length r = n \<Longrightarrow> constantTimeEqual (Some l) (Some r) n \<longleftrightarrow> l = r"
  by (auto simp: constantTimeEqual_def diff_fold intro: nth_equalityI)

end
