(* ===== verification/Secure_Command.thy ===== *)
theory Secure_Command
  imports Fw_Packets Auth_Crypto
begin

text \<open>
  \<open>SecureCommandV2Metadata\<close>: parsing, authenticating and building the secure command packets of the radio links. A
  communication buffer is its list of bytes; the parser returns the inner command buffer with its result.
\<close>

definition OBC_SECURE_COMMAND_V2_OPCODE :: u32 where "OBC_SECURE_COMMAND_V2_OPCODE = 0x0BC20001"

definition SECURE_COMMAND_V2_MAGIC :: u32 where "SECURE_COMMAND_V2_MAGIC = 0x0BC0DE02"

definition SECURE_COMMAND_V2_VERSION :: u8 where "SECURE_COMMAND_V2_VERSION = 2"

definition SECURE_COMMAND_V2_HEADER_LENGTH :: u16 where "SECURE_COMMAND_V2_HEADER_LENGTH = 20"

definition SECURE_COMMAND_V2_MAC_LENGTH :: u16 where "SECURE_COMMAND_V2_MAC_LENGTH = 32"

definition SECURE_COMMAND_V2_SESSION_KEY_SIZE :: nat where "SECURE_COMMAND_V2_SESSION_KEY_SIZE = 32"

datatype secureCommandV2RejectReason = SC_NONE | SC_BAD_MAGIC | SC_UNSUPPORTED_VERSION | SC_NONZERO_FLAGS |
  SC_BAD_HEADER_LENGTH | SC_NONZERO_RESERVED | SC_TRUNCATED_HEADER | SC_TRUNCATED_INNER_COMMAND | SC_OVERSIZED_INNER_COMMAND |
  SC_BAD_MAC_LENGTH | SC_TRUNCATED_AUTH_TAG | SC_UNEXPECTED_TRAILING_BYTES | SC_INVALID_INNER_COMMAND | SC_AUTH_REQUIRED |
  SC_SERVICE_MISMATCH | SC_BAD_MAC | SC_SEQUENCE_NOT_INCREASING | SC_SEQUENCE_WINDOW_FULL | SC_INVALID_CONFIG

record secureCommandV2ParseResult =
  sc_valid :: bool
  sc_reason :: secureCommandV2RejectReason
  sc_sequenceNumber :: u32
  sc_innerOpcode :: u32
  sc_responseOpcode :: u32
  sc_authTag :: bytes

definition sc_reject :: "secureCommandV2RejectReason \<Rightarrow> u32 \<Rightarrow> secureCommandV2ParseResult" where
  "sc_reject reason responseOpcode = \<lparr>sc_valid = False, sc_reason = reason, sc_sequenceNumber = 0, sc_innerOpcode = UNKNOWN_OPCODE,
     sc_responseOpcode = responseOpcode, sc_authTag = replicate (unat SECURE_COMMAND_V2_MAC_LENGTH) 0\<rparr>"

text \<open>The bytes of "CMD-V2".\<close>

definition SECURE_COMMAND_V2_AUTH_LABEL :: bytes where
  "SECURE_COMMAND_V2_AUTH_LABEL = [0x43, 0x4D, 0x44, 0x2D, 0x56, 0x32]"

definition serializeSecureCommandAuthMaterial :: "fwSerial \<Rightarrow> u32 \<Rightarrow> bytes \<Rightarrow> bytes option" where
  "serializeSecureCommandAuthMaterial fw sequenceNumber innerCommand =
     do { m1 \<leftarrow> fw_append fw [] SECURE_COMMAND_V2_AUTH_LABEL;
          m2 \<leftarrow> fw_append fw m1 (fw_ser32 fw sequenceNumber);
          fw_append fw m2 innerCommand }"

definition sc_decodeInner :: "fwSerial \<Rightarrow> bytes \<Rightarrow> u32 \<Rightarrow> nat \<Rightarrow> bytes \<Rightarrow> secureCommandV2ParseResult" where
  "sc_decodeInner fw innerCommand sequenceNumber innerLength authTag =
     (if innerLength > FW_COM_BUFFER_MAX_SIZE then sc_reject SC_OVERSIZED_INNER_COMMAND UNKNOWN_OPCODE
      else if innerLength < MIN_INNER_COMMAND_SIZE fw then sc_reject SC_TRUNCATED_INNER_COMMAND UNKNOWN_OPCODE
      else case fw_cmdPacket fw innerCommand of
             None \<Rightarrow> sc_reject SC_INVALID_INNER_COMMAND (tryDecodeInnerOpcode fw (take innerLength innerCommand))
           | Some (opcode, _) \<Rightarrow>
               \<lparr>sc_valid = True, sc_reason = SC_NONE, sc_sequenceNumber = sequenceNumber, sc_innerOpcode = opcode,
                sc_responseOpcode = opcode, sc_authTag = take (unat SECURE_COMMAND_V2_MAC_LENGTH) authTag\<rparr>)"

record scHeader =
  sh_magic :: u32
  sh_version :: u8
  sh_flags :: u8
  sh_headerLength :: u16
  sh_sequenceNumber :: u32
  sh_innerLength :: u16
  sh_macLength :: u16
  sh_reserved :: u32

definition sc_readHeader :: "fwSerial \<Rightarrow> bytes \<Rightarrow> (scHeader \<times> bytes) option" where
  "sc_readHeader fw args =
     do { (magic, r1) \<leftarrow> fw_des32 fw args;
          (version, r2) \<leftarrow> fw_des8 fw r1;
          (flags, r3) \<leftarrow> fw_des8 fw r2;
          (headerLength, r4) \<leftarrow> fw_des16 fw r3;
          (sequenceNumber, r5) \<leftarrow> fw_des32 fw r4;
          (innerLength, r6) \<leftarrow> fw_des16 fw r5;
          (macLength, r7) \<leftarrow> fw_des16 fw r6;
          (reserved, r8) \<leftarrow> fw_des32 fw r7;
          Some (\<lparr>sh_magic = magic, sh_version = version, sh_flags = flags, sh_headerLength = headerLength,
                 sh_sequenceNumber = sequenceNumber, sh_innerLength = innerLength, sh_macLength = macLength,
                 sh_reserved = reserved\<rparr>, r8) }"

definition parseSecureCommandV2 :: "fwSerial \<Rightarrow> bytes \<Rightarrow> secureCommandV2ParseResult \<times> bytes" where
  "parseSecureCommandV2 fw args =
     (case sc_readHeader fw args of
        None \<Rightarrow> (sc_reject SC_TRUNCATED_HEADER UNKNOWN_OPCODE, [])
      | Some (h, rest) \<Rightarrow>
          let attributable = tryDecodeInnerOpcode fw rest;
              innerLength = unat (sh_innerLength h); macLength = unat (sh_macLength h); remaining = length rest in
          if sh_magic h \<noteq> SECURE_COMMAND_V2_MAGIC then (sc_reject SC_BAD_MAGIC attributable, [])
          else if sh_version h \<noteq> SECURE_COMMAND_V2_VERSION then (sc_reject SC_UNSUPPORTED_VERSION attributable, [])
          else if sh_flags h \<noteq> 0 then (sc_reject SC_NONZERO_FLAGS attributable, [])
          else if sh_headerLength h \<noteq> SECURE_COMMAND_V2_HEADER_LENGTH then (sc_reject SC_BAD_HEADER_LENGTH attributable, [])
          else if sh_reserved h \<noteq> 0 then (sc_reject SC_NONZERO_RESERVED attributable, [])
          else if sh_macLength h \<noteq> SECURE_COMMAND_V2_MAC_LENGTH then (sc_reject SC_BAD_MAC_LENGTH attributable, [])
          else if innerLength < MIN_INNER_COMMAND_SIZE fw then (sc_reject SC_TRUNCATED_INNER_COMMAND attributable, [])
          else if remaining < innerLength then (sc_reject SC_TRUNCATED_INNER_COMMAND (tryDecodeInnerOpcode fw rest), [])
          else if remaining < innerLength + macLength
          then (sc_reject SC_TRUNCATED_AUTH_TAG (tryDecodeInnerOpcode fw (take innerLength rest)), [])
          else if remaining \<noteq> innerLength + macLength
          then (sc_reject SC_UNEXPECTED_TRAILING_BYTES (tryDecodeInnerOpcode fw (take innerLength rest)), [])
          else if innerLength > FW_COM_BUFFER_MAX_SIZE then (sc_reject SC_OVERSIZED_INNER_COMMAND UNKNOWN_OPCODE, [])
          else let innerCommand = take innerLength rest
               in (sc_decodeInner fw innerCommand (sh_sequenceNumber h) innerLength (drop innerLength rest), innerCommand))"

definition verifySecureCommandV2Auth :: "fwSerial \<Rightarrow> secureCommandV2ParseResult \<Rightarrow> bytes \<Rightarrow> bytes option \<Rightarrow>
    secureCommandV2RejectReason" where
  "verifySecureCommandV2Auth fw secureCommand innerCommand sessionKey =
     (if \<not> sc_valid secureCommand then SC_BAD_MAC
      else case sessionKey of
        None \<Rightarrow> SC_INVALID_CONFIG
      | Some key \<Rightarrow>
          (case serializeSecureCommandAuthMaterial fw (sc_sequenceNumber secureCommand) innerCommand of
             None \<Rightarrow> SC_INVALID_CONFIG
           | Some material \<Rightarrow>
               (case hmacSha256 (Some key) (Some material) of
                  None \<Rightarrow> SC_INVALID_CONFIG
                | Some expectedDigest \<Rightarrow>
                    if \<not> constantTimeEqual (Some expectedDigest) (Some (sc_authTag secureCommand)) (unat SECURE_COMMAND_V2_MAC_LENGTH)
                    then SC_BAD_MAC else SC_NONE)))"

text \<open>\<open>makeSecureCommandV2\<close> asserts that the authenticated material fits; None is the failed assertion.\<close>

definition makeSecureCommandV2 :: "fwSerial \<Rightarrow> bytes \<Rightarrow> bytes \<Rightarrow> u32 \<Rightarrow> bytes option" where
  "makeSecureCommandV2 fw innerCommand sessionKey sequenceNumber =
     (case serializeSecureCommandAuthMaterial fw sequenceNumber innerCommand of
        None \<Rightarrow> None
      | Some material \<Rightarrow>
          let digest = (case hmacSha256 (Some sessionKey) (Some material) of
                          Some d \<Rightarrow> d | None \<Rightarrow> replicate (unat SECURE_COMMAND_V2_MAC_LENGTH) 0)
          in Some (fold (fw_put fw)
               [fw_commandDescriptor fw, fw_ser32 fw OBC_SECURE_COMMAND_V2_OPCODE, fw_ser32 fw SECURE_COMMAND_V2_MAGIC,
                fw_ser8 fw SECURE_COMMAND_V2_VERSION, fw_ser8 fw 0, fw_ser16 fw SECURE_COMMAND_V2_HEADER_LENGTH,
                fw_ser32 fw sequenceNumber, fw_ser16 fw (word_of_nat (length innerCommand)),
                fw_ser16 fw SECURE_COMMAND_V2_MAC_LENGTH, fw_ser32 fw 0, innerCommand, digest] []))"

definition makeSecureCommandV2_opcode :: "fwSerial \<Rightarrow> u32 \<Rightarrow> bytes \<Rightarrow> u32 \<Rightarrow> bytes option" where
  "makeSecureCommandV2_opcode fw innerOpcode sessionKey sequenceNumber =
     makeSecureCommandV2 fw (fold (fw_put fw) [fw_commandDescriptor fw, fw_ser32 fw innerOpcode] []) sessionKey sequenceNumber"

section \<open>The accepted packets\<close>

text \<open>The arguments of a secure command packet with a given sequence number, inner command and tag.\<close>

definition sc_packet :: "fwSerial \<Rightarrow> u32 \<Rightarrow> bytes \<Rightarrow> bytes \<Rightarrow> bytes" where
  "sc_packet fw sequenceNumber inner tag =
     fw_ser32 fw SECURE_COMMAND_V2_MAGIC @ fw_ser8 fw SECURE_COMMAND_V2_VERSION @ fw_ser8 fw 0 @
     fw_ser16 fw SECURE_COMMAND_V2_HEADER_LENGTH @ fw_ser32 fw sequenceNumber @ fw_ser16 fw (word_of_nat (length inner)) @
     fw_ser16 fw SECURE_COMMAND_V2_MAC_LENGTH @ fw_ser32 fw 0 @ inner @ tag"

definition sc_material :: "fwSerial \<Rightarrow> u32 \<Rightarrow> bytes \<Rightarrow> bytes" where
  "sc_material fw sequenceNumber inner = SECURE_COMMAND_V2_AUTH_LABEL @ fw_ser32 fw sequenceNumber @ inner"

lemma read_header:
  assumes "fw_documented fw"
  shows "sc_readHeader fw args = Some (h, rest) \<longleftrightarrow>
    args = fw_ser32 fw (sh_magic h) @ fw_ser8 fw (sh_version h) @ fw_ser8 fw (sh_flags h) @ fw_ser16 fw (sh_headerLength h) @
      fw_ser32 fw (sh_sequenceNumber h) @ fw_ser16 fw (sh_innerLength h) @ fw_ser16 fw (sh_macLength h) @
      fw_ser32 fw (sh_reserved h) @ rest"
  by (cases h) (auto simp: sc_readHeader_def bind_eq_Some_conv fw_des [OF assms])

lemma material_value:
  assumes "fw_documented fw"
  shows "serializeSecureCommandAuthMaterial fw n inner =
    (if length inner + 10 \<le> FW_COM_BUFFER_MAX_SIZE then Some (sc_material fw n inner) else None)"
  by (simp add: serializeSecureCommandAuthMaterial_def fw_room [OF assms] fw_sizes [OF assms] sc_material_def
      SECURE_COMMAND_V2_AUTH_LABEL_def FW_COM_BUFFER_MAX_SIZE_def)

lemma reject_invalid [simp]: "\<not> sc_valid (sc_reject reason opcode)"
  by (simp add: sc_reject_def)

lemma decode_valid:
  "sc_valid (sc_decodeInner fw inner n len tag) \<longleftrightarrow>
     len \<le> FW_COM_BUFFER_MAX_SIZE \<and> MIN_INNER_COMMAND_SIZE fw \<le> len \<and> fw_cmdPacket fw inner \<noteq> None"
  by (auto simp: sc_decodeInner_def split: option.splits)

lemma parse_guards:
  "sc_valid (fst (parseSecureCommandV2 fw args)) \<longleftrightarrow>
     (\<exists>h rest. sc_readHeader fw args = Some (h, rest) \<and> sh_magic h = SECURE_COMMAND_V2_MAGIC \<and>
        sh_version h = SECURE_COMMAND_V2_VERSION \<and> sh_flags h = 0 \<and> sh_headerLength h = SECURE_COMMAND_V2_HEADER_LENGTH \<and>
        sh_reserved h = 0 \<and> sh_macLength h = SECURE_COMMAND_V2_MAC_LENGTH \<and>
        MIN_INNER_COMMAND_SIZE fw \<le> unat (sh_innerLength h) \<and> unat (sh_innerLength h) \<le> FW_COM_BUFFER_MAX_SIZE \<and>
        length rest = unat (sh_innerLength h) + 32 \<and> fw_cmdPacket fw (take (unat (sh_innerLength h)) rest) \<noteq> None)"
proof (cases "sc_readHeader fw args")
  case (Some p)
  obtain h rest where p: "p = (h, rest)"
    by (cases p)
  have mac: "unat SECURE_COMMAND_V2_MAC_LENGTH = 32"
    by (simp add: SECURE_COMMAND_V2_MAC_LENGTH_def)
  show ?thesis
    by (auto simp: parseSecureCommandV2_def Some p Let_def decode_valid mac)
qed (simp add: parseSecureCommandV2_def)

lemma parse_result:
  assumes "sc_valid (fst (parseSecureCommandV2 fw args))" "sc_readHeader fw args = Some (h, rest)"
  shows "parseSecureCommandV2 fw args =
    (sc_decodeInner fw (take (unat (sh_innerLength h)) rest) (sh_sequenceNumber h) (unat (sh_innerLength h))
       (drop (unat (sh_innerLength h)) rest), take (unat (sh_innerLength h)) rest)"
  using assms(1) unfolding parse_guards by (auto simp: parseSecureCommandV2_def assms(2) SECURE_COMMAND_V2_MAC_LENGTH_def Let_def)

lemma packet_header:
  assumes "fw_documented fw"
  shows "sc_readHeader fw (sc_packet fw n inner tag) = Some
    (\<lparr>sh_magic = SECURE_COMMAND_V2_MAGIC, sh_version = SECURE_COMMAND_V2_VERSION, sh_flags = 0,
      sh_headerLength = SECURE_COMMAND_V2_HEADER_LENGTH, sh_sequenceNumber = n, sh_innerLength = word_of_nat (length inner),
      sh_macLength = SECURE_COMMAND_V2_MAC_LENGTH, sh_reserved = 0\<rparr>, inner @ tag)"
  by (simp add: read_header [OF assms] sc_packet_def)

lemma parse_packet:
  assumes fw: "fw_documented fw" and "length (fw_command fw op a) \<le> FW_COM_BUFFER_MAX_SIZE" "length tag = 32"
  shows "parseSecureCommandV2 fw (sc_packet fw n (fw_command fw op a) tag) =
    (\<lparr>sc_valid = True, sc_reason = SC_NONE, sc_sequenceNumber = n, sc_innerOpcode = op, sc_responseOpcode = op,
      sc_authTag = tag\<rparr>, fw_command fw op a)"
proof -
  let ?inner = "fw_command fw op a"
  have len: "unat (word_of_nat (length ?inner) :: u16) = length ?inner"
    using assms(2) by (simp add: unat_of_nat FW_COM_BUFFER_MAX_SIZE_def)
  have min: "MIN_INNER_COMMAND_SIZE fw \<le> length ?inner"
    by (simp add: length_command [OF fw])
  have pkt: "fw_cmdPacket fw ?inner = Some (op, a)"
    using assms(2) by (simp add: fw_packet [OF fw])
  have v: "sc_valid (fst (parseSecureCommandV2 fw (sc_packet fw n ?inner tag)))"
    unfolding parse_guards packet_header [OF fw] using assms len min pkt by simp
  show ?thesis
    using parse_result [OF v packet_header [OF fw]] assms(2,3) min pkt
    by (simp add: len sc_decodeInner_def SECURE_COMMAND_V2_MAC_LENGTH_def)
qed

lemma parse_valid:
  assumes fw: "fw_documented fw" and v: "sc_valid (fst (parseSecureCommandV2 fw args))"
  shows "\<exists>n op a tag. length (fw_command fw op a) \<le> FW_COM_BUFFER_MAX_SIZE \<and> length tag = 32 \<and>
    args = sc_packet fw n (fw_command fw op a) tag"
proof -
  obtain h rest where h: "sc_readHeader fw args = Some (h, rest)" "sh_magic h = SECURE_COMMAND_V2_MAGIC"
      "sh_version h = SECURE_COMMAND_V2_VERSION" "sh_flags h = 0" "sh_headerLength h = SECURE_COMMAND_V2_HEADER_LENGTH"
      "sh_reserved h = 0" "sh_macLength h = SECURE_COMMAND_V2_MAC_LENGTH"
      "unat (sh_innerLength h) \<le> FW_COM_BUFFER_MAX_SIZE" "length rest = unat (sh_innerLength h) + 32"
      "fw_cmdPacket fw (take (unat (sh_innerLength h)) rest) \<noteq> None"
    using v unfolding parse_guards by blast
  let ?n = "unat (sh_innerLength h)"
  obtain op a where cmd: "take ?n rest = fw_command fw op a"
    using h(10) fw_packet [OF fw] by auto
  have len: "length (fw_command fw op a) = ?n"
    unfolding cmd [symmetric] using h(9) by simp
  then have "word_of_nat (length (fw_command fw op a)) = sh_innerLength h"
    by simp
  moreover have "rest = fw_command fw op a @ drop ?n rest"
    unfolding cmd [symmetric] by simp
  ultimately have "args = sc_packet fw (sh_sequenceNumber h) (fw_command fw op a) (drop ?n rest)"
    using iffD1 [OF read_header [OF fw] h(1)] unfolding h sc_packet_def by simp
  moreover have "length (drop ?n rest) = 32"
    using h(9) by simp
  ultimately show ?thesis
    using h(8) unfolding len [symmetric] by blast
qed

lemma verify_packet:
  assumes fw: "fw_documented fw" and key: "length key = 32" and tag: "length tag = 32"
  shows "verifySecureCommandV2Auth fw
      \<lparr>sc_valid = True, sc_reason = SC_NONE, sc_sequenceNumber = n, sc_innerOpcode = op, sc_responseOpcode = op, sc_authTag = tag\<rparr>
      inner (Some key) =
    (if length inner + 10 > FW_COM_BUFFER_MAX_SIZE then SC_INVALID_CONFIG
     else if tag = hmac_ref key (sc_material fw n inner) then SC_NONE else SC_BAD_MAC)"
proof -
  have "key \<noteq> []"
    using key by auto
  then show ?thesis
    using tag constantTimeEqual_eq [of "hmac_ref key (sc_material fw n inner)" 32 tag]
    by (simp add: verifySecureCommandV2Auth_def material_value [OF fw] hmac_value SECURE_COMMAND_V2_MAC_LENGTH_def)
qed

text \<open>C7: Which secure command packets are authentic. For a session key of 32 bytes, the arguments of a packet pass parsing
  and authentication exactly when they are the fixed header with some sequence number, an inner command packet of at most
  502 bytes, and the HMAC of the label, the sequence number and the inner command under the key, with no byte left over; the
  parser then returns this sequence number, this inner command and its opcode.\<close>
theorem secure_command_authentic:
  assumes "fw_documented fw" "length key = 32"
  shows "(sc_valid (fst (parseSecureCommandV2 fw args)) \<and>
      verifySecureCommandV2Auth fw (fst (parseSecureCommandV2 fw args)) (snd (parseSecureCommandV2 fw args)) (Some key) = SC_NONE \<and>
      sc_sequenceNumber (fst (parseSecureCommandV2 fw args)) = n \<and> snd (parseSecureCommandV2 fw args) = inner \<and>
      sc_innerOpcode (fst (parseSecureCommandV2 fw args)) = op) \<longleftrightarrow>
    (\<exists>a. inner = fw_command fw op a \<and> length inner \<le> 502 \<and> args = sc_packet fw n inner (hmac_ref key (sc_material fw n inner)))"
    (is "?lhs \<longleftrightarrow> ?rhs")
proof
  assume l: ?lhs
  then obtain n' op' a tag where p: "length (fw_command fw op' a) \<le> FW_COM_BUFFER_MAX_SIZE" "length tag = 32"
      "args = sc_packet fw n' (fw_command fw op' a) tag"
    using parse_valid [OF assms(1)] by blast
  from l show ?rhs
    unfolding p(3) parse_packet [OF assms(1) p(1,2)]
    by (auto simp: verify_packet [OF assms p(2)] FW_COM_BUFFER_MAX_SIZE_def split: if_splits)
next
  assume ?rhs
  then obtain a where r: "inner = fw_command fw op a" "length inner \<le> 502"
      "args = sc_packet fw n (fw_command fw op a) (hmac_ref key (sc_material fw n inner))"
    by auto
  then have len: "length (fw_command fw op a) \<le> FW_COM_BUFFER_MAX_SIZE"
    by (simp add: FW_COM_BUFFER_MAX_SIZE_def)
  show ?lhs
    unfolding r(3) parse_packet [OF assms(1) len length_hmac] using r
    by (simp add: verify_packet [OF assms] FW_COM_BUFFER_MAX_SIZE_def)
qed

definition demoKey32 :: bytes where "demoKey32 = replicate 32 7"

theorem secure_command_authentic_witness:
  "\<exists>args. sc_valid (fst (parseSecureCommandV2 demoSerial args)) \<and>
     verifySecureCommandV2Auth demoSerial (fst (parseSecureCommandV2 demoSerial args)) (snd (parseSecureCommandV2 demoSerial args))
       (Some demoKey32) = SC_NONE \<and> sc_sequenceNumber (fst (parseSecureCommandV2 demoSerial args)) = 5"
proof -
  let ?inner = "fw_command demoSerial 9 []"
  let ?args = "sc_packet demoSerial 5 ?inner (hmac_ref demoKey32 (sc_material demoSerial 5 ?inner))"
  have "length ?inner \<le> 502"
    by (simp add: length_command [OF demoSerial_documented] demo_min)
  moreover have "length demoKey32 = 32"
    by (simp add: demoKey32_def)
  ultimately show ?thesis
    using secure_command_authentic [OF demoSerial_documented, of demoKey32 ?args 5 ?inner 9] by blast
qed

text \<open>C18: A secure command that the builder makes is accepted with the same key. For an inner command whose outer packet fits
  the communication buffer, building returns a packet that the framework reads as the secure opcode, whose arguments
  parse to the given sequence number, inner command and opcode, and that authenticates.\<close>
theorem secure_command_roundtrip:
  assumes "fw_documented fw" "length key = 32" "inner = fw_command fw op a"
    and "MIN_INNER_COMMAND_SIZE fw + 52 + length inner \<le> FW_COM_BUFFER_MAX_SIZE"
  shows "\<exists>outer args. makeSecureCommandV2 fw inner key n = Some outer \<and>
     fw_cmdPacket fw outer = Some (OBC_SECURE_COMMAND_V2_OPCODE, args) \<and>
     parseSecureCommandV2 fw args =
       (\<lparr>sc_valid = True, sc_reason = SC_NONE, sc_sequenceNumber = n, sc_innerOpcode = op, sc_responseOpcode = op,
         sc_authTag = hmac_ref key (sc_material fw n inner)\<rparr>, inner) \<and>
     verifySecureCommandV2Auth fw (fst (parseSecureCommandV2 fw args)) inner (Some key) = SC_NONE"
proof -
  let ?tag = "hmac_ref key (sc_material fw n inner)"
  let ?args = "sc_packet fw n inner ?tag"
  have len: "length (sc_packet fw n inner ?tag) = 52 + length inner"
    by (simp add: sc_packet_def fw_sizes [OF assms(1)])
  have fits: "length inner \<le> FW_COM_BUFFER_MAX_SIZE" "\<not> length inner + 10 > FW_COM_BUFFER_MAX_SIZE"
    "length (fw_command fw OBC_SECURE_COMMAND_V2_OPCODE ?args) \<le> FW_COM_BUFFER_MAX_SIZE"
    using assms(4) by (simp_all add: length_command [OF assms(1)] len)
  have "key \<noteq> []"
    using assms(2) by auto
  then have "makeSecureCommandV2 fw inner key n = Some (fw_command fw OBC_SECURE_COMMAND_V2_OPCODE ?args)"
    using fits unfolding makeSecureCommandV2_def
    by (simp add: material_value [OF assms(1)] hmac_value put_all [OF assms(1)] fw_command_def sc_packet_def
        del: fold_Cons fold_simps)
  moreover have "fw_cmdPacket fw (fw_command fw OBC_SECURE_COMMAND_V2_OPCODE ?args) = Some (OBC_SECURE_COMMAND_V2_OPCODE, ?args)"
    using fits(3) by (simp add: fw_packet [OF assms(1)])
  moreover have parse: "parseSecureCommandV2 fw ?args =
       (\<lparr>sc_valid = True, sc_reason = SC_NONE, sc_sequenceNumber = n, sc_innerOpcode = op, sc_responseOpcode = op,
         sc_authTag = ?tag\<rparr>, inner)"
    using parse_packet [OF assms(1), of op a ?tag n] fits(1) unfolding assms(3) [symmetric] by simp
  moreover have "verifySecureCommandV2Auth fw (fst (parseSecureCommandV2 fw ?args)) inner (Some key) = SC_NONE"
    unfolding parse using fits(2) by (simp add: verify_packet [OF assms(1,2)])
  ultimately show ?thesis
    by blast
qed

theorem secure_command_roundtrip_witness:
  "\<exists>outer args. makeSecureCommandV2 demoSerial (fw_command demoSerial 9 [1]) demoKey32 5 = Some outer \<and>
     fw_cmdPacket demoSerial outer = Some (OBC_SECURE_COMMAND_V2_OPCODE, args) \<and>
     sc_sequenceNumber (fst (parseSecureCommandV2 demoSerial args)) = 5"
proof -
  have "length demoKey32 = 32" "MIN_INNER_COMMAND_SIZE demoSerial + 52 + length (fw_command demoSerial 9 [1]) \<le> FW_COM_BUFFER_MAX_SIZE"
    by (simp_all add: demoKey32_def length_command [OF demoSerial_documented] demo_min FW_COM_BUFFER_MAX_SIZE_def)
  from secure_command_roundtrip [OF demoSerial_documented this(1) refl this(2), of 5] show ?thesis
    by auto
qed

end
