(* ===== verification/Command_Envelope.thy ===== *)
theory Command_Envelope
  imports Fw_Packets Auth_Crypto Command_Authority
begin

text \<open>
  \<open>CommandEnvelopeMetadata\<close>: the first packet format of authenticated commands, with source, key slot and session in the
  header and the key in the configuration of the link. The ingress component now rejects it as legacy; the
  parser, the authentication and the builder are still part of the code.
\<close>

definition OBC_COMMAND_ENVELOPE_V1_OPCODE :: u32 where "OBC_COMMAND_ENVELOPE_V1_OPCODE = 0x0BC10001"

definition COMMAND_ENVELOPE_V1_MAGIC :: u32 where "COMMAND_ENVELOPE_V1_MAGIC = 0x0BC0DE01"

definition COMMAND_ENVELOPE_V1_VERSION :: u8 where "COMMAND_ENVELOPE_V1_VERSION = 1"

definition COMMAND_ENVELOPE_V1_HEADER_LENGTH :: u16 where "COMMAND_ENVELOPE_V1_HEADER_LENGTH = 28"

definition COMMAND_ENVELOPE_V1_MAC_LENGTH :: u16 where "COMMAND_ENVELOPE_V1_MAC_LENGTH = 32"

datatype commandEnvelopeRejectReason = EV_NONE | EV_BAD_MAGIC | EV_UNSUPPORTED_VERSION | EV_NONZERO_FLAGS | EV_BAD_HEADER_LENGTH |
  EV_NONZERO_RESERVED | EV_TRUNCATED_HEADER | EV_TRUNCATED_INNER_COMMAND | EV_OVERSIZED_INNER_COMMAND | EV_BAD_MAC_LENGTH |
  EV_TRUNCATED_AUTH_TAG | EV_UNEXPECTED_TRAILING_BYTES | EV_INVALID_INNER_COMMAND | EV_LEGACY_UNSUPPORTED

datatype commandEnvelopeAuthRejectReason = EA_NONE | EA_INVALID_CONFIG | EA_SOURCE_MISMATCH | EA_UNKNOWN_KEY_SLOT | EA_BAD_MAC

record commandEnvelopeMetadata =
  em_sourceId :: u32
  em_keySlot :: u16
  em_sessionId :: u32
  em_sequenceNumber :: u32
  em_innerOpcode :: u32

definition defaultEnvelopeMetadata :: commandEnvelopeMetadata where
  "defaultEnvelopeMetadata = \<lparr>em_sourceId = 0, em_keySlot = 0, em_sessionId = 0, em_sequenceNumber = 0, em_innerOpcode = UNKNOWN_OPCODE\<rparr>"

record commandEnvelopeParseResult =
  ev_valid :: bool
  ev_reason :: commandEnvelopeRejectReason
  ev_metadata :: commandEnvelopeMetadata
  ev_responseOpcode :: u32
  ev_authTag :: bytes

definition ev_reject :: "commandEnvelopeRejectReason \<Rightarrow> u32 \<Rightarrow> commandEnvelopeParseResult" where
  "ev_reject reason responseOpcode = \<lparr>ev_valid = False, ev_reason = reason, ev_metadata = defaultEnvelopeMetadata,
     ev_responseOpcode = responseOpcode, ev_authTag = replicate (unat COMMAND_ENVELOPE_V1_MAC_LENGTH) 0\<rparr>"

definition ev_decodeInner :: "fwSerial \<Rightarrow> bytes \<Rightarrow> commandEnvelopeMetadata \<Rightarrow> nat \<Rightarrow> bytes \<Rightarrow> commandEnvelopeParseResult" where
  "ev_decodeInner fw innerCommand metadata innerLength authTag =
     (if innerLength > FW_COM_BUFFER_MAX_SIZE then ev_reject EV_OVERSIZED_INNER_COMMAND UNKNOWN_OPCODE
      else if innerLength < MIN_INNER_COMMAND_SIZE fw then ev_reject EV_TRUNCATED_INNER_COMMAND UNKNOWN_OPCODE
      else case fw_cmdPacket fw innerCommand of
             None \<Rightarrow> ev_reject EV_INVALID_INNER_COMMAND (tryDecodeInnerOpcode fw (take innerLength innerCommand))
           | Some (opcode, _) \<Rightarrow>
               \<lparr>ev_valid = True, ev_reason = EV_NONE, ev_metadata = metadata\<lparr>em_innerOpcode := opcode\<rparr>,
                ev_responseOpcode = opcode, ev_authTag = take (unat COMMAND_ENVELOPE_V1_MAC_LENGTH) authTag\<rparr>)"

definition serializeEnvelopeAuthMaterial :: "fwSerial \<Rightarrow> commandEnvelopeMetadata \<Rightarrow> bytes \<Rightarrow> bytes option" where
  "serializeEnvelopeAuthMaterial fw metadata innerCommand =
     do { m1 \<leftarrow> fw_append fw [] (fw_ser32 fw COMMAND_ENVELOPE_V1_MAGIC);
          m2 \<leftarrow> fw_append fw m1 (fw_ser8 fw COMMAND_ENVELOPE_V1_VERSION);
          m3 \<leftarrow> fw_append fw m2 (fw_ser8 fw 0);
          m4 \<leftarrow> fw_append fw m3 (fw_ser16 fw COMMAND_ENVELOPE_V1_HEADER_LENGTH);
          m5 \<leftarrow> fw_append fw m4 (fw_ser32 fw (em_sourceId metadata));
          m6 \<leftarrow> fw_append fw m5 (fw_ser32 fw (em_sessionId metadata));
          m7 \<leftarrow> fw_append fw m6 (fw_ser32 fw (em_sequenceNumber metadata));
          m8 \<leftarrow> fw_append fw m7 (fw_ser16 fw (em_keySlot metadata));
          m9 \<leftarrow> fw_append fw m8 (fw_ser16 fw (word_of_nat (length innerCommand)));
          m10 \<leftarrow> fw_append fw m9 (fw_ser16 fw COMMAND_ENVELOPE_V1_MAC_LENGTH);
          m11 \<leftarrow> fw_append fw m10 (fw_ser16 fw 0);
          fw_append fw m11 innerCommand }"

record evHeader =
  eh_magic :: u32
  eh_version :: u8
  eh_flags :: u8
  eh_headerLength :: u16
  eh_sourceId :: u32
  eh_sessionId :: u32
  eh_sequenceNumber :: u32
  eh_keySlot :: u16
  eh_innerLength :: u16
  eh_macLength :: u16
  eh_reserved :: u16

definition ev_readHeader :: "fwSerial \<Rightarrow> bytes \<Rightarrow> (evHeader \<times> bytes) option" where
  "ev_readHeader fw args =
     do { (magic, r1) \<leftarrow> fw_des32 fw args;
          (version, r2) \<leftarrow> fw_des8 fw r1;
          (flags, r3) \<leftarrow> fw_des8 fw r2;
          (headerLength, r4) \<leftarrow> fw_des16 fw r3;
          (sourceId, r5) \<leftarrow> fw_des32 fw r4;
          (sessionId, r6) \<leftarrow> fw_des32 fw r5;
          (sequenceNumber, r7) \<leftarrow> fw_des32 fw r6;
          (keySlot, r8) \<leftarrow> fw_des16 fw r7;
          (innerLength, r9) \<leftarrow> fw_des16 fw r8;
          (macLength, r10) \<leftarrow> fw_des16 fw r9;
          (reserved, r11) \<leftarrow> fw_des16 fw r10;
          Some (\<lparr>eh_magic = magic, eh_version = version, eh_flags = flags, eh_headerLength = headerLength,
                 eh_sourceId = sourceId, eh_sessionId = sessionId, eh_sequenceNumber = sequenceNumber, eh_keySlot = keySlot,
                 eh_innerLength = innerLength, eh_macLength = macLength, eh_reserved = reserved\<rparr>, r11) }"

definition parseCommandEnvelopeV1 :: "fwSerial \<Rightarrow> bytes \<Rightarrow> commandEnvelopeParseResult \<times> bytes" where
  "parseCommandEnvelopeV1 fw args =
     (case ev_readHeader fw args of
        None \<Rightarrow> (ev_reject EV_TRUNCATED_HEADER UNKNOWN_OPCODE, [])
      | Some (h, rest) \<Rightarrow>
          let metadata = defaultEnvelopeMetadata\<lparr>em_sourceId := eh_sourceId h, em_keySlot := eh_keySlot h,
                em_sessionId := eh_sessionId h, em_sequenceNumber := eh_sequenceNumber h\<rparr>;
              attributable = tryDecodeInnerOpcode fw rest;
              innerLength = unat (eh_innerLength h); macLength = unat (eh_macLength h); remaining = length rest in
          if eh_magic h \<noteq> COMMAND_ENVELOPE_V1_MAGIC then (ev_reject EV_BAD_MAGIC attributable, [])
          else if eh_version h \<noteq> COMMAND_ENVELOPE_V1_VERSION then (ev_reject EV_UNSUPPORTED_VERSION attributable, [])
          else if eh_flags h \<noteq> 0 then (ev_reject EV_NONZERO_FLAGS attributable, [])
          else if eh_headerLength h \<noteq> COMMAND_ENVELOPE_V1_HEADER_LENGTH then (ev_reject EV_BAD_HEADER_LENGTH attributable, [])
          else if eh_reserved h \<noteq> 0 then (ev_reject EV_NONZERO_RESERVED attributable, [])
          else if eh_macLength h \<noteq> COMMAND_ENVELOPE_V1_MAC_LENGTH then (ev_reject EV_BAD_MAC_LENGTH attributable, [])
          else if innerLength < MIN_INNER_COMMAND_SIZE fw then (ev_reject EV_TRUNCATED_INNER_COMMAND attributable, [])
          else if remaining < innerLength then (ev_reject EV_TRUNCATED_INNER_COMMAND (tryDecodeInnerOpcode fw rest), [])
          else if remaining < innerLength + macLength
          then (ev_reject EV_TRUNCATED_AUTH_TAG (tryDecodeInnerOpcode fw (take innerLength rest)), [])
          else if remaining \<noteq> innerLength + macLength
          then (ev_reject EV_UNEXPECTED_TRAILING_BYTES (tryDecodeInnerOpcode fw (take innerLength rest)), [])
          else if innerLength > FW_COM_BUFFER_MAX_SIZE then (ev_reject EV_OVERSIZED_INNER_COMMAND UNKNOWN_OPCODE, [])
          else let innerCommand = take innerLength rest
               in (ev_decodeInner fw innerCommand metadata innerLength (drop innerLength rest), innerCommand))"

definition verifyCommandEnvelopeV1Auth :: "fwSerial \<Rightarrow> commandEnvelopeParseResult \<Rightarrow> bytes \<Rightarrow> authorityConfig \<Rightarrow>
    commandEnvelopeAuthRejectReason" where
  "verifyCommandEnvelopeV1Auth fw envelope innerCommand config =
     (let auth = cfg_auth config in
      if \<not> ev_valid envelope then EA_BAD_MAC
      else if \<not> ac_enabled auth \<or> ac_algorithm auth \<noteq> HMAC_SHA256 \<or> ac_keyLength auth = 0 then EA_INVALID_CONFIG
      else if ac_sourceId auth \<noteq> em_sourceId (ev_metadata envelope) then EA_SOURCE_MISMATCH
      else if ac_keySlot auth \<noteq> em_keySlot (ev_metadata envelope) then EA_UNKNOWN_KEY_SLOT
      else case serializeEnvelopeAuthMaterial fw (ev_metadata envelope) innerCommand of
             None \<Rightarrow> EA_INVALID_CONFIG
           | Some material \<Rightarrow>
               (case hmacSha256 (Some (take (unat (ac_keyLength auth)) (ac_keyBytes auth))) (Some material) of
                  None \<Rightarrow> EA_INVALID_CONFIG
                | Some expectedDigest \<Rightarrow>
                    if \<not> constantTimeEqual (Some expectedDigest) (Some (ev_authTag envelope)) (unat COMMAND_ENVELOPE_V1_MAC_LENGTH)
                    then EA_BAD_MAC else EA_NONE))"

text \<open>The builder ignores that the material or a field may not fit: what was appended so far stays.\<close>

definition ev_materialPieces :: "fwSerial \<Rightarrow> commandEnvelopeMetadata \<Rightarrow> bytes \<Rightarrow> bytes list" where
  "ev_materialPieces fw metadata innerCommand =
     [fw_ser32 fw COMMAND_ENVELOPE_V1_MAGIC, fw_ser8 fw COMMAND_ENVELOPE_V1_VERSION, fw_ser8 fw 0,
      fw_ser16 fw COMMAND_ENVELOPE_V1_HEADER_LENGTH, fw_ser32 fw (em_sourceId metadata), fw_ser32 fw (em_sessionId metadata),
      fw_ser32 fw (em_sequenceNumber metadata), fw_ser16 fw (em_keySlot metadata),
      fw_ser16 fw (word_of_nat (length innerCommand)), fw_ser16 fw COMMAND_ENVELOPE_V1_MAC_LENGTH, fw_ser16 fw 0, innerCommand]"

fun ev_serializeUntil :: "fwSerial \<Rightarrow> bytes list \<Rightarrow> bytes \<Rightarrow> bytes" where
  "ev_serializeUntil fw [] buf = buf"
| "ev_serializeUntil fw (p # ps) buf = (case fw_append fw buf p of None \<Rightarrow> buf | Some buf' \<Rightarrow> ev_serializeUntil fw ps buf')"

definition makeCommandEnvelopeV1 :: "fwSerial \<Rightarrow> bytes \<Rightarrow> u32 \<Rightarrow> u16 \<Rightarrow> bytes option \<Rightarrow> u32 \<Rightarrow> u32 \<Rightarrow> bytes" where
  "makeCommandEnvelopeV1 fw inner sourceId keySlot key sessionId sequenceNumber =
     (let metadata = defaultEnvelopeMetadata\<lparr>em_sourceId := sourceId, em_keySlot := keySlot, em_sessionId := sessionId,
            em_sequenceNumber := sequenceNumber\<rparr>;
          material = ev_serializeUntil fw (ev_materialPieces fw metadata inner) [];
          digest = (case hmacSha256 key (Some material) of
                      Some d \<Rightarrow> d | None \<Rightarrow> replicate (unat COMMAND_ENVELOPE_V1_MAC_LENGTH) 0)
      in fold (fw_put fw)
           ([fw_commandDescriptor fw, fw_ser32 fw OBC_COMMAND_ENVELOPE_V1_OPCODE] @ ev_materialPieces fw metadata inner @ [digest]) [])"

definition makeCommandEnvelopeV1_opcode :: "fwSerial \<Rightarrow> u32 \<Rightarrow> u32 \<Rightarrow> u16 \<Rightarrow> bytes option \<Rightarrow> u32 \<Rightarrow> u32 \<Rightarrow> bytes" where
  "makeCommandEnvelopeV1_opcode fw innerOpcode sourceId keySlot key sessionId sequenceNumber =
     makeCommandEnvelopeV1 fw (fold (fw_put fw) [fw_commandDescriptor fw, fw_ser32 fw innerOpcode] []) sourceId keySlot key
       sessionId sequenceNumber"

section \<open>The accepted envelopes\<close>

definition ev_packet :: "fwSerial \<Rightarrow> commandEnvelopeMetadata \<Rightarrow> bytes \<Rightarrow> bytes" where
  "ev_packet fw metadata inner = concat (ev_materialPieces fw metadata inner)"

lemma read_envelope:
  assumes "fw_documented fw"
  shows "ev_readHeader fw args = Some (h, rest) \<longleftrightarrow>
    args = fw_ser32 fw (eh_magic h) @ fw_ser8 fw (eh_version h) @ fw_ser8 fw (eh_flags h) @ fw_ser16 fw (eh_headerLength h) @
      fw_ser32 fw (eh_sourceId h) @ fw_ser32 fw (eh_sessionId h) @ fw_ser32 fw (eh_sequenceNumber h) @ fw_ser16 fw (eh_keySlot h) @
      fw_ser16 fw (eh_innerLength h) @ fw_ser16 fw (eh_macLength h) @ fw_ser16 fw (eh_reserved h) @ rest"
  by (cases h) (auto simp: ev_readHeader_def bind_eq_Some_conv fw_des [OF assms])

lemma envelope_material:
  assumes "fw_documented fw"
  shows "serializeEnvelopeAuthMaterial fw m inner =
    (if length inner + 28 \<le> FW_COM_BUFFER_MAX_SIZE then Some (ev_packet fw m inner) else None)"
  by (simp add: serializeEnvelopeAuthMaterial_def fw_room [OF assms] fw_sizes [OF assms] ev_packet_def ev_materialPieces_def
      FW_COM_BUFFER_MAX_SIZE_def)

lemma length_ev_packet: "fw_documented fw \<Longrightarrow> length (ev_packet fw m inner) = length inner + 28"
  by (simp add: ev_packet_def ev_materialPieces_def fw_sizes)

lemma ev_reject_invalid [simp]: "\<not> ev_valid (ev_reject reason opcode)"
  by (simp add: ev_reject_def)

lemma ev_decode_valid:
  "ev_valid (ev_decodeInner fw inner m len tag) \<longleftrightarrow>
     len \<le> FW_COM_BUFFER_MAX_SIZE \<and> MIN_INNER_COMMAND_SIZE fw \<le> len \<and> fw_cmdPacket fw inner \<noteq> None"
  by (auto simp: ev_decodeInner_def split: option.splits)

lemma envelope_guards:
  "ev_valid (fst (parseCommandEnvelopeV1 fw args)) \<longleftrightarrow>
     (\<exists>h rest. ev_readHeader fw args = Some (h, rest) \<and> eh_magic h = COMMAND_ENVELOPE_V1_MAGIC \<and>
        eh_version h = COMMAND_ENVELOPE_V1_VERSION \<and> eh_flags h = 0 \<and> eh_headerLength h = COMMAND_ENVELOPE_V1_HEADER_LENGTH \<and>
        eh_reserved h = 0 \<and> eh_macLength h = COMMAND_ENVELOPE_V1_MAC_LENGTH \<and>
        MIN_INNER_COMMAND_SIZE fw \<le> unat (eh_innerLength h) \<and> unat (eh_innerLength h) \<le> FW_COM_BUFFER_MAX_SIZE \<and>
        length rest = unat (eh_innerLength h) + 32 \<and> fw_cmdPacket fw (take (unat (eh_innerLength h)) rest) \<noteq> None)"
proof (cases "ev_readHeader fw args")
  case (Some p)
  obtain h rest where p: "p = (h, rest)"
    by (cases p)
  have mac: "unat COMMAND_ENVELOPE_V1_MAC_LENGTH = 32"
    by (simp add: COMMAND_ENVELOPE_V1_MAC_LENGTH_def)
  show ?thesis
    by (auto simp: parseCommandEnvelopeV1_def Some p Let_def ev_decode_valid mac)
qed (simp add: parseCommandEnvelopeV1_def)

lemma envelope_result:
  assumes "ev_valid (fst (parseCommandEnvelopeV1 fw args))" "ev_readHeader fw args = Some (h, rest)"
  shows "parseCommandEnvelopeV1 fw args =
    (ev_decodeInner fw (take (unat (eh_innerLength h)) rest)
       (defaultEnvelopeMetadata\<lparr>em_sourceId := eh_sourceId h, em_keySlot := eh_keySlot h,
                em_sessionId := eh_sessionId h, em_sequenceNumber := eh_sequenceNumber h\<rparr>) (unat (eh_innerLength h))
       (drop (unat (eh_innerLength h)) rest), take (unat (eh_innerLength h)) rest)"
  using assms(1) unfolding envelope_guards
  by (auto simp: parseCommandEnvelopeV1_def assms(2) COMMAND_ENVELOPE_V1_MAC_LENGTH_def Let_def)

lemma envelope_packet_header:
  assumes "fw_documented fw"
  shows "ev_readHeader fw (ev_packet fw m inner @ tag) = Some
    (\<lparr>eh_magic = COMMAND_ENVELOPE_V1_MAGIC, eh_version = COMMAND_ENVELOPE_V1_VERSION, eh_flags = 0,
      eh_headerLength = COMMAND_ENVELOPE_V1_HEADER_LENGTH, eh_sourceId = em_sourceId m, eh_sessionId = em_sessionId m,
      eh_sequenceNumber = em_sequenceNumber m, eh_keySlot = em_keySlot m, eh_innerLength = word_of_nat (length inner),
      eh_macLength = COMMAND_ENVELOPE_V1_MAC_LENGTH, eh_reserved = 0\<rparr>, inner @ tag)"
  by (simp add: read_envelope [OF assms] ev_packet_def ev_materialPieces_def)

lemma parse_envelope:
  assumes fw: "fw_documented fw" and "length (fw_command fw op a) \<le> FW_COM_BUFFER_MAX_SIZE" "length tag = 32"
  shows "parseCommandEnvelopeV1 fw (ev_packet fw m (fw_command fw op a) @ tag) =
    (\<lparr>ev_valid = True, ev_reason = EV_NONE, ev_metadata = m\<lparr>em_innerOpcode := op\<rparr>, ev_responseOpcode = op,
      ev_authTag = tag\<rparr>, fw_command fw op a)"
proof -
  let ?inner = "fw_command fw op a"
  have len: "unat (word_of_nat (length ?inner) :: u16) = length ?inner"
    using assms(2) by (simp add: unat_of_nat FW_COM_BUFFER_MAX_SIZE_def)
  have min: "MIN_INNER_COMMAND_SIZE fw \<le> length ?inner"
    by (simp add: length_command [OF fw])
  have pkt: "fw_cmdPacket fw ?inner = Some (op, a)"
    using assms(2) by (simp add: fw_packet [OF fw])
  have v: "ev_valid (fst (parseCommandEnvelopeV1 fw (ev_packet fw m ?inner @ tag)))"
    unfolding envelope_guards envelope_packet_header [OF fw] using assms len min pkt by simp
  show ?thesis
    using envelope_result [OF v envelope_packet_header [OF fw]] assms(2,3) min pkt
    by (simp add: len ev_decodeInner_def COMMAND_ENVELOPE_V1_MAC_LENGTH_def defaultEnvelopeMetadata_def)
qed

lemma envelope_valid:
  assumes fw: "fw_documented fw" and v: "ev_valid (fst (parseCommandEnvelopeV1 fw args))"
  shows "\<exists>m op a tag. length (fw_command fw op a) \<le> FW_COM_BUFFER_MAX_SIZE \<and> length tag = 32 \<and>
    args = ev_packet fw m (fw_command fw op a) @ tag"
proof -
  obtain h rest where h: "ev_readHeader fw args = Some (h, rest)" "eh_magic h = COMMAND_ENVELOPE_V1_MAGIC"
      "eh_version h = COMMAND_ENVELOPE_V1_VERSION" "eh_flags h = 0" "eh_headerLength h = COMMAND_ENVELOPE_V1_HEADER_LENGTH"
      "eh_reserved h = 0" "eh_macLength h = COMMAND_ENVELOPE_V1_MAC_LENGTH"
      "unat (eh_innerLength h) \<le> FW_COM_BUFFER_MAX_SIZE" "length rest = unat (eh_innerLength h) + 32"
      "fw_cmdPacket fw (take (unat (eh_innerLength h)) rest) \<noteq> None"
    using v unfolding envelope_guards by blast
  let ?n = "unat (eh_innerLength h)"
  obtain op a where cmd: "take ?n rest = fw_command fw op a"
    using h(10) fw_packet [OF fw] by auto
  have len: "length (fw_command fw op a) = ?n"
    unfolding cmd [symmetric] using h(9) by simp
  define m where "m = \<lparr>em_sourceId = eh_sourceId h, em_keySlot = eh_keySlot h, em_sessionId = eh_sessionId h,
    em_sequenceNumber = eh_sequenceNumber h, em_innerOpcode = op\<rparr>"
  have "word_of_nat (length (fw_command fw op a)) = eh_innerLength h"
    using len by simp
  moreover have "rest = fw_command fw op a @ drop ?n rest"
    unfolding cmd [symmetric] by simp
  ultimately have "args = ev_packet fw m (fw_command fw op a) @ drop ?n rest"
    using iffD1 [OF read_envelope [OF fw] h(1)] unfolding h ev_packet_def ev_materialPieces_def m_def by simp
  moreover have "length (drop ?n rest) = 32"
    using h(9) by simp
  ultimately show ?thesis
    using h(8) unfolding len [symmetric] by blast
qed

text \<open>A link whose authentication was configured with a key.\<close>

lemma ev_configured:
  assumes "configureAuthorityAuth sourceId keySlot (Some key) algorithm config = (True, config')"
  shows "ac_enabled (cfg_auth config')" "ac_algorithm (cfg_auth config') = HMAC_SHA256" "ac_sourceId (cfg_auth config') = sourceId"
    "ac_keySlot (cfg_auth config') = keySlot" "ac_keyLength (cfg_auth config') \<noteq> 0" "key \<noteq> []"
    "take (unat (ac_keyLength (cfg_auth config'))) (ac_keyBytes (cfg_auth config')) = key"
proof -
  have len: "0 < length key" "length key \<le> 64"
    using assms by (auto simp: configureAuthorityAuth_def Let_def MAX_KEY_BYTES_def split: if_splits)
  then have u: "unat (word_of_nat (length key) :: u8) = length key"
    by (simp add: unat_of_nat)
  then have "word_of_nat (length key) \<noteq> (0 :: u8)"
    using len by (metis gr_implies_not0 unat_0)
  with assms u show "ac_enabled (cfg_auth config')" "ac_algorithm (cfg_auth config') = HMAC_SHA256"
    "ac_sourceId (cfg_auth config') = sourceId" "ac_keySlot (cfg_auth config') = keySlot" "ac_keyLength (cfg_auth config') \<noteq> 0"
    "take (unat (ac_keyLength (cfg_auth config'))) (ac_keyBytes (cfg_auth config')) = key"
    by (auto simp: configureAuthorityAuth_def Let_def split: if_splits)
  show "key \<noteq> []"
    using len by auto
qed

lemma verify_envelope:
  assumes fw: "fw_documented fw"
    and cfg: "configureAuthorityAuth sourceId keySlot (Some key) algorithm config = (True, config')" and tag: "length tag = 32"
  shows "verifyCommandEnvelopeV1Auth fw \<lparr>ev_valid = True, ev_reason = EV_NONE, ev_metadata = m, ev_responseOpcode = op, ev_authTag = tag\<rparr>
      inner config' =
    (if em_sourceId m \<noteq> sourceId then EA_SOURCE_MISMATCH else if em_keySlot m \<noteq> keySlot then EA_UNKNOWN_KEY_SLOT
     else if length inner + 28 > FW_COM_BUFFER_MAX_SIZE then EA_INVALID_CONFIG
     else if tag = hmac_ref key (ev_packet fw m inner) then EA_NONE else EA_BAD_MAC)"
  using tag constantTimeEqual_eq [of "hmac_ref key (ev_packet fw m inner)" 32 tag] ev_configured [OF cfg]
  by (simp add: verifyCommandEnvelopeV1Auth_def Let_def envelope_material [OF fw] hmac_value COMMAND_ENVELOPE_V1_MAC_LENGTH_def)

lemma ev_packet_opcode [simp]: "ev_packet fw (m\<lparr>em_innerOpcode := op\<rparr>) inner = ev_packet fw m inner"
  by (simp add: ev_packet_def ev_materialPieces_def)



text \<open>What the builder makes is such an envelope.\<close>

lemma serialize_until:
  assumes "fw_documented fw"
  shows "length buf + length (concat ps) \<le> FW_COM_BUFFER_MAX_SIZE \<Longrightarrow> ev_serializeUntil fw ps buf = buf @ concat ps"
  by (induction ps arbitrary: buf) (simp_all add: fw_room [OF assms])

lemma make_envelope:
  assumes fw: "fw_documented fw" and "key \<noteq> []" "MIN_INNER_COMMAND_SIZE fw + 60 + length inner \<le> FW_COM_BUFFER_MAX_SIZE"
    and m: "m = defaultEnvelopeMetadata\<lparr>em_sourceId := src, em_keySlot := slot, em_sessionId := sess, em_sequenceNumber := n\<rparr>"
  shows "makeCommandEnvelopeV1 fw inner src slot (Some key) sess n =
    fw_command fw OBC_COMMAND_ENVELOPE_V1_OPCODE (ev_packet fw m inner @ hmac_ref key (ev_packet fw m inner))"
proof -
  have len: "length (concat (ev_materialPieces fw m inner)) = length inner + 28"
    using length_ev_packet [OF fw] by (simp add: ev_packet_def)
  have mat: "ev_serializeUntil fw (ev_materialPieces fw m inner) [] = ev_packet fw m inner"
    using assms(3) len by (simp add: serialize_until [OF fw] ev_packet_def)
  have "length (fw_commandDescriptor fw) + 4 = MIN_INNER_COMMAND_SIZE fw"
    by (simp add: MIN_INNER_COMMAND_SIZE_def fw_sizes [OF fw])
  then have all: "length [] + length (concat ([fw_commandDescriptor fw, fw_ser32 fw OBC_COMMAND_ENVELOPE_V1_OPCODE] @
      ev_materialPieces fw m inner @ [hmac_ref key (ev_packet fw m inner)])) \<le> FW_COM_BUFFER_MAX_SIZE"
    using assms(3) len by (simp add: fw_sizes [OF fw])
  show ?thesis
    unfolding makeCommandEnvelopeV1_def Let_def m [symmetric] mat hmac_value [OF assms(2)] option.case put_all [OF fw all]
    by (simp add: fw_command_def ev_packet_def)
qed

end
