(* ===== verification/Command_Ingress.thy ===== *)
theory Command_Ingress
  imports Command_Window Secure_Command Command_Envelope
begin

text \<open>
  \<open>CommandIngressAuthority\<close>: the component every command passes before it reaches the command dispatcher. It has two
  ingress ports, each with a link configuration and at most one authenticated session. The answer of
  the sequence admission controller to a request is the argument \<open>ctl\<close> of the handlers that call it; the parsing
  of a file name and of the wait mode, which are framework types, are the parameters \<open>fwSeqArgs\<close>. A group
  of telemetry writes is one output; an assertion that fails is the output \<open>CiAssert\<close>.
\<close>

section \<open>State\<close>

definition CommandIngressAuthorityPorts :: nat where "CommandIngressAuthorityPorts = 2"

record pendingDispatch =
  pd_used :: bool
  pd_context :: u32
  pd_ingressPort :: nat

definition defaultPending :: pendingDispatch where
  "defaultPending = \<lparr>pd_used = False, pd_context = 0, pd_ingressPort = 0\<rparr>"

record activeSession =
  as_open :: bool
  as_secureAuthenticated :: bool
  as_linkIdentity :: authorityLinkIdentity
  as_linkRole :: authorityLinkRole
  as_serviceId :: u8
  as_sessionId :: u32
  as_lastAcceptedSequence :: u32
  as_secureSessionKey :: bytes

definition defaultSession :: activeSession where
  "defaultSession = \<lparr>as_open = False, as_secureAuthenticated = False, as_linkIdentity = LINK_UNKNOWN, as_linkRole = ROLE_UNKNOWN,
     as_serviceId = 0, as_sessionId = 0, as_lastAcceptedSequence = 0,
     as_secureSessionKey = replicate SECURE_COMMAND_V2_SESSION_KEY_SIZE 0\<rparr>"

record commandIngress =
  ci_configs :: "authorityConfig list"
  ci_rejectTotal :: u32
  ci_rejectPolicy :: u32
  ci_rejectMalformed :: u32
  ci_rejectUnknownOpcode :: u32
  ci_rejectConfig :: u32
  ci_rejectUhfBackup :: u32
  ci_envelopeObservedTotal :: u32
  ci_envelopeRejectedTotal :: u32
  ci_envelopeAuthRejectTotal :: u32
  ci_envelopeAuthRejectConfig :: u32
  ci_envelopeAuthRejectSourceMismatch :: u32
  ci_envelopeAuthRejectUnknownKeySlot :: u32
  ci_envelopeAuthRejectBadMac :: u32
  ci_sequenceRejectTotal :: u32
  ci_sequenceRejectNotIncreasing :: u32
  ci_sequenceRejectWindowFull :: u32
  ci_sessionOpenTotal :: u32
  ci_sessionRejectTotal :: u32
  ci_sessionRevokeTotal :: u32
  ci_secureRejectTotal :: u32
  ci_secureRejectBadMac :: u32
  ci_secureRejectNoAuth :: u32
  ci_lastPublishedActive :: bool
  ci_lastPublishedPort :: nat
  ci_sessions :: "activeSession list"
  ci_window :: sequenceWindow
  ci_pending :: "pendingDispatch list"
  ci_nextPendingSlot :: nat
  ci_nextToken :: u32
  ci_observer :: bool
  ci_activityConnected :: bool

definition commandIngress_init :: commandIngress where
  "commandIngress_init =
     \<lparr>ci_configs = replicate CommandIngressAuthorityPorts defaultAuthorityConfig,
      ci_rejectTotal = 0, ci_rejectPolicy = 0, ci_rejectMalformed = 0, ci_rejectUnknownOpcode = 0, ci_rejectConfig = 0,
      ci_rejectUhfBackup = 0, ci_envelopeObservedTotal = 0, ci_envelopeRejectedTotal = 0, ci_envelopeAuthRejectTotal = 0,
      ci_envelopeAuthRejectConfig = 0, ci_envelopeAuthRejectSourceMismatch = 0, ci_envelopeAuthRejectUnknownKeySlot = 0,
      ci_envelopeAuthRejectBadMac = 0, ci_sequenceRejectTotal = 0, ci_sequenceRejectNotIncreasing = 0,
      ci_sequenceRejectWindowFull = 0, ci_sessionOpenTotal = 0, ci_sessionRejectTotal = 0, ci_sessionRevokeTotal = 0,
      ci_secureRejectTotal = 0, ci_secureRejectBadMac = 0, ci_secureRejectNoAuth = 0,
      ci_lastPublishedActive = False, ci_lastPublishedPort = 0,
      ci_sessions = replicate CommandIngressAuthorityPorts defaultSession,
      ci_window = replicate MAX_SESSIONS defaultSessionEntry,
      ci_pending = replicate (CommandIngressAuthorityPorts * 4) defaultPending, ci_nextPendingSlot = 0, ci_nextToken = 1,
      ci_observer = False, ci_activityConnected = False\<rparr>"

section \<open>Ports\<close>

datatype sequenceControlAction = SEQ_VALIDATE | SEQ_RUN | SEQ_PREPARE_MANUAL | SEQ_START | SEQ_STEP | SEQ_CANCEL | SEQ_LOG_STATUS

record sequenceControlRequest =
  rq_operation :: sequenceControlAction
  rq_ingressPort :: nat
  rq_linkIdentity :: authorityLinkIdentity
  rq_linkRole :: authorityLinkRole
  rq_originalOpcode :: u32
  rq_originalCmdSeq :: u32
  rq_fileName :: bytes
  rq_waitMode :: u32
  rq_contextId :: u32

record sequenceControlResult =
  rs_accepted :: bool
  rs_deferred :: bool
  rs_cmdResponse :: u32

record secureAuthGrant =
  gr_ingressPort :: nat
  gr_serviceId :: u32
  gr_sessionKey :: bytes

record secureAuthRevocation =
  rv_ingressPort :: nat
  rv_serviceId :: u32
  rv_reason :: u32

record fwSeqArgs =
  fa_fileName :: "bytes \<Rightarrow> (bytes \<times> bytes) option"
  fa_wait :: "bytes \<Rightarrow> (u32 \<times> bytes) option"
  fa_noWait :: u32

datatype ciOut =
    SeqCmdBuffOut nat bytes u32
  | SeqCmdStatusOut nat u32 u32 cmdResponse
  | SeqCmdStatusCast nat u32 u32 u32
  | SequenceControlOut sequenceControlRequest
  | AuthActivityOut nat u8 u32
  | CiTlmAuthReject u32 u32 u32 u32 u32 u32 u32 authorityRejectReason authorityCommandClass authorityLinkRole nat authorityLinkIdentity
  | CiTlmEnvelopeReject u32 commandEnvelopeRejectReason
  | CiTlmEnvelopeAuthReject u32 u32 u32 u32 u32 nat authorityLinkIdentity authorityLinkRole commandEnvelopeMetadata u32
      commandEnvelopeAuthRejectReason
  | CiTlmEnvelopeObserved u32 u32 u32 u32
  | CiTlmSequenceReject u32 u32 u32 nat authorityLinkIdentity authorityLinkRole u32 u32 u32 commandSequenceRejectReason
  | CiTlmSessionReject u32 nat authorityLinkIdentity authorityLinkRole u32 u32 u32 u32
  | CiTlmSecureReject u32 u32 u32 nat authorityLinkIdentity authorityLinkRole u32 u32 u32 secureCommandV2RejectReason
  | CiTlmSession bool nat authorityLinkIdentity authorityLinkRole u32 u32 u8
  | CiTlmSessionOpenTotal u32
  | CiTlmRevoke u32 nat authorityLinkIdentity authorityLinkRole u32 u32
  | CiTlmCleared u32 u32 u32 u32
  | COMMAND_AUTHORITY_REJECTED u32 nat authorityLinkIdentity authorityLinkRole authorityCommandClass authorityRejectReason cmdResponse
  | COMMAND_ENVELOPE_REJECTED nat commandEnvelopeRejectReason cmdResponse
  | COMMAND_ENVELOPE_AUTH_REJECTED nat authorityLinkIdentity authorityLinkRole commandEnvelopeMetadata u32
      commandEnvelopeAuthRejectReason cmdResponse
  | COMMAND_ENVELOPE_OBSERVED nat authorityLinkIdentity authorityLinkRole u32 u32 u32
  | COMMAND_SEQUENCE_REJECTED nat authorityLinkIdentity authorityLinkRole u32 u32 u32 commandSequenceRejectReason cmdResponse
  | COMMAND_SESSION_REJECTED nat authorityLinkIdentity authorityLinkRole u32 u32 u32 u32 cmdResponse
  | SECURE_COMMAND_REJECTED nat authorityLinkIdentity authorityLinkRole u32 u32 u32 secureCommandV2RejectReason cmdResponse
  | COMMAND_SESSION_OPENED nat authorityLinkIdentity authorityLinkRole u32 bool
  | COMMAND_SESSION_REVOKED nat authorityLinkIdentity authorityLinkRole u32 u32
  | ObserverOpened nat authorityConfig u32 u32 bool bool
  | ObserverActivity nat authorityConfig u32 u32
  | ObserverRevoked nat authorityConfig u32 u32 u32
  | CiAssert

section \<open>Helpers\<close>

definition sessionKeyFor :: "nat \<Rightarrow> authorityConfig \<Rightarrow> u32 \<Rightarrow> commandSessionKey" where
  "sessionKeyFor ingressPort config sessionId =
     \<lparr>sk_ingressPort = ingressPort, sk_linkIdentity = cfg_identity config, sk_linkRole = cfg_role config, sk_sessionId = sessionId\<rparr>"

definition requiresAuthenticatedEnvelope :: "authorityConfig \<Rightarrow> bool" where
  "requiresAuthenticatedEnvelope config = isCommManagedAuthority config"

definition secureServiceIdForConfig :: "authorityConfig \<Rightarrow> u8" where
  "secureServiceIdForConfig config = secureServiceIdForAuthorityIdentity (cfg_identity config)"

fun secureCommandRejectResponse :: "secureCommandV2RejectReason \<Rightarrow> cmdResponse" where
  "secureCommandRejectResponse SC_AUTH_REQUIRED = CMD_VALIDATION_ERROR"
| "secureCommandRejectResponse SC_SERVICE_MISMATCH = CMD_VALIDATION_ERROR"
| "secureCommandRejectResponse SC_BAD_MAC = CMD_VALIDATION_ERROR"
| "secureCommandRejectResponse SC_SEQUENCE_NOT_INCREASING = CMD_VALIDATION_ERROR"
| "secureCommandRejectResponse SC_SEQUENCE_WINDOW_FULL = CMD_EXECUTION_ERROR"
| "secureCommandRejectResponse SC_INVALID_CONFIG = CMD_EXECUTION_ERROR"
| "secureCommandRejectResponse SC_NONE = CMD_EXECUTION_ERROR"
| "secureCommandRejectResponse _ = CMD_FORMAT_ERROR"

definition envelopeRequiredDecision :: "u32 \<Rightarrow> authorityDecision" where
  "envelopeRequiredDecision opcode =
     (let decision = defaultDecision\<lparr>ad_reason := ENVELOPE_REQUIRED, ad_response := CMD_VALIDATION_ERROR\<rparr>
      in case findCommandAuthorityCatalogEntry opcode of
           None \<Rightarrow> decision
         | Some entry \<Rightarrow> decision\<lparr>ad_commandClass := ce_commandClass entry, ad_resource := ce_resource entry\<rparr>)"

definition parseSequenceControlRequest :: "fwSerial \<Rightarrow> fwSeqArgs \<Rightarrow> u32 \<Rightarrow> bytes \<Rightarrow> nat \<Rightarrow> authorityConfig \<Rightarrow> u32 \<Rightarrow>
    sequenceControlRequest option" where
  "parseSequenceControlRequest fw fa opcode args ingressPort config context =
     (let request = (\<lambda>operation fileName waitMode contextId.
            \<lparr>rq_operation = operation, rq_ingressPort = ingressPort, rq_linkIdentity = cfg_identity config,
             rq_linkRole = cfg_role config, rq_originalOpcode = opcode, rq_originalCmdSeq = context,
             rq_fileName = fileName, rq_waitMode = waitMode, rq_contextId = contextId\<rparr>) in
      if opcode = OBC_SEQ_VALIDATE_OPCODE \<or> opcode = OBC_SEQ_PREPARE_MANUAL_OPCODE then
        (case fa_fileName fa args of
           Some (fileName, []) \<Rightarrow>
             Some (request (if opcode = OBC_SEQ_VALIDATE_OPCODE then SEQ_VALIDATE else SEQ_PREPARE_MANUAL) fileName (fa_noWait fa) 0)
         | _ \<Rightarrow> None)
      else if opcode = OBC_SEQ_RUN_OPCODE then
        (case fa_fileName fa args of
           Some (fileName, r) \<Rightarrow> (case fa_wait fa r of Some (waitMode, []) \<Rightarrow> Some (request SEQ_RUN fileName waitMode 0) | _ \<Rightarrow> None)
         | None \<Rightarrow> None)
      else if opcode = OBC_SEQ_START_OPCODE \<or> opcode = OBC_SEQ_STEP_OPCODE \<or> opcode = OBC_SEQ_CANCEL_OPCODE then
        (case fw_des32 fw args of
           Some (contextId, []) \<Rightarrow>
             Some (request (if opcode = OBC_SEQ_START_OPCODE then SEQ_START else if opcode = OBC_SEQ_STEP_OPCODE then SEQ_STEP
                            else SEQ_CANCEL) [] (fa_noWait fa) contextId)
         | _ \<Rightarrow> None)
      else if opcode = OBC_SEQ_LOG_STATUS_OPCODE then
        (if args = [] then Some (request SEQ_LOG_STATUS [] (fa_noWait fa) 0) else None)
      else None)"

section \<open>Rejections\<close>

definition writeRejectTelemetry :: "nat \<Rightarrow> u32 \<Rightarrow> authorityDecision \<Rightarrow> authorityConfig \<Rightarrow> commandIngress \<Rightarrow> commandIngress \<times> ciOut list" where
  "writeRejectTelemetry portNum opcode decision config ci =
     (let ci1 = ci\<lparr>ci_rejectTotal := ci_rejectTotal ci + 1\<rparr>;
          ci2 = (case ad_reason decision of
                   POLICY_DENIED \<Rightarrow> ci1\<lparr>ci_rejectPolicy := ci_rejectPolicy ci1 + 1\<rparr>
                 | ENVELOPE_REQUIRED \<Rightarrow> ci1\<lparr>ci_rejectPolicy := ci_rejectPolicy ci1 + 1\<rparr>
                 | MALFORMED_RESTRICTED \<Rightarrow> ci1\<lparr>ci_rejectMalformed := ci_rejectMalformed ci1 + 1\<rparr>
                 | AUTH_INVALID_CONFIG \<Rightarrow> ci1\<lparr>ci_rejectConfig := ci_rejectConfig ci1 + 1\<rparr>
                 | UNKNOWN_OPCODE_RESTRICTED \<Rightarrow> ci1\<lparr>ci_rejectUnknownOpcode := ci_rejectUnknownOpcode ci1 + 1\<rparr>
                 | AUTH_NONE \<Rightarrow> ci1);
          ci3 = (if cfg_identity config = LINK_UHF \<and> cfg_role config = ROLE_BACKUP
                 then ci2\<lparr>ci_rejectUhfBackup := ci_rejectUhfBackup ci2 + 1\<rparr> else ci2)
      in (ci3, [CiTlmAuthReject (ci_rejectTotal ci3) (ci_rejectPolicy ci3) (ci_rejectMalformed ci3) (ci_rejectUnknownOpcode ci3)
                  (ci_rejectConfig ci3) (ci_rejectUhfBackup ci3) opcode (ad_reason decision) (ad_commandClass decision)
                  (cfg_role config) portNum (cfg_identity config)]))"

definition rejectCommand :: "nat \<Rightarrow> u32 \<Rightarrow> u32 \<Rightarrow> authorityDecision \<Rightarrow> authorityConfig \<Rightarrow> commandIngress \<Rightarrow> commandIngress \<times> ciOut list" where
  "rejectCommand portNum opcode context decision config ci =
     (let (ci1, out) = writeRejectTelemetry portNum opcode decision config ci
      in (ci1, out @ [COMMAND_AUTHORITY_REJECTED opcode portNum (cfg_identity config) (cfg_role config) (ad_commandClass decision)
                        (ad_reason decision) (ad_response decision),
                      SeqCmdStatusOut portNum opcode context (ad_response decision)]))"

definition rejectEnvelope :: "nat \<Rightarrow> u32 \<Rightarrow> u32 \<Rightarrow> commandEnvelopeRejectReason \<Rightarrow> commandIngress \<Rightarrow> commandIngress \<times> ciOut list" where
  "rejectEnvelope portNum opcode context reason ci =
     (let ci1 = ci\<lparr>ci_envelopeRejectedTotal := ci_envelopeRejectedTotal ci + 1\<rparr>
      in (ci1, [CiTlmEnvelopeReject (ci_envelopeRejectedTotal ci1) reason, COMMAND_ENVELOPE_REJECTED portNum reason CMD_FORMAT_ERROR,
                SeqCmdStatusOut portNum opcode context CMD_FORMAT_ERROR]))"

fun authRejectResponse :: "commandEnvelopeAuthRejectReason \<Rightarrow> cmdResponse option" where
  "authRejectResponse EA_INVALID_CONFIG = Some CMD_EXECUTION_ERROR"
| "authRejectResponse EA_NONE = None"
| "authRejectResponse _ = Some CMD_VALIDATION_ERROR"

definition writeEnvelopeAuthRejectTelemetry :: "nat \<Rightarrow> authorityConfig \<Rightarrow> commandEnvelopeMetadata \<Rightarrow> u32 \<Rightarrow>
    commandEnvelopeAuthRejectReason \<Rightarrow> commandIngress \<Rightarrow> commandIngress \<times> ciOut list" where
  "writeEnvelopeAuthRejectTelemetry portNum config metadata opcode reason ci =
     (let ci1 = ci\<lparr>ci_envelopeAuthRejectTotal := ci_envelopeAuthRejectTotal ci + 1\<rparr>;
          ci2 = (case reason of
                   EA_INVALID_CONFIG \<Rightarrow> ci1\<lparr>ci_envelopeAuthRejectConfig := ci_envelopeAuthRejectConfig ci1 + 1\<rparr>
                 | EA_SOURCE_MISMATCH \<Rightarrow> ci1\<lparr>ci_envelopeAuthRejectSourceMismatch := ci_envelopeAuthRejectSourceMismatch ci1 + 1\<rparr>
                 | EA_UNKNOWN_KEY_SLOT \<Rightarrow> ci1\<lparr>ci_envelopeAuthRejectUnknownKeySlot := ci_envelopeAuthRejectUnknownKeySlot ci1 + 1\<rparr>
                 | EA_BAD_MAC \<Rightarrow> ci1\<lparr>ci_envelopeAuthRejectBadMac := ci_envelopeAuthRejectBadMac ci1 + 1\<rparr>
                 | EA_NONE \<Rightarrow> ci1)
      in (ci2, [CiTlmEnvelopeAuthReject (ci_envelopeAuthRejectTotal ci2) (ci_envelopeAuthRejectConfig ci2)
                  (ci_envelopeAuthRejectSourceMismatch ci2) (ci_envelopeAuthRejectUnknownKeySlot ci2)
                  (ci_envelopeAuthRejectBadMac ci2) portNum (cfg_identity config) (cfg_role config) metadata opcode reason]))"

text \<open>An accepted result has no rejection: the code asserts.\<close>

definition rejectEnvelopeAuth :: "nat \<Rightarrow> u32 \<Rightarrow> u32 \<Rightarrow> authorityConfig \<Rightarrow> commandEnvelopeMetadata \<Rightarrow>
    commandEnvelopeAuthRejectReason \<Rightarrow> commandIngress \<Rightarrow> commandIngress \<times> ciOut list" where
  "rejectEnvelopeAuth portNum opcode context config metadata reason ci =
     (case authRejectResponse reason of
        None \<Rightarrow> (ci, [CiAssert])
      | Some response \<Rightarrow>
          let (ci1, out) = writeEnvelopeAuthRejectTelemetry portNum config metadata opcode reason ci
          in (ci1, out @ [COMMAND_ENVELOPE_AUTH_REJECTED portNum (cfg_identity config) (cfg_role config) metadata opcode reason response,
                          SeqCmdStatusOut portNum opcode context response]))"

definition rejectSequence :: "nat \<Rightarrow> u32 \<Rightarrow> u32 \<Rightarrow> authorityConfig \<Rightarrow> commandEnvelopeMetadata \<Rightarrow> commandSequenceRejectReason \<Rightarrow>
    cmdResponse \<Rightarrow> commandIngress \<Rightarrow> commandIngress \<times> ciOut list" where
  "rejectSequence portNum opcode context config metadata reason response ci =
     (let ci1 = ci\<lparr>ci_sequenceRejectTotal := ci_sequenceRejectTotal ci + 1\<rparr> in
      case reason of
        SEQ_REJECT_NONE \<Rightarrow> (ci1, [CiAssert])
      | _ \<Rightarrow>
          let ci2 = (if reason = NOT_INCREASING
                     then ci1\<lparr>ci_sequenceRejectNotIncreasing := ci_sequenceRejectNotIncreasing ci1 + 1\<rparr>
                     else ci1\<lparr>ci_sequenceRejectWindowFull := ci_sequenceRejectWindowFull ci1 + 1\<rparr>)
          in (ci2, [CiTlmSequenceReject (ci_sequenceRejectTotal ci2) (ci_sequenceRejectNotIncreasing ci2) (ci_sequenceRejectWindowFull ci2)
                      portNum (cfg_identity config) (cfg_role config) (em_sessionId metadata) (em_sequenceNumber metadata) opcode reason,
                    COMMAND_SEQUENCE_REJECTED portNum (cfg_identity config) (cfg_role config) (em_sessionId metadata)
                      (em_sequenceNumber metadata) opcode reason response,
                    SeqCmdStatusOut portNum opcode context response]))"

text \<open>The two translations of a window result; an accepted number has none (the source asserts).\<close>

fun sequenceRejectReason :: "commandSequenceResult \<Rightarrow> commandSequenceRejectReason option" where
  "sequenceRejectReason REJECTED_NOT_INCREASING = Some NOT_INCREASING"
| "sequenceRejectReason REJECTED_TABLE_FULL = Some WINDOW_FULL"
| "sequenceRejectReason ACCEPTED = None"

fun sequenceRejectResponse :: "commandSequenceResult \<Rightarrow> cmdResponse option" where
  "sequenceRejectResponse REJECTED_NOT_INCREASING = Some CMD_VALIDATION_ERROR"
| "sequenceRejectResponse REJECTED_TABLE_FULL = Some CMD_EXECUTION_ERROR"
| "sequenceRejectResponse ACCEPTED = None"

definition rejectSession :: "nat \<Rightarrow> u32 \<Rightarrow> u32 \<Rightarrow> authorityConfig \<Rightarrow> u32 \<Rightarrow> u32 \<Rightarrow> u32 \<Rightarrow> u32 \<Rightarrow> cmdResponse \<Rightarrow>
    commandIngress \<Rightarrow> commandIngress \<times> ciOut list" where
  "rejectSession portNum opcode context config sessionId sequenceNumber innerOpcode reason response ci =
     (let ci1 = ci\<lparr>ci_sessionRejectTotal := ci_sessionRejectTotal ci + 1\<rparr>
      in (ci1, [CiTlmSessionReject (ci_sessionRejectTotal ci1) portNum (cfg_identity config) (cfg_role config) sessionId sequenceNumber
                  innerOpcode reason,
                COMMAND_SESSION_REJECTED portNum (cfg_identity config) (cfg_role config) sessionId sequenceNumber innerOpcode reason response,
                SeqCmdStatusOut portNum opcode context response]))"

definition rejectSecureCommand :: "nat \<Rightarrow> u32 \<Rightarrow> u32 \<Rightarrow> authorityConfig \<Rightarrow> u32 \<Rightarrow> u32 \<Rightarrow> u32 \<Rightarrow> secureCommandV2RejectReason \<Rightarrow>
    cmdResponse \<Rightarrow> commandIngress \<Rightarrow> commandIngress \<times> ciOut list" where
  "rejectSecureCommand portNum opcode context config sessionId sequenceNumber innerOpcode reason response ci =
     (let ci1 = ci\<lparr>ci_secureRejectTotal := ci_secureRejectTotal ci + 1\<rparr>;
          ci2 = (if reason = SC_BAD_MAC then ci1\<lparr>ci_secureRejectBadMac := ci_secureRejectBadMac ci1 + 1\<rparr> else ci1);
          ci3 = (if reason = SC_AUTH_REQUIRED \<or> reason = SC_SERVICE_MISMATCH
                 then ci2\<lparr>ci_secureRejectNoAuth := ci_secureRejectNoAuth ci2 + 1\<rparr> else ci2)
      in (ci3, [CiTlmSecureReject (ci_secureRejectTotal ci3) (ci_secureRejectBadMac ci3) (ci_secureRejectNoAuth ci3) portNum
                  (cfg_identity config) (cfg_role config) sessionId sequenceNumber innerOpcode reason,
                SECURE_COMMAND_REJECTED portNum (cfg_identity config) (cfg_role config) sessionId sequenceNumber innerOpcode reason response,
                SeqCmdStatusOut portNum opcode context response]))"

definition observeEnvelope :: "nat \<Rightarrow> authorityConfig \<Rightarrow> commandEnvelopeMetadata \<Rightarrow> commandIngress \<Rightarrow> commandIngress \<times> ciOut list" where
  "observeEnvelope portNum config metadata ci =
     (let ci1 = ci\<lparr>ci_envelopeObservedTotal := ci_envelopeObservedTotal ci + 1\<rparr>
      in (ci1, [CiTlmEnvelopeObserved (ci_envelopeObservedTotal ci1) (em_sessionId metadata) (em_sequenceNumber metadata)
                  (em_innerOpcode metadata),
                COMMAND_ENVELOPE_OBSERVED portNum (cfg_identity config) (cfg_role config) (em_sessionId metadata)
                  (em_sequenceNumber metadata) (em_innerOpcode metadata)]))"

section \<open>Sessions\<close>

definition publishActiveSession :: "nat \<Rightarrow> activeSession \<Rightarrow> commandIngress \<Rightarrow> commandIngress \<times> ciOut list" where
  "publishActiveSession portNum state ci =
     (ci\<lparr>ci_lastPublishedActive := as_open state, ci_lastPublishedPort := portNum\<rparr>,
      [CiTlmSession (as_open state) portNum (as_linkIdentity state) (as_linkRole state) (as_sessionId state)
         (as_lastAcceptedSequence state) (if as_secureAuthenticated state then as_serviceId state else 0)])"

definition publishInactiveSession :: "nat \<Rightarrow> commandIngress \<Rightarrow> commandIngress \<times> ciOut list" where
  "publishInactiveSession portNum ci =
     (ci\<lparr>ci_lastPublishedActive := False, ci_lastPublishedPort := portNum\<rparr>,
      [CiTlmSession False portNum LINK_UNKNOWN ROLE_UNKNOWN 0 0 0])"

definition publishRemainingActiveSessionOrInactive :: "nat \<Rightarrow> commandIngress \<Rightarrow> commandIngress \<times> ciOut list" where
  "publishRemainingActiveSessionOrInactive clearedPortNum ci =
     (case find (\<lambda>i. as_open (ci_sessions ci ! i)) [0..<CommandIngressAuthorityPorts] of
        Some i \<Rightarrow> publishActiveSession i (ci_sessions ci ! i) ci
      | None \<Rightarrow> publishInactiveSession clearedPortNum ci)"

definition clearActiveSession :: "nat \<Rightarrow> commandIngress \<Rightarrow> commandIngress \<times> ciOut list" where
  "clearActiveSession portNum ci =
     (let ci1 = ci\<lparr>ci_sessions := (ci_sessions ci)[portNum := defaultSession]\<rparr>
      in if ci_lastPublishedActive ci1 \<and> ci_lastPublishedPort ci1 = portNum
         then publishRemainingActiveSessionOrInactive portNum ci1 else (ci1, []))"

definition notifySessionOpened :: "nat \<Rightarrow> authorityConfig \<Rightarrow> activeSession \<Rightarrow> bool \<Rightarrow> commandIngress \<Rightarrow> ciOut list" where
  "notifySessionOpened portNum config state replaced ci =
     (if ci_observer ci
      then [ObserverOpened portNum config (as_sessionId state) (as_lastAcceptedSequence state) (as_secureAuthenticated state) replaced]
      else [])"

definition notifySessionActivity :: "nat \<Rightarrow> authorityConfig \<Rightarrow> activeSession \<Rightarrow> commandIngress \<Rightarrow> ciOut list" where
  "notifySessionActivity portNum config state ci =
     (if ci_observer ci then [ObserverActivity portNum config (as_sessionId state) (as_lastAcceptedSequence state)] else [])"

definition notifySessionRevoked :: "nat \<Rightarrow> activeSession \<Rightarrow> u32 \<Rightarrow> bool \<Rightarrow> commandIngress \<Rightarrow> ciOut list" where
  "notifySessionRevoked portNum state reason notifyObserver ci =
     (if \<not> notifyObserver \<or> \<not> ci_observer ci then []
      else [ObserverRevoked portNum (ci_configs ci ! portNum) (as_sessionId state) (as_lastAcceptedSequence state) reason])"

definition updateAcceptedSessionSequence :: "nat \<Rightarrow> u32 \<Rightarrow> commandIngress \<Rightarrow> commandIngress \<times> ciOut list" where
  "updateAcceptedSessionSequence portNum sequenceNumber ci =
     (let session = ci_sessions ci ! portNum in
      if \<not> as_open session then (ci, [])
      else let session1 = session\<lparr>as_lastAcceptedSequence := sequenceNumber\<rparr>;
               ci1 = ci\<lparr>ci_sessions := (ci_sessions ci)[portNum := session1]\<rparr>;
               (ci2, out) = publishActiveSession portNum session1 ci1
           in (ci2, out @
                (if as_secureAuthenticated session1 \<and> ci_activityConnected ci2
                 then [AuthActivityOut portNum (as_serviceId session1) sequenceNumber] else []) @
                notifySessionActivity portNum (ci_configs ci2 ! portNum) session1 ci2))"

definition nextRuntimeSessionToken :: "commandIngress \<Rightarrow> u32 \<times> commandIngress" where
  "nextRuntimeSessionToken ci =
     (let token = (if ci_nextToken ci = 0 then 1 else ci_nextToken ci);
          nxt = token + 1
      in (token, ci\<lparr>ci_nextToken := if nxt = 0 then 1 else nxt\<rparr>))"

definition synthesizeSecureSessionFromAuthGrant :: "nat \<Rightarrow> authorityConfig \<Rightarrow> secureAuthGrant \<Rightarrow> commandIngress \<Rightarrow>
    commandIngress \<times> ciOut list" where
  "synthesizeSecureSessionFromAuthGrant portNum config grant ci =
     (let old = ci_sessions ci ! portNum;
          replaced = as_open old;
          ci1 = (if as_open old then ci\<lparr>ci_window := w_resetSource portNum (as_linkIdentity old) (as_linkRole old) (ci_window ci)\<rparr> else ci);
          (token, ci2) = nextRuntimeSessionToken ci1;
          session = \<lparr>as_open = True, as_secureAuthenticated = True, as_linkIdentity = cfg_identity config, as_linkRole = cfg_role config,
                     as_serviceId = ucast (gr_serviceId grant), as_sessionId = token, as_lastAcceptedSequence = 0,
                     as_secureSessionKey = gr_sessionKey grant\<rparr>;
          ci3 = ci2\<lparr>ci_sessions := (ci_sessions ci2)[portNum := session],
                    ci_window := w_resetSource portNum (cfg_identity config) (cfg_role config) (ci_window ci2),
                    ci_sessionOpenTotal := ci_sessionOpenTotal ci2 + 1\<rparr>;
          (ci4, out) = publishActiveSession portNum session ci3
      in (ci4, [CiTlmSessionOpenTotal (ci_sessionOpenTotal ci4)] @ out @ notifySessionOpened portNum config session replaced ci4 @
               [COMMAND_SESSION_OPENED portNum (cfg_identity config) (cfg_role config) (as_sessionId session) replaced]))"

text \<open>The common part of the two revocations: the session is open when it runs.\<close>

definition revokeOpenSession :: "nat \<Rightarrow> u32 \<Rightarrow> bool \<Rightarrow> commandIngress \<Rightarrow> commandIngress \<times> ciOut list" where
  "revokeOpenSession portNum reason notifyObserver ci =
     (let session = ci_sessions ci ! portNum;
          ci1 = ci\<lparr>ci_window := w_resetSource portNum (as_linkIdentity session) (as_linkRole session) (ci_window ci),
                   ci_sessionRevokeTotal := ci_sessionRevokeTotal ci + 1\<rparr>;
          out1 = [CiTlmRevoke (ci_sessionRevokeTotal ci1) portNum (as_linkIdentity session) (as_linkRole session)
                    (as_sessionId session) reason,
                  COMMAND_SESSION_REVOKED portNum (as_linkIdentity session) (as_linkRole session) (as_sessionId session) reason];
          out2 = notifySessionRevoked portNum session reason notifyObserver ci1;
          (ci2, out3) = clearActiveSession portNum ci1
      in (ci2, out1 @ out2 @ out3))"

definition revokeSecureSession :: "nat \<Rightarrow> u8 \<Rightarrow> u32 \<Rightarrow> bool \<Rightarrow> commandIngress \<Rightarrow> commandIngress \<times> ciOut list" where
  "revokeSecureSession portNum serviceId reason notifyObserver ci =
     (let session = ci_sessions ci ! portNum in
      if \<not> as_open session \<or> \<not> as_secureAuthenticated session \<or> as_serviceId session \<noteq> serviceId then (ci, [])
      else revokeOpenSession portNum reason notifyObserver ci)"

section \<open>Pending dispatches\<close>

definition rememberPendingDispatch :: "nat \<Rightarrow> u32 \<Rightarrow> commandIngress \<Rightarrow> commandIngress" where
  "rememberPendingDispatch ingressPort context ci =
     (let entry = \<lparr>pd_used = True, pd_context = context, pd_ingressPort = ingressPort\<rparr> in
      case find (\<lambda>i. \<not> pd_used (ci_pending ci ! i)) [0..<length (ci_pending ci)] of
        Some i \<Rightarrow> ci\<lparr>ci_pending := (ci_pending ci)[i := entry]\<rparr>
      | None \<Rightarrow> ci\<lparr>ci_pending := (ci_pending ci)[ci_nextPendingSlot ci := entry],
                   ci_nextPendingSlot := (ci_nextPendingSlot ci + 1) mod length (ci_pending ci)\<rparr>)"

definition consumePendingDispatch :: "nat \<Rightarrow> u32 \<Rightarrow> commandIngress \<Rightarrow> bool \<times> commandIngress" where
  "consumePendingDispatch statusPort context ci =
     (let ps = ci_pending ci; consume = (\<lambda>i. (True, ci\<lparr>ci_pending := ps[i := defaultPending]\<rparr>)) in
      case find (\<lambda>i. pd_used (ps ! i) \<and> pd_context (ps ! i) = context \<and> pd_ingressPort (ps ! i) = statusPort) [0..<length ps] of
        Some i \<Rightarrow> consume i
      | None \<Rightarrow>
          (case filter (\<lambda>i. pd_used (ps ! i) \<and> pd_context (ps ! i) = context) [0..<length ps] of
             [i] \<Rightarrow> consume i
           | _ \<Rightarrow> (False, ci)))"

section \<open>Handlers\<close>

definition clearIngressSources :: "commandIngress \<Rightarrow> commandIngress \<times> ciOut list" where
  "clearIngressSources ci =
     (ci\<lparr>ci_window := w_resetAll (ci_window ci),
         ci_configs := replicate CommandIngressAuthorityPorts defaultAuthorityConfig,
         ci_sessions := replicate CommandIngressAuthorityPorts defaultSession,
         ci_pending := replicate (length (ci_pending ci)) defaultPending, ci_nextPendingSlot := 0,
         ci_lastPublishedActive := False, ci_lastPublishedPort := 0, ci_nextToken := 1\<rparr>,
      [CiTlmSession False 0 LINK_UNKNOWN ROLE_UNKNOWN 0 0 0,
       CiTlmCleared (ci_sessionRevokeTotal ci) (ci_secureRejectTotal ci) (ci_secureRejectBadMac ci) (ci_secureRejectNoAuth ci)])"

definition reconfigureIngressSource :: "nat \<Rightarrow> authorityConfig \<Rightarrow> commandIngress \<Rightarrow> bool \<times> commandIngress \<times> ciOut list" where
  "reconfigureIngressSource portNum config ci =
     (if \<not> portNum < CommandIngressAuthorityPorts then (False, ci, [CiAssert])
      else let session = ci_sessions ci ! portNum;
               ci1 = (if as_open session
                      then ci\<lparr>ci_window := w_resetSource portNum (as_linkIdentity session) (as_linkRole session) (ci_window ci)\<rparr> else ci);
               (ci2, out) = clearActiveSession portNum ci1
           in (as_open session, ci2\<lparr>ci_configs := (ci_configs ci2)[portNum := config]\<rparr>, out))"

definition configureIngress :: "authorityConfig \<Rightarrow> commandIngress \<Rightarrow> commandIngress \<times> ciOut list" where
  "configureIngress config ci =
     (let (ci1, out1) = clearIngressSources ci; (_, ci2, out2) = reconfigureIngressSource 0 config ci1 in (ci2, out1 @ out2))"

definition revokeIngressSource :: "nat \<Rightarrow> u32 \<Rightarrow> bool \<Rightarrow> commandIngress \<Rightarrow> bool \<times> commandIngress \<times> ciOut list" where
  "revokeIngressSource portNum reason notifyObserver ci =
     (if \<not> portNum < CommandIngressAuthorityPorts then (False, ci, [CiAssert])
      else if \<not> as_open (ci_sessions ci ! portNum) then (False, ci, [])
      else let (ci1, out) = revokeOpenSession portNum reason notifyObserver ci in (True, ci1, out))"

definition hasOpenSessionForRuntime :: "nat \<Rightarrow> commandIngress \<Rightarrow> bool option" where
  "hasOpenSessionForRuntime portNum ci =
     (if portNum < CommandIngressAuthorityPorts then Some (as_open (ci_sessions ci ! portNum)) else None)"

definition getIngressConfigForRuntime :: "nat \<Rightarrow> commandIngress \<Rightarrow> authorityConfig option" where
  "getIngressConfigForRuntime portNum ci = (if portNum < CommandIngressAuthorityPorts then Some (ci_configs ci ! portNum) else None)"

definition authGrantedIn_handler :: "secureAuthGrant \<Rightarrow> commandIngress \<Rightarrow> commandIngress \<times> ciOut list" where
  "authGrantedIn_handler grant ci =
     (if \<not> gr_ingressPort grant < CommandIngressAuthorityPorts then (ci, [CiAssert])
      else let config = ci_configs ci ! gr_ingressPort grant in
           if \<not> cfg_valid config \<or> \<not> isCommManagedAuthority config \<or> ucast (secureServiceIdForConfig config) \<noteq> gr_serviceId grant
           then (ci, [])
           else synthesizeSecureSessionFromAuthGrant (gr_ingressPort grant) config grant ci)"

definition authRevokedIn_handler :: "secureAuthRevocation \<Rightarrow> commandIngress \<Rightarrow> commandIngress \<times> ciOut list" where
  "authRevokedIn_handler revocation ci =
     (if \<not> rv_ingressPort revocation < CommandIngressAuthorityPorts then (ci, [CiAssert])
      else revokeSecureSession (rv_ingressPort revocation) (ucast (rv_serviceId revocation)) (rv_reason revocation) True ci)"

definition seqCmdStatusIn_handler :: "nat \<Rightarrow> u32 \<Rightarrow> u32 \<Rightarrow> cmdResponse \<Rightarrow> commandIngress \<Rightarrow> commandIngress \<times> ciOut list" where
  "seqCmdStatusIn_handler portNum opCode cmdSeq response ci =
     (if \<not> portNum < CommandIngressAuthorityPorts then (ci, [CiAssert])
      else (snd (consumePendingDispatch portNum cmdSeq ci), [SeqCmdStatusOut portNum opCode cmdSeq response]))"

definition sequenceControlStatusIn_handler :: "nat \<Rightarrow> u32 \<Rightarrow> u32 \<Rightarrow> u32 \<Rightarrow> commandIngress \<Rightarrow> commandIngress \<times> ciOut list" where
  "sequenceControlStatusIn_handler ingressPort originalOpcode originalCmdSeq cmdResponse ci =
     (if \<not> ingressPort < CommandIngressAuthorityPorts then (ci, [CiAssert])
      else (ci, [SeqCmdStatusCast ingressPort originalOpcode originalCmdSeq cmdResponse]))"

text \<open>The request of a governed sequence command inside a secure packet, if it parses.\<close>

definition innerSequenceRequest :: "fwSerial \<Rightarrow> fwSeqArgs \<Rightarrow> u32 \<Rightarrow> bytes \<Rightarrow> nat \<Rightarrow> authorityConfig \<Rightarrow> u32 \<Rightarrow> sequenceControlRequest option" where
  "innerSequenceRequest fw fa opcode innerCommand portNum config context =
     (case fw_cmdPacket fw innerCommand of
        None \<Rightarrow> None
      | Some (_, args) \<Rightarrow> parseSequenceControlRequest fw fa opcode args portNum config context)"

definition handleSecureCommandV2 :: "fwSerial \<Rightarrow> fwSeqArgs \<Rightarrow> (sequenceControlRequest \<Rightarrow> sequenceControlResult) \<Rightarrow> nat \<Rightarrow> u32 \<Rightarrow> bytes \<Rightarrow>
    commandIngress \<Rightarrow> commandIngress \<times> ciOut list" where
  "handleSecureCommandV2 fw fa ctl portNum context outerArgs ci =
     (let config = ci_configs ci ! portNum; session = ci_sessions ci ! portNum;
          (secureCommand, innerCommand) = parseSecureCommandV2 fw outerArgs;
          opcode = sc_innerOpcode secureCommand; sequenceNumber = sc_sequenceNumber secureCommand;
          reject = (\<lambda>sessionId reason. rejectSecureCommand portNum opcode context config sessionId sequenceNumber opcode reason
                     (secureCommandRejectResponse reason)) in
      if \<not> sc_valid secureCommand
      then rejectSecureCommand portNum (sc_responseOpcode secureCommand) context config (if as_open session then as_sessionId session else 0)
             sequenceNumber (sc_responseOpcode secureCommand) (sc_reason secureCommand)
             (secureCommandRejectResponse (sc_reason secureCommand)) ci
      else if secureServiceIdForConfig config = 0 \<or> \<not> as_open session \<or> \<not> as_secureAuthenticated session
      then reject (if as_open session then as_sessionId session else 0) SC_AUTH_REQUIRED ci
      else if as_serviceId session \<noteq> secureServiceIdForConfig config then reject (as_sessionId session) SC_SERVICE_MISMATCH ci
      else let authReject = verifySecureCommandV2Auth fw secureCommand innerCommand (Some (as_secureSessionKey session)) in
      if authReject \<noteq> SC_NONE then reject (as_sessionId session) authReject ci
      else if \<not> ad_allow (evaluateCommandAuthority config opcode)
      then rejectCommand portNum opcode context (evaluateCommandAuthority config opcode) config ci
      else if isDeniedDirectOfficialSequencingOpcode opcode
      then rejectCommand portNum opcode context (defaultDecision\<lparr>ad_reason := POLICY_DENIED, ad_response := CMD_VALIDATION_ERROR\<rparr>) config ci
      else let request = innerSequenceRequest fw fa opcode innerCommand portNum config context in
      if isGovernedSequenceWrapperOpcode opcode \<and> request = None then reject (as_sessionId session) SC_INVALID_INNER_COMMAND ci
      else let (result, w) = w_evaluateAndAccept (sessionKeyFor portNum config (as_sessionId session)) sequenceNumber (ci_window ci);
               ci1 = ci\<lparr>ci_window := w\<rparr> in
      if result \<noteq> ACCEPTED
      then reject (as_sessionId session)
             (if result = REJECTED_NOT_INCREASING then SC_SEQUENCE_NOT_INCREASING else SC_SEQUENCE_WINDOW_FULL) ci1
      else if isGovernedSequenceWrapperOpcode opcode
      then let answer = ctl (the request) in
           if rs_accepted answer
           then let (ci2, out) = updateAcceptedSessionSequence portNum sequenceNumber ci1
                in (ci2, SequenceControlOut (the request) # out @
                     (if \<not> rs_deferred answer then [SeqCmdStatusCast portNum opcode context (rs_cmdResponse answer)] else []))
           else (ci1, [SequenceControlOut (the request), SeqCmdStatusCast portNum opcode context (rs_cmdResponse answer)])
      else let (ci2, out) = updateAcceptedSessionSequence portNum sequenceNumber ci1
           in (rememberPendingDispatch portNum context ci2, out @ [SeqCmdBuffOut portNum innerCommand context]))"

definition seqCmdBuffIn_handler :: "fwSerial \<Rightarrow> fwSeqArgs \<Rightarrow> (sequenceControlRequest \<Rightarrow> sequenceControlResult) \<Rightarrow> nat \<Rightarrow> bytes \<Rightarrow> u32 \<Rightarrow>
    commandIngress \<Rightarrow> commandIngress \<times> ciOut list" where
  "seqCmdBuffIn_handler fw fa ctl portNum data context ci =
     (if \<not> portNum < CommandIngressAuthorityPorts then (ci, [CiAssert])
      else let config = ci_configs ci ! portNum in
      if \<not> cfg_valid config
      then rejectCommand portNum (case fw_cmdPacket fw data of Some (opcode, _) \<Rightarrow> opcode | None \<Rightarrow> UNKNOWN_OPCODE) context
             (defaultDecision\<lparr>ad_reason := AUTH_INVALID_CONFIG, ad_response := CMD_EXECUTION_ERROR\<rparr>) config ci
      else case fw_cmdPacket fw data of
        None \<Rightarrow>
          if requiresAuthenticatedEnvelope config
          then rejectCommand portNum UNKNOWN_OPCODE context
                 (defaultDecision\<lparr>ad_reason := MALFORMED_RESTRICTED, ad_response := CMD_FORMAT_ERROR\<rparr>) config ci
          else (ci, [SeqCmdBuffOut portNum data context])
      | Some (opcode, args) \<Rightarrow>
          if opcode = OBC_SECURE_COMMAND_V2_OPCODE then handleSecureCommandV2 fw fa ctl portNum context args ci
          else if opcode = OBC_COMMAND_ENVELOPE_V1_OPCODE then rejectEnvelope portNum opcode context EV_LEGACY_UNSUPPORTED ci
          else if requiresAuthenticatedEnvelope config
          then rejectCommand portNum opcode context (envelopeRequiredDecision opcode) config ci
          else if isDeniedDirectOfficialSequencingOpcode opcode
          then rejectCommand portNum opcode context
                 (defaultDecision\<lparr>ad_reason := POLICY_DENIED, ad_response := CMD_VALIDATION_ERROR\<rparr>) config ci
          else if isGovernedSequenceWrapperOpcode opcode
          then (case parseSequenceControlRequest fw fa opcode args portNum config context of
                  None \<Rightarrow> rejectCommand portNum opcode context
                           (defaultDecision\<lparr>ad_reason := MALFORMED_RESTRICTED, ad_response := CMD_FORMAT_ERROR\<rparr>) config ci
                | Some request \<Rightarrow>
                    let answer = ctl request
                    in (ci, SequenceControlOut request #
                         (if rs_accepted answer \<and> \<not> rs_deferred answer \<or> \<not> rs_accepted answer
                          then [SeqCmdStatusCast portNum opcode context (rs_cmdResponse answer)] else [])))
          else let decision = evaluateCommandAuthority config opcode in
               if ad_allow decision then (rememberPendingDispatch portNum context ci, [SeqCmdBuffOut portNum data context])
               else rejectCommand portNum opcode context decision config ci)"

end
