(* ===== verification/Ingress_Safety.thy ===== *)
theory Ingress_Safety
  imports Command_Ingress
begin

text \<open>
  What \<open>CommandIngressAuthority\<close> guarantees: over a radio link only authentic, authorized and fresh commands reach the
  dispatcher; every command is answered once; sessions, sequence window and published state stay consistent
  in every reachable state.
\<close>

section \<open>What a rejection leaves alone\<close>

definition core :: "commandIngress \<Rightarrow> authorityConfig list \<times> activeSession list \<times> sequenceWindow \<times> bool \<times> nat \<times> pendingDispatch list \<times> nat \<times> u32" where
  "core ci = (ci_configs ci, ci_sessions ci, ci_window ci, ci_lastPublishedActive ci, ci_lastPublishedPort ci, ci_pending ci,
     ci_nextPendingSlot ci, ci_nextToken ci)"

lemma core_eq:
  "core ci' = core ci \<longleftrightarrow> ci_configs ci' = ci_configs ci \<and> ci_sessions ci' = ci_sessions ci \<and> ci_window ci' = ci_window ci \<and>
     ci_lastPublishedActive ci' = ci_lastPublishedActive ci \<and> ci_lastPublishedPort ci' = ci_lastPublishedPort ci \<and>
     ci_pending ci' = ci_pending ci \<and> ci_nextPendingSlot ci' = ci_nextPendingSlot ci \<and> ci_nextToken ci' = ci_nextToken ci"
  by (auto simp: core_def)

fun forwards :: "ciOut \<Rightarrow> bool" where
  "forwards (SeqCmdBuffOut p d c) = True"
| "forwards (SequenceControlOut r) = True"
| "forwards _ = False"

fun answers :: "ciOut \<Rightarrow> bool" where
  "answers (SeqCmdBuffOut p d c) = True"
| "answers (SeqCmdStatusOut p op c r) = True"
| "answers (SeqCmdStatusCast p op c r) = True"
| "answers _ = False"

text \<open>The handler refused the command: one status, nothing forwarded, no session state changed.\<close>

definition refused :: "commandIngress \<Rightarrow> commandIngress \<times> ciOut list \<Rightarrow> bool" where
  "refused ci r \<longleftrightarrow> core (fst r) = core ci \<and> filter forwards (snd r) = [] \<and> length (filter answers (snd r)) = 1"

lemma refused_if: "(b \<Longrightarrow> refused ci x) \<Longrightarrow> (\<not> b \<Longrightarrow> refused ci y) \<Longrightarrow> refused ci (if b then x else y)"
  by simp

lemma telemetry_core: "core (fst (writeRejectTelemetry p op d cfg ci)) = core ci"
  by (cases "ad_reason d") (simp_all add: writeRejectTelemetry_def Let_def core_def)

lemma telemetry_out: "filter forwards (snd (writeRejectTelemetry p op d cfg ci)) = []"
    "filter answers (snd (writeRejectTelemetry p op d cfg ci)) = []"
  by (simp_all add: writeRejectTelemetry_def Let_def)

lemma reject_refused [intro, simp]:
  "refused ci (rejectCommand p op c d cfg ci)" "refused ci (rejectEnvelope p op c re ci)"
  "refused ci (rejectSecureCommand p op c cfg s n iop rs resp ci)"
  using telemetry_core [of p op d cfg ci] telemetry_out [of p op d cfg ci]
  by (simp_all add: refused_def rejectCommand_def rejectEnvelope_def rejectSecureCommand_def Let_def split_beta)
    (simp_all add: core_def)

section \<open>Secure commands\<close>

text \<open>The conditions under which a secure command passes.\<close>

definition secure_ok :: "fwSerial \<Rightarrow> fwSeqArgs \<Rightarrow> nat \<Rightarrow> u32 \<Rightarrow> bytes \<Rightarrow> commandIngress \<Rightarrow> bool" where
  "secure_ok fw fa p context args ci \<longleftrightarrow>
     (let config = ci_configs ci ! p; session = ci_sessions ci ! p;
          sc = fst (parseSecureCommandV2 fw args); inner = snd (parseSecureCommandV2 fw args); opcode = sc_innerOpcode sc in
      sc_valid sc \<and> secureServiceIdForConfig config \<noteq> 0 \<and> as_open session \<and> as_secureAuthenticated session \<and>
      as_serviceId session = secureServiceIdForConfig config \<and>
      verifySecureCommandV2Auth fw sc inner (Some (as_secureSessionKey session)) = SC_NONE \<and>
      ad_allow (evaluateCommandAuthority config opcode) \<and> \<not> isDeniedDirectOfficialSequencingOpcode opcode \<and>
      (isGovernedSequenceWrapperOpcode opcode \<longrightarrow> innerSequenceRequest fw fa opcode inner p config context \<noteq> None) \<and>
      fst (w_evaluateAndAccept (sessionKeyFor p config (as_sessionId session)) (sc_sequenceNumber sc) (ci_window ci)) = ACCEPTED)"

lemma window_unchanged:
  "fst (w_evaluateAndAccept k n w) \<noteq> ACCEPTED \<Longrightarrow> snd (w_evaluateAndAccept k n w) = w"
  by (auto simp: w_evaluateAndAccept_def split: option.splits if_splits)

lemma secure_refused:
  assumes "\<not> secure_ok fw fa p context args ci"
  shows "refused ci (handleSecureCommandV2 fw fa ctl p context args ci)"
proof -
  obtain sc inner where p: "parseSecureCommandV2 fw args = (sc, inner)"
    by (cases "parseSecureCommandV2 fw args")
  obtain r w where a: "w_evaluateAndAccept (sessionKeyFor p (ci_configs ci ! p) (as_sessionId (ci_sessions ci ! p)))
      (sc_sequenceNumber sc) (ci_window ci) = (r, w)"
    by (cases "w_evaluateAndAccept (sessionKeyFor p (ci_configs ci ! p) (as_sessionId (ci_sessions ci ! p)))
      (sc_sequenceNumber sc) (ci_window ci)")
  have same: "refused ci (rejectSecureCommand p op c cfg s n iop rs resp (ci\<lparr>ci_window := w\<rparr>))" if "r \<noteq> ACCEPTED" for op c cfg s n iop rs resp
  proof -
    have "w = ci_window ci"
      using window_unchanged [of "sessionKeyFor p (ci_configs ci ! p) (as_sessionId (ci_sessions ci ! p))" "sc_sequenceNumber sc" "ci_window ci"]
        a that by simp
    then show ?thesis
      by simp
  qed
  show ?thesis
    unfolding handleSecureCommandV2_def Let_def p prod.case a
    by (intro refused_if; (simp add: same)?) (use assms [unfolded secure_ok_def Let_def p fst_conv snd_conv a] in simp_all)
qed

lemma remember_fields [simp]:
  "ci_configs (rememberPendingDispatch p c ci) = ci_configs ci" "ci_sessions (rememberPendingDispatch p c ci) = ci_sessions ci"
  "ci_window (rememberPendingDispatch p c ci) = ci_window ci" "ci_nextToken (rememberPendingDispatch p c ci) = ci_nextToken ci"
  "ci_lastPublishedActive (rememberPendingDispatch p c ci) = ci_lastPublishedActive ci"
  "ci_lastPublishedPort (rememberPendingDispatch p c ci) = ci_lastPublishedPort ci"
  by (simp_all add: rememberPendingDispatch_def Let_def split: option.split)

lemma update_fields [simp]:
  "ci_configs (fst (updateAcceptedSessionSequence p n ci)) = ci_configs ci"
  "ci_window (fst (updateAcceptedSessionSequence p n ci)) = ci_window ci"
  "ci_nextToken (fst (updateAcceptedSessionSequence p n ci)) = ci_nextToken ci"
  "ci_pending (fst (updateAcceptedSessionSequence p n ci)) = ci_pending ci"
  "ci_nextPendingSlot (fst (updateAcceptedSessionSequence p n ci)) = ci_nextPendingSlot ci"
  by (simp_all add: updateAcceptedSessionSequence_def publishActiveSession_def Let_def)

lemma update_open:
  assumes "as_open (ci_sessions ci ! p)"
  shows "ci_sessions (fst (updateAcceptedSessionSequence p n ci)) = (ci_sessions ci)[p := (ci_sessions ci ! p)\<lparr>as_lastAcceptedSequence := n\<rparr>]"
    "ci_lastPublishedActive (fst (updateAcceptedSessionSequence p n ci))" "ci_lastPublishedPort (fst (updateAcceptedSessionSequence p n ci)) = p"
    "filter forwards (snd (updateAcceptedSessionSequence p n ci)) = []" "filter answers (snd (updateAcceptedSessionSequence p n ci)) = []"
  using assms by (simp_all add: updateAcceptedSessionSequence_def publishActiveSession_def notifySessionActivity_def Let_def)

text \<open>The effect of a secure command that passes.\<close>

definition secure_key :: "nat \<Rightarrow> commandIngress \<Rightarrow> commandSessionKey" where
  "secure_key p ci = sessionKeyFor p (ci_configs ci ! p) (as_sessionId (ci_sessions ci ! p))"

definition passed :: "nat \<Rightarrow> u32 \<Rightarrow> commandIngress \<Rightarrow> commandIngress \<Rightarrow> bool" where
  "passed p n ci ci' \<longleftrightarrow> ci_configs ci' = ci_configs ci \<and> ci_nextToken ci' = ci_nextToken ci \<and>
     ci_window ci' = snd (w_evaluateAndAccept (secure_key p ci) n (ci_window ci)) \<and>
     (ci_sessions ci' = ci_sessions ci \<or> ci_sessions ci' = (ci_sessions ci)[p := (ci_sessions ci ! p)\<lparr>as_lastAcceptedSequence := n\<rparr>]) \<and>
     (ci_lastPublishedActive ci' = ci_lastPublishedActive ci \<and> ci_lastPublishedPort ci' = ci_lastPublishedPort ci \<or>
      ci_lastPublishedActive ci' \<and> ci_lastPublishedPort ci' = p)"

definition secure_seq :: "fwSerial \<Rightarrow> bytes \<Rightarrow> u32" where
  "secure_seq fw args = sc_sequenceNumber (fst (parseSecureCommandV2 fw args))"

definition deferred :: "(sequenceControlRequest \<Rightarrow> sequenceControlResult) \<Rightarrow> ciOut list \<Rightarrow> bool" where
  "deferred ctl out \<longleftrightarrow> (\<exists>r. SequenceControlOut r \<in> set out \<and> rs_accepted (ctl r) \<and> rs_deferred (ctl r))"

lemma deferred_filter:
  "filter forwards out = fs \<Longrightarrow> deferred ctl out \<longleftrightarrow> (\<exists>r. SequenceControlOut r \<in> set fs \<and> rs_accepted (ctl r) \<and> rs_deferred (ctl r))"
  by (auto simp: deferred_def)

lemma secure_passed:
  assumes ok: "secure_ok fw fa p context args ci"
    and r_def: "r = handleSecureCommandV2 fw fa ctl p context args ci"
  shows "passed p (secure_seq fw args) ci (fst r) \<and>
    (\<exists>req. filter forwards (snd r) =
      [if isGovernedSequenceWrapperOpcode (sc_innerOpcode (fst (parseSecureCommandV2 fw args))) then SequenceControlOut req
       else SeqCmdBuffOut p (snd (parseSecureCommandV2 fw args)) context]) \<and>
    length (filter answers (snd r)) = (if deferred ctl (snd r) then 0 else 1)"
proof -
  obtain sc inner where p: "parseSecureCommandV2 fw args = (sc, inner)"
    by (cases "parseSecureCommandV2 fw args")
  obtain res w where a: "w_evaluateAndAccept (sessionKeyFor p (ci_configs ci ! p) (as_sessionId (ci_sessions ci ! p)))
      (sc_sequenceNumber sc) (ci_window ci) = (res, w)"
    by (cases "w_evaluateAndAccept (sessionKeyFor p (ci_configs ci ! p) (as_sessionId (ci_sessions ci ! p)))
      (sc_sequenceNumber sc) (ci_window ci)")
  note c = ok [unfolded secure_ok_def Let_def p fst_conv snd_conv a]
  let ?op = "sc_innerOpcode sc" and ?n = "sc_sequenceNumber sc"
  define ci1 where "ci1 = ci\<lparr>ci_window := w\<rparr>"
  have open1: "as_open (ci_sessions ci1 ! p)"
    using c by (simp add: ci1_def)
  note upd = update_open [OF open1, of ?n]
  show ?thesis
  proof (cases "isGovernedSequenceWrapperOpcode ?op")
    case True
    then obtain req where req: "innerSequenceRequest fw fa ?op inner p (ci_configs ci ! p) context = Some req"
      using c by auto
    have r: "r = (if rs_accepted (ctl req)
        then (fst (updateAcceptedSessionSequence p ?n ci1), SequenceControlOut req # snd (updateAcceptedSessionSequence p ?n ci1) @
               (if \<not> rs_deferred (ctl req) then [SeqCmdStatusCast p ?op context (rs_cmdResponse (ctl req))] else []))
        else (ci1, [SequenceControlOut req, SeqCmdStatusCast p ?op context (rs_cmdResponse (ctl req))]))"
      unfolding r_def handleSecureCommandV2_def Let_def p prod.case a using c True req by (simp add: ci1_def split_beta)
    have f: "filter forwards (snd r) = [SequenceControlOut req]"
      unfolding r using upd by simp
    have "deferred ctl (snd r) \<longleftrightarrow> rs_accepted (ctl req) \<and> rs_deferred (ctl req)"
      using deferred_filter [OF f] by simp
    then have "length (filter answers (snd r)) = (if deferred ctl (snd r) then 0 else 1)"
      unfolding r using upd by simp
    moreover have "passed p ?n ci (fst r)"
      unfolding r using upd by (simp add: passed_def secure_key_def a) (simp add: ci1_def)
    ultimately show ?thesis
      using True f by (simp add: p secure_seq_def)
  next
    case False
    have r: "r = (rememberPendingDispatch p context (fst (updateAcceptedSessionSequence p ?n ci1)),
        snd (updateAcceptedSessionSequence p ?n ci1) @ [SeqCmdBuffOut p inner context])"
      unfolding r_def handleSecureCommandV2_def Let_def p prod.case a using c False by (simp add: ci1_def split_beta)
    have f: "filter forwards (snd r) = [SeqCmdBuffOut p inner context]"
      unfolding r using upd by simp
    then have "length (filter answers (snd r)) = (if deferred ctl (snd r) then 0 else 1)"
      using deferred_filter [OF f] upd by (simp add: r)
    moreover have "passed p ?n ci (fst r)"
      unfolding r using upd by (simp add: passed_def secure_key_def a) (simp add: ci1_def)
    ultimately show ?thesis
      using False f by (simp add: p secure_seq_def)
  qed
qed

section \<open>Commands\<close>

text \<open>A command of a link that is not a radio link, forwarded or handed to the sequence controller directly.\<close>

definition direct :: "(sequenceControlRequest \<Rightarrow> sequenceControlResult) \<Rightarrow> commandIngress \<Rightarrow> commandIngress \<times> ciOut list \<Rightarrow> bool" where
  "direct ctl ci r \<longleftrightarrow> ci_configs (fst r) = ci_configs ci \<and> ci_sessions (fst r) = ci_sessions ci \<and> ci_window (fst r) = ci_window ci \<and>
     ci_nextToken (fst r) = ci_nextToken ci \<and> ci_lastPublishedActive (fst r) = ci_lastPublishedActive ci \<and>
     ci_lastPublishedPort (fst r) = ci_lastPublishedPort ci \<and>
     length (filter answers (snd r)) = (if deferred ctl (snd r) then 0 else 1)"

lemma direct_simps:
  "direct ctl ci (ci, [SeqCmdBuffOut p d c])" "direct ctl ci (rememberPendingDispatch p c ci, [SeqCmdBuffOut p d c])"
  "direct ctl ci (ci, SequenceControlOut req # (if rs_accepted (ctl req) \<and> \<not> rs_deferred (ctl req) \<or> \<not> rs_accepted (ctl req)
     then [SeqCmdStatusCast p op c x] else []))"
  by (simp_all add: direct_def deferred_def)

lemma command_cases:
  assumes p: "p < CommandIngressAuthorityPorts" and r: "r = seqCmdBuffIn_handler fw fa ctl p data context ci"
  obtains (refused) "refused ci r"
  | (secure) args where "fw_cmdPacket fw data = Some (OBC_SECURE_COMMAND_V2_OPCODE, args)" "cfg_valid (ci_configs ci ! p)"
      "secure_ok fw fa p context args ci" "r = handleSecureCommandV2 fw fa ctl p context args ci"
  | (direct) "\<not> isCommManagedAuthority (ci_configs ci ! p)" "direct ctl ci r"
proof (cases "cfg_valid (ci_configs ci ! p)")
  case False
  then have "refused ci r"
    using p unfolding r seqCmdBuffIn_handler_def Let_def by simp
  then show ?thesis
    by (rule that(1))
next
  case valid: True
  note simps = seqCmdBuffIn_handler_def Let_def requiresAuthenticatedEnvelope_def
  show ?thesis
  proof (cases "fw_cmdPacket fw data")
    case None
    then have "if isCommManagedAuthority (ci_configs ci ! p) then refused ci r else direct ctl ci r"
      using p valid by (simp add: r simps direct_simps)
    then show ?thesis
      using that(1,3) by (simp split: if_splits)
  next
    case (Some pkt)
    obtain opcode args where pkt: "pkt = (opcode, args)"
      by (cases pkt)
    show ?thesis
    proof (cases "opcode = OBC_SECURE_COMMAND_V2_OPCODE")
      case True
      then have h: "r = handleSecureCommandV2 fw fa ctl p context args ci"
        using p valid Some by (simp add: r simps pkt)
      show ?thesis
        using that(1) [unfolded h, OF secure_refused] that(2) [OF _ valid _ h] Some
        by (cases "secure_ok fw fa p context args ci") (simp_all add: pkt True)
    next
      case other: False
      have "if isCommManagedAuthority (ci_configs ci ! p) then refused ci r else refused ci r \<or> direct ctl ci r"
      proof (cases "parseSequenceControlRequest fw fa opcode args p (ci_configs ci ! p) context")
        case None
        then show ?thesis
          using p valid Some other by (simp add: r simps pkt direct_simps)
      next
        case (Some req)
        then show ?thesis
          using p valid \<open>fw_cmdPacket fw data = Some pkt\<close> other direct_simps(3) [of ctl ci req p opcode "context"]
          by (simp add: r simps pkt direct_simps(2))
      qed
      then show ?thesis
        using that(1,3) by (simp split: if_splits) blast
    qed
  qed
qed

text \<open>C16: Every command is answered once. A command on an ingress port is forwarded to the dispatcher, or answered with exactly one
  status; the only exception is a request that the sequence controller accepted and deferred, which it answers later.\<close>
theorem command_answered_once:
  assumes "p < CommandIngressAuthorityPorts"
  shows "length (filter answers (snd (seqCmdBuffIn_handler fw fa ctl p data context ci))) =
    (if deferred ctl (snd (seqCmdBuffIn_handler fw fa ctl p data context ci)) then 0 else 1)"
proof -
  let ?r = "seqCmdBuffIn_handler fw fa ctl p data context ci"
  show ?thesis
  proof (rule command_cases [OF assms, where r = ?r and ctl = ctl and ci = ci and data = data and fw = fw and fa = fa], rule refl)
    assume "refused ci ?r"
    then show ?thesis
      using deferred_filter [of "snd ?r" "[]"] by (simp add: refused_def)
  next
    fix args
    assume "secure_ok fw fa p context args ci" "?r = handleSecureCommandV2 fw fa ctl p context args ci"
    from secure_passed [OF this] show ?thesis
      by blast
  next
    assume "direct ctl ci ?r"
    then show ?thesis
      by (simp add: direct_def)
  qed
qed

section \<open>Operations and the invariant\<close>

datatype ciOp =
    OpCommand nat bytes u32 "sequenceControlRequest \<Rightarrow> sequenceControlResult"
  | OpStatus nat u32 u32 cmdResponse
  | OpSequenceStatus nat u32 u32 u32
  | OpGrant secureAuthGrant
  | OpRevoke secureAuthRevocation
  | OpReconfigure nat authorityConfig
  | OpRevokeSource nat u32 bool
  | OpClear
  | OpConfigure authorityConfig
  | OpObserver bool

fun ci_apply :: "fwSerial \<Rightarrow> fwSeqArgs \<Rightarrow> ciOp \<Rightarrow> commandIngress \<Rightarrow> commandIngress \<times> ciOut list" where
  "ci_apply fw fa (OpCommand p data c ctl) ci = seqCmdBuffIn_handler fw fa ctl p data c ci"
| "ci_apply fw fa (OpStatus p op c r) ci = seqCmdStatusIn_handler p op c r ci"
| "ci_apply fw fa (OpSequenceStatus p op c r) ci = sequenceControlStatusIn_handler p op c r ci"
| "ci_apply fw fa (OpGrant g) ci = authGrantedIn_handler g ci"
| "ci_apply fw fa (OpRevoke v) ci = authRevokedIn_handler v ci"
| "ci_apply fw fa (OpReconfigure p cfg) ci = snd (reconfigureIngressSource p cfg ci)"
| "ci_apply fw fa (OpRevokeSource p r b) ci = snd (revokeIngressSource p r b ci)"
| "ci_apply fw fa OpClear ci = clearIngressSources ci"
| "ci_apply fw fa (OpConfigure cfg) ci = configureIngress cfg ci"
| "ci_apply fw fa (OpObserver b) ci = (ci\<lparr>ci_observer := b\<rparr>, [])"

text \<open>A session key has 32 bytes, as its array type in the port definition says.\<close>

fun ci_op_ok :: "ciOp \<Rightarrow> bool" where
  "ci_op_ok (OpGrant g) = (length (gr_sessionKey g) = 32)"
| "ci_op_ok _ = True"

definition ci_stp :: "fwSerial \<Rightarrow> fwSeqArgs \<Rightarrow> commandIngress \<Rightarrow> ciOp \<Rightarrow> commandIngress \<Rightarrow> bool" where
  "ci_stp fw fa ci op ci' \<longleftrightarrow> ci_op_ok op \<and> ci' = fst (ci_apply fw fa op ci)"

definition session_wf :: "authorityConfig \<Rightarrow> activeSession \<Rightarrow> bool" where
  "session_wf cfg s \<longleftrightarrow> (as_open s \<longrightarrow> cfg_valid cfg \<and> isCommManagedAuthority cfg \<and> as_linkIdentity s = cfg_identity cfg \<and>
     as_linkRole s = cfg_role cfg \<and> as_secureAuthenticated s \<and> as_serviceId s = secureServiceIdForConfig cfg \<and>
     length (as_secureSessionKey s) = 32)"

definition window_in :: "commandIngress \<Rightarrow> bool" where
  "window_in ci \<longleftrightarrow> (\<forall>k \<in> w_keys (ci_window ci). sk_ingressPort k < 2 \<and> as_open (ci_sessions ci ! sk_ingressPort k) \<and>
     k = secure_key (sk_ingressPort k) ci)"

definition published :: "commandIngress \<Rightarrow> bool" where
  "published ci \<longleftrightarrow> (ci_lastPublishedActive ci \<longleftrightarrow> (\<exists>p < 2. as_open (ci_sessions ci ! p))) \<and>
     (ci_lastPublishedActive ci \<longrightarrow> ci_lastPublishedPort ci < 2 \<and> as_open (ci_sessions ci ! ci_lastPublishedPort ci))"

definition ci_wf :: "commandIngress \<Rightarrow> bool" where
  "ci_wf ci \<longleftrightarrow> length (ci_configs ci) = 2 \<and> length (ci_sessions ci) = 2 \<and> w_wf (ci_window ci) \<and>
     (\<forall>p < 2. session_wf (ci_configs ci ! p) (ci_sessions ci ! p)) \<and> window_in ci \<and> published ci"

lemma wf_core:
  assumes "ci_wf ci" "ci_configs ci' = ci_configs ci" "ci_sessions ci' = ci_sessions ci" "ci_window ci' = ci_window ci"
    "ci_lastPublishedActive ci' = ci_lastPublishedActive ci" "ci_lastPublishedPort ci' = ci_lastPublishedPort ci"
  shows "ci_wf ci'"
  using assms by (simp add: ci_wf_def window_in_def published_def secure_key_def)

lemma wf_init: "ci_wf commandIngress_init"
proof -
  have "w_wf (replicate MAX_SESSIONS defaultSessionEntry)" "w_keys (replicate MAX_SESSIONS defaultSessionEntry) = {}"
    using reset_all(1,2) [of "[]"] by (simp_all add: w_resetAll_def)
  then show ?thesis
    by (auto simp: ci_wf_def commandIngress_init_def window_in_def published_def session_wf_def defaultSession_def
        CommandIngressAuthorityPorts_def nth_Cons' numeral_2_eq_2 less_Suc_eq)
qed

lemma wf_passed:
  assumes wf: "ci_wf ci" and p: "p < 2" and op: "as_open (ci_sessions ci ! p)" and ps: "passed p n ci ci'"
    and acc: "fst (w_evaluateAndAccept (secure_key p ci) n (ci_window ci)) = ACCEPTED"
  shows "ci_wf ci'"
proof -
  have len: "length (ci_sessions ci) = 2" and cfg: "ci_configs ci' = ci_configs ci" and w: "w_wf (ci_window ci)"
    using wf ps by (simp_all add: ci_wf_def passed_def)
  have e: "ci_sessions ci' ! q = ci_sessions ci ! q \<or> ci_sessions ci' ! q = (ci_sessions ci ! q)\<lparr>as_lastAcceptedSequence := n\<rparr>"
    if "q < 2" for q
    using ps p len that by (auto simp: passed_def nth_list_update)
  have s: "as_open (ci_sessions ci' ! q) = as_open (ci_sessions ci ! q)" "as_sessionId (ci_sessions ci' ! q) = as_sessionId (ci_sessions ci ! q)"
    "session_wf cf (ci_sessions ci' ! q) = session_wf cf (ci_sessions ci ! q)" if "q < 2" for q cf
    using e [OF that] by (elim disjE; simp add: session_wf_def)+
  have len': "length (ci_sessions ci') = 2"
    using ps len by (auto simp: passed_def)
  have key: "secure_key q ci' = secure_key q ci" if "q < 2" for q
    using s(2) [OF that] cfg by (simp add: secure_key_def)
  have "w_keys (ci_window ci') = insert (secure_key p ci) (w_keys (ci_window ci))"
    using sw.updates [OF w, of "secure_key p ci" n] acc ps by (simp add: passed_def w_keys_def)
  moreover have "sk_ingressPort (secure_key p ci) = p"
    by (simp add: secure_key_def sessionKeyFor_def)
  ultimately have "window_in ci'"
    using wf p op s(1) key by (auto simp: window_in_def ci_wf_def)
  moreover have "published ci'"
    using wf ps p op s(1) by (auto simp: published_def ci_wf_def passed_def)
  moreover have "w_wf (ci_window ci')"
    using ps accept_wf [OF w] by (simp add: passed_def)
  ultimately show ?thesis
    using wf cfg s(3) len' by (simp add: ci_wf_def)
qed

lemma wf_command:
  assumes wf: "ci_wf ci"
  shows "ci_wf (fst (seqCmdBuffIn_handler fw fa ctl p data c ci))"
proof (cases "p < CommandIngressAuthorityPorts")
  case True
  then have p2: "p < 2"
    by (simp add: CommandIngressAuthorityPorts_def)
  let ?r = "seqCmdBuffIn_handler fw fa ctl p data c ci"
  show ?thesis
  proof (rule command_cases [OF True, where r = ?r and ctl = ctl and ci = ci and data = data and fw = fw and fa = fa], rule refl)
    assume "refused ci ?r"
    then show ?thesis
      by (intro wf_core [OF wf]) (auto simp: refused_def core_eq)
  next
    fix args
    assume ok: "secure_ok fw fa p c args ci" and r: "?r = handleSecureCommandV2 fw fa ctl p c args ci"
    have "as_open (ci_sessions ci ! p)" "fst (w_evaluateAndAccept (secure_key p ci) (secure_seq fw args) (ci_window ci)) = ACCEPTED"
      using ok by (simp_all add: secure_ok_def Let_def secure_key_def secure_seq_def)
    then show ?thesis
      using wf_passed [OF wf p2] secure_passed [OF ok r] by blast
  next
    assume "direct ctl ci ?r"
    then show ?thesis
      by (intro wf_core [OF wf]) (auto simp: direct_def)
  qed
next
  case False
  then show ?thesis
    using wf by (simp add: seqCmdBuffIn_handler_def)
qed

lemma clear_fields:
  "ci_configs (fst (clearActiveSession p ci)) = ci_configs ci" "ci_window (fst (clearActiveSession p ci)) = ci_window ci"
  "ci_sessions (fst (clearActiveSession p ci)) = (ci_sessions ci)[p := defaultSession]"
  by (simp_all add: clearActiveSession_def publishRemainingActiveSessionOrInactive_def publishActiveSession_def
      publishInactiveSession_def Let_def split: option.split)

lemma clear_published:
  assumes "published ci" "p < 2" "length (ci_sessions ci) = 2"
  shows "published (fst (clearActiveSession p ci))"
proof -
  let ?s = "(ci_sessions ci)[p := defaultSession]"
  have closed: "\<not> as_open (?s ! p)" and other: "q \<noteq> p \<Longrightarrow> ?s ! q = ci_sessions ci ! q" for q
    using assms by (simp_all add: defaultSession_def)
  have opn: "as_open (?s ! q) \<longleftrightarrow> q \<noteq> p \<and> as_open (ci_sessions ci ! q)" for q
    using closed other [of q] by (cases "q = p") simp_all
  show ?thesis
  proof (cases "ci_lastPublishedActive ci \<and> ci_lastPublishedPort ci = p")
    case True
    then show ?thesis
    proof (cases "find (\<lambda>i. as_open (?s ! i)) [0..<2]")
      case None
      then have "\<forall>i < 2. \<not> as_open (?s ! i)"
        by (simp add: find_None_iff)
      with None True show ?thesis
        by (simp add: published_def clearActiveSession_def publishRemainingActiveSessionOrInactive_def publishInactiveSession_def
            CommandIngressAuthorityPorts_def Let_def)
    next
      case (Some i)
      then have "i < 2" "as_open (?s ! i)"
        by (auto simp: find_Some_iff nth_append)
      with Some True show ?thesis
        by (auto simp: published_def clearActiveSession_def publishRemainingActiveSessionOrInactive_def publishActiveSession_def
            CommandIngressAuthorityPorts_def Let_def)
    qed
  next
    case False
    then have r: "ci_lastPublishedActive (fst (clearActiveSession p ci)) = ci_lastPublishedActive ci"
      "ci_lastPublishedPort (fst (clearActiveSession p ci)) = ci_lastPublishedPort ci"
      by (auto simp: clearActiveSession_def Let_def)
    show ?thesis
      unfolding published_def r clear_fields opn using assms(1) False by (auto simp: published_def)
  qed
qed

lemma wf_closed:
  assumes wf: "ci_wf ci" and p: "p < 2"
    and same: "ci_configs ci1 = ci_configs ci" "ci_sessions ci1 = ci_sessions ci"
      "ci_lastPublishedActive ci1 = ci_lastPublishedActive ci" "ci_lastPublishedPort ci1 = ci_lastPublishedPort ci"
    and w: "ci_window ci1 = (if as_open (ci_sessions ci ! p)
      then w_resetSource p (as_linkIdentity (ci_sessions ci ! p)) (as_linkRole (ci_sessions ci ! p)) (ci_window ci) else ci_window ci)"
  shows "ci_wf ((fst (clearActiveSession p ci1))\<lparr>ci_configs := (ci_configs ci)[p := cfg]\<rparr>)" (is "ci_wf ?ci2")
proof -
  have len: "length (ci_sessions ci) = 2" "length (ci_configs ci) = 2"
    using wf by (simp_all add: ci_wf_def)
  have keys: "k \<in> w_keys (ci_window ci) \<and> sk_ingressPort k \<noteq> p" if "k \<in> w_keys (ci_window ci1)" for k
  proof -
    have k: "k \<in> w_keys (ci_window ci)"
      using that by (auto simp: w reset_source_keys split: if_splits)
    then have s: "as_open (ci_sessions ci ! sk_ingressPort k)" "k = secure_key (sk_ingressPort k) ci" "sk_ingressPort k < 2"
      using wf by (auto simp: ci_wf_def window_in_def)
    have "w_fromSource p (as_linkIdentity (ci_sessions ci ! p)) (as_linkRole (ci_sessions ci ! p)) k" if "sk_ingressPort k = p"
    proof -
      have "session_wf (ci_configs ci ! p) (ci_sessions ci ! p)"
        using wf p by (simp add: ci_wf_def)
      then show ?thesis
        using s that by (subst s(2)) (simp add: w_fromSource_def secure_key_def sessionKeyFor_def session_wf_def)
    qed
    then show ?thesis
      using that k s by (auto simp: w reset_source_keys split: if_splits)
  qed
  have "w_wf (ci_window ci1)"
    using wf by (simp add: w ci_wf_def reset_source_wf)
  moreover have "session_wf (ci_configs ?ci2 ! q) (ci_sessions ?ci2 ! q)" if "q < 2" for q
    using wf that p len same by (cases "q = p") (simp_all add: clear_fields ci_wf_def session_wf_def defaultSession_def)
  moreover have "window_in ?ci2"
    unfolding window_in_def
  proof
    fix k assume "k \<in> w_keys (ci_window ?ci2)"
    then have k: "k \<in> w_keys (ci_window ci)" "sk_ingressPort k \<noteq> p"
      using keys by (simp_all add: clear_fields)
    then have "sk_ingressPort k < 2 \<and> as_open (ci_sessions ci ! sk_ingressPort k) \<and> k = secure_key (sk_ingressPort k) ci"
      using wf by (simp add: ci_wf_def window_in_def)
    then show "sk_ingressPort k < 2 \<and> as_open (ci_sessions ?ci2 ! sk_ingressPort k) \<and> k = secure_key (sk_ingressPort k) ?ci2"
      using k(2) same by (simp add: clear_fields secure_key_def)
  qed
  moreover have "published ?ci2"
  proof -
    have "published ci1"
      using wf same by (simp add: ci_wf_def published_def)
    from clear_published [OF this p] show ?thesis
      using len same by (simp add: published_def)
  qed
  ultimately show ?thesis
    unfolding ci_wf_def using len same by (simp add: clear_fields)
qed

lemma clear_configs: "(fst (clearActiveSession p ci))\<lparr>ci_configs := ci_configs ci\<rparr> = fst (clearActiveSession p ci)"
proof -
  have "ci_configs ci = ci_configs (fst (clearActiveSession p ci))"
    by (simp add: clear_fields)
  then show ?thesis
    by simp
qed

lemma wf_revoked:
  assumes wf: "ci_wf ci" and p: "p < 2" and op: "as_open (ci_sessions ci ! p)"
  shows "ci_wf (fst (revokeOpenSession p reason b ci))"
proof -
  let ?ci1 = "ci\<lparr>ci_window := w_resetSource p (as_linkIdentity (ci_sessions ci ! p)) (as_linkRole (ci_sessions ci ! p)) (ci_window ci),
    ci_sessionRevokeTotal := ci_sessionRevokeTotal ci + 1\<rparr>"
  have r: "fst (revokeOpenSession p reason b ci) = fst (clearActiveSession p ?ci1)"
    by (simp add: revokeOpenSession_def Let_def split_beta)
  have "ci_wf ((fst (clearActiveSession p ?ci1))\<lparr>ci_configs := (ci_configs ci)[p := ci_configs ci ! p]\<rparr>)"
    by (rule wf_closed [OF wf p]) (simp_all add: op)
  then show ?thesis
    using clear_configs [where p = p and ci = ?ci1] by (simp add: r)
qed

lemma wf_reconfigure:
  assumes wf: "ci_wf ci"
  shows "ci_wf (fst (snd (reconfigureIngressSource p cfg ci)))"
proof (cases "p < CommandIngressAuthorityPorts")
  case True
  then have p2: "p < 2"
    by (simp add: CommandIngressAuthorityPorts_def)
  define ci1 where "ci1 = (if as_open (ci_sessions ci ! p) then ci\<lparr>ci_window := w_resetSource p (as_linkIdentity (ci_sessions ci ! p))
    (as_linkRole (ci_sessions ci ! p)) (ci_window ci)\<rparr> else ci)"
  have "fst (snd (reconfigureIngressSource p cfg ci)) = (fst (clearActiveSession p ci1))\<lparr>ci_configs := (ci_configs ci)[p := cfg]\<rparr>"
    using True by (simp add: reconfigureIngressSource_def Let_def split_beta clear_fields ci1_def [symmetric]) (simp add: ci1_def)
  moreover have "ci_wf ((fst (clearActiveSession p ci1))\<lparr>ci_configs := (ci_configs ci)[p := cfg]\<rparr>)"
    by (rule wf_closed [OF wf p2]) (simp_all add: ci1_def)
  ultimately show ?thesis
    by simp
qed (simp add: reconfigureIngressSource_def wf)

lemma wf_cleared: "ci_wf ci \<Longrightarrow> ci_wf (fst (clearIngressSources ci))"
  using reset_all(1,2) [of "ci_window ci"]
  by (auto simp: clearIngressSources_def ci_wf_def window_in_def published_def session_wf_def defaultSession_def
      CommandIngressAuthorityPorts_def nth_Cons' numeral_2_eq_2 less_Suc_eq)

lemma wf_granted:
  assumes wf: "ci_wf ci" and p: "p < 2" and cfg: "cfg = ci_configs ci ! p" "cfg_valid cfg" "isCommManagedAuthority cfg"
    and sid: "ucast (secureServiceIdForConfig cfg) = gr_serviceId g" and key: "length (gr_sessionKey g) = 32"
  shows "ci_wf (fst (synthesizeSecureSessionFromAuthGrant p cfg g ci))" (is "ci_wf ?ci4")
proof -
  have len: "length (ci_sessions ci) = 2" and wfp: "session_wf cfg (ci_sessions ci ! p)"
    using wf p cfg by (simp_all add: ci_wf_def)
  let ?s = "ci_sessions ?ci4 ! p"
  have f: "ci_configs ?ci4 = ci_configs ci" "ci_lastPublishedActive ?ci4" "ci_lastPublishedPort ?ci4 = p"
    "length (ci_sessions ?ci4) = 2" "\<And>q. q \<noteq> p \<Longrightarrow> ci_sessions ?ci4 ! q = ci_sessions ci ! q"
    using len by (simp_all add: synthesizeSecureSessionFromAuthGrant_def nextRuntimeSessionToken_def publishActiveSession_def Let_def)
  have s: "as_open ?s" "as_secureAuthenticated ?s" "as_linkIdentity ?s = cfg_identity cfg" "as_linkRole ?s = cfg_role cfg"
    "as_serviceId ?s = ucast (gr_serviceId g)" "as_secureSessionKey ?s = gr_sessionKey g"
    using len p by (simp_all add: synthesizeSecureSessionFromAuthGrant_def nextRuntimeSessionToken_def publishActiveSession_def Let_def)
  have w: "ci_window ?ci4 = w_resetSource p (cfg_identity cfg) (cfg_role cfg) (if as_open (ci_sessions ci ! p)
      then w_resetSource p (as_linkIdentity (ci_sessions ci ! p)) (as_linkRole (ci_sessions ci ! p)) (ci_window ci) else ci_window ci)"
    by (simp add: synthesizeSecureSessionFromAuthGrant_def nextRuntimeSessionToken_def publishActiveSession_def Let_def)
  have "(ucast (gr_serviceId g) :: u8) = secureServiceIdForConfig cfg"
    unfolding sid [symmetric] by (cases "cfg_identity cfg") (simp_all add: secureServiceIdForConfig_def)
  then have wfs: "session_wf cfg ?s"
    using s cfg key by (simp add: session_wf_def)
  have "\<forall>k \<in> w_keys (ci_window ?ci4). k \<in> w_keys (ci_window ci) \<and> sk_ingressPort k \<noteq> p"
  proof
    fix k assume k: "k \<in> w_keys (ci_window ?ci4)"
    then have k': "k \<in> w_keys (ci_window ci)" "\<not> w_fromSource p (cfg_identity cfg) (cfg_role cfg) k"
      by (auto simp: w reset_source_keys split: if_splits)
    then have "k = secure_key (sk_ingressPort k) ci"
      using wf by (auto simp: ci_wf_def window_in_def)
    then have "sk_ingressPort k = p \<Longrightarrow> w_fromSource p (cfg_identity cfg) (cfg_role cfg) k"
      using cfg(1) by (metis (no_types) commandSessionKey.select_convs(2,3) secure_key_def sessionKeyFor_def w_fromSource_def)
    with k' show "k \<in> w_keys (ci_window ci) \<and> sk_ingressPort k \<noteq> p"
      by blast
  qed
  then have "window_in ?ci4"
    using wf f(1,5) by (auto simp: window_in_def ci_wf_def secure_key_def)
  moreover have "w_wf (ci_window ?ci4)"
    using wf by (simp add: w ci_wf_def reset_source_wf)
  moreover have "published ?ci4"
    using f(2,3) s(1) p by (auto simp: published_def)
  moreover have "session_wf (ci_configs ?ci4 ! q) (ci_sessions ?ci4 ! q)" if "q < 2" for q
    using wf that wfs f cfg(1) by (cases "q = p") (simp_all add: ci_wf_def)
  ultimately show ?thesis
    using wf f by (simp add: ci_wf_def)
qed

lemma wf_apply:
  assumes wf: "ci_wf ci" and ok: "ci_op_ok op"
  shows "ci_wf (fst (ci_apply fw fa op ci))"
proof (cases op)
  case (OpStatus p opc c r)
  have "ci_wf (snd (consumePendingDispatch p c ci))"
    by (rule wf_core [OF wf]) (simp_all add: consumePendingDispatch_def Let_def split: option.split list.split)
  then show ?thesis
    using wf by (simp add: OpStatus seqCmdStatusIn_handler_def)
next
  case (OpGrant g)
  then show ?thesis
    using wf ok wf_granted [OF wf _ refl, of "gr_ingressPort g" g]
    by (simp add: authGrantedIn_handler_def Let_def CommandIngressAuthorityPorts_def)
next
  case (OpRevoke v)
  then show ?thesis
    using wf wf_revoked [OF wf]
    by (simp add: authRevokedIn_handler_def revokeSecureSession_def Let_def CommandIngressAuthorityPorts_def)
next
  case (OpRevokeSource p r b)
  then show ?thesis
    using wf wf_revoked [OF wf] by (simp add: revokeIngressSource_def Let_def CommandIngressAuthorityPorts_def split_beta)
next
  case (OpConfigure cfg)
  then show ?thesis
    using wf_reconfigure [OF wf_cleared [OF wf]] by (simp add: configureIngress_def Let_def split_beta)
next
  case (OpObserver b)
  then show ?thesis
    by (auto intro: wf_core [OF wf])
qed (simp_all add: wf wf_command wf_reconfigure wf_cleared sequenceControlStatusIn_handler_def)

definition ci_reachable :: "fwSerial \<Rightarrow> fwSeqArgs \<Rightarrow> commandIngress \<Rightarrow> bool" where
  "ci_reachable fw fa = reachable (\<lambda>ci. ci = commandIngress_init) (ci_stp fw fa)"

lemma reachable_wf: "ci_reachable fw fa ci \<Longrightarrow> ci_wf ci"
  unfolding ci_reachable_def by (erule reachable_invariant) (auto simp: wf_init ci_stp_def wf_apply)

lemma window_room:
  assumes wf: "ci_wf ci"
  shows "w_used (ci_window ci) \<le> 2"
proof -
  have "w_keys (ci_window ci) \<subseteq> (\<lambda>p. secure_key p ci) ` {..<2}"
    using wf by (auto simp: ci_wf_def window_in_def)
  then have "card (w_keys (ci_window ci)) \<le> card ((\<lambda>p. secure_key p ci) ` {..<2::nat})"
    by (intro card_mono) auto
  also have "\<dots> \<le> 2"
    using card_image_le [of "{..<2::nat}" "\<lambda>p. secure_key p ci"] by simp
  finally show ?thesis
    using used_keys [of "ci_window ci"] wf by (simp add: ci_wf_def)
qed

text \<open>C8: Sessions, window and telemetry agree in every reachable state. An open session belongs to a valid radio link, carries the
  identity, role and service of its configuration and a key of 32 bytes; the sequence window holds entries of open
  sessions only; the published session flag is set exactly when some session is open and names an open one; and the
  window is never full, so no command is ever refused because of its capacity.\<close>
theorem ingress_state_consistent:
  assumes "ci_reachable fw fa ci"
  shows "(\<forall>p < CommandIngressAuthorityPorts. session_wf (ci_configs ci ! p) (ci_sessions ci ! p)) \<and> window_in ci \<and> published ci \<and>
    (\<forall>key n. fst (w_evaluateAndAccept key n (ci_window ci)) \<noteq> REJECTED_TABLE_FULL)"
proof -
  have wf: "ci_wf ci"
    by (rule reachable_wf [OF assms])
  then have w: "w_wf (ci_window ci)" "w_used (ci_window ci) < MAX_SESSIONS"
    using window_room [OF wf] by (simp_all add: ci_wf_def MAX_SESSIONS_def)
  have "fst (w_evaluateAndAccept key n (ci_window ci)) \<noteq> REJECTED_TABLE_FULL" for key n
    using sw.known [OF w(1), of key _ n] sw.unknown [OF w(1), of key n] w(2) by (cases "w_last (ci_window ci) key") auto
  then show ?thesis
    using wf by (simp add: ci_wf_def CommandIngressAuthorityPorts_def)
qed

section \<open>Authenticity\<close>

lemma forwarded_secure:
  assumes "p < CommandIngressAuthorityPorts" "isCommManagedAuthority (ci_configs ci ! p)"
    and "filter forwards (snd (seqCmdBuffIn_handler fw fa ctl p data c ci)) \<noteq> []"
  obtains args where "fw_cmdPacket fw data = Some (OBC_SECURE_COMMAND_V2_OPCODE, args)" "secure_ok fw fa p c args ci"
    "seqCmdBuffIn_handler fw fa ctl p data c ci = handleSecureCommandV2 fw fa ctl p c args ci"
proof (rule command_cases [OF assms(1), where r = "seqCmdBuffIn_handler fw fa ctl p data c ci" and ctl = ctl and ci = ci
      and data = data and fw = fw and fa = fa], rule refl)
  assume "refused ci (seqCmdBuffIn_handler fw fa ctl p data c ci)"
  then show thesis
    using assms(3) by (simp add: refused_def)
next
  assume "\<not> isCommManagedAuthority (ci_configs ci ! p)"
  then show thesis
    using assms(2) by blast
qed (rule that)

lemma accepted_fresh:
  "fst (w_evaluateAndAccept k n w) = ACCEPTED \<Longrightarrow> w_last w k = Some l \<Longrightarrow> l < n"
  using accept_known(1) [of w k l n] by (simp split: if_splits)

text \<open>C1: Over a radio link only authentic, authorized and fresh commands pass. In a reachable state, whatever reaches the dispatcher or
  the sequence controller from a command on a radio port comes from a secure packet: the port has an open authenticated
  session of the right service, the packet carries the HMAC of label, sequence number and inner command under the session
  key, the catalogue allows the inner opcode for the link, it is no direct command to a command sequencer, and the sequence
  number lies above the last one accepted in the session. The dispatcher gets exactly the authenticated inner command.\<close>
theorem radio_commands_authentic:
  assumes "fw_documented fw" "ci_reachable fw fa ci" "p < CommandIngressAuthorityPorts" "isCommManagedAuthority (ci_configs ci ! p)"
    and "o1 \<in> set (snd (seqCmdBuffIn_handler fw fa ctl p data c ci))" "forwards o1"
  shows "as_open (ci_sessions ci ! p) \<and> as_secureAuthenticated (ci_sessions ci ! p) \<and>
    as_serviceId (ci_sessions ci ! p) = secureServiceIdForConfig (ci_configs ci ! p) \<and>
    (\<exists>n op a. data = fw_command fw OBC_SECURE_COMMAND_V2_OPCODE (sc_packet fw n (fw_command fw op a)
         (hmac_ref (as_secureSessionKey (ci_sessions ci ! p)) (sc_material fw n (fw_command fw op a)))) \<and>
       ad_allow (evaluateCommandAuthority (ci_configs ci ! p) op) \<and> \<not> isDeniedDirectOfficialSequencingOpcode op \<and>
       (\<forall>l. w_last (ci_window ci) (secure_key p ci) = Some l \<longrightarrow> l < n) \<and>
       (o1 = SeqCmdBuffOut p (fw_command fw op a) c \<or> isGovernedSequenceWrapperOpcode op \<and> (\<exists>req. o1 = SequenceControlOut req)))"
proof -
  let ?key = "as_secureSessionKey (ci_sessions ci ! p)"
  have o1: "o1 \<in> set (filter forwards (snd (seqCmdBuffIn_handler fw fa ctl p data c ci)))"
    using assms(5,6) by simp
  then have "filter forwards (snd (seqCmdBuffIn_handler fw fa ctl p data c ci)) \<noteq> []"
    by (auto simp del: set_filter)
  from forwarded_secure [OF assms(3,4) this] obtain args
    where a: "fw_cmdPacket fw data = Some (OBC_SECURE_COMMAND_V2_OPCODE, args)" and ok: "secure_ok fw fa p c args ci"
      and h: "seqCmdBuffIn_handler fw fa ctl p data c ci = handleSecureCommandV2 fw fa ctl p c args ci" .
  note c = ok [unfolded secure_ok_def Let_def]
  have "session_wf (ci_configs ci ! p) (ci_sessions ci ! p)"
    using reachable_wf [OF assms(2)] assms(3) by (simp add: ci_wf_def CommandIngressAuthorityPorts_def)
  then have key: "length ?key = 32"
    using c by (simp add: session_wf_def)
  obtain n op x tag where pk: "length (fw_command fw op x) \<le> FW_COM_BUFFER_MAX_SIZE" "length tag = 32"
      "args = sc_packet fw n (fw_command fw op x) tag"
    using parse_valid [OF assms(1)] c by blast
  note parse = parse_packet [OF assms(1) pk(1,2), of n, folded pk(3)]
  have tag: "tag = hmac_ref ?key (sc_material fw n (fw_command fw op x))"
    using c verify_packet [OF assms(1) key pk(2), of n op "fw_command fw op x"] unfolding parse fst_conv snd_conv
    by (simp split: if_splits)
  have data: "data = fw_command fw OBC_SECURE_COMMAND_V2_OPCODE args"
    using a fw_packet [OF assms(1)] by blast
  have fresh: "\<forall>l. w_last (ci_window ci) (secure_key p ci) = Some l \<longrightarrow> l < n"
    using c accepted_fresh [of "secure_key p ci" n "ci_window ci"] unfolding parse secure_key_def by simp
  obtain req where f: "filter forwards (snd (handleSecureCommandV2 fw fa ctl p c args ci)) =
      [if isGovernedSequenceWrapperOpcode op then SequenceControlOut req else SeqCmdBuffOut p (fw_command fw op x) c]"
    using secure_passed [OF ok refl, of ctl] unfolding parse fst_conv snd_conv secureCommandV2ParseResult.simps by blast
  have "o1 = SeqCmdBuffOut p (fw_command fw op x) c \<or> isGovernedSequenceWrapperOpcode op \<and> (\<exists>req. o1 = SequenceControlOut req)"
    using o1 unfolding h f by (auto split: if_splits)
  moreover have "ad_allow (evaluateCommandAuthority (ci_configs ci ! p) op)" "\<not> isDeniedDirectOfficialSequencingOpcode op"
    using c unfolding parse by simp_all
  ultimately show ?thesis
    using c data fresh unfolding pk(3) tag by blast
qed

section \<open>Replay\<close>

text \<open>The operations that leave the session of a port alone, and the sequence numbers of the commands that pass on the port.\<close>

fun keeps_session :: "nat \<Rightarrow> ciOp \<Rightarrow> bool" where
  "keeps_session p (OpGrant g) = (gr_ingressPort g \<noteq> p)"
| "keeps_session p (OpRevoke v) = (rv_ingressPort v \<noteq> p)"
| "keeps_session p (OpReconfigure q cfg) = (q \<noteq> p)"
| "keeps_session p (OpRevokeSource q r b) = (q \<noteq> p)"
| "keeps_session p OpClear = False"
| "keeps_session p (OpConfigure cfg) = False"
| "keeps_session p _ = True"

definition lets_pass :: "commandIngress \<times> ciOut list \<Rightarrow> bool" where
  "lets_pass r \<longleftrightarrow> filter forwards (snd r) \<noteq> []"

definition packet_seq :: "fwSerial \<Rightarrow> bytes \<Rightarrow> u32" where
  "packet_seq fw data = (case fw_cmdPacket fw data of Some (_, args) \<Rightarrow> secure_seq fw args | None \<Rightarrow> 0)"

fun passing :: "fwSerial \<Rightarrow> fwSeqArgs \<Rightarrow> nat \<Rightarrow> ciOp \<Rightarrow> commandIngress \<Rightarrow> u32 list" where
  "passing fw fa p (OpCommand q data c ctl) ci =
     (if q = p \<and> lets_pass (seqCmdBuffIn_handler fw fa ctl q data c ci) then [packet_seq fw data] else [])"
| "passing fw fa p _ ci = []"

fun passing_run :: "fwSerial \<Rightarrow> fwSeqArgs \<Rightarrow> nat \<Rightarrow> commandIngress \<Rightarrow> ciOp list \<Rightarrow> u32 list" where
  "passing_run fw fa p ci [] = []"
| "passing_run fw fa p ci (op # ops) = passing fw fa p op ci @ passing_run fw fa p (fst (ci_apply fw fa op ci)) ops"

definition port_last :: "nat \<Rightarrow> commandIngress \<Rightarrow> u32 option" where
  "port_last p ci = w_last (ci_window ci) (secure_key p ci)"

text \<open>What a step keeps for a port: the configuration, the session identifier and the last number, unless a command passes.\<close>

definition stays :: "nat \<Rightarrow> commandIngress \<Rightarrow> commandIngress \<Rightarrow> bool" where
  "stays p ci ci' \<longleftrightarrow> ci_configs ci' ! p = ci_configs ci ! p \<and> secure_key p ci' = secure_key p ci \<and> port_last p ci' = port_last p ci"

lemma stays_same:
  "ci_configs ci' = ci_configs ci \<Longrightarrow> ci_sessions ci' = ci_sessions ci \<Longrightarrow> ci_window ci' = ci_window ci \<Longrightarrow> stays p ci ci'"
  by (simp add: stays_def secure_key_def port_last_def)

lemma stays_other:
  assumes "ci_configs ci' ! p = ci_configs ci ! p" "ci_sessions ci' ! p = ci_sessions ci ! p"
    and "\<And>k. sk_ingressPort k = p \<Longrightarrow> w_last (ci_window ci') k = w_last (ci_window ci) k"
  shows "stays p ci ci'"
  using assms by (simp add: stays_def secure_key_def port_last_def sessionKeyFor_def)

lemma reset_other_port: "sk_ingressPort k \<noteq> q \<Longrightarrow> w_last (w_resetSource q i r w) k = w_last w k"
  by (simp add: reset_source_last w_fromSource_def)

lemma passed_port:
  assumes wf: "ci_wf ci" and ps: "passed q n ci ci'" and acc: "fst (w_evaluateAndAccept (secure_key q ci) n (ci_window ci)) = ACCEPTED"
    and p: "p < 2"
  shows "ci_configs ci' ! p = ci_configs ci ! p \<and> secure_key p ci' = secure_key p ci \<and>
    port_last p ci' = (if p = q then Some n else port_last p ci)"
proof -
  have w: "w_wf (ci_window ci)" and len: "length (ci_sessions ci) = 2"
    using wf by (simp_all add: ci_wf_def)
  have sid: "as_sessionId (ci_sessions ci' ! p) = as_sessionId (ci_sessions ci ! p)"
    using ps p len by (cases "p = q") (auto simp: passed_def)
  have cfg: "ci_configs ci' = ci_configs ci"
    using ps by (simp add: passed_def)
  have key: "secure_key p ci' = secure_key p ci"
    using sid cfg by (simp add: secure_key_def)
  have ne: "p \<noteq> q \<Longrightarrow> secure_key p ci \<noteq> secure_key q ci"
    by (simp add: secure_key_def sessionKeyFor_def)
  have "w_last (ci_window ci') = (w_last (ci_window ci))(secure_key q ci \<mapsto> n)"
    using sw.updates [OF w, of "secure_key q ci" n] acc ps by (simp add: passed_def)
  then show ?thesis
    using key cfg ne by (simp add: port_last_def)
qed

lemma command_port:
  assumes wf: "ci_wf ci" and p: "p < 2" and radio: "isCommManagedAuthority (ci_configs ci ! p)"
    and r: "r = seqCmdBuffIn_handler fw fa ctl q data c ci"
  shows "(if q = p \<and> lets_pass r
     then ci_configs (fst r) ! p = ci_configs ci ! p \<and> secure_key p (fst r) = secure_key p ci \<and>
       port_last p (fst r) = Some (packet_seq fw data) \<and> (\<forall>l. port_last p ci = Some l \<longrightarrow> l < packet_seq fw data)
     else stays p ci (fst r))"
proof (cases "q < CommandIngressAuthorityPorts")
  case True
  show ?thesis
  proof (rule command_cases [OF True r])
    assume "refused ci r"
    then have "\<not> lets_pass r" "stays p ci (fst r)"
      by (auto simp: refused_def core_eq lets_pass_def intro!: stays_same)
    then show ?thesis
      by simp
  next
    fix args
    assume a: "fw_cmdPacket fw data = Some (OBC_SECURE_COMMAND_V2_OPCODE, args)" and ok: "secure_ok fw fa q c args ci"
      and h: "r = handleSecureCommandV2 fw fa ctl q c args ci"
    have seq: "packet_seq fw data = secure_seq fw args"
      by (simp add: packet_seq_def a)
    have acc: "fst (w_evaluateAndAccept (secure_key q ci) (secure_seq fw args) (ci_window ci)) = ACCEPTED"
      using ok by (simp add: secure_ok_def Let_def secure_key_def secure_seq_def)
    have ps: "passed q (secure_seq fw args) ci (fst r)" and fwd: "lets_pass r"
      using secure_passed [OF ok h] by (auto simp: lets_pass_def)
    show ?thesis
      using passed_port [OF wf ps acc p] accepted_fresh [OF acc] fwd by (auto simp: seq stays_def port_last_def)
  next
    assume d: "\<not> isCommManagedAuthority (ci_configs ci ! q)" "direct ctl ci r"
    then have "q \<noteq> p" "stays p ci (fst r)"
      using radio by (auto simp: direct_def intro!: stays_same)
    then show ?thesis
      by simp
  qed
next
  case False
  then have "q \<noteq> p" "fst r = ci"
    using p by (auto simp: r seqCmdBuffIn_handler_def CommandIngressAuthorityPorts_def)
  then show ?thesis
    by (simp add: stays_def)
qed

lemma revoke_other: "p \<noteq> q \<Longrightarrow> stays p ci (fst (revokeOpenSession q reason b ci))"
  by (rule stays_other) (simp_all add: revokeOpenSession_def Let_def split_beta clear_fields reset_other_port)

lemma step_port:
  assumes wf: "ci_wf ci" and p: "p < 2" and radio: "isCommManagedAuthority (ci_configs ci ! p)" and ks: "keeps_session p op"
  shows "(case passing fw fa p op ci of [] \<Rightarrow> stays p ci (fst (ci_apply fw fa op ci))
     | n # _ \<Rightarrow> passing fw fa p op ci = [n] \<and> ci_configs (fst (ci_apply fw fa op ci)) ! p = ci_configs ci ! p \<and>
         port_last p (fst (ci_apply fw fa op ci)) = Some n \<and> (\<forall>l. port_last p ci = Some l \<longrightarrow> l < n))"
proof (cases op)
  case (OpCommand q data c ctl)
  then show ?thesis
    using command_port [OF wf p radio, where fw = fw and fa = fa and ctl = ctl and q = q and data = data and c = c, OF refl]
    by (cases "q = p \<and> lets_pass (seqCmdBuffIn_handler fw fa ctl q data c ci)") auto
next
  case (OpStatus q opc c r)
  have "stays p ci (snd (consumePendingDispatch q c ci))"
    by (rule stays_same) (simp_all add: consumePendingDispatch_def Let_def split: option.split list.split)
  then show ?thesis
    by (simp add: OpStatus seqCmdStatusIn_handler_def stays_def)
next
  case (OpGrant g)
  have "stays p ci (fst (synthesizeSecureSessionFromAuthGrant (gr_ingressPort g) cfg g ci))" for cfg
    using ks by (intro stays_other) (simp_all add: OpGrant synthesizeSecureSessionFromAuthGrant_def nextRuntimeSessionToken_def
        publishActiveSession_def Let_def reset_other_port)
  then show ?thesis
    by (simp add: OpGrant authGrantedIn_handler_def Let_def stays_def)
next
  case (OpRevoke v)
  then show ?thesis
    using ks revoke_other [of p "rv_ingressPort v" ci]
    by (simp add: authRevokedIn_handler_def revokeSecureSession_def Let_def stays_def)
next
  case (OpReconfigure q cfg)
  have "stays p ci (fst (snd (reconfigureIngressSource q cfg ci)))"
    using ks by (intro stays_other) (simp_all add: OpReconfigure reconfigureIngressSource_def Let_def split_beta clear_fields reset_other_port)
  then show ?thesis
    by (simp add: OpReconfigure)
next
  case (OpRevokeSource q r b)
  then show ?thesis
    using ks revoke_other [of p q ci] by (simp add: revokeIngressSource_def Let_def split_beta stays_def)
qed (use ks in \<open>simp_all add: stays_def sequenceControlStatusIn_handler_def secure_key_def port_last_def\<close>)


section \<open>A session at work\<close>

definition demoSeqArgs :: fwSeqArgs where
  "demoSeqArgs = \<lparr>fa_fileName = (\<lambda>_. None), fa_wait = (\<lambda>_. None), fa_noWait = 0\<rparr>"

definition demoCtl :: "sequenceControlRequest \<Rightarrow> sequenceControlResult" where
  "demoCtl = (\<lambda>_. \<lparr>rs_accepted = False, rs_deferred = False, rs_cmdResponse = 0\<rparr>)"

definition demoLink :: authorityConfig where
  "demoLink = authorityConfigFromProfile (Some ''uhf-primary'')"

definition demoGrant :: secureAuthGrant where
  "demoGrant = \<lparr>gr_ingressPort = 0, gr_serviceId = 2, gr_sessionKey = demoKey32\<rparr>"

definition demoConfigured :: commandIngress where
  "demoConfigured = fst (ci_apply demoSerial demoSeqArgs (OpConfigure demoLink) commandIngress_init)"

definition demoIngress :: commandIngress where
  "demoIngress = fst (ci_apply demoSerial demoSeqArgs (OpGrant demoGrant) demoConfigured)"

text \<open>The command that reads the mode, as the ground sends it with sequence number 5.\<close>

definition demoInner :: bytes where "demoInner = fw_command demoSerial 268632065 []"

definition demoArgs :: bytes where
  "demoArgs = sc_packet demoSerial 5 demoInner (hmac_ref demoKey32 (sc_material demoSerial 5 demoInner))"

definition demoPacket :: bytes where "demoPacket = fw_command demoSerial OBC_SECURE_COMMAND_V2_OPCODE demoArgs"

lemma demo_reachable: "ci_reachable demoSerial demoSeqArgs demoIngress"
proof -
  have "ci_reachable demoSerial demoSeqArgs demoConfigured"
    unfolding ci_reachable_def by (rule reach_step [where l = "OpConfigure demoLink" and s = commandIngress_init])
      (simp_all add: reach_init ci_stp_def demoConfigured_def)
  then show ?thesis
    unfolding ci_reachable_def by (rule reach_step [where l = "OpGrant demoGrant"])
      (simp add: ci_stp_def demoIngress_def demoGrant_def demoKey32_def)
qed

lemma demoLink_fields:
  "cfg_identity demoLink = LINK_UHF" "cfg_role demoLink = ROLE_PRIMARY_AFTER_FAILOVER" "cfg_valid demoLink"
  by (simp_all add: demoLink_def authorityConfigFromProfile_def)

lemma demo_configured:
  "ci_configs demoConfigured ! 0 = demoLink" "length (ci_sessions demoConfigured) = 2" "length (ci_configs demoConfigured) = 2"
  by (simp_all add: demoConfigured_def configureIngress_def clearIngressSources_def reconfigureIngressSource_def clearActiveSession_def
      commandIngress_init_def CommandIngressAuthorityPorts_def Let_def defaultSession_def)

lemma demo_granted: "demoIngress = fst (synthesizeSecureSessionFromAuthGrant 0 demoLink demoGrant demoConfigured)"
  using demo_configured by (simp add: demoIngress_def authGrantedIn_handler_def demoGrant_def CommandIngressAuthorityPorts_def
      demoLink_fields isCommManagedAuthority_def secureServiceIdForConfig_def)

lemma demo_session:
  "ci_configs demoIngress ! 0 = demoLink" "as_open (ci_sessions demoIngress ! 0)" "as_secureAuthenticated (ci_sessions demoIngress ! 0)"
  "as_serviceId (ci_sessions demoIngress ! 0) = 2" "as_secureSessionKey (ci_sessions demoIngress ! 0) = demoKey32"
  using demo_configured by (simp_all add: demo_granted synthesizeSecureSessionFromAuthGrant_def nextRuntimeSessionToken_def
      publishActiveSession_def Let_def demoGrant_def)

lemma demo_fresh: "w_last (ci_window demoIngress) (secure_key 0 demoIngress) = None"
  by (simp add: demo_granted synthesizeSecureSessionFromAuthGrant_def nextRuntimeSessionToken_def publishActiveSession_def Let_def
      reset_source_last w_fromSource_def secure_key_def sessionKeyFor_def demo_configured)

lemma demo_allowed: "ad_allow (evaluateCommandAuthority demoLink 268632065)"
proof (cases "findCommandAuthorityCatalogEntry 268632065")
  case None
  have "list_ex (\<lambda>e. ce_opcode e = 268632065) COMMAND_AUTHORITY_CATALOG"
    unfolding COMMAND_AUTHORITY_CATALOG_def by (simp add: catalogEntry.make_def)
  then show ?thesis
    using None unfolding find_opcode by (auto simp: find_None_iff list_ex_iff)
next
  case (Some e)
  then show ?thesis
    by (simp add: evaluateCommandAuthority_def demoLink_fields isRestrictedAuthority_def Let_def)
qed

lemma demo_packet_size: "length demoInner = 6" "length demoPacket = 64" "length demoKey32 = 32"
  by (simp_all add: demoInner_def demoPacket_def demoArgs_def sc_packet_def demoKey32_def length_command [OF demoSerial_documented]
      demo_min fw_sizes [OF demoSerial_documented])

lemma demo_ok: "secure_ok demoSerial demoSeqArgs 0 c demoArgs demoIngress"
proof -
  have size: "length (fw_command demoSerial 268632065 []) \<le> FW_COM_BUFFER_MAX_SIZE"
    using demo_packet_size by (simp add: FW_COM_BUFFER_MAX_SIZE_def demoInner_def)
  note parse = parse_packet [OF demoSerial_documented size length_hmac, of 5 demoKey32 "sc_material demoSerial 5 demoInner",
      folded demoInner_def, folded demoArgs_def]
  have w: "w_wf (ci_window demoIngress)" "w_used (ci_window demoIngress) < MAX_SESSIONS"
    using reachable_wf [OF demo_reachable] window_room [OF reachable_wf [OF demo_reachable]] by (simp_all add: ci_wf_def MAX_SESSIONS_def)
  have "\<not> isGovernedSequenceWrapperOpcode 268632065" "\<not> isDeniedDirectOfficialSequencingOpcode 268632065"
    by (simp_all add: isGovernedSequenceWrapperOpcode_def isDeniedDirectOfficialSequencingOpcode_def CMD_SEQ_OPCODES_def sequence_opcodes)
  moreover have "fst (w_evaluateAndAccept (secure_key 0 demoIngress) 5 (ci_window demoIngress)) = ACCEPTED"
    using accept_new(1) [OF demo_fresh w(1)] w(2) by simp
  ultimately show ?thesis
    using demo_session demo_allowed demo_packet_size
      verify_packet [OF demoSerial_documented demo_packet_size(3) length_hmac, where inner = demoInner and n = 5 and op = 268632065]
    by (simp add: secure_ok_def Let_def parse secure_key_def secureServiceIdForConfig_def demoLink_fields FW_COM_BUFFER_MAX_SIZE_def)
qed

lemma demo_command:
  "seqCmdBuffIn_handler demoSerial demoSeqArgs demoCtl 0 demoPacket c demoIngress = handleSecureCommandV2 demoSerial demoSeqArgs demoCtl 0 c demoArgs demoIngress"
proof -
  have "fw_cmdPacket demoSerial demoPacket = Some (OBC_SECURE_COMMAND_V2_OPCODE, demoArgs)"
    using demo_packet_size(2) by (simp add: fw_packet [OF demoSerial_documented] demoPacket_def [symmetric] FW_COM_BUFFER_MAX_SIZE_def)
  then show ?thesis
    by (simp add: seqCmdBuffIn_handler_def demo_session demoLink_fields CommandIngressAuthorityPorts_def)
qed

lemma demo_radio: "isCommManagedAuthority (ci_configs demoIngress ! 0)" "(0::nat) < CommandIngressAuthorityPorts"
  by (simp_all add: demo_session demoLink_fields isCommManagedAuthority_def CommandIngressAuthorityPorts_def)

theorem radio_commands_authentic_witness:
  "\<exists>o1 \<in> set (snd (seqCmdBuffIn_handler demoSerial demoSeqArgs demoCtl 0 demoPacket 7 demoIngress)).
     forwards o1 \<and> as_secureAuthenticated (ci_sessions demoIngress ! 0)"
proof -
  have "filter forwards (snd (seqCmdBuffIn_handler demoSerial demoSeqArgs demoCtl 0 demoPacket 7 demoIngress)) \<noteq> []"
    using secure_passed [OF demo_ok,
        where r = "handleSecureCommandV2 demoSerial demoSeqArgs demoCtl 0 7 demoArgs demoIngress", OF refl] unfolding demo_command by (elim conjE exE) simp
  then obtain o1 where "o1 \<in> set (snd (seqCmdBuffIn_handler demoSerial demoSeqArgs demoCtl 0 demoPacket 7 demoIngress))" "forwards o1"
    by (auto simp: filter_empty_conv)
  then show ?thesis
    using radio_commands_authentic [OF demoSerial_documented demo_reachable demo_radio(2,1)] by blast
qed


theorem ingress_state_consistent_witness:
  "session_wf (ci_configs demoIngress ! 0) (ci_sessions demoIngress ! 0) \<and> as_open (ci_sessions demoIngress ! 0) \<and> published demoIngress"
  using ingress_state_consistent [OF demo_reachable] demo_session(2) demo_radio(2) by blast

theorem command_answered_once_witness:
  "length (filter answers (snd (seqCmdBuffIn_handler demoSerial demoSeqArgs demoCtl 0 demoPacket 7 demoIngress))) = 1"
  using command_answered_once [OF demo_radio(2), of demoSerial demoSeqArgs demoCtl demoPacket 7 demoIngress]
  by (simp add: deferred_def demoCtl_def)

end
