(* ===== verification/Spec2Isabelle.thy ===== *)
theory Spec2Isabelle
  imports Mode_Safety Ttc_Pass Watchdog_Liveness Fdir Recovery_Escalation Persistent_Fault Freshness_Store Ingress_Safety
begin

text \<open>
  A verification library of the on-board computer flight software (F Prime components under
  \<open>src/OBC/Components\<close>).

  \<^bold>\<open>The program.\<close> Each component is an object that the framework calls through ports: a periodic tick,
  operator commands, and calls of other components through small C++ interfaces that may be null. The
  mode manager owns the satellite mode. The mode safety controller lowers it when the battery runs low
  and guards operator requests; the pass manager enters and leaves the TTC mode with ground station
  passes. The watchdog supervisor counts missed beats of five sources and feeds the hardware watchdog;
  the fault controllers of EPS and ADCS watch the poll health of their bridges. Both report faults to
  the recovery executor, which escalates up to a reboot and asks the main loop to exit. The persistent
  fault manager keeps the history of these events over reboots; the command freshness store keeps the
  session floors of the command links.

  \<^bold>\<open>Conventions.\<close> A handler is a function from the state record of its component and its arguments to the new
  state and the list of its outputs (events, telemetry, port calls, calls of another component that
  return nothing), in the order of the code. A nullable interface pointer is an option of a record of
  functions over the state behind the pointer. Each handler runs as one step: the mutexes of the code are
  not modelled. U8 to U64 are words, so wrap-around is in the model; enumerators are datatypes, or raw
  words where the code casts or stores them. The time that an operation reads is an argument; a handler
  that reads the clock several times sees one value.

  \<^bold>\<open>Theories.\<close>
  \<^item> \<open>Obc_Prelude\<close>: integer types, saturating counters, byte encodings, reachability of a step function with
    its invariant rule. \<open>Core_Types\<close>: enumerations of \<open>Types/CoreTypes.fpp\<close> and the EPS status.
  \<^item> \<open>Mode_Runtime\<close>, \<open>Mode_Manager\<close>, \<open>Mode_Safety\<close>: \<open>ModeManager\<close>, \<open>ModeSafetyPolicy\<close>, \<open>ModeSafetyController\<close>. The
    locales \<open>mode_control\<close> and \<open>operator_guard\<close> are the C++ interfaces, interpreted on the mode manager and on
    the controller. Shown: an operator request refines the transition table; safety cycles settle within
    two ticks and keep a guarded mode; an outage is reported once.
  \<^item> \<open>Ttc_Calendar\<close>, \<open>Ttc_Pass\<close>: \<open>TtcPassPolicy\<close>, \<open>TtcPassManager\<close>. Shown: the date conversion equals counting days
    and never wraps; the exact mode changes of a tick; no re-entry within a window the operator left.
  \<^item> \<open>Recovery_Runtime\<close>, \<open>Watchdog\<close>, \<open>Watchdog_Liveness\<close>, \<open>Fdir\<close>: \<open>WatchdogPolicy\<close>, \<open>WatchdogSupervisor\<close>,
    \<open>EpsFdirController\<close>, \<open>AdcsFdirController\<close> and their policies, \<open>CommFdirPolicy\<close>. The locale \<open>fault_latch\<close> is shared by
    the two fault controllers. Shown: the masks are exact in every reachable state; when the hardware
    watchdog is fed; a silent source stops it; the calls of the recovery sink.
  \<^item> \<open>Recovery\<close>, \<open>Recovery_Invariant\<close>, \<open>Recovery_Escalation\<close>: \<open>RecoveryExecutor\<close>. The queue of external actions is
    drained by a recursive function with a termination proof. Shown: the invariant of table, incidents and
    summary; an exit is requested only after the intent was recorded; an uncleared incident reboots at the
    third tick.
  \<^item> \<open>Byte_Fields\<close>, \<open>Dual_Copy\<close>, \<open>Crc32\<close>: what the persistent stores share. The file system is a map; what the
    operating system answers and what a write leaves behind are the parameters \<open>osCalls\<close>. The locale
    \<open>snapshot_format\<close> gives safety of the two-copy scheme to both stores.
  \<^item> \<open>Persistent_Fault\<close>: \<open>PersistentFaultStore\<close>, \<open>PersistentFaultManager\<close>. Shown: image round trip, an append
    refines a bounded list and is atomic under a write that is cut off, the read-back order.
  \<^item> \<open>Freshness_Store\<close>: \<open>CommandFreshnessStore\<close>. Shown: no floor ever falls; the capacity.

  \<^bold>\<open>Hypotheses.\<close> \<open>truncating_write\<close>: a write leaves the file as it was or with a beginning of the new contents, and
  reports success only when complete. The stores assume that the generation counter is not at its maximum;
  \<open>fault_append_lost_on_wrap\<close> shows what happens there. Structures are stored in little-endian order.

  \<^bold>\<open>Not modelled.\<close> Bridges to the subsystems, drivers and link components: sockets, serial devices and
  framework ports with no decision of their own. The topology and process start-up. The simulators, which
  are not flight code. The beacon and snapshot encoders, the payload and sequence controllers, the boot
  manager beyond its interface to the recovery executor, and the mission executive, which works on
  floating-point vectors.
\<close>

end
